(* ===== verification/Kernel_Prelude.thy ===== *)
theory Kernel_Prelude
  imports Main "HOL-Library.Word" "HOL-Library.Monad_Syntax"
begin

unbundle bit_operations_syntax

text \<open>
  Shared vocabulary of the development: the machine integers of a 32-bit ARM build, the
  error numbers, the arithmetic helpers whose corner cases the kernel's own library fixes
  (division by zero, \<^verbatim>\<open>__ffs\<close>), register bit fields, and the memory-mapped
  register file together with the passing of time.
\<close>

section \<open>Machine integers and error numbers\<close>

type_synonym u8 = "8 word"
type_synonym u16 = "16 word"
type_synonym u32 = "32 word"
type_synonym u64 = "64 word"

abbreviation (input) EINVAL :: int where "EINVAL \<equiv> 22"
abbreviation (input) EBUSY :: int where "EBUSY \<equiv> 16"
abbreviation (input) EAGAIN :: int where "EAGAIN \<equiv> 11"
abbreviation (input) EEXIST :: int where "EEXIST \<equiv> 17"
abbreviation (input) ENOENT :: int where "ENOENT \<equiv> 2"
abbreviation (input) ENOMEM :: int where "ENOMEM \<equiv> 12"
abbreviation (input) EFAULT :: int where "EFAULT \<equiv> 14"
abbreviation (input) ENODEV :: int where "ENODEV \<equiv> 19"

named_theorems mmio_simps \<open>reading and writing registers\<close>
named_theorems frame_simps \<open>what an operation leaves alone\<close>

text \<open>
  Unsigned division and remainder as the ARM library computes them: a zero divisor is
  reported and both operations return 0 (\<^verbatim>\<open>Ldiv0\<close> in
  \<^verbatim>\<open>arch/arm/lib/lib1funcs.S\<close>).
\<close>

definition udiv :: "'a::len word \<Rightarrow> 'a word \<Rightarrow> 'a word" where
  "udiv a b = (if b = 0 then 0 else a div b)"

definition umod :: "'a::len word \<Rightarrow> 'a word \<Rightarrow> 'a word" where
  "umod a b = (if b = 0 then 0 else a mod b)"

text \<open>
  \<^verbatim>\<open>do_div(n, base)\<close>: a 64-bit dividend by a divisor that is truncated to
  32 bits; the quotient is what \<^verbatim>\<open>n\<close> holds afterwards.
\<close>

definition do_div :: "u64 \<Rightarrow> u64 \<Rightarrow> u64" where
  "do_div n base = udiv n (ucast (ucast base :: u32))"

text \<open>
  \<^verbatim>\<open>atomic_inc\<close>, \<^verbatim>\<open>atomic_dec\<close> and their returning
  variants: an \<^verbatim>\<open>atomic_t\<close> holds a signed 32-bit integer, read as an
  \<open>int\<close>, and adding to it wraps around.
\<close>

definition atomic_add_return :: "int \<Rightarrow> int \<Rightarrow> int" where
  "atomic_add_return i v = sint (word_of_int (v + i) :: u32)"

text \<open>
  \<^verbatim>\<open>1 << b\<close> on 32-bit values. \<^verbatim>\<open>__ffs\<close> is the index of the lowest
  set bit, and -1 when no bit is set; \<open>ffs\<close> is that value as the amount of an ARM register
  shift, which is its lowest byte, so that shifting by the index in an empty mask clears the
  value.
\<close>

definition BIT :: "'a::len word \<Rightarrow> u32" where
  "BIT b = push_bit (unat b) 1"

definition lowest_bit :: "u32 \<Rightarrow> int" where
  "lowest_bit w = (if w = 0 then - 1 else int (length (takeWhile (\<lambda>i. \<not> bit w i) [0..<32])))"

definition ffs :: "u32 \<Rightarrow> nat" where
  "ffs w = nat (lowest_bit w mod 256)"

section \<open>Bit fields\<close>

text \<open>
  The recurring idioms \<^verbatim>\<open>(v & mask) >> __ffs(mask)\<close> and
  \<^verbatim>\<open>(v & ~mask) | (x << __ffs(mask))\<close>.
\<close>

definition field_get :: "u32 \<Rightarrow> u32 \<Rightarrow> u32" where
  "field_get m v = drop_bit (ffs m) (v AND m)"

definition field_set :: "u32 \<Rightarrow> u32 \<Rightarrow> u32 \<Rightarrow> u32" where
  "field_set m x v = (v AND NOT m) OR push_bit (ffs m) x"

text \<open>A value fits a field when shifting it into place loses nothing and stays inside.\<close>

definition field_fits :: "u32 \<Rightarrow> u32 \<Rightarrow> bool" where
  "field_fits m x \<longleftrightarrow>
     push_bit (ffs m) x AND NOT m = 0 \<and> drop_bit (ffs m) (push_bit (ffs m) x) = x"

section \<open>Registers and time\<close>

text \<open>
  The register file of the SoC and the hardware behind it. \<open>hw n\<close> is what the
  hardware does to the registers at the \<open>n\<close>-th instant; time passes in
  \<^verbatim>\<open>udelay\<close> and \<^verbatim>\<open>ndelay\<close>. Since \<open>hw\<close> may depend on the
  instant, every behaviour of the devices during one execution is some \<open>hw\<close>.
\<close>

record world =
  regs :: "u32 \<Rightarrow> u32"
  now :: nat
  hw :: "nat \<Rightarrow> (u32 \<Rightarrow> u32) \<Rightarrow> (u32 \<Rightarrow> u32)"

definition raw_readl :: "u32 \<Rightarrow> 'a world_scheme \<Rightarrow> u32" where
  "raw_readl a s = regs s a"

definition raw_writel :: "u32 \<Rightarrow> u32 \<Rightarrow> 'a world_scheme \<Rightarrow> 'a world_scheme" where
  "raw_writel v a s = s\<lparr>regs := (regs s)(a := v)\<rparr>"

text \<open>\<^verbatim>\<open>udelay(1)\<close> and \<^verbatim>\<open>ndelay(1)\<close>: one instant passes.\<close>

definition delay1 :: "'a world_scheme \<Rightarrow> 'a world_scheme" where
  "delay1 s = s\<lparr>regs := hw s (now s) (regs s), now := Suc (now s)\<rparr>"

text \<open>
  \<^verbatim>\<open>omap_test_timeout(cond, timeout, index)\<close>: poll \<open>cond\<close> at most
  \<open>n\<close> times, one microsecond apart; the count of failed polls is returned, so that it
  equals the timeout exactly when the condition was never seen.
\<close>

fun omap_test_timeout ::
  "('a world_scheme \<Rightarrow> bool) \<Rightarrow> nat \<Rightarrow> 'a world_scheme \<Rightarrow> nat \<times> 'a world_scheme" where
  "omap_test_timeout cond 0 s = (0, s)"
| "omap_test_timeout cond (Suc n) s =
     (if cond s then (0, s)
      else (let (i, s') = omap_test_timeout cond n (delay1 s) in (Suc i, s')))"

text \<open>The state after \<open>k\<close> instants.\<close>

fun delays :: "nat \<Rightarrow> 'a world_scheme \<Rightarrow> 'a world_scheme" where
  "delays 0 s = s"
| "delays (Suc k) s = delays k (delay1 s)"

text \<open>The registers \<open>A\<close> are not written by the hardware itself.\<close>

definition hw_keeps :: "u32 set \<Rightarrow> 'a world_scheme \<Rightarrow> bool" where
  "hw_keeps A s \<longleftrightarrow> (\<forall>n r. \<forall>a \<in> A. hw s n r a = r a)"

section \<open>Lemmas\<close>

subsection \<open>Bit fields\<close>

lemma ffs_0: "ffs 0 = 255"
  by (simp add: ffs_def lowest_bit_def)

lemma ffs_nonzero:
  assumes "w \<noteq> 0"
  shows "ffs w = length (takeWhile (\<lambda>i. \<not> bit w i) [0..<32])"
proof -
  have "length (takeWhile (\<lambda>i. \<not> bit w i) [0..<32]) \<le> 32"
    using length_takeWhile_le [of "\<lambda>i. \<not> bit w i" "[0..<32]"] by simp
  then show ?thesis using assms by (simp add: ffs_def lowest_bit_def)
qed

lemma ffs_eqI:
  assumes "bit m k" "\<And>i. i < k \<Longrightarrow> \<not> bit m i" "k < 32"
  shows "ffs m = k"
proof -
  have "[0..<32] = [0..<k] @ k # [Suc k..<32]"
    using assms(3) by (metis upt_conv_Cons upt_add_eq_append le_add1 le_add_diff_inverse
        less_imp_le_nat add_0)
  moreover have "takeWhile (\<lambda>i. \<not> bit m i) ([0..<k] @ k # [Suc k..<32]) = [0..<k]"
    using assms(1,2) by (simp add: takeWhile_tail)
  moreover have "m \<noteq> 0" using assms(1) by auto
  ultimately show ?thesis by (simp add: ffs_nonzero)
qed

lemma field_get_set:
  assumes "field_fits m x"
  shows "field_get m (field_set m x v) = x"
proof -
  have "(v AND NOT m OR push_bit (ffs m) x) AND m = push_bit (ffs m) x"
    using assms by (auto simp: field_fits_def bit_eq_iff bit_simps)
  then show ?thesis using assms by (simp add: field_get_def field_set_def field_fits_def)
qed

lemma field_set_outside:
  assumes "field_fits m x" "m AND m' = 0"
  shows "field_set m x v AND m' = v AND m'"
  using assms by (auto simp: field_fits_def field_set_def bit_eq_iff bit_simps)

lemma field_get_set_other:
  assumes "field_fits m x" "m AND m' = 0"
  shows "field_get m' (field_set m x v) = field_get m' v"
  using field_set_outside [OF assms] by (simp add: field_get_def)

lemma field_set_set:
  assumes "field_fits m x"
  shows "field_set m y (field_set m x v) = field_set m y v"
  using assms by (auto simp: field_fits_def field_set_def bit_eq_iff bit_simps)

subsection \<open>Registers and time\<close>

lemma raw_readl_writel [mmio_simps]:
  "raw_readl b (raw_writel v a s) = (if a = b then v else raw_readl b s)"
  by (simp add: raw_readl_def raw_writel_def)

lemma hw_raw_writel [frame_simps]: "hw (raw_writel v a s) = hw s"
  and now_raw_writel [frame_simps]: "now (raw_writel v a s) = now s"
  and hw_delay1 [frame_simps]: "hw (delay1 s) = hw s"
  by (simp_all add: raw_writel_def delay1_def)

lemma delays_hw [frame_simps]: "hw (delays k s) = hw s"
  by (induction k arbitrary: s) (auto simp: frame_simps)

lemma omap_test_timeout_delays:
  "snd (omap_test_timeout cond n s) = delays (fst (omap_test_timeout cond n s)) s"
  by (induction n arbitrary: s) (auto simp: Let_def case_prod_unfold)

lemma omap_test_timeout_le: "fst (omap_test_timeout cond n s) \<le> n"
  by (induction n arbitrary: s) (auto simp: Let_def case_prod_unfold)

lemma omap_test_timeout_hit:
  "fst (omap_test_timeout cond n s) < n \<Longrightarrow> cond (snd (omap_test_timeout cond n s))"
  by (induction n arbitrary: s) (auto simp: Let_def case_prod_unfold split: if_splits)

lemma omap_test_timeout_in_time:
  "\<lbrakk>cond (delays k s); k < n\<rbrakk> \<Longrightarrow> fst (omap_test_timeout cond n s) \<le> k"
proof (induction k arbitrary: n s)
  case 0
  then show ?case by (cases n) auto
next
  case (Suc k)
  then obtain n' where n: "n = Suc n'" by (cases n) auto
  show ?case
    using Suc.IH [of "delay1 s" n'] Suc.prems n by (auto simp: Let_def case_prod_unfold)
qed

lemma omap_test_timeout_now [simp]: "0 < n \<Longrightarrow> cond s \<Longrightarrow> omap_test_timeout cond n s = (0, s)"
  by (cases n) auto

lemma atomic_add_return_small [simp]:
  "- (2 ^ 31) \<le> v + i \<Longrightarrow> v + i < 2 ^ 31 \<Longrightarrow> atomic_add_return i v = v + i"
  by (simp add: atomic_add_return_def sint_sbintrunc' signed_take_bit_int_eq_self del: of_int_add)

lemma ffs_3 [simp]: "ffs 3 = 0"
  by (rule ffs_eqI) (auto simp: bit_simps)

lemma sint_eq_uint_small: "uint (w :: 'a::len word) < 2 ^ (LENGTH('a) - 1) \<Longrightarrow> sint w = uint w"
  unfolding sint_uint
  by (rule signed_take_bit_int_eq_self) (auto intro: order_trans [OF _ uint_ge_0])

lemma sint_mask2: "0 \<le> sint (v AND 3 :: u32) \<and> sint (v AND 3 :: u32) < 4"
proof -
  have "uint (v AND 3) \<le> uint (3 :: u32)"
    using word_and_le1 [of v 3] by (simp add: word_le_def)
  then have u: "uint (v AND 3 :: u32) < 4" by simp
  moreover have "sint (v AND 3) = uint (v AND 3 :: u32)"
    using u by (intro sint_eq_uint_small) simp
  ultimately show ?thesis by simp
qed

lemma raw_readl_delays: "hw_keeps A s \<Longrightarrow> a \<in> A \<Longrightarrow> raw_readl a (delays k s) = raw_readl a s"
  by (induction k arbitrary: s) (auto simp: hw_keeps_def raw_readl_def delay1_def)

lemma hw_keeps_cong: "hw t = hw s \<Longrightarrow> hw_keeps A t = hw_keeps A s"
  by (simp add: hw_keeps_def)

lemma find_map: "find P (map f xs) = map_option f (find (\<lambda>x. P (f x)) xs)"
  by (induction xs) auto

lemma find_distinct_map:
  assumes "distinct (map f xs)" "x \<in> set xs"
  shows "find (\<lambda>y. f x = f y) xs = Some x"
  using assms
proof (induction xs)
  case (Cons a xs)
  show ?case
  proof (cases "f x = f a")
    case True
    then have "x = a" using Cons.prems by (metis distinct.simps(2) imageI list.set_map list.simps(9) set_ConsD)
    then show ?thesis by simp
  next
    case False
    then show ?thesis using Cons by auto
  qed
qed simp

lemma unat_ucast_up:
  assumes "LENGTH('a::len) \<le> LENGTH('b::len)"
  shows "unat (ucast (w :: 'a word) :: 'b word) = unat w"
proof -
  have "unat w < 2 ^ LENGTH('b)"
    using unsigned_less [of w, where ?'a = nat] power_increasing [OF assms, of "2 :: nat"] by linarith
  then show ?thesis by (simp add: unsigned_ucast_eq take_bit_nat_eq_self)
qed

lemma word_and_3: "w < 4 \<Longrightarrow> (w :: u32) AND 3 = w"
proof -
  assume "w < 4"
  then have "unat w < 4" by (simp add: word_less_nat_alt)
  then have "unat w \<in> {0,1,2,3}" by auto
  then have "w \<in> {0,1,2,3}" by (auto simp: word_unat_eq_iff)
  then show ?thesis by auto
qed

lemma uint_ucast_up:
  assumes "LENGTH('a::len) \<le> LENGTH('b::len)"
  shows "uint (ucast (w :: 'a word) :: 'b word) = uint w"
  using unat_ucast_up [OF assms, of w] by (metis uint_nat)

lemma and_outside: "x AND m = x \<Longrightarrow> x AND NOT m = (0 :: 'a::len word)"
  by (auto simp: bit_eq_iff bit_simps)

lemma and_merge: "x AND m = x \<Longrightarrow> ((y AND NOT m) OR x) AND m = (x :: 'a::len word)"
  by (auto simp: bit_eq_iff bit_simps)

lemma find_SomeD: "find P xs = Some x \<Longrightarrow> x \<in> set xs \<and> P x"
  by (auto simp: find_Some_iff)

lemma ucast_u8_0 [simp]: "(ucast (d :: u8) :: u32) = 0 \<longleftrightarrow> d = 0"
  by (simp add: word_unat_eq_iff unat_ucast_up)

lemma udiv_antimono:
  assumes "d \<le> e" "d \<noteq> 0"
  shows "udiv r (e :: 'a::len word) \<le> udiv r d"
proof -
  have "e \<noteq> 0" using assms by auto
  then show ?thesis using assms
    by (simp add: udiv_def word_le_nat_alt unat_div div_le_mono2 unat_gt_0)
qed

lemma find_first_best:
  assumes "sorted_wrt (\<le>) (map f (filter ok xs))" "find (\<lambda>x. ok x \<and> P (f x)) xs = Some r"
    and "r' \<in> set xs" "ok r'" "P (f r')"
  shows "f r \<le> (f r' :: 'b::order)"
  using assms
proof (induction xs)
  case (Cons a xs)
  show ?case
  proof (cases "ok a \<and> P (f a)")
    case True
    then show ?thesis using Cons.prems by auto
  next
    case False
    then have "r' \<in> set xs" using Cons.prems(3,4,5) by auto
    then show ?thesis using Cons.IH Cons.prems False by (auto split: if_splits)
  qed
qed simp

subsection \<open>Words without overflow\<close>

lemma unat_udiv: "unat (udiv a b) = unat a div unat b"
  by (simp add: udiv_def unat_div)

lemma unat_umod: "b \<noteq> 0 \<Longrightarrow> unat (umod a b) = unat a mod unat b"
  by (simp add: umod_def unat_mod)

lemma unat_ucast_small: "unat x < 2 ^ LENGTH('b::len) \<Longrightarrow> unat (ucast (x :: 'a::len word) :: 'b word) = unat x"
  by (simp add: unsigned_ucast_eq take_bit_nat_eq_self)

lemma unat_do_div: "unat b < 2 ^ 32 \<Longrightarrow> unat (do_div a b) = unat a div unat b"
  by (simp add: do_div_def unat_udiv unat_ucast_up unat_ucast_small)

lemma unat_push_bit_small: "unat x * 2 ^ k < 2 ^ LENGTH('a::len) \<Longrightarrow> unat (push_bit k (x :: 'a word)) = unat x * 2 ^ k"
  unfolding unsigned_push_bit_eq by (simp add: take_bit_nat_eq_self push_bit_eq_mult)

lemma unat_mult_eq: "unat x * unat y < 2 ^ LENGTH('a::len) \<Longrightarrow> unat ((x :: 'a word) * y) = unat x * unat y"
  by (simp add: unat_word_ariths)

lemma unat_add_eq: "unat x + unat y < 2 ^ LENGTH('a::len) \<Longrightarrow> unat ((x :: 'a word) + y) = unat x + unat y"
  by (simp add: unat_word_ariths)

lemma unat_drop_bit: "unat (drop_bit k (x :: 'a::len word)) = unat x div 2 ^ k"
  unfolding unsigned_drop_bit_eq by (simp add: drop_bit_eq_div take_bit_nat_eq_self [OF unsigned_less])

lemma unat_and_mask18: "unat (x AND 0x3ffff :: u32) = unat x mod 2 ^ 18"
proof -
  have "(0x3ffff :: u32) = mask 18" by (simp add: mask_eq_exp_minus_1)
  then have eq: "x AND 0x3ffff = take_bit 18 x" by (simp only: take_bit_eq_mask)
  show ?thesis unfolding eq unsigned_take_bit_eq by (simp only: take_bit_eq_mod)
qed

lemma ctrl_bits:
  fixes x y z :: "'a::len word"
  shows "(x OR y) AND z = 0 \<longleftrightarrow> x AND z = 0 \<and> y AND z = 0" "(x AND NOT z) AND z = 0" "x AND z = 0 \<Longrightarrow> (x AND NOT y) AND z = 0"
    "y AND z = 0 \<Longrightarrow> (x AND NOT y) AND z = x AND z"
  by (auto simp: bit_eq_iff bit_simps)

lemma bit_imp_ge: "bit (n :: nat) k \<Longrightarrow> 2 ^ k \<le> n"
  by (metis bit_iff_odd div_less even_zero not_le)

lemma unat_p2_eq: "k < 32 \<Longrightarrow> unat (2 ^ k :: u32) = 2 ^ k"
  using unat_push_bit_small [of "1 :: u32" k] power_strict_increasing [of k 32 "2 :: nat"] by (simp add: push_bit_eq_mult)

lemma unat_word_of_nat_small: "n < 2 ^ 32 \<Longrightarrow> unat (word_of_nat n :: u32) = n"
  by (simp add: unat_of_nat take_bit_nat_eq_self)

lemma bit_word_of_nat: "bit (word_of_nat m :: 'a::len word) j \<longleftrightarrow> j < LENGTH('a) \<and> bit m j"
  using bit_word_of_int_iff [of "int m" j, where ?'a = 'a] by (simp add: bit_of_nat_iff_bit)

end
