(* ===== verification/Power_Domains.thy ===== *)
theory Power_Domains
  imports Kernel_Prelude
begin

unbundle bit_operations_syntax

text \<open>
  Power and clock domains of the DM814x: the PRM and CM register accessors
  (\<^verbatim>\<open>prm2xxx_3xxx.c\<close>, \<^verbatim>\<open>cm2xxx_3xxx.c\<close>), the powerdomain state
  tracking (\<^verbatim>\<open>powerdomain.c\<close> with the \<^verbatim>\<open>ti81xx\<close> operations of
  \<^verbatim>\<open>powerdomain2xxx_3xxx.c\<close>) and the clockdomain layer
  (\<^verbatim>\<open>clockdomain.c\<close>) on which the clock framework relies. The
  \<^verbatim>\<open>cpu_is_*()\<close> tests are resolved for a TI81xx.

  Structures are named by numbers; a pointer is a number option. A result \<open>None\<close> is
  an execution that leaves the model: a NULL dereference or a write outside an array.
\<close>

section \<open>State\<close>

text \<open>
  The union \<^verbatim>\<open>pwrdm\<close> of a clockdomain, a name before it is registered and a
  pointer afterwards, is the two fields \<open>clkdm_pwrdm_name\<close> and \<open>clkdm_pwrdm\<close>;
  likewise the union in a dependency. Use counts are \<^verbatim>\<open>atomic_t\<close>.
\<close>

record powerdomain =
  pwrdm_name :: string
  pwrdm_chip_ok :: bool
  prcm_offs :: u16
  pwrsts :: u8
  pwrsts_logic_ret :: u8
  banks :: nat
  pwrsts_mem_ret :: "u8 list"
  pwrdm_clkdms :: "nat option list"
  pwrdm_state :: int
  state_counter :: "u32 list"
  ret_logic_off_counter :: u32
  ret_mem_off_counter :: "u32 list"

record clkdm_dep =
  dep_clkdm_name :: string
  dep_clkdm :: "nat option"
  dep_chip_ok :: bool
  wkdep_usecount :: int

record clockdomain =
  clkdm_name :: string
  clkdm_pwrdm_name :: string
  clkdm_pwrdm :: "nat option"
  clktrctrl_mask :: u16
  clkdm_flags :: u8
  dep_bit :: u8
  cm_inst :: u16
  clkdm_offs :: u16
  wkdep_srcs :: "clkdm_dep list option"
  clkdm_chip_ok :: bool
  clkdm_usecount :: int

record pm_world = world +
  prm_base :: u32
  cm_base :: u32
  pwrdms :: "nat \<Rightarrow> powerdomain"
  clkdms :: "nat \<Rightarrow> clockdomain"
  pwrdm_list :: "nat list"
  clkdm_list :: "nat list"

abbreviation (input) PWRDM_POWER_OFF :: int where "PWRDM_POWER_OFF \<equiv> 0"
abbreviation (input) PWRDM_POWER_RET :: int where "PWRDM_POWER_RET \<equiv> 1"
abbreviation (input) PWRDM_POWER_ON :: int where "PWRDM_POWER_ON \<equiv> 3"
abbreviation (input) PWRDM_MAX_PWRSTS :: nat where "PWRDM_MAX_PWRSTS \<equiv> 4"
abbreviation (input) PWRDM_MAX_CLKDMS :: nat where "PWRDM_MAX_CLKDMS \<equiv> 12"
abbreviation (input) PWRDM_TRANSITION_BAILOUT :: nat where "PWRDM_TRANSITION_BAILOUT \<equiv> 100000"
abbreviation (input) PWRSTS_OFF_RET :: u8 where "PWRSTS_OFF_RET \<equiv> 3"

abbreviation (input) TI81XX_PM_PWSTCTRL :: u16 where "TI81XX_PM_PWSTCTRL \<equiv> 0"
abbreviation (input) TI81XX_PM_PWSTST :: u16 where "TI81XX_PM_PWSTST \<equiv> 4"
abbreviation (input) TI81XX_RM_RSTCTRL :: u16 where "TI81XX_RM_RSTCTRL \<equiv> 0x10"
abbreviation (input) TI814X_PRM_GFX_MOD :: u16 where "TI814X_PRM_GFX_MOD \<equiv> 0x0f00"
abbreviation (input) OMAP_POWERSTATE_MASK :: u32 where "OMAP_POWERSTATE_MASK \<equiv> 3"
abbreviation (input) OMAP_POWERSTATEST_MASK :: u32 where "OMAP_POWERSTATEST_MASK \<equiv> 3"
abbreviation (input) OMAP_INTRANSITION_MASK :: u32 where "OMAP_INTRANSITION_MASK \<equiv> 0x100000"
abbreviation (input) PM_WKDEP :: u16 where "PM_WKDEP \<equiv> 0xc8"

abbreviation (input) CLKDM_CAN_FORCE_SLEEP :: u8 where "CLKDM_CAN_FORCE_SLEEP \<equiv> 1"
abbreviation (input) CLKDM_CAN_FORCE_WAKEUP :: u8 where "CLKDM_CAN_FORCE_WAKEUP \<equiv> 2"
abbreviation (input) CLKDM_CAN_ENABLE_AUTO :: u8 where "CLKDM_CAN_ENABLE_AUTO \<equiv> 4"
abbreviation (input) CLKDM_CAN_DISABLE_AUTO :: u8 where "CLKDM_CAN_DISABLE_AUTO \<equiv> 8"
abbreviation (input) CLKSTCTRL_DISABLE_AUTO :: u8 where "CLKSTCTRL_DISABLE_AUTO \<equiv> 0"
abbreviation (input) CLKSTCTRL_FORCE_SLEEP :: u8 where "CLKSTCTRL_FORCE_SLEEP \<equiv> 1"
abbreviation (input) CLKSTCTRL_FORCE_WAKEUP :: u8 where "CLKSTCTRL_FORCE_WAKEUP \<equiv> 2"
abbreviation (input) CLKSTCTRL_ENABLE_AUTO :: u8 where "CLKSTCTRL_ENABLE_AUTO \<equiv> 3"

section \<open>PRM and CM register accessors\<close>

definition omap2_prm_read_mod_reg :: "u16 \<Rightarrow> u16 \<Rightarrow> 'a pm_world_scheme \<Rightarrow> u32" where
  "omap2_prm_read_mod_reg module idx s = raw_readl (prm_base s + scast module + ucast idx) s"

definition omap2_prm_write_mod_reg ::
  "u32 \<Rightarrow> u16 \<Rightarrow> u16 \<Rightarrow> 'a pm_world_scheme \<Rightarrow> 'a pm_world_scheme" where
  "omap2_prm_write_mod_reg val module idx s =
     raw_writel val (prm_base s + scast module + ucast idx) s"

definition omap2_prm_rmw_mod_reg_bits ::
  "u32 \<Rightarrow> u32 \<Rightarrow> u16 \<Rightarrow> u16 \<Rightarrow> 'a pm_world_scheme \<Rightarrow> u32 \<times> 'a pm_world_scheme" where
  "omap2_prm_rmw_mod_reg_bits m bits module idx s =
     (let v = (omap2_prm_read_mod_reg module idx s AND NOT m) OR bits
      in (v, omap2_prm_write_mod_reg v module idx s))"

definition omap2_prm_read_mod_bits_shift ::
  "u16 \<Rightarrow> u16 \<Rightarrow> u32 \<Rightarrow> 'a pm_world_scheme \<Rightarrow> u32" where
  "omap2_prm_read_mod_bits_shift domain idx m s =
     drop_bit (ffs m) (omap2_prm_read_mod_reg domain idx s AND m)"

definition omap2_prm_set_mod_reg_bits ::
  "u32 \<Rightarrow> u16 \<Rightarrow> u16 \<Rightarrow> 'a pm_world_scheme \<Rightarrow> u32 \<times> 'a pm_world_scheme" where
  "omap2_prm_set_mod_reg_bits bits module idx s = omap2_prm_rmw_mod_reg_bits bits bits module idx s"

definition omap2_prm_clear_mod_reg_bits ::
  "u32 \<Rightarrow> u16 \<Rightarrow> u16 \<Rightarrow> 'a pm_world_scheme \<Rightarrow> u32 \<times> 'a pm_world_scheme" where
  "omap2_prm_clear_mod_reg_bits bits module idx s = omap2_prm_rmw_mod_reg_bits bits 0 module idx s"

definition omap2_cm_read_mod_reg :: "u16 \<Rightarrow> u16 \<Rightarrow> 'a pm_world_scheme \<Rightarrow> u32" where
  "omap2_cm_read_mod_reg module idx s = raw_readl (cm_base s + scast module + ucast idx) s"

definition omap2_cm_write_mod_reg ::
  "u32 \<Rightarrow> u16 \<Rightarrow> u16 \<Rightarrow> 'a pm_world_scheme \<Rightarrow> 'a pm_world_scheme" where
  "omap2_cm_write_mod_reg val module idx s =
     raw_writel val (cm_base s + scast module + ucast idx) s"

definition omap2_cm_rmw_mod_reg_bits ::
  "u32 \<Rightarrow> u32 \<Rightarrow> u16 \<Rightarrow> u16 \<Rightarrow> 'a pm_world_scheme \<Rightarrow> u32 \<times> 'a pm_world_scheme" where
  "omap2_cm_rmw_mod_reg_bits m bits module idx s =
     (let v = (omap2_cm_read_mod_reg module idx s AND NOT m) OR bits
      in (v, omap2_cm_write_mod_reg v module idx s))"

definition omap2_cm_set_mod_reg_bits ::
  "u32 \<Rightarrow> u16 \<Rightarrow> u16 \<Rightarrow> 'a pm_world_scheme \<Rightarrow> u32 \<times> 'a pm_world_scheme" where
  "omap2_cm_set_mod_reg_bits bits module idx s = omap2_cm_rmw_mod_reg_bits bits bits module idx s"

definition omap2_cm_clear_mod_reg_bits ::
  "u32 \<Rightarrow> u16 \<Rightarrow> u16 \<Rightarrow> 'a pm_world_scheme \<Rightarrow> u32 \<times> 'a pm_world_scheme" where
  "omap2_cm_clear_mod_reg_bits bits module idx s = omap2_cm_rmw_mod_reg_bits bits 0 module idx s"

definition ti81xx_write_clktrctrl ::
  "u8 \<Rightarrow> u16 \<Rightarrow> u16 \<Rightarrow> u32 \<Rightarrow> 'a pm_world_scheme \<Rightarrow> 'a pm_world_scheme" where
  "ti81xx_write_clktrctrl c module idx m s =
     omap2_cm_write_mod_reg (field_set m (ucast c) (omap2_cm_read_mod_reg module idx s)) module idx s"

definition ti81xx_cm_clkdm_enable_hwsup ::
  "u16 \<Rightarrow> u16 \<Rightarrow> u32 \<Rightarrow> 'a pm_world_scheme \<Rightarrow> 'a pm_world_scheme" where
  "ti81xx_cm_clkdm_enable_hwsup inst clkdm m = ti81xx_write_clktrctrl CLKSTCTRL_ENABLE_AUTO inst clkdm m"

definition ti81xx_cm_clkdm_disable_hwsup ::
  "u16 \<Rightarrow> u16 \<Rightarrow> u32 \<Rightarrow> 'a pm_world_scheme \<Rightarrow> 'a pm_world_scheme" where
  "ti81xx_cm_clkdm_disable_hwsup inst clkdm m = ti81xx_write_clktrctrl CLKSTCTRL_DISABLE_AUTO inst clkdm m"

definition ti81xx_cm_clkdm_force_sleep ::
  "u16 \<Rightarrow> u16 \<Rightarrow> u32 \<Rightarrow> 'a pm_world_scheme \<Rightarrow> 'a pm_world_scheme" where
  "ti81xx_cm_clkdm_force_sleep inst clkdm m = ti81xx_write_clktrctrl CLKSTCTRL_FORCE_SLEEP inst clkdm m"

definition ti81xx_cm_clkdm_force_wakeup ::
  "u16 \<Rightarrow> u16 \<Rightarrow> u32 \<Rightarrow> 'a pm_world_scheme \<Rightarrow> 'a pm_world_scheme" where
  "ti81xx_cm_clkdm_force_wakeup inst clkdm m = ti81xx_write_clktrctrl CLKSTCTRL_FORCE_WAKEUP inst clkdm m"

section \<open>Powerdomains\<close>

subsection \<open>The TI81xx operations\<close>

definition ti81xx_pwrdm_set_next_pwrst ::
  "nat \<Rightarrow> u8 \<Rightarrow> 'a pm_world_scheme \<Rightarrow> int \<times> 'a pm_world_scheme" where
  "ti81xx_pwrdm_set_next_pwrst p pwrst s =
     (0, snd (omap2_prm_rmw_mod_reg_bits OMAP_POWERSTATE_MASK (ucast pwrst)
                (prcm_offs (pwrdms s p)) TI81XX_PM_PWSTCTRL s))"

definition ti81xx_pwrdm_read_next_pwrst :: "nat \<Rightarrow> 'a pm_world_scheme \<Rightarrow> int" where
  "ti81xx_pwrdm_read_next_pwrst p s =
     sint (omap2_prm_read_mod_bits_shift (prcm_offs (pwrdms s p)) TI81XX_PM_PWSTCTRL
             OMAP_POWERSTATE_MASK s)"

definition pwstst_reg :: "powerdomain \<Rightarrow> u16" where
  "pwstst_reg p = (if prcm_offs p = TI814X_PRM_GFX_MOD then TI81XX_RM_RSTCTRL else TI81XX_PM_PWSTST)"

definition ti81xx_pwrdm_read_pwrst :: "nat \<Rightarrow> 'a pm_world_scheme \<Rightarrow> int" where
  "ti81xx_pwrdm_read_pwrst p s =
     sint (omap2_prm_read_mod_bits_shift (prcm_offs (pwrdms s p)) (pwstst_reg (pwrdms s p))
             OMAP_POWERSTATEST_MASK s)"

text \<open>
  The loop \<^verbatim>\<open>while (in_transition && c++ < BAILOUT) udelay(1)\<close> followed by the
  test \<^verbatim>\<open>c > BAILOUT\<close>; the argument is \<open>BAILOUT - c\<close>.
\<close>

definition pwrdm_in_transition :: "nat \<Rightarrow> 'a pm_world_scheme \<Rightarrow> bool" where
  "pwrdm_in_transition p s \<longleftrightarrow>
     omap2_prm_read_mod_reg (prcm_offs (pwrdms s p)) (pwstst_reg (pwrdms s p)) s
       AND OMAP_INTRANSITION_MASK \<noteq> 0"

fun pwrdm_transition_loop :: "nat \<Rightarrow> nat \<Rightarrow> 'a pm_world_scheme \<Rightarrow> int \<times> 'a pm_world_scheme" where
  "pwrdm_transition_loop p 0 s = (if pwrdm_in_transition p s then (- EAGAIN, s) else (0, s))"
| "pwrdm_transition_loop p (Suc n) s =
     (if pwrdm_in_transition p s then pwrdm_transition_loop p n (delay1 s) else (0, s))"

definition ti81xx_pwrdm_wait_transition ::
  "nat \<Rightarrow> 'a pm_world_scheme \<Rightarrow> int \<times> 'a pm_world_scheme" where
  "ti81xx_pwrdm_wait_transition p s = pwrdm_transition_loop p PWRDM_TRANSITION_BAILOUT s"

subsection \<open>The powerdomain layer\<close>

definition pwrdm_lookup :: "string \<Rightarrow> 'a pm_world_scheme \<Rightarrow> nat option" where
  "pwrdm_lookup name s = find (\<lambda>p. pwrdm_name (pwrdms s p) = name) (pwrdm_list s)"

definition pwrdm_set_next_pwrst ::
  "nat option \<Rightarrow> u8 \<Rightarrow> 'a pm_world_scheme \<Rightarrow> int \<times> 'a pm_world_scheme" where
  "pwrdm_set_next_pwrst pp pwrst s =
     (case pp of None \<Rightarrow> (- EINVAL, s)
      | Some p \<Rightarrow> if ucast (pwrsts (pwrdms s p)) AND BIT pwrst = 0 then (- EINVAL, s)
                 else ti81xx_pwrdm_set_next_pwrst p pwrst s)"

definition pwrdm_read_next_pwrst :: "nat option \<Rightarrow> 'a pm_world_scheme \<Rightarrow> int" where
  "pwrdm_read_next_pwrst pp s =
     (case pp of None \<Rightarrow> - EINVAL | Some p \<Rightarrow> ti81xx_pwrdm_read_next_pwrst p s)"

definition pwrdm_read_pwrst :: "nat option \<Rightarrow> 'a pm_world_scheme \<Rightarrow> int" where
  "pwrdm_read_pwrst pp s =
     (case pp of None \<Rightarrow> - EINVAL | Some p \<Rightarrow> ti81xx_pwrdm_read_pwrst p s)"

text \<open>
  The \<^verbatim>\<open>ti81xx_pwrdm_operations\<close> have no \<^verbatim>\<open>read_prev_pwrst\<close>, so the
  initial \<^verbatim>\<open>-EINVAL\<close> is returned for every powerdomain.
\<close>

definition pwrdm_read_prev_pwrst :: "nat option \<Rightarrow> 'a pm_world_scheme \<Rightarrow> int" where
  "pwrdm_read_prev_pwrst pp s = - EINVAL"

definition pwrdm_wait_transition ::
  "nat option \<Rightarrow> 'a pm_world_scheme \<Rightarrow> int \<times> 'a pm_world_scheme" where
  "pwrdm_wait_transition pp s =
     (case pp of None \<Rightarrow> (- EINVAL, s) | Some p \<Rightarrow> ti81xx_pwrdm_wait_transition p s)"

text \<open>\<^verbatim>\<open>state_counter[i]++\<close>; \<open>None\<close> when \<open>i\<close> is outside the array.\<close>

definition counter_inc :: "int \<Rightarrow> u32 list \<Rightarrow> u32 list option" where
  "counter_inc i cs =
     (if 0 \<le> i \<and> nat i < length cs then Some (cs[nat i := cs ! nat i + 1]) else None)"

definition pwrdm_upd :: "nat \<Rightarrow> (powerdomain \<Rightarrow> powerdomain) \<Rightarrow> 'a pm_world_scheme \<Rightarrow> 'a pm_world_scheme" where
  "pwrdm_upd p f s = s\<lparr>pwrdms := (pwrdms s)(p := f (pwrdms s p))\<rparr>"

text \<open>
  \<^verbatim>\<open>_update_logic_membank_counters\<close> with the reads that the TI81xx operations
  do not provide: each returns a negative error, whose low byte is never
  \<^verbatim>\<open>PWRDM_POWER_OFF\<close>.
\<close>

definition prev_mem_pwrst :: "nat \<Rightarrow> nat \<Rightarrow> 'a pm_world_scheme \<Rightarrow> int" where
  "prev_mem_pwrst p bank s = (if banks (pwrdms s p) < bank + 1 then - EEXIST else - EINVAL)"

fun update_mem_off_counters ::
  "nat \<Rightarrow> nat list \<Rightarrow> 'a pm_world_scheme \<Rightarrow> 'a pm_world_scheme" where
  "update_mem_off_counters p [] s = s"
| "update_mem_off_counters p (i # is) s =
     update_mem_off_counters p is
       (if pwrsts_mem_ret (pwrdms s p) ! i = PWRSTS_OFF_RET \<and> word_of_int (prev_mem_pwrst p i s) = (0 :: u8)
        then pwrdm_upd p (\<lambda>d. d\<lparr>ret_mem_off_counter :=
               (ret_mem_off_counter d)[i := ret_mem_off_counter d ! i + 1]\<rparr>) s
        else s)"

definition update_logic_membank_counters :: "nat \<Rightarrow> 'a pm_world_scheme \<Rightarrow> 'a pm_world_scheme" where
  "update_logic_membank_counters p s =
     (let prev_logic_pwrst = (word_of_int (- EINVAL) :: u8);
          s1 = (if pwrsts_logic_ret (pwrdms s p) = PWRSTS_OFF_RET \<and> prev_logic_pwrst = 0
                then pwrdm_upd p (\<lambda>d. d\<lparr>ret_logic_off_counter := ret_logic_off_counter d + 1\<rparr>) s
                else s)
      in update_mem_off_counters p [0..<banks (pwrdms s p)] s1)"

datatype pwrdm_flag = PWRDM_STATE_NOW | PWRDM_STATE_PREV

definition pwrdm_count_state :: "nat \<Rightarrow> int \<Rightarrow> 'a pm_world_scheme \<Rightarrow> 'a pm_world_scheme option" where
  "pwrdm_count_state p i s =
     (case counter_inc i (state_counter (pwrdms s p)) of
        None \<Rightarrow> None
      | Some cs \<Rightarrow> Some (pwrdm_upd p (\<lambda>d. d\<lparr>state_counter := cs\<rparr>) s))"

definition pwrdm_state_switch_flag ::
  "nat option \<Rightarrow> pwrdm_flag \<Rightarrow> 'a pm_world_scheme \<Rightarrow> (int \<times> 'a pm_world_scheme) option" where
  "pwrdm_state_switch_flag pp flag s =
     (case pp of None \<Rightarrow> Some (- EINVAL, s)
      | Some p \<Rightarrow>
          let state = pwrdm_read_pwrst (Some p) s in
          do {
            (prev, s1) \<leftarrow>
              (case flag of
                 PWRDM_STATE_NOW \<Rightarrow> Some (pwrdm_state (pwrdms s p), s)
               | PWRDM_STATE_PREV \<Rightarrow>
                   (let prev = pwrdm_read_prev_pwrst (Some p) s in
                    do {
                      s1 \<leftarrow> (if pwrdm_state (pwrdms s p) \<noteq> prev then pwrdm_count_state p prev s else Some s);
                      Some (prev, if prev = PWRDM_POWER_RET then update_logic_membank_counters p s1 else s1)
                    }));
            s2 \<leftarrow> (if state \<noteq> prev then pwrdm_count_state p state s1 else Some s1);
            Some (0, pwrdm_upd p (\<lambda>d. d\<lparr>pwrdm_state := state\<rparr>) s2)
          })"

definition pwrdm_state_switch ::
  "nat option \<Rightarrow> 'a pm_world_scheme \<Rightarrow> (int \<times> 'a pm_world_scheme) option" where
  "pwrdm_state_switch pp s = pwrdm_state_switch_flag pp PWRDM_STATE_NOW s"

definition pwrdm_clkdm_state_switch ::
  "nat option \<Rightarrow> 'a pm_world_scheme \<Rightarrow> (int \<times> 'a pm_world_scheme) option" where
  "pwrdm_clkdm_state_switch cc s =
     (case cc of None \<Rightarrow> Some (- EINVAL, s)
      | Some c \<Rightarrow>
         (case clkdm_pwrdm (clkdms s c) of
            None \<Rightarrow> Some (- EINVAL, s)
          | Some p \<Rightarrow> pwrdm_state_switch (Some p) (snd (pwrdm_wait_transition (Some p) s))))"

text \<open>\<^verbatim>\<open>pwrdm_for_each\<close> with the two transition callbacks.\<close>

fun pwrdm_for_each ::
  "(nat \<Rightarrow> 'a pm_world_scheme \<Rightarrow> (int \<times> 'a pm_world_scheme) option) \<Rightarrow> nat list
   \<Rightarrow> 'a pm_world_scheme \<Rightarrow> (int \<times> 'a pm_world_scheme) option" where
  "pwrdm_for_each fn [] s = Some (0, s)"
| "pwrdm_for_each fn (p # ps) s =
     do { (ret, s1) \<leftarrow> fn p s; if ret \<noteq> 0 then Some (ret, s1) else pwrdm_for_each fn ps s1 }"

definition pwrdm_pre_transition_cb ::
  "nat \<Rightarrow> 'a pm_world_scheme \<Rightarrow> (int \<times> 'a pm_world_scheme) option" where
  "pwrdm_pre_transition_cb p s =
     do { (_, s1) \<leftarrow> pwrdm_state_switch_flag (Some p) PWRDM_STATE_NOW s; Some (0, s1) }"

definition pwrdm_post_transition_cb ::
  "nat \<Rightarrow> 'a pm_world_scheme \<Rightarrow> (int \<times> 'a pm_world_scheme) option" where
  "pwrdm_post_transition_cb p s =
     do { (_, s1) \<leftarrow> pwrdm_state_switch_flag (Some p) PWRDM_STATE_PREV s; Some (0, s1) }"

definition pwrdm_pre_transition :: "'a pm_world_scheme \<Rightarrow> (int \<times> 'a pm_world_scheme) option" where
  "pwrdm_pre_transition s =
     do { (_, s1) \<leftarrow> pwrdm_for_each pwrdm_pre_transition_cb (pwrdm_list s) s; Some (0, s1) }"

definition pwrdm_post_transition :: "'a pm_world_scheme \<Rightarrow> (int \<times> 'a pm_world_scheme) option" where
  "pwrdm_post_transition s =
     do { (_, s1) \<leftarrow> pwrdm_for_each pwrdm_post_transition_cb (pwrdm_list s) s; Some (0, s1) }"

definition pwrdm_add_clkdm ::
  "nat option \<Rightarrow> nat option \<Rightarrow> 'a pm_world_scheme \<Rightarrow> int \<times> 'a pm_world_scheme" where
  "pwrdm_add_clkdm pp cc s =
     (case (pp, cc) of
        (Some p, Some c) \<Rightarrow>
          (let i = length (takeWhile (\<lambda>x. x \<noteq> None) (take PWRDM_MAX_CLKDMS (pwrdm_clkdms (pwrdms s p)))) in
           if i = PWRDM_MAX_CLKDMS then (- ENOMEM, s)
           else (0, pwrdm_upd p (\<lambda>d. d\<lparr>pwrdm_clkdms := (pwrdm_clkdms d)[i := Some c]\<rparr>) s))
      | _ \<Rightarrow> (- EINVAL, s))"

definition pwrdm_del_clkdm ::
  "nat option \<Rightarrow> nat option \<Rightarrow> 'a pm_world_scheme \<Rightarrow> int \<times> 'a pm_world_scheme" where
  "pwrdm_del_clkdm pp cc s =
     (case (pp, cc) of
        (Some p, Some c) \<Rightarrow>
          (let i = length (takeWhile (\<lambda>x. x \<noteq> Some c) (take PWRDM_MAX_CLKDMS (pwrdm_clkdms (pwrdms s p)))) in
           if i = PWRDM_MAX_CLKDMS then (- ENOENT, s)
           else (0, pwrdm_upd p (\<lambda>d. d\<lparr>pwrdm_clkdms := (pwrdm_clkdms d)[i := None]\<rparr>) s))
      | _ \<Rightarrow> (- EINVAL, s))"

definition pwrdm_reset_counters :: "powerdomain \<Rightarrow> powerdomain" where
  "pwrdm_reset_counters d =
     d\<lparr>state_counter := replicate PWRDM_MAX_PWRSTS 0,
       ret_logic_off_counter := 0,
       ret_mem_off_counter := replicate (banks d) 0 @ drop (banks d) (ret_mem_off_counter d)\<rparr>"

definition pwrdm_register ::
  "nat option \<Rightarrow> 'a pm_world_scheme \<Rightarrow> (int \<times> 'a pm_world_scheme) option" where
  "pwrdm_register pp s =
     (case pp of None \<Rightarrow> Some (- EINVAL, s)
      | Some p \<Rightarrow>
          if \<not> pwrdm_chip_ok (pwrdms s p) then Some (- EINVAL, s)
          else if pwrdm_lookup (pwrdm_name (pwrdms s p)) s \<noteq> None then Some (- EEXIST, s)
          else
            let s1 = pwrdm_upd p pwrdm_reset_counters (s\<lparr>pwrdm_list := p # pwrdm_list s\<rparr>);
                s2 = snd (pwrdm_wait_transition (Some p) s1);
                st = pwrdm_read_pwrst (Some p) s2;
                s3 = pwrdm_upd p (\<lambda>d. d\<lparr>pwrdm_state := st\<rparr>) s2
            in if 0 \<le> st \<and> nat st < PWRDM_MAX_PWRSTS
               then Some (0, pwrdm_upd p (\<lambda>d. d\<lparr>state_counter := (state_counter d)[nat st := 1]\<rparr>) s3)
               else None)"

section \<open>Clockdomains\<close>

definition clkdm_upd :: "nat \<Rightarrow> (clockdomain \<Rightarrow> clockdomain) \<Rightarrow> 'a pm_world_scheme \<Rightarrow> 'a pm_world_scheme" where
  "clkdm_upd c f s = s\<lparr>clkdms := (clkdms s)(c := f (clkdms s c))\<rparr>"

definition clkdm_lookup :: "string option \<Rightarrow> 'a pm_world_scheme \<Rightarrow> nat option" where
  "clkdm_lookup nm s =
     (case nm of None \<Rightarrow> None
      | Some name \<Rightarrow> find (\<lambda>c. name = clkdm_name (clkdms s c)) (clkdm_list s))"

definition clkdm_register ::
  "nat option \<Rightarrow> 'a pm_world_scheme \<Rightarrow> int \<times> 'a pm_world_scheme" where
  "clkdm_register cc s =
     (case cc of None \<Rightarrow> (- EINVAL, s)
      | Some c \<Rightarrow>
          if \<not> clkdm_chip_ok (clkdms s c) then (- EINVAL, s)
          else (case pwrdm_lookup (clkdm_pwrdm_name (clkdms s c)) s of
                  None \<Rightarrow> (- EINVAL, s)
                | Some p \<Rightarrow>
                    let s1 = clkdm_upd c (\<lambda>d. d\<lparr>clkdm_pwrdm := Some p\<rparr>) s in
                    if clkdm_lookup (Some (clkdm_name (clkdms s1 c))) s1 \<noteq> None then (- EEXIST, s1)
                    else (0, snd (pwrdm_add_clkdm (Some p) (Some c) (s1\<lparr>clkdm_list := c # clkdm_list s1\<rparr>)))))"

definition clkdm_enable_hwsup :: "nat \<Rightarrow> 'a pm_world_scheme \<Rightarrow> 'a pm_world_scheme" where
  "clkdm_enable_hwsup c s =
     ti81xx_cm_clkdm_enable_hwsup (cm_inst (clkdms s c)) (clkdm_offs (clkdms s c))
       (ucast (clktrctrl_mask (clkdms s c))) s"

definition clkdm_disable_hwsup :: "nat \<Rightarrow> 'a pm_world_scheme \<Rightarrow> 'a pm_world_scheme" where
  "clkdm_disable_hwsup c s =
     ti81xx_cm_clkdm_disable_hwsup (cm_inst (clkdms s c)) (clkdm_offs (clkdms s c))
       (ucast (clktrctrl_mask (clkdms s c))) s"

definition omap2_clkdm_sleep :: "nat option \<Rightarrow> 'a pm_world_scheme \<Rightarrow> int \<times> 'a pm_world_scheme" where
  "omap2_clkdm_sleep cc s =
     (case cc of None \<Rightarrow> (- EINVAL, s)
      | Some c \<Rightarrow>
          if clkdm_flags (clkdms s c) AND CLKDM_CAN_FORCE_SLEEP = 0 then (- EINVAL, s)
          else (0, ti81xx_cm_clkdm_force_sleep (cm_inst (clkdms s c)) (clkdm_offs (clkdms s c))
                     (ucast (clktrctrl_mask (clkdms s c))) s))"

definition omap2_clkdm_wakeup :: "nat option \<Rightarrow> 'a pm_world_scheme \<Rightarrow> int \<times> 'a pm_world_scheme" where
  "omap2_clkdm_wakeup cc s =
     (case cc of None \<Rightarrow> (- EINVAL, s)
      | Some c \<Rightarrow>
          if clkdm_flags (clkdms s c) AND CLKDM_CAN_FORCE_WAKEUP = 0 then (- EINVAL, s)
          else (0, ti81xx_cm_clkdm_force_wakeup (cm_inst (clkdms s c)) (clkdm_offs (clkdms s c))
                     (ucast (clktrctrl_mask (clkdms s c))) s))"

text \<open>On a TI81xx the autodependencies are skipped in both idle controls.\<close>

definition omap2_clkdm_allow_idle ::
  "nat option \<Rightarrow> 'a pm_world_scheme \<Rightarrow> 'a pm_world_scheme option" where
  "omap2_clkdm_allow_idle cc s =
     (case cc of None \<Rightarrow> Some s
      | Some c \<Rightarrow>
          if clkdm_flags (clkdms s c) AND CLKDM_CAN_ENABLE_AUTO = 0 then Some s
          else do { (_, s1) \<leftarrow> pwrdm_clkdm_state_switch (Some c) (clkdm_enable_hwsup c s); Some s1 })"

definition omap2_clkdm_deny_idle :: "nat option \<Rightarrow> 'a pm_world_scheme \<Rightarrow> 'a pm_world_scheme" where
  "omap2_clkdm_deny_idle cc s =
     (case cc of None \<Rightarrow> s
      | Some c \<Rightarrow>
          if clkdm_flags (clkdms s c) AND CLKDM_CAN_DISABLE_AUTO = 0 then s
          else clkdm_disable_hwsup c s)"

text \<open>
  \<^verbatim>\<open>omap2_clkdm_clk_enable\<close> and \<^verbatim>\<open>omap2_clkdm_clk_disable\<close>: on a TI81xx
  neither register test runs, so \<^verbatim>\<open>hwsup\<close> stays false. \<^verbatim>\<open>DEBUG\<close> is
  not defined.
\<close>

definition omap2_clkdm_clk_enable ::
  "nat option \<Rightarrow> 'a pm_world_scheme \<Rightarrow> (int \<times> 'a pm_world_scheme) option" where
  "omap2_clkdm_clk_enable cc s =
     (case cc of None \<Rightarrow> Some (- EINVAL, s)
      | Some c \<Rightarrow>
          let s1 = clkdm_upd c (\<lambda>d. d\<lparr>clkdm_usecount := atomic_add_return 1 (clkdm_usecount d)\<rparr>) s in
          if clkdm_usecount (clkdms s1 c) > 1 then Some (0, s1)
          else
            let s2 = snd (omap2_clkdm_wakeup (Some c) s1);
                s3 = snd (pwrdm_wait_transition (clkdm_pwrdm (clkdms s2 c)) s2)
            in do { (_, s4) \<leftarrow> pwrdm_clkdm_state_switch (Some c) s3; Some (0, s4) })"

definition omap2_clkdm_clk_disable ::
  "nat option \<Rightarrow> 'a pm_world_scheme \<Rightarrow> (int \<times> 'a pm_world_scheme) option" where
  "omap2_clkdm_clk_disable cc s =
     (case cc of None \<Rightarrow> Some (- EINVAL, s)
      | Some c \<Rightarrow>
          let s1 = clkdm_upd c (\<lambda>d. d\<lparr>clkdm_usecount := atomic_add_return (- 1) (clkdm_usecount d)\<rparr>) s in
          if clkdm_usecount (clkdms s1 c) > 0 then Some (0, s1)
          else
            let s2 = snd (omap2_clkdm_sleep (Some c) s1)
            in do { (_, s3) \<leftarrow> pwrdm_clkdm_state_switch (Some c) s2; Some (0, s3) })"

subsection \<open>Wakeup dependencies\<close>

text \<open>
  \<^verbatim>\<open>_clkdm_deps_lookup\<close>: the first dependency on \<open>c\<close>, resolving the
  names that are passed on the way. Names that are already resolved are not looked up again.
\<close>

fun clkdm_deps_search ::
  "nat \<Rightarrow> 'a pm_world_scheme \<Rightarrow> clkdm_dep list \<Rightarrow> nat option \<times> clkdm_dep list" where
  "clkdm_deps_search c s [] = (None, [])"
| "clkdm_deps_search c s (d # ds) =
     (if \<not> dep_chip_ok d
      then (let (i, ds') = clkdm_deps_search c s ds in (map_option Suc i, d # ds'))
      else
        let d' = (if dep_clkdm d = None then d\<lparr>dep_clkdm := clkdm_lookup (Some (dep_clkdm_name d)) s\<rparr> else d)
        in if dep_clkdm d' = Some c then (Some 0, d' # ds)
           else (let (i, ds') = clkdm_deps_search c s ds in (map_option Suc i, d' # ds')))"

definition clkdm_deps_lookup ::
  "nat \<Rightarrow> nat \<Rightarrow> 'a pm_world_scheme \<Rightarrow> (int + nat) \<times> 'a pm_world_scheme" where
  "clkdm_deps_lookup c owner s =
     (case wkdep_srcs (clkdms s owner) of
        None \<Rightarrow> (Inl (- EINVAL), s)
      | Some deps \<Rightarrow>
          if \<not> clkdm_chip_ok (clkdms s c) then (Inl (- EINVAL), s)
          else (let (i, deps') = clkdm_deps_search c s deps;
                    s' = clkdm_upd owner (\<lambda>d. d\<lparr>wkdep_srcs := Some deps'\<rparr>) s
                in (case i of None \<Rightarrow> (Inl (- ENOENT), s') | Some k \<Rightarrow> (Inr k, s'))))"

definition wkdep_upd ::
  "nat \<Rightarrow> nat \<Rightarrow> (clkdm_dep \<Rightarrow> clkdm_dep) \<Rightarrow> 'a pm_world_scheme \<Rightarrow> 'a pm_world_scheme" where
  "wkdep_upd c k f s =
     clkdm_upd c (\<lambda>d. d\<lparr>wkdep_srcs := map_option (\<lambda>ds. ds[k := f (ds ! k)]) (wkdep_srcs d)\<rparr>) s"

definition wkdep_count :: "nat \<Rightarrow> nat \<Rightarrow> 'a pm_world_scheme \<Rightarrow> int" where
  "wkdep_count c k s = (case wkdep_srcs (clkdms s c) of None \<Rightarrow> 0 | Some ds \<Rightarrow> wkdep_usecount (ds ! k))"

definition clkdm_add_wkdep ::
  "nat option \<Rightarrow> nat option \<Rightarrow> 'a pm_world_scheme \<Rightarrow> (int \<times> 'a pm_world_scheme) option" where
  "clkdm_add_wkdep clkdm1 clkdm2 s =
     (case (clkdm1, clkdm2) of
        (Some c1, Some c2) \<Rightarrow>
          (case clkdm_deps_lookup c2 c1 s of
             (Inl e, s1) \<Rightarrow> Some (e, s1)
           | (Inr k, s1) \<Rightarrow>
               let s2 = wkdep_upd c1 k (\<lambda>d. d\<lparr>wkdep_usecount := atomic_add_return 1 (wkdep_usecount d)\<rparr>) s1 in
               if wkdep_count c1 k s2 = 1
               then do { p \<leftarrow> clkdm_pwrdm (clkdms s2 c1);
                         Some (0, snd (omap2_prm_set_mod_reg_bits (BIT (dep_bit (clkdms s2 c2)))
                                         (prcm_offs (pwrdms s2 p)) PM_WKDEP s2)) }
               else Some (0, s2))
      | _ \<Rightarrow> Some (- EINVAL, s))"

definition clkdm_del_wkdep ::
  "nat option \<Rightarrow> nat option \<Rightarrow> 'a pm_world_scheme \<Rightarrow> (int \<times> 'a pm_world_scheme) option" where
  "clkdm_del_wkdep clkdm1 clkdm2 s =
     (case (clkdm1, clkdm2) of
        (Some c1, Some c2) \<Rightarrow>
          (case clkdm_deps_lookup c2 c1 s of
             (Inl e, s1) \<Rightarrow> Some (e, s1)
           | (Inr k, s1) \<Rightarrow>
               let s2 = wkdep_upd c1 k (\<lambda>d. d\<lparr>wkdep_usecount := atomic_add_return (- 1) (wkdep_usecount d)\<rparr>) s1 in
               if wkdep_count c1 k s2 = 0
               then do { p \<leftarrow> clkdm_pwrdm (clkdms s2 c1);
                         Some (0, snd (omap2_prm_clear_mod_reg_bits (BIT (dep_bit (clkdms s2 c2)))
                                         (prcm_offs (pwrdms s2 p)) PM_WKDEP s2)) }
               else Some (0, s2))
      | _ \<Rightarrow> Some (- EINVAL, s))"

definition clkdm_read_wkdep ::
  "nat option \<Rightarrow> nat option \<Rightarrow> 'a pm_world_scheme \<Rightarrow> (int \<times> 'a pm_world_scheme) option" where
  "clkdm_read_wkdep clkdm1 clkdm2 s =
     (case (clkdm1, clkdm2) of
        (Some c1, Some c2) \<Rightarrow>
          (case clkdm_deps_lookup c2 c1 s of
             (Inl e, s1) \<Rightarrow> Some (e, s1)
           | (Inr k, s1) \<Rightarrow>
               do { p \<leftarrow> clkdm_pwrdm (clkdms s1 c1);
                    Some (sint (omap2_prm_read_mod_bits_shift (prcm_offs (pwrdms s1 p)) PM_WKDEP
                                  (BIT (dep_bit (clkdms s1 c2))) s1), s1) })
      | _ \<Rightarrow> Some (- EINVAL, s))"

fun clear_wkdeps_loop ::
  "'a pm_world_scheme \<Rightarrow> clkdm_dep list \<Rightarrow> u32 \<Rightarrow> (u32 \<times> clkdm_dep list) option" where
  "clear_wkdeps_loop s [] m = Some (m, [])"
| "clear_wkdeps_loop s (d # ds) m =
     (if \<not> dep_chip_ok d
      then do { (m', ds') \<leftarrow> clear_wkdeps_loop s ds m; Some (m', d # ds') }
      else
        let d' = (if dep_clkdm d = None then d\<lparr>dep_clkdm := clkdm_lookup (Some (dep_clkdm_name d)) s\<rparr> else d)
        in do { c \<leftarrow> dep_clkdm d';
                (m', ds') \<leftarrow> clear_wkdeps_loop s ds (m OR BIT (dep_bit (clkdms s c)));
                Some (m', d'\<lparr>wkdep_usecount := 0\<rparr> # ds') })"

definition clkdm_clear_all_wkdeps ::
  "nat option \<Rightarrow> 'a pm_world_scheme \<Rightarrow> (int \<times> 'a pm_world_scheme) option" where
  "clkdm_clear_all_wkdeps cc s =
     (case cc of None \<Rightarrow> Some (- EINVAL, s)
      | Some c \<Rightarrow>
          do { (m, s1) \<leftarrow>
                 (case wkdep_srcs (clkdms s c) of
                    None \<Rightarrow> Some (0, s)
                  | Some ds \<Rightarrow>
                      do { (m, ds') \<leftarrow> clear_wkdeps_loop s ds 0;
                           Some (m, clkdm_upd c (\<lambda>d. d\<lparr>wkdep_srcs := Some ds'\<rparr>) s) });
               p \<leftarrow> clkdm_pwrdm (clkdms s1 c);
               Some (0, snd (omap2_prm_clear_mod_reg_bits m (prcm_offs (pwrdms s1 p)) PM_WKDEP s1)) })"

subsection \<open>Setting up the layers\<close>

text \<open>
  \<^verbatim>\<open>pwrdm_init\<close> and \<^verbatim>\<open>clkdm_init\<close> ignore the results of the
  registrations. On a TI81xx \<^verbatim>\<open>clkdm_clear_all_sleepdeps\<close> returns at once, and the
  autodependencies of the table are for OMAP3 chips only, so that they are not resolved.
\<close>

fun pwrdm_init :: "nat list \<Rightarrow> 'a pm_world_scheme \<Rightarrow> 'a pm_world_scheme option" where
  "pwrdm_init [] s = Some s"
| "pwrdm_init (p # ps) s = do { (_, s1) \<leftarrow> pwrdm_register (Some p) s; pwrdm_init ps s1 }"

fun clkdm_register_all :: "nat list \<Rightarrow> 'a pm_world_scheme \<Rightarrow> 'a pm_world_scheme" where
  "clkdm_register_all [] s = s"
| "clkdm_register_all (c # cs) s = clkdm_register_all cs (snd (clkdm_register (Some c) s))"

definition clkdm_init_one :: "nat \<Rightarrow> 'a pm_world_scheme \<Rightarrow> 'a pm_world_scheme option" where
  "clkdm_init_one c s =
     (let s1 = (if clkdm_flags (clkdms s c) AND CLKDM_CAN_FORCE_WAKEUP \<noteq> 0
                then snd (omap2_clkdm_wakeup (Some c) s)
                else if clkdm_flags (clkdms s c) AND CLKDM_CAN_DISABLE_AUTO \<noteq> 0
                then omap2_clkdm_deny_idle (Some c) s
                else s)
      in do { (_, s2) \<leftarrow> clkdm_clear_all_wkdeps (Some c) s1; Some s2 })"

fun clkdm_init_each :: "nat list \<Rightarrow> 'a pm_world_scheme \<Rightarrow> 'a pm_world_scheme option" where
  "clkdm_init_each [] s = Some s"
| "clkdm_init_each (c # cs) s = do { s1 \<leftarrow> clkdm_init_one c s; clkdm_init_each cs s1 }"

definition clkdm_init :: "nat list \<Rightarrow> 'a pm_world_scheme \<Rightarrow> 'a pm_world_scheme option" where
  "clkdm_init cs s = (let s1 = clkdm_register_all cs s in clkdm_init_each (clkdm_list s1) s1)"

section \<open>Specification\<close>

definition pwrdm_wf :: "powerdomain \<Rightarrow> bool" where
  "pwrdm_wf p \<longleftrightarrow> length (state_counter p) = PWRDM_MAX_PWRSTS \<and> 0 \<le> pwrdm_state p \<and> pwrdm_state p < 4"

definition clkstctrl_addr :: "nat \<Rightarrow> 'a pm_world_scheme \<Rightarrow> u32" where
  "clkstctrl_addr c s = cm_base s + scast (cm_inst (clkdms s c)) + ucast (clkdm_offs (clkdms s c))"

abbreviation clktrctrl :: "nat \<Rightarrow> 'a pm_world_scheme \<Rightarrow> u32" where
  "clktrctrl c s \<equiv> field_get (ucast (clktrctrl_mask (clkdms s c))) (raw_readl (clkstctrl_addr c s) s)"

definition clkdm_addrs :: "'a pm_world_scheme \<Rightarrow> u32 set" where
  "clkdm_addrs s = (\<lambda>c. clkstctrl_addr c s) ` set (clkdm_list s)"

text \<open>
  One call of a user of the clockdomain layer. \<open>g c\<close> is the number of enables of \<open>c\<close>
  that its callers still hold. The layer does not check them: a caller disables only what was
  enabled, and fewer than \<open>2\<^sup>31 - 1\<close> enables are held at a time.
\<close>

inductive clkdm_step ::
  "'a pm_world_scheme \<times> (nat \<Rightarrow> nat) \<Rightarrow> 'a pm_world_scheme \<times> (nat \<Rightarrow> nat) \<Rightarrow> bool" where
  enable: "c \<in> set (clkdm_list s) \<Longrightarrow> g c < 2 ^ 31 - 1 \<Longrightarrow> omap2_clkdm_clk_enable (Some c) s = Some (r, s')
    \<Longrightarrow> clkdm_step (s, g) (s', g(c := Suc (g c)))"
| disable: "c \<in> set (clkdm_list s) \<Longrightarrow> 0 < g c \<Longrightarrow> omap2_clkdm_clk_disable (Some c) s = Some (r, s')
    \<Longrightarrow> clkdm_step (s, g) (s', g(c := g c - 1))"

definition clkdm_static :: "clockdomain \<Rightarrow> bool" where
  "clkdm_static d \<longleftrightarrow>
     clkdm_flags d AND CLKDM_CAN_FORCE_WAKEUP \<noteq> 0 \<and> clkdm_flags d AND CLKDM_CAN_FORCE_SLEEP \<noteq> 0
     \<and> field_fits (ucast (clktrctrl_mask d)) (ucast CLKSTCTRL_FORCE_WAKEUP)
     \<and> field_fits (ucast (clktrctrl_mask d)) (ucast CLKSTCTRL_FORCE_SLEEP)"

definition clkdm_layout :: "'a pm_world_scheme \<Rightarrow> bool" where
  "clkdm_layout s \<longleftrightarrow> inj_on (\<lambda>c. clkstctrl_addr c s) (set (clkdm_list s))
     \<and> hw_keeps (clkdm_addrs s) s \<and> (\<forall>c \<in> set (clkdm_list s). clkdm_static (clkdms s c))"

definition clkdm_awake :: "nat \<Rightarrow> 'a pm_world_scheme \<times> (nat \<Rightarrow> nat) \<Rightarrow> bool" where
  "clkdm_awake c sg \<longleftrightarrow> clkdm_usecount (clkdms (fst sg) c) = int (snd sg c) \<and> snd sg c < 2 ^ 31
     \<and> (0 < snd sg c \<longrightarrow> clktrctrl c (fst sg) = ucast CLKSTCTRL_FORCE_WAKEUP)"

text \<open>What an operation of the clockdomain layer leaves alone.\<close>

definition clkdm_frame :: "'a pm_world_scheme \<Rightarrow> 'a pm_world_scheme \<Rightarrow> bool" where
  "clkdm_frame s t \<longleftrightarrow> clkdms t = clkdms s \<and> clkdm_list t = clkdm_list s \<and> cm_base t = cm_base s \<and> hw t = hw s
     \<and> (\<forall>A. hw_keeps A s \<longrightarrow> (\<forall>a \<in> A. raw_readl a t = raw_readl a s))"

text \<open>
  The effect of one operation on the clockdomain \<open>c\<close>: its use count becomes \<open>n\<close>
  and its transition field is optionally rewritten.
\<close>

definition clkdm_effect :: "nat \<Rightarrow> int \<Rightarrow> u8 option \<Rightarrow> 'a pm_world_scheme \<Rightarrow> 'a pm_world_scheme \<Rightarrow> bool" where
  "clkdm_effect c n w s t \<longleftrightarrow>
     clkdms t = (clkdms s)(c := clkdms s c\<lparr>clkdm_usecount := n\<rparr>)
     \<and> clkdm_list t = clkdm_list s \<and> cm_base t = cm_base s \<and> hw t = hw s
     \<and> (\<forall>d \<in> set (clkdm_list s). raw_readl (clkstctrl_addr d s) t =
          (case w of Some v \<Rightarrow> if d = c then field_set (ucast (clktrctrl_mask (clkdms s c))) (ucast v)
                                               (raw_readl (clkstctrl_addr d s) s)
                               else raw_readl (clkstctrl_addr d s) s
           | None \<Rightarrow> raw_readl (clkstctrl_addr d s) s))"

definition names_distinct :: "'a pm_world_scheme \<Rightarrow> bool" where
  "names_distinct s \<longleftrightarrow> distinct (map (\<lambda>c. clkdm_name (clkdms s c)) (clkdm_list s))"

text \<open>Registering a list of objects: those that are present and whose name is new are put in front.\<close>

fun reg_list :: "('a \<Rightarrow> 'n) \<Rightarrow> ('a \<Rightarrow> bool) \<Rightarrow> 'a list \<Rightarrow> 'a list \<Rightarrow> 'a list" where
  "reg_list nm ok [] l = l"
| "reg_list nm ok (p # ps) l = reg_list nm ok ps (if ok p \<and> nm p \<notin> nm ` set l then p # l else l)"

definition pwrdm_same :: "'a pm_world_scheme \<Rightarrow> 'a pm_world_scheme \<Rightarrow> bool" where
  "pwrdm_same s t \<longleftrightarrow> (\<forall>q. pwrdm_name (pwrdms t q) = pwrdm_name (pwrdms s q)
     \<and> pwrdm_chip_ok (pwrdms t q) = pwrdm_chip_ok (pwrdms s q))"

definition clkdm_same :: "'a pm_world_scheme \<Rightarrow> 'a pm_world_scheme \<Rightarrow> bool" where
  "clkdm_same s t \<longleftrightarrow> (\<forall>c. clkdms t c = clkdms s c\<lparr>clkdm_pwrdm := clkdm_pwrdm (clkdms t c)\<rparr>)
     \<and> cm_base t = cm_base s \<and> hw t = hw s \<and> regs t = regs s \<and> pwrdm_list t = pwrdm_list s \<and> pwrdm_same s t"

definition clkdm_bound :: "'a pm_world_scheme \<Rightarrow> bool" where
  "clkdm_bound s \<longleftrightarrow> (\<forall>c \<in> set (clkdm_list s). clkdm_pwrdm (clkdms s c) \<noteq> None)"

abbreviation clkdm_ok :: "'a pm_world_scheme \<Rightarrow> nat \<Rightarrow> bool" where
  "clkdm_ok s c \<equiv> clkdm_chip_ok (clkdms s c)
     \<and> clkdm_pwrdm_name (clkdms s c) \<in> (\<lambda>p. pwrdm_name (pwrdms s p)) ` set (pwrdm_list s)"

definition pm_step :: "'a pm_world_scheme \<Rightarrow> 'a pm_world_scheme \<Rightarrow> bool" where
  "pm_step s t \<longleftrightarrow> pm_world.more t = pm_world.more s \<and> (\<forall>d. clkdm_pwrdm (clkdms t d) = clkdm_pwrdm (clkdms s d))
     \<and> (\<forall>p. pwrdm_wf (pwrdms s p) \<longrightarrow> pwrdm_wf (pwrdms t p))"

text \<open>Registered power domains have their counters, and registered clock domains are bound to them.\<close>

definition bound_wf :: "'a pm_world_scheme \<Rightarrow> bool" where
  "bound_wf s \<longleftrightarrow> (\<forall>p \<in> set (pwrdm_list s). pwrdm_wf (pwrdms s p))
     \<and> (\<forall>d \<in> set (clkdm_list s). \<forall>p. clkdm_pwrdm (clkdms s d) = Some p \<longrightarrow> p \<in> set (pwrdm_list s))"

section \<open>Lemmas\<close>

locale mod_regs =
  fixes rd :: "u16 \<Rightarrow> u16 \<Rightarrow> 's \<Rightarrow> u32"
    and wr :: "u32 \<Rightarrow> u16 \<Rightarrow> u16 \<Rightarrow> 's \<Rightarrow> 's"
    and rmw :: "u32 \<Rightarrow> u32 \<Rightarrow> u16 \<Rightarrow> u16 \<Rightarrow> 's \<Rightarrow> u32 \<times> 's"
  assumes rd_wr: "rd module idx (wr v module idx s) = v"
    and rmw_eq: "rmw m bits module idx s =
      (let v = (rd module idx s AND NOT m) OR bits in (v, wr v module idx s))"
begin

lemma rd_rmw: "rd module idx (snd (rmw m bits module idx s)) = (rd module idx s AND NOT m) OR bits"
  by (simp add: rmw_eq rd_wr Let_def)

lemma rd_set_bits: "rd module idx (snd (rmw bits bits module idx s)) AND bits = bits"
  by (auto simp: rd_rmw bit_eq_iff bit_simps)

lemma rd_clear_bits: "rd module idx (snd (rmw bits 0 module idx s)) AND bits = 0"
  by (simp add: rd_rmw bit_eq_iff bit_simps)

lemma rd_rmw_outside:
  "bits AND NOT m = 0 \<Longrightarrow> rd module idx (snd (rmw m bits module idx s)) AND NOT m = rd module idx s AND NOT m"
  by (auto simp add: rd_rmw bit_eq_iff bit_simps)

lemma rd_rmw_field:
  "field_fits m x \<Longrightarrow>
   field_get m (rd module idx (snd (rmw m (push_bit (ffs m) x) module idx s))) = x"
  using field_get_set [of m x "rd module idx s"] by (simp add: rd_rmw field_set_def)

end

interpretation prm: mod_regs omap2_prm_read_mod_reg omap2_prm_write_mod_reg omap2_prm_rmw_mod_reg_bits
  by unfold_locales
    (simp_all add: omap2_prm_read_mod_reg_def omap2_prm_write_mod_reg_def omap2_prm_rmw_mod_reg_bits_def
      raw_readl_def raw_writel_def)

interpretation cm: mod_regs omap2_cm_read_mod_reg omap2_cm_write_mod_reg omap2_cm_rmw_mod_reg_bits
  by unfold_locales
    (simp_all add: omap2_cm_read_mod_reg_def omap2_cm_write_mod_reg_def omap2_cm_rmw_mod_reg_bits_def
      raw_readl_def raw_writel_def)

lemma pwrdm_transition_loop_done:
  assumes "fst (pwrdm_transition_loop p n s) = 0"
  shows "\<not> pwrdm_in_transition p (snd (pwrdm_transition_loop p n s))"
  using assms by (induction p n s rule: pwrdm_transition_loop.induct) auto

lemma pwrdm_transition_loop_ret: "fst (pwrdm_transition_loop p n s) = 0 \<or> fst (pwrdm_transition_loop p n s) = - EAGAIN"
  by (induction p n s rule: pwrdm_transition_loop.induct) auto

lemma pwrdm_transition_loop_zero_iff:
  "fst (pwrdm_transition_loop p n s) = 0 \<longleftrightarrow> (\<exists>k \<le> n. \<not> pwrdm_in_transition p (delays k s))"
proof (induction p n s rule: pwrdm_transition_loop.induct)
  case (2 p n s)
  show ?case
  proof (cases "pwrdm_in_transition p s")
    case True
    have "(\<exists>k \<le> Suc n. \<not> pwrdm_in_transition p (delays k s))
        \<longleftrightarrow> (\<exists>k \<le> n. \<not> pwrdm_in_transition p (delays k (delay1 s)))" (is "?L \<longleftrightarrow> ?R")
    proof
      assume ?L
      then obtain k where "k \<le> Suc n" "\<not> pwrdm_in_transition p (delays k s)" by blast
      with True show ?R by (cases k) auto
    next
      assume ?R
      then obtain k where "k \<le> n" "\<not> pwrdm_in_transition p (delays k (delay1 s))" by blast
      then show ?L by (intro exI [of _ "Suc k"]) simp
    qed
    with True 2 show ?thesis by simp
  next
    case False
    then show ?thesis by (auto intro: exI [of _ 0])
  qed
qed auto

lemma pwrdm_transition_loop_delays: "\<exists>k \<le> n. snd (pwrdm_transition_loop p n s) = delays k s"
proof (induction p n s rule: pwrdm_transition_loop.induct)
  case (2 p n s)
  show ?case
  proof (cases "pwrdm_in_transition p s")
    case True
    with 2 obtain k where "k \<le> n" "snd (pwrdm_transition_loop p n (delay1 s)) = delays k (delay1 s)" by auto
    then show ?thesis using True by (intro exI [of _ "Suc k"]) simp
  next
    case False
    then show ?thesis by (intro exI [of _ 0]) simp
  qed
qed auto

lemma delays_frame [frame_simps]:
  "pwrdms (delays k s) = pwrdms s" "clkdms (delays k s) = clkdms s"
  "prm_base (delays k s) = prm_base s" "cm_base (delays k s) = cm_base s"
  "pwrdm_list (delays k s) = pwrdm_list s" "clkdm_list (delays k s) = clkdm_list s"
  by (induction k arbitrary: s) (auto simp: delay1_def)


lemma ti81xx_pwrdm_read_pwrst_range:
  "0 \<le> ti81xx_pwrdm_read_pwrst p s" "ti81xx_pwrdm_read_pwrst p s < 4"
  using sint_mask2 by (auto simp: ti81xx_pwrdm_read_pwrst_def omap2_prm_read_mod_bits_shift_def)

lemma counter_inc_Some:
  "0 \<le> i \<Longrightarrow> i < 4 \<Longrightarrow> length cs = 4 \<Longrightarrow> counter_inc i cs = Some (cs[nat i := cs ! nat i + 1])"
  by (simp add: counter_inc_def)

lemma pwrdm_state_switch_eq:
  assumes "pwrdm_wf (pwrdms s p)"
  shows "pwrdm_state_switch (Some p) s =
    (let st = ti81xx_pwrdm_read_pwrst p s; d = pwrdms s p; cs = state_counter d in
     Some (0, s\<lparr>pwrdms := (pwrdms s)(p := d\<lparr>state_counter := (if st \<noteq> pwrdm_state d then cs[nat st := cs ! nat st + 1] else cs),
       pwrdm_state := st\<rparr>)\<rparr>))"
  using assms ti81xx_pwrdm_read_pwrst_range [of p s]
  by (simp add: pwrdm_state_switch_def pwrdm_state_switch_flag_def pwrdm_read_pwrst_def pwrdm_wf_def
      pwrdm_count_state_def counter_inc_Some pwrdm_upd_def Let_def)

lemma clkdm_frame_refl [simp]: "clkdm_frame s s"
  by (simp add: clkdm_frame_def)

lemma clkdm_frame_trans: "clkdm_frame s t \<Longrightarrow> clkdm_frame t u \<Longrightarrow> clkdm_frame s u"
  by (simp add: clkdm_frame_def hw_keeps_cong [of t s])

lemma clkdm_frame_delays: "clkdm_frame s (delays k s)"
  by (auto simp: clkdm_frame_def frame_simps raw_readl_delays)

lemma clkdm_frame_wait: "clkdm_frame s (snd (pwrdm_wait_transition pp s))"
proof (cases pp)
  case None
  then show ?thesis by (simp add: pwrdm_wait_transition_def)
next
  case (Some p)
  obtain k where "snd (pwrdm_transition_loop p PWRDM_TRANSITION_BAILOUT s) = delays k s"
    using pwrdm_transition_loop_delays [of PWRDM_TRANSITION_BAILOUT p s] by blast
  then show ?thesis
    using Some clkdm_frame_delays [of s k]
    by (simp add: pwrdm_wait_transition_def ti81xx_pwrdm_wait_transition_def)
qed

lemma clkdm_frame_pwrdm_upd: "clkdm_frame s (pwrdm_upd p f s)"
  by (simp add: clkdm_frame_def pwrdm_upd_def raw_readl_def)

lemma clkdm_frame_state_switch:
  "pwrdm_clkdm_state_switch cc s = Some (r, t) \<Longrightarrow> clkdm_frame s t"
proof -
  have now: "pwrdm_state_switch pp u = Some (r, t) \<Longrightarrow> clkdm_frame u t" for pp u
    by (auto simp: pwrdm_state_switch_def pwrdm_state_switch_flag_def pwrdm_count_state_def Let_def
        intro: clkdm_frame_pwrdm_upd clkdm_frame_trans
        split: option.splits if_splits Option.bind_splits)
  show "pwrdm_clkdm_state_switch cc s = Some (r, t) \<Longrightarrow> clkdm_frame s t"
    by (auto simp: pwrdm_clkdm_state_switch_def split: option.splits
        intro: clkdm_frame_trans [OF clkdm_frame_wait now])
qed

lemma raw_readl_write_clktrctrl [mmio_simps]:
  "raw_readl a (ti81xx_write_clktrctrl v module idx m s) =
     (if a = cm_base s + scast module + ucast idx then field_set m (ucast v) (raw_readl a s)
      else raw_readl a s)"
  by (simp add: ti81xx_write_clktrctrl_def omap2_cm_write_mod_reg_def omap2_cm_read_mod_reg_def mmio_simps)

lemma write_clktrctrl_frame [frame_simps]:
  "clkdms (ti81xx_write_clktrctrl v module idx m s) = clkdms s"
  "clkdm_list (ti81xx_write_clktrctrl v module idx m s) = clkdm_list s"
  "cm_base (ti81xx_write_clktrctrl v module idx m s) = cm_base s"
  "hw (ti81xx_write_clktrctrl v module idx m s) = hw s"
  by (simp_all add: ti81xx_write_clktrctrl_def omap2_cm_write_mod_reg_def raw_writel_def)

lemma clkdm_effect_write:
  assumes "clkdm_layout s" "c \<in> set (clkdm_list s)"
    and "clkdm_frame (ti81xx_write_clktrctrl v (cm_inst (clkdms s c)) (clkdm_offs (clkdms s c))
           (ucast (clktrctrl_mask (clkdms s c))) (clkdm_upd c (\<lambda>d. d\<lparr>clkdm_usecount := f (clkdm_usecount d)\<rparr>) s)) t"
  shows "clkdm_effect c (f (clkdm_usecount (clkdms s c))) (Some v) s t"
proof -
  define s1 where "s1 = clkdm_upd c (\<lambda>d. d\<lparr>clkdm_usecount := f (clkdm_usecount d)\<rparr>) s"
  define s2 where "s2 = ti81xx_write_clktrctrl v (cm_inst (clkdms s c)) (clkdm_offs (clkdms s c))
           (ucast (clktrctrl_mask (clkdms s c))) s1"
  have fr: "clkdm_frame s2 t" using assms(3) by (simp add: s1_def s2_def)
  have keeps: "hw_keeps (clkdm_addrs s) s2"
    using assms(1) by (simp add: clkdm_layout_def hw_keeps_def s2_def s1_def clkdm_upd_def frame_simps)
  have rd: "raw_readl (clkstctrl_addr d s) t = raw_readl (clkstctrl_addr d s) s2"
    if "d \<in> set (clkdm_list s)" for d
    using fr keeps that unfolding clkdm_frame_def clkdm_addrs_def by blast
  have eq: "clkstctrl_addr d s = clkstctrl_addr c s \<longleftrightarrow> d = c" if "d \<in> set (clkdm_list s)" for d
    using assms(1,2) that by (auto simp: clkdm_layout_def inj_on_def)
  have "raw_readl (clkstctrl_addr d s) s2 =
      (if d = c then field_set (ucast (clktrctrl_mask (clkdms s c))) (ucast v) (raw_readl (clkstctrl_addr d s) s)
       else raw_readl (clkstctrl_addr d s) s)" if "d \<in> set (clkdm_list s)" for d
    using eq [OF that]
    unfolding s2_def raw_readl_write_clktrctrl
    by (simp add: s1_def clkdm_upd_def clkstctrl_addr_def raw_readl_def)
  then show ?thesis
    using fr rd by (simp add: clkdm_effect_def clkdm_frame_def s2_def s1_def clkdm_upd_def frame_simps)
qed

lemma clkdm_effect_enable:
  assumes "omap2_clkdm_clk_enable (Some c) s = Some (r, t)" "clkdm_layout s" "c \<in> set (clkdm_list s)"
    "0 \<le> clkdm_usecount (clkdms s c)" "clkdm_usecount (clkdms s c) < 2 ^ 31 - 1"
  shows "clkdm_effect c (clkdm_usecount (clkdms s c) + 1)
    (if 0 < clkdm_usecount (clkdms s c) then None else Some CLKSTCTRL_FORCE_WAKEUP) s t"
proof (cases "0 < clkdm_usecount (clkdms s c)")
  case True
  then show ?thesis using assms
    by (auto simp: omap2_clkdm_clk_enable_def clkdm_effect_def clkdm_upd_def raw_readl_def)
next
  case False
  define s1 where "s1 = clkdm_upd c (\<lambda>d. d\<lparr>clkdm_usecount := atomic_add_return 1 (clkdm_usecount d)\<rparr>) s"
  define s2 where "s2 = snd (omap2_clkdm_wakeup (Some c) s1)"
  have "clkdm_flags (clkdms s c) AND CLKDM_CAN_FORCE_WAKEUP \<noteq> 0"
    using assms(2,3) by (simp add: clkdm_layout_def clkdm_static_def)
  then have s2: "s2 = ti81xx_write_clktrctrl CLKSTCTRL_FORCE_WAKEUP (cm_inst (clkdms s c)) (clkdm_offs (clkdms s c))
      (ucast (clktrctrl_mask (clkdms s c))) s1"
    by (simp add: s2_def omap2_clkdm_wakeup_def ti81xx_cm_clkdm_force_wakeup_def s1_def clkdm_upd_def)
  have "\<exists>q. pwrdm_clkdm_state_switch (Some c) (snd (pwrdm_wait_transition (clkdm_pwrdm (clkdms s2 c)) s2)) = Some (q, t)"
    using assms(1,4,5) False
    by (auto simp: omap2_clkdm_clk_enable_def s1_def s2_def clkdm_upd_def Let_def split: Option.bind_splits)
  then have "clkdm_frame s2 t"
    using clkdm_frame_state_switch clkdm_frame_wait clkdm_frame_trans by blast
  then show ?thesis
    using clkdm_effect_write [OF assms(2,3), of CLKSTCTRL_FORCE_WAKEUP "atomic_add_return 1" t] False assms(4,5)
    by (simp add: s2 s1_def)
qed

lemma clkdm_effect_disable:
  assumes "omap2_clkdm_clk_disable (Some c) s = Some (r, t)" "clkdm_layout s" "c \<in> set (clkdm_list s)"
    "0 < clkdm_usecount (clkdms s c)" "clkdm_usecount (clkdms s c) < 2 ^ 31"
  shows "clkdm_effect c (clkdm_usecount (clkdms s c) - 1)
    (if 1 < clkdm_usecount (clkdms s c) then None else Some CLKSTCTRL_FORCE_SLEEP) s t"
proof (cases "1 < clkdm_usecount (clkdms s c)")
  case True
  then show ?thesis using assms
    by (auto simp: omap2_clkdm_clk_disable_def clkdm_effect_def clkdm_upd_def raw_readl_def)
next
  case False
  define s1 where "s1 = clkdm_upd c (\<lambda>d. d\<lparr>clkdm_usecount := atomic_add_return (- 1) (clkdm_usecount d)\<rparr>) s"
  define s2 where "s2 = snd (omap2_clkdm_sleep (Some c) s1)"
  have "clkdm_flags (clkdms s c) AND CLKDM_CAN_FORCE_SLEEP \<noteq> 0"
    using assms(2,3) by (simp add: clkdm_layout_def clkdm_static_def)
  then have s2: "s2 = ti81xx_write_clktrctrl CLKSTCTRL_FORCE_SLEEP (cm_inst (clkdms s c)) (clkdm_offs (clkdms s c))
      (ucast (clktrctrl_mask (clkdms s c))) s1"
    by (simp add: s2_def omap2_clkdm_sleep_def ti81xx_cm_clkdm_force_sleep_def s1_def clkdm_upd_def)
  have "\<exists>q. pwrdm_clkdm_state_switch (Some c) s2 = Some (q, t)"
    using assms(1,4,5) False
    by (auto simp: omap2_clkdm_clk_disable_def s1_def s2_def clkdm_upd_def Let_def split: Option.bind_splits)
  then have "clkdm_frame s2 t"
    using clkdm_frame_state_switch by blast
  then show ?thesis
    using clkdm_effect_write [OF assms(2,3), of CLKSTCTRL_FORCE_SLEEP "atomic_add_return (- 1)" t] False assms(4,5)
    by (simp add: s2 s1_def)
qed

lemma clkdm_effect_addr: "clkdm_effect c n w s t \<Longrightarrow> clkstctrl_addr d t = clkstctrl_addr d s"
  by (simp add: clkdm_effect_def clkstctrl_addr_def)

lemma clkdm_effect_mask: "clkdm_effect c n w s t \<Longrightarrow> clktrctrl_mask (clkdms t d) = clktrctrl_mask (clkdms s d)"
  by (simp add: clkdm_effect_def)

lemma clkdm_effect_layout:
  assumes "clkdm_effect c n w s t"
  shows "clkdm_layout t = clkdm_layout s"
proof -
  have "clkdm_static (clkdms t d) = clkdm_static (clkdms s d)" for d
    using assms by (simp add: clkdm_effect_def clkdm_static_def)
  moreover have "clkdm_list t = clkdm_list s" "hw t = hw s" using assms by (simp_all add: clkdm_effect_def)
  ultimately show ?thesis
    by (simp add: clkdm_layout_def clkdm_addrs_def clkdm_effect_addr [OF assms] hw_keeps_cong [of t s])
qed

lemma clkdm_effect_clktrctrl:
  assumes "clkdm_effect c n w s t" "d \<in> set (clkdm_list s)" "d \<noteq> c \<or> w = None"
  shows "clktrctrl d t = clktrctrl d s"
  using assms(2,3) clkdm_effect_addr [OF assms(1)] clkdm_effect_mask [OF assms(1)] assms(1)
  by (auto simp: clkdm_effect_def split: option.splits)

lemma clkdm_effect_clktrctrl_self:
  assumes "clkdm_effect c n (Some v) s t" "c \<in> set (clkdm_list s)"
    "field_fits (ucast (clktrctrl_mask (clkdms s c))) (ucast v)"
  shows "clktrctrl c t = ucast v"
  using assms clkdm_effect_addr [OF assms(1)] clkdm_effect_mask [OF assms(1)]
  by (simp add: clkdm_effect_def field_get_set)

lemma clkdm_effect_awake:
  assumes "clkdm_layout s" "\<forall>d \<in> set (clkdm_list s). clkdm_awake d (s, g)" "c \<in> set (clkdm_list s)"
    and e: "clkdm_effect c (int n) w s t" "n < 2 ^ 31"
      "0 < n \<longrightarrow> (case w of None \<Rightarrow> 0 < g c | Some v \<Rightarrow> v = CLKSTCTRL_FORCE_WAKEUP)"
  shows "clkdm_layout t \<and> clkdm_list t = clkdm_list s \<and> (\<forall>d \<in> set (clkdm_list s). clkdm_awake d (t, g(c := n)))"
proof -
  have fits: "field_fits (ucast (clktrctrl_mask (clkdms s c))) (ucast CLKSTCTRL_FORCE_WAKEUP)"
    using assms(1,3) by (auto simp: clkdm_layout_def clkdm_static_def)
  have "clkdm_awake d (t, g(c := n))" if d: "d \<in> set (clkdm_list s)" for d
  proof (cases "d = c")
    case True
    have u: "clkdm_usecount (clkdms t c) = int n" using e(1) by (simp add: clkdm_effect_def)
    show ?thesis
    proof (cases w)
      case None
      then show ?thesis
        using True u e(2,3) assms(2) d clkdm_effect_clktrctrl [OF e(1) d] by (auto simp: clkdm_awake_def)
    next
      case (Some v)
      then show ?thesis
        using True u e assms(3) clkdm_effect_clktrctrl_self [of c "int n" v s t] fits by (auto simp: clkdm_awake_def)
    qed
  next
    case False
    then have "clkdms t d = clkdms s d" using e(1) by (simp add: clkdm_effect_def)
    then show ?thesis
      using False assms(2) d clkdm_effect_clktrctrl [OF e(1) d] by (simp add: clkdm_awake_def)
  qed
  then show ?thesis
    using clkdm_effect_layout [OF e(1)] assms(1) e(1) by (simp add: clkdm_effect_def)
qed

lemma clkdm_step_awake:
  assumes "clkdm_step sg tg" "clkdm_layout (fst sg)" "\<forall>c \<in> set (clkdm_list (fst sg)). clkdm_awake c sg"
  shows "clkdm_layout (fst tg) \<and> clkdm_list (fst tg) = clkdm_list (fst sg)
    \<and> (\<forall>c \<in> set (clkdm_list (fst sg)). clkdm_awake c tg)"
  using assms(1)
proof cases
  case (enable c s g r t)
  have u: "clkdm_usecount (clkdms s c) = int (g c)" using assms(3) enable by (simp add: clkdm_awake_def)
  then have "clkdm_effect c (int (Suc (g c))) (if 0 < g c then None else Some CLKSTCTRL_FORCE_WAKEUP) s t"
    using clkdm_effect_enable [OF enable(5) _ enable(3)] assms(2) enable(1,4) by (simp add: add.commute split: if_splits)
  then show ?thesis
    using clkdm_effect_awake [of s g c "Suc (g c)" _ t] assms(2,3) enable by simp
next
  case (disable c s g r t)
  have u: "clkdm_usecount (clkdms s c) = int (g c)" "g c < 2 ^ 31" using assms(3) disable by (simp_all add: clkdm_awake_def)
  then have "clkdm_effect c (int (g c - 1)) (if 1 < g c then None else Some CLKSTCTRL_FORCE_SLEEP) s t"
    using clkdm_effect_disable [OF disable(5) _ disable(3)] assms(2) disable(1,4) by (simp add: of_nat_diff split: if_splits)
  then show ?thesis
    using clkdm_effect_awake [of s g c "g c - 1" _ t] assms(2,3) disable u by simp
qed

lemma clkdm_steps_awake:
  assumes "clkdm_step\<^sup>*\<^sup>* sg tg" "clkdm_layout (fst sg)" "\<forall>c \<in> set (clkdm_list (fst sg)). clkdm_awake c sg"
  shows "clkdm_layout (fst tg) \<and> clkdm_list (fst tg) = clkdm_list (fst sg)
    \<and> (\<forall>c \<in> set (clkdm_list (fst sg)). clkdm_awake c tg)"
  using assms by (induction rule: rtranclp_induct) (auto dest: clkdm_step_awake)

lemma pwrdm_transition_loop_idle [simp]: "\<not> pwrdm_in_transition p s \<Longrightarrow> pwrdm_transition_loop p n s = (0, s)"
  by (cases n) auto

lemma pwrdm_transition_loop_eq:
  "pwrdm_transition_loop p n s =
     (case find (\<lambda>k. \<not> pwrdm_in_transition p (delays k s)) [0..<Suc n] of
        Some k \<Rightarrow> (0, delays k s) | None \<Rightarrow> (- EAGAIN, delays n s))"
proof (induction p n s rule: pwrdm_transition_loop.induct)
  case (2 p n s)
  have "[0..<Suc (Suc n)] = 0 # map Suc [0..<Suc n]"
    by (simp add: upt_conv_Cons map_Suc_upt del: upt_Suc)
  then show ?case using 2 by (simp add: find_map option.case_eq_if option.map_sel del: upt_Suc)
qed auto

lemma clkdm_lookup_registered:
  "names_distinct s \<Longrightarrow> c \<in> set (clkdm_list s) \<Longrightarrow> clkdm_lookup (Some (clkdm_name (clkdms s c))) s = Some c"
  using find_distinct_map [of "\<lambda>c. clkdm_name (clkdms s c)" "clkdm_list s" c]
  by (simp add: clkdm_lookup_def names_distinct_def)

lemma pwrdm_add_clkdm_frame [frame_simps]:
  "clkdms (snd (pwrdm_add_clkdm pp cc s)) = clkdms s" "clkdm_list (snd (pwrdm_add_clkdm pp cc s)) = clkdm_list s"
  by (auto simp: pwrdm_add_clkdm_def pwrdm_upd_def Let_def split: option.splits)

lemma clkdm_register_cases:
  assumes "clkdm_register (Some c) s = (r, t)"
  obtains "r \<noteq> 0" "clkdm_list t = clkdm_list s" "\<And>d. clkdm_name (clkdms t d) = clkdm_name (clkdms s d)"
  | p where "r = 0" "clkdm_list t = c # clkdm_list s" "\<And>d. clkdm_name (clkdms t d) = clkdm_name (clkdms s d)"
    "pwrdm_lookup (clkdm_pwrdm_name (clkdms s c)) s = Some p" "clkdm_pwrdm (clkdms t c) = Some p"
    "clkdm_name (clkdms s c) \<notin> (\<lambda>d. clkdm_name (clkdms s d)) ` set (clkdm_list s)"
proof (cases "clkdm_chip_ok (clkdms s c) \<and> pwrdm_lookup (clkdm_pwrdm_name (clkdms s c)) s \<noteq> None")
  case False
  then show ?thesis using assms that(1)
    by (auto simp: clkdm_register_def split: option.splits if_splits)
next
  case True
  then obtain p where p: "clkdm_chip_ok (clkdms s c)" "pwrdm_lookup (clkdm_pwrdm_name (clkdms s c)) s = Some p" by auto
  define s1 where "s1 = clkdm_upd c (\<lambda>d. d\<lparr>clkdm_pwrdm := Some p\<rparr>) s"
  have s1: "clkdm_list s1 = clkdm_list s" "\<And>d. clkdm_name (clkdms s1 d) = clkdm_name (clkdms s d)"
      "clkdm_pwrdm (clkdms s1 c) = Some p"
    by (simp_all add: s1_def clkdm_upd_def)
  show ?thesis
  proof (cases "clkdm_lookup (Some (clkdm_name (clkdms s1 c))) s1")
    case None
    then have "clkdm_name (clkdms s c) \<notin> (\<lambda>d. clkdm_name (clkdms s d)) ` set (clkdm_list s)"
      by (auto simp: clkdm_lookup_def find_None_iff s1)
    moreover have "r = 0" "t = snd (pwrdm_add_clkdm (Some p) (Some c) (s1\<lparr>clkdm_list := c # clkdm_list s1\<rparr>))"
      using assms p None by (simp_all add: clkdm_register_def s1_def [symmetric])
    ultimately show ?thesis using that(2) p s1 by (simp add: frame_simps)
  next
    case (Some d)
    then show ?thesis using that(1) assms p s1 by (auto simp: clkdm_register_def s1_def [symmetric])
  qed
qed

lemma pwrdm_same_refl [simp]: "pwrdm_same s s"
  by (simp add: pwrdm_same_def)

lemma pwrdm_same_trans: "pwrdm_same s t \<Longrightarrow> pwrdm_same t u \<Longrightarrow> pwrdm_same s u"
  by (simp add: pwrdm_same_def)

lemma pwrdm_wait_pwrdms: "pwrdms (snd (pwrdm_wait_transition pp s)) = pwrdms s
    \<and> pwrdm_list (snd (pwrdm_wait_transition pp s)) = pwrdm_list s"
proof (cases pp)
  case (Some p)
  obtain k where "snd (pwrdm_transition_loop p PWRDM_TRANSITION_BAILOUT s) = delays k s"
    using pwrdm_transition_loop_delays [of PWRDM_TRANSITION_BAILOUT p s] by blast
  then show ?thesis
    using Some by (simp add: pwrdm_wait_transition_def ti81xx_pwrdm_wait_transition_def frame_simps)
qed (simp add: pwrdm_wait_transition_def)

lemma pwrdm_lookup_None: "pwrdm_lookup n s = None \<longleftrightarrow> n \<notin> (\<lambda>p. pwrdm_name (pwrdms s p)) ` set (pwrdm_list s)"
  by (auto simp: pwrdm_lookup_def find_None_iff)

lemma pwrdm_register_shape:
  obtains r t where "pwrdm_register (Some p) s = Some (r, t)" "clkdm_frame s t" "pwrdm_same s t"
    "pwrdm_list t = (if pwrdm_chip_ok (pwrdms s p) \<and> pwrdm_name (pwrdms s p) \<notin> (\<lambda>p. pwrdm_name (pwrdms s p)) ` set (pwrdm_list s)
       then p # pwrdm_list s else pwrdm_list s)"
proof (cases "pwrdm_chip_ok (pwrdms s p) \<and> pwrdm_lookup (pwrdm_name (pwrdms s p)) s = None")
  case False
  then have "\<exists>r. pwrdm_register (Some p) s = Some (r, s)" by (auto simp: pwrdm_register_def)
  then obtain r where "pwrdm_register (Some p) s = Some (r, s)" by blast
  then show ?thesis using that [of r s] False by (auto simp: pwrdm_lookup_None)
next
  case True
  define s1 where "s1 = pwrdm_upd p pwrdm_reset_counters (s\<lparr>pwrdm_list := p # pwrdm_list s\<rparr>)"
  define s2 where "s2 = snd (pwrdm_wait_transition (Some p) s1)"
  define st where "st = pwrdm_read_pwrst (Some p) s2"
  define s3 where "s3 = pwrdm_upd p (\<lambda>d. d\<lparr>pwrdm_state := st\<rparr>) s2"
  define t where "t = pwrdm_upd p (\<lambda>d. d\<lparr>state_counter := (state_counter d)[nat st := 1]\<rparr>) s3"
  have st: "0 \<le> st" "nat st < PWRDM_MAX_PWRSTS"
    using ti81xx_pwrdm_read_pwrst_range [of p s2] by (simp_all add: st_def pwrdm_read_pwrst_def)
  have run: "pwrdm_register (Some p) s = Some (0, t)"
    using True st unfolding t_def s3_def st_def s2_def s1_def pwrdm_register_def Let_def by simp
  have "clkdm_frame s s1"
    by (simp add: clkdm_frame_def s1_def pwrdm_upd_def raw_readl_def)
  moreover have "clkdm_frame s1 s2" unfolding s2_def by (rule clkdm_frame_wait)
  moreover have "clkdm_frame s2 t" unfolding t_def s3_def by (rule clkdm_frame_trans [OF clkdm_frame_pwrdm_upd clkdm_frame_pwrdm_upd])
  ultimately have fr: "clkdm_frame s t" by (rule clkdm_frame_trans [OF clkdm_frame_trans])
  have s2: "pwrdms s2 = pwrdms s1" "pwrdm_list s2 = pwrdm_list s1" by (simp_all add: s2_def pwrdm_wait_pwrdms)
  have same: "pwrdm_same s t"
    by (simp add: pwrdm_same_def t_def s3_def s2 pwrdm_upd_def s1_def pwrdm_reset_counters_def)
  have "pwrdm_list t = p # pwrdm_list s"
    by (simp add: t_def s3_def s2 pwrdm_upd_def s1_def)
  then show ?thesis using that [OF run fr same] True by (simp add: pwrdm_lookup_None)
qed

lemma pwrdm_init_shape:
  "\<exists>t. pwrdm_init ps s = Some t \<and> clkdm_frame s t \<and> pwrdm_same s t
     \<and> pwrdm_list t = reg_list (\<lambda>p. pwrdm_name (pwrdms s p)) (\<lambda>p. pwrdm_chip_ok (pwrdms s p)) ps (pwrdm_list s)"
proof (induction ps arbitrary: s)
  case (Cons p ps)
  obtain r s1 where 1: "pwrdm_register (Some p) s = Some (r, s1)" "clkdm_frame s s1" "pwrdm_same s s1"
    "pwrdm_list s1 = (if pwrdm_chip_ok (pwrdms s p) \<and> pwrdm_name (pwrdms s p) \<notin> (\<lambda>p. pwrdm_name (pwrdms s p)) ` set (pwrdm_list s)
       then p # pwrdm_list s else pwrdm_list s)"
    by (rule pwrdm_register_shape)
  obtain t where 2: "pwrdm_init ps s1 = Some t" "clkdm_frame s1 t" "pwrdm_same s1 t"
     "pwrdm_list t = reg_list (\<lambda>p. pwrdm_name (pwrdms s1 p)) (\<lambda>p. pwrdm_chip_ok (pwrdms s1 p)) ps (pwrdm_list s1)"
    using Cons.IH by blast
  have "(\<lambda>p. pwrdm_name (pwrdms s1 p)) = (\<lambda>p. pwrdm_name (pwrdms s p))"
    "(\<lambda>p. pwrdm_chip_ok (pwrdms s1 p)) = (\<lambda>p. pwrdm_chip_ok (pwrdms s p))"
    using 1(3) by (auto simp: pwrdm_same_def)
  with 1 2 show ?case by (auto intro: clkdm_frame_trans pwrdm_same_trans)
qed simp

lemma clkdm_same_refl [simp]: "clkdm_same s s"
  by (simp add: clkdm_same_def)

lemma clkdm_same_trans:
  assumes "clkdm_same s t" "clkdm_same t u"
  shows "clkdm_same s u"
proof -
  have "clkdms u c = clkdms s c\<lparr>clkdm_pwrdm := clkdm_pwrdm (clkdms u c)\<rparr>" for c
    using assms unfolding clkdm_same_def by (metis (no_types) clockdomain.surjective clockdomain.update_convs(3))
  moreover have "pwrdm_same s u" using assms pwrdm_same_trans by (auto simp: clkdm_same_def)
  ultimately show ?thesis using assms by (simp add: clkdm_same_def)
qed

lemma clkdm_lookup_None:
  "clkdm_lookup (Some n) s = None \<longleftrightarrow> n \<notin> (\<lambda>p. clkdm_name (clkdms s p)) ` set (clkdm_list s)"
  by (auto simp: clkdm_lookup_def find_None_iff)

lemma clkdm_same_add:
  "clkdm_same s (snd (pwrdm_add_clkdm pp cc (clkdm_upd c (\<lambda>d. d\<lparr>clkdm_pwrdm := p\<rparr>) s\<lparr>clkdm_list := l\<rparr>)))"
  "clkdm_same s (clkdm_upd c (\<lambda>d. d\<lparr>clkdm_pwrdm := p\<rparr>) s)"
  by (auto simp: clkdm_same_def pwrdm_add_clkdm_def clkdm_upd_def pwrdm_upd_def pwrdm_same_def Let_def
      split: option.splits)

lemma clkdm_register_shape:
  assumes "clkdm_bound s"
  shows "clkdm_same s (snd (clkdm_register (Some c) s))
    \<and> clkdm_list (snd (clkdm_register (Some c) s)) =
       (if clkdm_ok s c \<and> clkdm_name (clkdms s c) \<notin> (\<lambda>d. clkdm_name (clkdms s d)) ` set (clkdm_list s)
        then c # clkdm_list s else clkdm_list s)
    \<and> clkdm_bound (snd (clkdm_register (Some c) s))"
proof (cases "clkdm_ok s c")
  case False
  then have "\<not> clkdm_chip_ok (clkdms s c) \<or> pwrdm_lookup (clkdm_pwrdm_name (clkdms s c)) s = None"
    by (simp add: pwrdm_lookup_None)
  then have "snd (clkdm_register (Some c) s) = s" by (auto simp: clkdm_register_def)
  then show ?thesis using assms False by auto
next
  case True
  then have "pwrdm_lookup (clkdm_pwrdm_name (clkdms s c)) s \<noteq> None"
    by (simp only: pwrdm_lookup_None) blast
  then obtain p where p: "pwrdm_lookup (clkdm_pwrdm_name (clkdms s c)) s = Some p" by blast
  define s1 where "s1 = clkdm_upd c (\<lambda>d. d\<lparr>clkdm_pwrdm := Some p\<rparr>) s"
  have s1: "clkdm_list s1 = clkdm_list s" "clkdm_name (clkdms s1 d) = clkdm_name (clkdms s d)" for d
    by (simp_all add: s1_def clkdm_upd_def)
  have b: "clkdm_pwrdm (clkdms s1 d) \<noteq> None" if "d \<in> set (clkdm_list s) \<or> d = c" for d
    using that assms by (auto simp: s1_def clkdm_upd_def clkdm_bound_def)
  show ?thesis
  proof (cases "clkdm_lookup (Some (clkdm_name (clkdms s1 c))) s1")
    case None
    then have "snd (clkdm_register (Some c) s) =
       snd (pwrdm_add_clkdm (Some p) (Some c) (s1\<lparr>clkdm_list := c # clkdm_list s1\<rparr>))"
      using True p by (simp add: clkdm_register_def s1_def [symmetric])
    moreover have "clkdm_name (clkdms s c) \<notin> (\<lambda>d. clkdm_name (clkdms s d)) ` set (clkdm_list s)"
      using None by (simp add: clkdm_lookup_None s1)
    ultimately show ?thesis
      using True b clkdm_same_add(1) [where s = s and pp = "Some p" and cc = "Some c" and c = c and p = "Some p" and l = "c # clkdm_list s"]
      by (simp add: frame_simps clkdm_bound_def s1 s1_def [symmetric])
  next
    case (Some d)
    then have "snd (clkdm_register (Some c) s) = s1"
      using True p by (simp add: clkdm_register_def s1_def [symmetric])
    moreover have "clkdm_name (clkdms s c) \<in> (\<lambda>d. clkdm_name (clkdms s d)) ` set (clkdm_list s)"
      using Some clkdm_lookup_None [of "clkdm_name (clkdms s c)" s1] by (auto simp: s1)
    ultimately show ?thesis using b clkdm_same_add(2) [where s = s and c = c and p = "Some p"] by (simp add: clkdm_bound_def s1 s1_def [symmetric])
  qed
qed

lemma clkdm_same_fields:
  assumes "clkdm_same s t"
  shows "clkdm_name (clkdms t c) = clkdm_name (clkdms s c)" "clkdm_chip_ok (clkdms t c) = clkdm_chip_ok (clkdms s c)"
    "clkdm_pwrdm_name (clkdms t c) = clkdm_pwrdm_name (clkdms s c)" "wkdep_srcs (clkdms t c) = wkdep_srcs (clkdms s c)"
    "clkdm_static (clkdms t c) = clkdm_static (clkdms s c)" "clkdm_usecount (clkdms t c) = clkdm_usecount (clkdms s c)"
    "clkstctrl_addr c t = clkstctrl_addr c s"
proof -
  have "clkdms t c = clkdms s c\<lparr>clkdm_pwrdm := clkdm_pwrdm (clkdms t c)\<rparr>" "cm_base t = cm_base s"
    using assms by (auto simp: clkdm_same_def)
  then obtain p where "clkdms t c = clkdms s c\<lparr>clkdm_pwrdm := p\<rparr>" "cm_base t = cm_base s" by blast
  then show "clkdm_name (clkdms t c) = clkdm_name (clkdms s c)" "clkdm_chip_ok (clkdms t c) = clkdm_chip_ok (clkdms s c)"
    "clkdm_pwrdm_name (clkdms t c) = clkdm_pwrdm_name (clkdms s c)" "wkdep_srcs (clkdms t c) = wkdep_srcs (clkdms s c)"
    "clkdm_static (clkdms t c) = clkdm_static (clkdms s c)" "clkdm_usecount (clkdms t c) = clkdm_usecount (clkdms s c)"
    "clkstctrl_addr c t = clkstctrl_addr c s"
    by (simp_all add: clkdm_static_def clkstctrl_addr_def)
qed

lemma clkdm_same_ok: "clkdm_same s t \<Longrightarrow> clkdm_ok t c = clkdm_ok s c"
  by (simp add: clkdm_same_fields) (simp add: clkdm_same_def pwrdm_same_def)

lemma clkdm_register_all_shape:
  "clkdm_bound s \<Longrightarrow>
   clkdm_same s (clkdm_register_all cs s) \<and> clkdm_bound (clkdm_register_all cs s)
   \<and> clkdm_list (clkdm_register_all cs s) = reg_list (\<lambda>c. clkdm_name (clkdms s c)) (clkdm_ok s) cs (clkdm_list s)"
proof (induction cs arbitrary: s)
  case (Cons c cs)
  define s1 where "s1 = snd (clkdm_register (Some c) s)"
  have 1: "clkdm_same s s1" "clkdm_bound s1" "clkdm_list s1 =
       (if clkdm_ok s c \<and> clkdm_name (clkdms s c) \<notin> (\<lambda>d. clkdm_name (clkdms s d)) ` set (clkdm_list s)
        then c # clkdm_list s else clkdm_list s)"
    using clkdm_register_shape [OF Cons.prems, of c] by (simp_all add: s1_def)
  have eq: "(\<lambda>c. clkdm_name (clkdms s1 c)) = (\<lambda>c. clkdm_name (clkdms s c))" "clkdm_ok s1 = clkdm_ok s"
    using clkdm_same_fields(1) [OF 1(1)] clkdm_same_ok [OF 1(1)] by auto
  show ?case
    using Cons.IH [OF 1(2)] 1 clkdm_same_trans [OF 1(1)] unfolding eq
    by (simp add: s1_def [symmetric])
qed simp

lemma clear_all_wkdeps_id:
  assumes "wkdep_srcs (clkdms s c) = None" "clkdm_pwrdm (clkdms s c) = Some p"
  shows "clkdm_clear_all_wkdeps (Some c) s = Some (0, s)"
  using assms by (simp add: clkdm_clear_all_wkdeps_def omap2_prm_clear_mod_reg_bits_def omap2_prm_rmw_mod_reg_bits_def
      omap2_prm_read_mod_reg_def omap2_prm_write_mod_reg_def raw_readl_def raw_writel_def)

lemma clkdm_init_one_eq:
  assumes "clkdm_static (clkdms s c)" "wkdep_srcs (clkdms s c) = None" "clkdm_pwrdm (clkdms s c) \<noteq> None"
  shows "clkdm_init_one c s = Some (ti81xx_write_clktrctrl CLKSTCTRL_FORCE_WAKEUP (cm_inst (clkdms s c))
     (clkdm_offs (clkdms s c)) (ucast (clktrctrl_mask (clkdms s c))) s)"
proof -
  obtain p where "clkdm_pwrdm (clkdms s c) = Some p" using assms(3) by blast
  then show ?thesis using assms(1,2)
    by (simp add: clkdm_init_one_def clkdm_static_def omap2_clkdm_wakeup_def ti81xx_cm_clkdm_force_wakeup_def
        clear_all_wkdeps_id frame_simps)
qed

text \<open>The operations of the domain layer do not touch what extends its state.\<close>

lemma more_frame [frame_simps]:
  fixes s :: "'a pm_world_scheme"
  shows "pm_world.more (raw_writel v a s) = pm_world.more s" "pm_world.more (delay1 s) = pm_world.more s"
    "pm_world.more (clkdm_upd c f s) = pm_world.more s" "pm_world.more (pwrdm_upd p g s) = pm_world.more s"
  by (simp_all add: raw_writel_def delay1_def clkdm_upd_def pwrdm_upd_def)

lemma more_delays [frame_simps]: "pm_world.more (delays k (s :: 'a pm_world_scheme)) = pm_world.more s"
  by (induction k arbitrary: s) (auto simp: frame_simps)

lemma more_timeout [frame_simps]:
  "pm_world.more (snd (omap_test_timeout cond n (s :: 'a pm_world_scheme))) = pm_world.more s"
  by (simp add: omap_test_timeout_delays frame_simps)

lemma more_wait [frame_simps]: "pm_world.more (snd (pwrdm_wait_transition pp s)) = pm_world.more s"
proof (cases pp)
  case (Some p)
  then show ?thesis
    using pwrdm_transition_loop_delays [of PWRDM_TRANSITION_BAILOUT p s]
    by (auto simp: pwrdm_wait_transition_def ti81xx_pwrdm_wait_transition_def frame_simps)
qed (simp add: pwrdm_wait_transition_def)

lemma pm_step_refl [simp]: "pm_step s s"
  by (simp add: pm_step_def)

lemma pm_step_trans: "pm_step s t \<Longrightarrow> pm_step t u \<Longrightarrow> pm_step s u"
  by (simp add: pm_step_def)

lemma pm_step_basic [simp]:
  "pm_step s (raw_writel v a s)" "pm_step s (delay1 s)" "pm_step s (delays k s)" "pm_step s (snd (omap_test_timeout cond n s))"
  "pm_step s (clkdm_upd c (\<lambda>d. d\<lparr>clkdm_usecount := n'\<rparr>) s)"
  by (simp_all add: pm_step_def frame_simps omap_test_timeout_delays) (simp_all add: raw_writel_def delay1_def clkdm_upd_def)

lemma pm_step_wait [simp]: "pm_step s (snd (pwrdm_wait_transition pp s))"
  using clkdm_frame_wait [of s pp] pwrdm_wait_pwrdms [of pp s] by (simp add: pm_step_def frame_simps clkdm_frame_def)

lemma pm_step_cm_write [simp]: "pm_step s (ti81xx_write_clktrctrl v module idx m s)"
  by (simp add: ti81xx_write_clktrctrl_def omap2_cm_write_mod_reg_def)

lemma pm_step_wakeup [simp]: "pm_step s (snd (omap2_clkdm_wakeup cc s))" "pm_step s (snd (omap2_clkdm_sleep cc s))"
  by (auto simp: omap2_clkdm_wakeup_def omap2_clkdm_sleep_def ti81xx_cm_clkdm_force_wakeup_def ti81xx_cm_clkdm_force_sleep_def
      split: option.splits)

lemma pm_step_state_switch:
  assumes "\<forall>p. clkdm_pwrdm (clkdms s c) = Some p \<longrightarrow> pwrdm_wf (pwrdms s p)"
  obtains r t where "pwrdm_clkdm_state_switch (Some c) s = Some (r, t)" "pm_step s t"
proof (cases "clkdm_pwrdm (clkdms s c)")
  case None
  then show thesis using that by (simp add: pwrdm_clkdm_state_switch_def)
next
  case (Some p)
  define u where "u = snd (pwrdm_wait_transition (Some p) s)"
  have u: "pm_step s u" by (simp add: u_def)
  then have wf: "pwrdm_wf (pwrdms u p)" using assms Some by (simp add: pm_step_def)
  define t where "t = snd (the (pwrdm_state_switch (Some p) u))"
  have t: "pwrdm_state_switch (Some p) u = Some (0, t)" "pm_step u t"
    using wf ti81xx_pwrdm_read_pwrst_range [of p u]
    by (auto simp: t_def pwrdm_state_switch_eq Let_def pm_step_def pwrdm_wf_def)
  then have "pwrdm_clkdm_state_switch (Some c) s = Some (0, t)" using Some by (simp add: pwrdm_clkdm_state_switch_def u_def)
  then show thesis using that u t(2) by (meson pm_step_trans)
qed

lemma pm_step_clkdm_enable:
  assumes "\<forall>p. clkdm_pwrdm (clkdms s d) = Some p \<longrightarrow> pwrdm_wf (pwrdms s p)"
  obtains t where "omap2_clkdm_clk_enable (Some d) s = Some (0, t)" "pm_step s t"
proof -
  define s1 where "s1 = clkdm_upd d (\<lambda>k. k\<lparr>clkdm_usecount := atomic_add_return 1 (clkdm_usecount (clkdms s d))\<rparr>) s"
  have e: "clkdm_upd d (\<lambda>k. k\<lparr>clkdm_usecount := atomic_add_return 1 (clkdm_usecount k)\<rparr>) s = s1" by (simp add: s1_def clkdm_upd_def)
  define s2 where "s2 = snd (omap2_clkdm_wakeup (Some d) s1)"
  define s3 where "s3 = snd (pwrdm_wait_transition (clkdm_pwrdm (clkdms s2 d)) s2)"
  have 1: "pm_step s s1" by (simp add: s1_def)
  have 3: "pm_step s s3" using 1 pm_step_wakeup(1) [of s1 "Some d"] pm_step_wait [of s2]
    unfolding s3_def s2_def by (meson pm_step_trans)
  then have "\<forall>p. clkdm_pwrdm (clkdms s3 d) = Some p \<longrightarrow> pwrdm_wf (pwrdms s3 p)" using assms by (simp add: pm_step_def)
  from pm_step_state_switch [OF this] obtain r t where "pwrdm_clkdm_state_switch (Some d) s3 = Some (r, t)" "pm_step s3 t" .
  then have "omap2_clkdm_clk_enable (Some d) s = Some (0, if 1 < clkdm_usecount (clkdms s1 d) then s1 else t)" "pm_step s t"
    using 3 pm_step_trans by (auto simp: omap2_clkdm_clk_enable_def e Let_def s2_def s3_def)
  then show thesis using that 1 by (metis (full_types))
qed

lemma pm_step_clkdm_disable:
  assumes "\<forall>p. clkdm_pwrdm (clkdms s d) = Some p \<longrightarrow> pwrdm_wf (pwrdms s p)"
  obtains t where "omap2_clkdm_clk_disable (Some d) s = Some (0, t)" "pm_step s t"
proof -
  define s1 where "s1 = clkdm_upd d (\<lambda>k. k\<lparr>clkdm_usecount := atomic_add_return (- 1) (clkdm_usecount (clkdms s d))\<rparr>) s"
  have e: "clkdm_upd d (\<lambda>k. k\<lparr>clkdm_usecount := atomic_add_return (- 1) (clkdm_usecount k)\<rparr>) s = s1" by (simp add: s1_def clkdm_upd_def)
  define s2 where "s2 = snd (omap2_clkdm_sleep (Some d) s1)"
  have 1: "pm_step s s1" by (simp add: s1_def)
  have 2: "pm_step s s2" using 1 pm_step_wakeup(2) [of s1 "Some d"] unfolding s2_def by (meson pm_step_trans)
  then have "\<forall>p. clkdm_pwrdm (clkdms s2 d) = Some p \<longrightarrow> pwrdm_wf (pwrdms s2 p)" using assms by (simp add: pm_step_def)
  from pm_step_state_switch [OF this] obtain r t where "pwrdm_clkdm_state_switch (Some d) s2 = Some (r, t)" "pm_step s2 t" .
  then have "omap2_clkdm_clk_disable (Some d) s = Some (0, if 0 < clkdm_usecount (clkdms s1 d) then s1 else t)" "pm_step s t"
    using 2 pm_step_trans by (auto simp: omap2_clkdm_clk_disable_def e Let_def s2_def)
  then show thesis using that 1 by (metis (full_types))
qed

lemma pm_step_prm [simp]:
  "pm_step s (snd (omap2_prm_rmw_mod_reg_bits m bits module idx s))"
  "pm_step s (snd (omap2_prm_clear_mod_reg_bits bits module idx s))" "pm_step s (snd (omap2_prm_set_mod_reg_bits bits module idx s))"
  by (simp_all add: omap2_prm_clear_mod_reg_bits_def omap2_prm_set_mod_reg_bits_def omap2_prm_rmw_mod_reg_bits_def
      omap2_prm_write_mod_reg_def Let_def)

lemma pwrdm_register_bound:
  assumes "pwrdm_register (Some p) s = Some (r, t)" "bound_wf s"
  shows "bound_wf t \<and> pm_world.more t = pm_world.more s"
proof (cases "pwrdm_chip_ok (pwrdms s p) \<and> pwrdm_lookup (pwrdm_name (pwrdms s p)) s = None")
  case False
  then have "t = s" using assms(1) by (cases "pwrdm_chip_ok (pwrdms s p)") (simp_all add: pwrdm_register_def)
  then show ?thesis using assms(2) by simp
next
  case True
  define s1 where "s1 = pwrdm_upd p pwrdm_reset_counters (s\<lparr>pwrdm_list := p # pwrdm_list s\<rparr>)"
  define s2 where "s2 = snd (pwrdm_wait_transition (Some p) s1)"
  define st where "st = pwrdm_read_pwrst (Some p) s2"
  have st: "0 \<le> st" "st < 4"
    using ti81xx_pwrdm_read_pwrst_range [of p s2] by (simp_all add: st_def pwrdm_read_pwrst_def)
  have st': "nat st < PWRDM_MAX_PWRSTS" using st by simp
  have t: "t = pwrdm_upd p (\<lambda>d. d\<lparr>state_counter := (state_counter d)[nat st := 1]\<rparr>) (pwrdm_upd p (\<lambda>d. d\<lparr>pwrdm_state := st\<rparr>) s2)"
    using assms(1) True st(1) st' unfolding st_def s2_def s1_def pwrdm_register_def Let_def by simp
  have s2: "pwrdms s2 = pwrdms s1" "pwrdm_list s2 = pwrdm_list s1" by (simp_all add: s2_def pwrdm_wait_pwrdms)
  have fr: "clkdm_frame s1 s2" "pm_world.more s2 = pm_world.more s1" unfolding s2_def by (rule clkdm_frame_wait, simp add: frame_simps)
  have "clkdms t = clkdms s" "clkdm_list t = clkdm_list s" "pwrdm_list t = p # pwrdm_list s"
    "pwrdms t q = (if q = p then (pwrdms s1 p)\<lparr>pwrdm_state := st, state_counter := (state_counter (pwrdms s1 p))[nat st := 1]\<rparr> else pwrdms s q)"
    "pm_world.more t = pm_world.more s" for q
    using fr s2 by (simp_all add: t pwrdm_upd_def s1_def clkdm_frame_def)
  then show ?thesis using assms(2) st by (auto simp: bound_wf_def pwrdm_wf_def s1_def pwrdm_upd_def pwrdm_reset_counters_def)
qed

lemma pwrdm_init_bound:
  "pwrdm_init ps s = Some t \<Longrightarrow> bound_wf s \<Longrightarrow> bound_wf t \<and> pm_world.more t = pm_world.more s"
proof (induction ps arbitrary: s)
  case (Cons p ps)
  then obtain r s1 where s1: "pwrdm_register (Some p) s = Some (r, s1)" "pwrdm_init ps s1 = Some t"
    by (auto split: bind_splits)
  then show ?case using Cons.IH [OF s1(2)] pwrdm_register_bound [OF s1(1) Cons.prems(2)] by simp
qed simp

lemma clkdm_register_bound:
  assumes "bound_wf s"
  shows "bound_wf (snd (clkdm_register (Some c) s)) \<and> pm_world.more (snd (clkdm_register (Some c) s)) = pm_world.more s"
proof -
  have "p \<in> set (pwrdm_list s)" if "pwrdm_lookup n s = Some p" for n p
    using that find_SomeD by (fastforce simp: pwrdm_lookup_def)
  then show ?thesis
    using assms by (auto simp: clkdm_register_def bound_wf_def clkdm_upd_def pwrdm_upd_def pwrdm_add_clkdm_def pwrdm_wf_def Let_def
        split: option.splits)
qed

lemma clkdm_register_all_bound:
  "bound_wf s \<Longrightarrow> bound_wf (clkdm_register_all cs s) \<and> pm_world.more (clkdm_register_all cs s) = pm_world.more s"
  by (induction cs arbitrary: s) (auto simp: clkdm_register_bound)

lemma clkdm_init_each_bound:
  assumes "\<forall>c \<in> set cs. clkdm_static (clkdms s c) \<and> wkdep_srcs (clkdms s c) = None \<and> clkdm_pwrdm (clkdms s c) \<noteq> None"
    "clkdm_init_each cs s = Some t" "bound_wf s"
  shows "bound_wf t \<and> pm_world.more t = pm_world.more s"
  using assms
proof (induction cs arbitrary: s)
  case (Cons c cs)
  define s1 where "s1 = ti81xx_write_clktrctrl CLKSTCTRL_FORCE_WAKEUP (cm_inst (clkdms s c)) (clkdm_offs (clkdms s c))
     (ucast (clktrctrl_mask (clkdms s c))) s"
  have "clkdm_init_one c s = Some s1" using Cons.prems(1) clkdm_init_one_eq [of s c] by (simp add: s1_def)
  then have t: "clkdm_init_each cs s1 = Some t" using Cons.prems(2) by simp
  have s1: "clkdms s1 = clkdms s" "bound_wf s1" "pm_world.more s1 = pm_world.more s"
    using Cons.prems(3) by (simp_all add: s1_def bound_wf_def ti81xx_write_clktrctrl_def omap2_cm_write_mod_reg_def raw_writel_def)
  then show ?case using Cons.IH [OF _ t] Cons.prems(1) by simp
qed simp

end
