(* ===== verification/Clock_Tree.thy ===== *)
theory Clock_Tree
  imports Power_Domains
begin

unbundle bit_operations_syntax

text \<open>
  The data model of the clock framework (\<^verbatim>\<open>plat/clock.h\<close>) and the operations of
  \<^verbatim>\<open>plat-omap/clock.c\<close> that keep the tree: registration, reparenting, lookup,
  the rate of a clock from its parent, and the propagation of rates to the children.

  Clocks and DPLLs are named by numbers and live in the stores \<open>clks\<close> and
  \<open>dplls\<close>; the function pointers of a \<^verbatim>\<open>struct clk\<close> are values of
  datatypes with one constructor for each function the DM814x clock data uses. The list
  heads are the lists of the clocks linked through them.
\<close>

section \<open>Data\<close>

type_synonym clk_id = nat
type_synonym dpll_id = nat

datatype clkops = Clkops_null | Clkops_omap2_dflt | Clkops_ti81xx_dflt_wait
  | Clkops_ti81xx_pcie | Clkops_ti81xx_usb | Clkops_ti814x_dpll

datatype recalc_fn = Followparent_recalc | Omap_fixed_divisor_recalc | Omap2_clksel_recalc
  | Ti814x_dpll_recalc | Ti814x_dpll_dco_recalc

datatype set_rate_fn = Omap2_clksel_set_rate | Ti814x_clksel_set_rate | Ti814x_dpll_set_rate

datatype round_rate_fn = Omap2_clksel_round_rate | Ti814x_dpll_round_rate

datatype init_fn = Omap2_init_clksel_parent | Ti814x_init_dpll_parent

record clksel_rate =
  cr_val :: u32
  cr_div :: u8
  cr_flags :: u16

record clksel =
  cs_parent :: clk_id
  cs_rates :: "clksel_rate list"

text \<open>
  The zero-terminated arrays \<^verbatim>\<open>clksel\<close> and \<^verbatim>\<open>rates\<close> are lists without
  the terminator. Of \<^verbatim>\<open>struct dpll_data\<close> and \<^verbatim>\<open>struct clk\<close> the fields that
  the TI814x code reads or writes are kept.
\<close>

record dpll_data =
  mult_div1_reg :: u32
  mult_mask :: u32
  clk_bypass :: clk_id
  clk_ref :: clk_id
  control_reg :: u32
  enable_mask :: u32
  last_rounded_rate :: u32
  last_rounded_m :: u16
  max_multiplier :: u16
  last_rounded_n :: u8
  min_divider :: u8
  max_divider :: u8
  modes :: u8
  idlest_reg :: u32
  idlest_mask :: u32
  dco_mask :: u32
  sddiv_mask :: u32
  dd_flags :: u8
  dd_dpll_id :: u8
  div_m2n_reg :: u32
  div_m2_mask :: u32
  div_n_mask :: u32
  pre_div_n :: u8
  post_div_m2 :: u8
  frac_mult_reg :: u32
  frac_mult_mask :: u32
  last_rounded_frac_m :: u32
  last_rounded_m2 :: u8
  bypass_bit :: u32
  stby_ret_bit :: u8
  stop_mode_bit :: u8
  load_mn_reg :: u32
  load_m2n2_reg :: u32
  dco_freq_sel :: u8

record clk =
  clk_node :: bool
  clk_ops :: clkops
  clk_name :: string
  clk_parent :: "clk_id option"
  clk_children :: "clk_id list"
  clk_rate :: u32
  clk_enable_reg :: u32
  clk_recalc_fn :: "recalc_fn option"
  clk_set_rate_fn :: "set_rate_fn option"
  clk_round_rate_fn :: "round_rate_fn option"
  clk_init_fn :: "init_fn option"
  clk_enable_bit :: u8
  clk_usecount :: u8
  clk_fixed_div :: u8
  clk_flags :: u8
  clk_clksel_reg :: u32
  clk_clksel_mask :: u32
  clk_clksel :: "clksel list option"
  clk_dpll_data :: "dpll_id option"
  clk_clkdm_name :: "string option"
  clk_clkdm :: "nat option"

record kstate = pm_world +
  clks :: "clk_id \<Rightarrow> clk"
  dplls :: "dpll_id \<Rightarrow> dpll_data"
  clocks :: "clk_id list"
  root_clks :: "clk_id list"
  cpu_mask :: u8
  es1_0 :: bool

abbreviation (input) ENABLE_ON_INIT :: u8 where "ENABLE_ON_INIT \<equiv> 8"
abbreviation (input) INVERT_ENABLE :: u8 where "INVERT_ENABLE \<equiv> 16"

text \<open>\<^verbatim>\<open>usecount\<close> is an \<^verbatim>\<open>s8\<close>; it is read as a signed number.\<close>

abbreviation usecount :: "clk_id \<Rightarrow> 'a kstate_scheme \<Rightarrow> int" where
  "usecount c s \<equiv> sint (clk_usecount (clks s c))"

abbreviation rate_of :: "clk_id \<Rightarrow> 'a kstate_scheme \<Rightarrow> u32" where
  "rate_of c s \<equiv> clk_rate (clks s c)"

definition clk_upd :: "clk_id \<Rightarrow> (clk \<Rightarrow> clk) \<Rightarrow> 'a kstate_scheme \<Rightarrow> 'a kstate_scheme" where
  "clk_upd c f s = s\<lparr>clks := (clks s)(c := f (clks s c))\<rparr>"

definition dpll_upd :: "dpll_id \<Rightarrow> (dpll_data \<Rightarrow> dpll_data) \<Rightarrow> 'a kstate_scheme \<Rightarrow> 'a kstate_scheme" where
  "dpll_upd d f s = s\<lparr>dplls := (dplls s)(d := f (dplls s d))\<rparr>"

section \<open>Reading a rate from the parent\<close>

definition followparent_recalc :: "clk_id \<Rightarrow> 'a kstate_scheme \<Rightarrow> u32 option" where
  "followparent_recalc c s =
     (case clk_parent (clks s c) of None \<Rightarrow> None | Some p \<Rightarrow> Some (rate_of p s))"

definition omap_fixed_divisor_recalc :: "clk_id \<Rightarrow> 'a kstate_scheme \<Rightarrow> u32 option" where
  "omap_fixed_divisor_recalc c s =
     (case clk_parent (clks s c) of None \<Rightarrow> None
      | Some p \<Rightarrow> Some (udiv (rate_of p s) (ucast (clk_fixed_div (clks s c)))))"

text \<open>
  \<^verbatim>\<open>_get_clksel_by_parent\<close>, \<^verbatim>\<open>_clksel_to_divisor\<close>,
  \<^verbatim>\<open>_read_divisor\<close> and \<^verbatim>\<open>omap2_clksel_recalc\<close> of
  \<^verbatim>\<open>clkt_clksel.c\<close>: the register field of a selectable clock, looked up in the
  table of its present parent.
\<close>

definition get_clksel_by_parent :: "clk_id \<Rightarrow> clk_id option \<Rightarrow> 'a kstate_scheme \<Rightarrow> clksel option" where
  "get_clksel_by_parent c src s =
     (case clk_clksel (clks s c) of
        None \<Rightarrow> None
      | Some tab \<Rightarrow> find (\<lambda>cs. Some (cs_parent cs) = src) tab)"

definition rate_valid :: "'a kstate_scheme \<Rightarrow> clksel_rate \<Rightarrow> bool" where
  "rate_valid s r \<longleftrightarrow> cr_flags r AND ucast (cpu_mask s) \<noteq> 0"

definition clksel_to_divisor :: "clk_id \<Rightarrow> u32 \<Rightarrow> 'a kstate_scheme \<Rightarrow> u32" where
  "clksel_to_divisor c field_val s =
     (case get_clksel_by_parent c (clk_parent (clks s c)) s of
        None \<Rightarrow> 0
      | Some cs \<Rightarrow>
         (case find (\<lambda>r. rate_valid s r \<and> cr_val r = field_val) (cs_rates cs) of
            None \<Rightarrow> 0
          | Some r \<Rightarrow> ucast (cr_div r)))"

definition read_divisor :: "clk_id \<Rightarrow> 'a kstate_scheme \<Rightarrow> u32" where
  "read_divisor c s =
     (if clk_clksel (clks s c) = None \<or> clk_clksel_mask (clks s c) = 0 then 0
      else clksel_to_divisor c
             (field_get (clk_clksel_mask (clks s c)) (raw_readl (clk_clksel_reg (clks s c)) s)) s)"

definition omap2_clksel_recalc :: "clk_id \<Rightarrow> 'a kstate_scheme \<Rightarrow> u32 option" where
  "omap2_clksel_recalc c s =
     (let d = read_divisor c s in
      if d = 0 then Some (rate_of c s)
      else (case clk_parent (clks s c) of None \<Rightarrow> None
            | Some p \<Rightarrow> Some (udiv (rate_of p s) d)))"

text \<open>
  \<^verbatim>\<open>ti814x_get_dpll_rate\<close> of \<^verbatim>\<open>adpll_ti814x.c\<close>: the bypass clock's
  rate while the DPLL is bypassed or in retention, otherwise
  \<open>ref * (M + frac / 2 ^ 18) / ((N + 1) * M2)\<close> from the registers, with the source's
  32-bit and 64-bit steps.
\<close>

definition dpll_ratio :: "u32 \<Rightarrow> u32 \<Rightarrow> u32 \<Rightarrow> u32 \<Rightarrow> u32 \<Rightarrow> u32" where
  "dpll_ratio ref m frac_m n m2 =
     (let num = (ucast (push_bit 18 m + frac_m) :: u64);
          den = (ucast (push_bit 18 (n + 1) * m2) :: u64)
      in ucast (do_div (ucast ref * num) den))"

definition ti814x_get_dpll_rate :: "clk_id \<Rightarrow> 'a kstate_scheme \<Rightarrow> u32" where
  "ti814x_get_dpll_rate c s =
     (case clk_dpll_data (clks s c) of
        None \<Rightarrow> 0
      | Some d \<Rightarrow>
          let dd = dplls s d; ctrl = raw_readl (control_reg dd) s;
              v = (ctrl AND BIT (bypass_bit dd)) OR (ctrl AND BIT (stby_ret_bit dd))
          in if v \<noteq> 0 then rate_of (clk_bypass dd) s
             else
               let m = field_get (mult_mask dd) (raw_readl (mult_div1_reg dd) s);
                   frac_m = field_get (frac_mult_mask dd) (raw_readl (frac_mult_reg dd) s);
                   n = field_get (div_n_mask dd) (raw_readl (div_m2n_reg dd) s);
                   m2 = field_get (div_m2_mask dd) (raw_readl (div_m2n_reg dd) s)
               in dpll_ratio (rate_of (clk_ref dd) s) m frac_m n m2)"

definition ti814x_dpll_recalc :: "clk_id \<Rightarrow> 'a kstate_scheme \<Rightarrow> u32" where
  "ti814x_dpll_recalc c s = ti814x_get_dpll_rate c s"

text \<open>
  On parts later than ES1.0 the DCO output is the \<^verbatim>\<open>CLKOUT\<close> rate times M2,
  which passes through a \<^verbatim>\<open>u8\<close>. The function dereferences
  \<^verbatim>\<open>dpll_data\<close> without a test.
\<close>

definition ti814x_dpll_dco_recalc :: "clk_id \<Rightarrow> 'a kstate_scheme \<Rightarrow> u32 option" where
  "ti814x_dpll_dco_recalc c s =
     (if es1_0 s then Some (ti814x_get_dpll_rate c s)
      else (case clk_dpll_data (clks s c) of
              None \<Rightarrow> None
            | Some d \<Rightarrow>
                let dd = dplls s d;
                    m2a = (ucast (raw_readl (div_m2n_reg dd) s AND div_m2_mask dd) :: u8);
                    m2 = drop_bit (ffs (div_m2_mask dd)) m2a
                in Some (ti814x_get_dpll_rate c s * ucast m2)))"

text \<open>The call through \<^verbatim>\<open>clk->recalc\<close>.\<close>

fun run_recalc :: "recalc_fn \<Rightarrow> clk_id \<Rightarrow> 'a kstate_scheme \<Rightarrow> u32 option" where
  "run_recalc Followparent_recalc c s = followparent_recalc c s"
| "run_recalc Omap_fixed_divisor_recalc c s = omap_fixed_divisor_recalc c s"
| "run_recalc Omap2_clksel_recalc c s = omap2_clksel_recalc c s"
| "run_recalc Ti814x_dpll_recalc c s = Some (ti814x_dpll_recalc c s)"
| "run_recalc Ti814x_dpll_dco_recalc c s = ti814x_dpll_dco_recalc c s"

text \<open>\<^verbatim>\<open>if (clk->recalc) clk->rate = clk->recalc(clk)\<close>\<close>

definition recalc1 :: "clk_id \<Rightarrow> 'a kstate_scheme \<Rightarrow> 'a kstate_scheme option" where
  "recalc1 c s =
     (case clk_recalc_fn (clks s c) of
        None \<Rightarrow> Some s
      | Some f \<Rightarrow> (case run_recalc f c s of
                    None \<Rightarrow> None
                  | Some r \<Rightarrow> Some (clk_upd c (\<lambda>k. k\<lparr>clk_rate := r\<rparr>) s)))"

section \<open>Propagation of rates\<close>

text \<open>
  The body of the loop of \<^verbatim>\<open>propagate_rate\<close>, run over a list of clocks: each is
  recalculated, then its own children are propagated to, then the loop goes on. The
  recursion of the source is kept, so a cyclic tree is an execution that does not return.
\<close>

partial_function (option) propagate_list ::
  "clk_id list \<Rightarrow> 'a kstate_scheme \<Rightarrow> 'a kstate_scheme option" where
  "propagate_list cs s =
     (case cs of
        [] \<Rightarrow> Some s
      | c # cs' \<Rightarrow>
          do {
            s1 \<leftarrow> recalc1 c s;
            s2 \<leftarrow> propagate_list (clk_children (clks s1 c)) s1;
            propagate_list cs' s2
          })"

definition propagate_rate :: "clk_id \<Rightarrow> 'a kstate_scheme \<Rightarrow> 'a kstate_scheme option" where
  "propagate_rate c s = propagate_list (clk_children (clks s c)) s"

definition recalculate_root_clocks :: "'a kstate_scheme \<Rightarrow> 'a kstate_scheme option" where
  "recalculate_root_clocks s = propagate_list (root_clks s) s"

section \<open>The shape of the tree\<close>

text \<open>
  \<^verbatim>\<open>list_del_init(&child->sibling)\<close> unlinks the child from whichever list it is
  on: its parent's children or the root list.
\<close>

definition clk_unlink :: "clk_id \<Rightarrow> 'a kstate_scheme \<Rightarrow> 'a kstate_scheme" where
  "clk_unlink c s =
     s\<lparr>clks := (\<lambda>x. (clks s x)\<lparr>clk_children := removeAll c (clk_children (clks s x))\<rparr>),
       root_clks := removeAll c (root_clks s)\<rparr>"

definition clk_reparent :: "clk_id \<Rightarrow> clk_id option \<Rightarrow> 'a kstate_scheme \<Rightarrow> 'a kstate_scheme" where
  "clk_reparent child parent s =
     (let s1 = clk_unlink child s;
          s2 = (case parent of None \<Rightarrow> s1
                | Some p \<Rightarrow> clk_upd p (\<lambda>k. k\<lparr>clk_children := child # clk_children k\<rparr>) s1)
      in clk_upd child (\<lambda>k. k\<lparr>clk_parent := parent\<rparr>) s2)"

definition clk_preinit :: "clk_id \<Rightarrow> 'a kstate_scheme \<Rightarrow> 'a kstate_scheme" where
  "clk_preinit c s = clk_upd c (\<lambda>k. k\<lparr>clk_children := []\<rparr>) s"

text \<open>
  The two initialisation functions that a \<^verbatim>\<open>clk->init\<close> of the DM814x data can
  be: the parent is read back from the hardware.
\<close>

definition omap2_init_clksel_parent :: "clk_id \<Rightarrow> 'a kstate_scheme \<Rightarrow> 'a kstate_scheme" where
  "omap2_init_clksel_parent c s =
     (case clk_clksel (clks s c) of
        None \<Rightarrow> s
      | Some tab \<Rightarrow>
          if clk_clksel_mask (clks s c) = 0 then s
          else
            let r = field_get (clk_clksel_mask (clks s c)) (raw_readl (clk_clksel_reg (clks s c)) s)
            in (case find (\<lambda>cs. \<exists>x \<in> set (cs_rates cs). rate_valid s x \<and> cr_val x = r) tab of
                  None \<Rightarrow> s
                | Some cs \<Rightarrow> if clk_parent (clks s c) \<noteq> Some (cs_parent cs)
                             then clk_reparent c (Some (cs_parent cs)) s else s))"

definition ti814x_init_dpll_parent :: "clk_id \<Rightarrow> 'a kstate_scheme \<Rightarrow> 'a kstate_scheme" where
  "ti814x_init_dpll_parent c s =
     (case clk_dpll_data (clks s c) of
        None \<Rightarrow> s
      | Some d \<Rightarrow>
          let dd = dplls s d;
              v = drop_bit (unat (bypass_bit dd)) (raw_readl (control_reg dd) s AND BIT (bypass_bit dd))
          in if v = 1 then clk_reparent c (Some (clk_bypass dd)) s else s)"

fun run_init :: "init_fn \<Rightarrow> clk_id \<Rightarrow> 'a kstate_scheme \<Rightarrow> 'a kstate_scheme" where
  "run_init Omap2_init_clksel_parent c s = omap2_init_clksel_parent c s"
| "run_init Ti814x_init_dpll_parent c s = ti814x_init_dpll_parent c s"

text \<open>
  \<open>clk_node\<close> is \<^verbatim>\<open>clk->node.next || clk->node.prev\<close>, the test for a
  clock that is already registered. \<^verbatim>\<open>list_del\<close> leaves the poison values in both
  pointers, which are not NULL, so that the flag stays set when a clock is unregistered.
\<close>

definition clk_link :: "clk_id \<Rightarrow> 'a kstate_scheme \<Rightarrow> 'a kstate_scheme" where
  "clk_link c s =
     (let s1 = (case clk_parent (clks s c) of
                  Some p \<Rightarrow> clk_upd p (\<lambda>k. k\<lparr>clk_children := c # clk_children k\<rparr>) s
                | None \<Rightarrow> s\<lparr>root_clks := c # root_clks s\<rparr>)
      in clk_upd c (\<lambda>k. k\<lparr>clk_node := True\<rparr>) (s1\<lparr>clocks := c # clocks s1\<rparr>))"

definition clk_register :: "clk_id option \<Rightarrow> 'a kstate_scheme \<Rightarrow> int \<times> 'a kstate_scheme" where
  "clk_register cc s =
     (case cc of None \<Rightarrow> (- EINVAL, s)
      | Some c \<Rightarrow>
          if clk_node (clks s c) then (0, s)
          else
            let s1 = clk_link c s
            in (0, case clk_init_fn (clks s1 c) of None \<Rightarrow> s1 | Some f \<Rightarrow> run_init f c s1))"

definition clk_unregister :: "clk_id option \<Rightarrow> 'a kstate_scheme \<Rightarrow> 'a kstate_scheme" where
  "clk_unregister cc s =
     (case cc of None \<Rightarrow> s
      | Some c \<Rightarrow> (clk_unlink c s)\<lparr>clocks := removeAll c (clocks s)\<rparr>)"

definition omap_clk_get_by_name :: "string \<Rightarrow> 'a kstate_scheme \<Rightarrow> clk_id option" where
  "omap_clk_get_by_name name s = find (\<lambda>c. clk_name (clks s c) = name) (clocks s)"

definition clk_get_rate :: "clk_id option \<Rightarrow> 'a kstate_scheme \<Rightarrow> u32" where
  "clk_get_rate cc s = (case cc of None \<Rightarrow> 0 | Some c \<Rightarrow> rate_of c s)"

definition omap2_init_clk_clkdm :: "clk_id \<Rightarrow> 'a kstate_scheme \<Rightarrow> 'a kstate_scheme" where
  "omap2_init_clk_clkdm c s =
     (case clk_clkdm_name (clks s c) of
        None \<Rightarrow> s
      | Some name \<Rightarrow>
         (case clkdm_lookup (Some name) s of
            None \<Rightarrow> s
          | Some d \<Rightarrow> clk_upd c (\<lambda>k. k\<lparr>clk_clkdm := Some d\<rparr>) s))"

section \<open>Specification\<close>

text \<open>The state with the rates \<open>r\<close> in place of those of \<open>s\<close>.\<close>

definition with_rates :: "'a kstate_scheme \<Rightarrow> (clk_id \<Rightarrow> u32) \<Rightarrow> 'a kstate_scheme" where
  "with_rates s r = s\<lparr>clks := \<lambda>x. (clks s x)\<lparr>clk_rate := r x\<rparr>\<rparr>"

abbreviation rates :: "'a kstate_scheme \<Rightarrow> clk_id \<Rightarrow> u32" where
  "rates s x \<equiv> rate_of x s"

definition child :: "'a kstate_scheme \<Rightarrow> clk_id \<Rightarrow> clk_id \<Rightarrow> bool" where
  "child s p x \<longleftrightarrow> x \<in> set (clk_children (clks s p))"

definition below :: "'a kstate_scheme \<Rightarrow> clk_id list \<Rightarrow> clk_id set" where
  "below s cs = {x. \<exists>c \<in> set cs. (child s)\<^sup>*\<^sup>* c x}"

text \<open>The clocks other than the parent whose rate the recalculation of a DPLL reads.\<close>

definition dpll_refs :: "'a kstate_scheme \<Rightarrow> clk_id \<Rightarrow> clk_id set" where
  "dpll_refs s x = (case clk_dpll_data (clks s x) of None \<Rightarrow> {}
     | Some d \<Rightarrow> {clk_bypass (dplls s d), clk_ref (dplls s d)})"

text \<open>The rate of \<open>x\<close> is what its recalculation gives.\<close>

definition coherent :: "'a kstate_scheme \<Rightarrow> clk_id \<Rightarrow> bool" where
  "coherent s x \<longleftrightarrow> (case clk_recalc_fn (clks s x) of None \<Rightarrow> True | Some f \<Rightarrow> run_recalc f x s = Some (rate_of x s))"

definition recalc_ok :: "'a kstate_scheme \<Rightarrow> clk_id \<Rightarrow> bool" where
  "recalc_ok s x \<longleftrightarrow> (case clk_recalc_fn (clks s x) of None \<Rightarrow> True | Some f \<Rightarrow> run_recalc f x s \<noteq> None)"

definition clk_acyclic :: "(clk_id \<Rightarrow> nat) \<Rightarrow> 'a kstate_scheme \<Rightarrow> bool" where
  "clk_acyclic h s \<longleftrightarrow> (\<forall>p x. child s p x \<longrightarrow> h x < h p)"

definition linked :: "'a kstate_scheme \<Rightarrow> clk_id \<Rightarrow> bool" where
  "linked s x \<longleftrightarrow> (\<forall>p. clk_parent (clks s x) = Some p \<longrightarrow> child s p x)"

text \<open>
  What the loop needs of the part \<open>D\<close> of the tree that it visits: no cycle, a
  recalculation that is defined, and DPLLs whose reference clocks are outside \<open>D\<close> or are
  their parents.
\<close>

definition propagable :: "(clk_id \<Rightarrow> nat) \<Rightarrow> 'a kstate_scheme \<Rightarrow> clk_id set \<Rightarrow> bool" where
  "propagable h s D \<longleftrightarrow> clk_acyclic h s \<and> D \<subseteq> set (clocks s)
     \<and> (\<forall>x \<in> set (clocks s). linked s x) \<and> (\<forall>x \<in> D. recalc_ok s x)
     \<and> (\<forall>x \<in> set (clocks s). \<forall>y \<in> dpll_refs s x. y \<in> D \<longrightarrow> clk_parent (clks s x) = Some y)"

text \<open>
  The links of the tree: a clock is on its parent's list of children, or on the list of
  roots, exactly when it is registered.
\<close>

definition clk_links :: "'a kstate_scheme \<Rightarrow> bool" where
  "clk_links s \<longleftrightarrow>
     (\<forall>x p. child s p x \<longleftrightarrow> x \<in> set (clocks s) \<and> clk_parent (clks s x) = Some p)
     \<and> (\<forall>x. x \<in> set (root_clks s) \<longleftrightarrow> x \<in> set (clocks s) \<and> clk_parent (clks s x) = None)
     \<and> (\<forall>x \<in> set (clocks s). clk_node (clks s x))"

text \<open>
  What registration keeps of the static data of the state \<open>s0\<close>: a clock changes at most
  its links, its parent among the candidates of its tables, and its clock domain.
\<close>

definition clk_static :: "clk \<Rightarrow> clk" where
  "clk_static k = k\<lparr>clk_node := False, clk_parent := None, clk_children := [], clk_clkdm := None\<rparr>"

definition same_static :: "'a kstate_scheme \<Rightarrow> 'a kstate_scheme \<Rightarrow> bool" where
  "same_static s0 s \<longleftrightarrow> (\<forall>x. clk_static (clks s x) = clk_static (clks s0 x))
     \<and> dplls s = dplls s0 \<and> regs s = regs s0 \<and> cpu_mask s = cpu_mask s0 \<and> es1_0 s = es1_0 s0"

definition parent_candidates :: "clk \<Rightarrow> (dpll_id \<Rightarrow> dpll_data) \<Rightarrow> clk_id list" where
  "parent_candidates k dd =
     (case clk_parent k of None \<Rightarrow> [] | Some p \<Rightarrow> [p])
     @ (case clk_clksel k of None \<Rightarrow> [] | Some tab \<Rightarrow> map cs_parent tab)
     @ (case clk_dpll_data k of None \<Rightarrow> [] | Some d \<Rightarrow> [clk_bypass (dd d)])"

definition boot_inv :: "'a kstate_scheme \<Rightarrow> 'a kstate_scheme \<Rightarrow> bool" where
  "boot_inv s0 s \<longleftrightarrow> same_static s0 s \<and> clk_links s
     \<and> (\<forall>x p. clk_parent (clks s x) = Some p \<longrightarrow> p \<in> set (parent_candidates (clks s0 x) (dplls s0)))
     \<and> (\<forall>x. clk_parent (clks s0 x) \<noteq> None \<longrightarrow> clk_parent (clks s x) \<noteq> None)"

text \<open>
  A well-formed tree: linked, every registered clock's parent registered before it, every
  recalculation defined, and no DPLL fed by a clock other than its parent.
\<close>

definition clk_wf :: "'a kstate_scheme \<Rightarrow> clk_id \<Rightarrow> bool" where
  "clk_wf s x \<longleftrightarrow> (\<forall>p. clk_parent (clks s x) = Some p \<longrightarrow> p < x \<and> p \<in> set (clocks s))
     \<and> (clk_recalc_fn (clks s x) = Some Followparent_recalc \<or> clk_recalc_fn (clks s x) = Some Omap_fixed_divisor_recalc
          \<longrightarrow> clk_parent (clks s x) \<noteq> None)
     \<and> (clk_recalc_fn (clks s x) = Some Ti814x_dpll_dco_recalc \<longrightarrow> clk_dpll_data (clks s x) \<noteq> None)
     \<and> dpll_refs s x \<subseteq> set_option (clk_parent (clks s x))"

definition tree_wf :: "'a kstate_scheme \<Rightarrow> bool" where
  "tree_wf s \<longleftrightarrow> clk_links s \<and> (\<forall>x \<in> set (clocks s). clk_wf s x)"

section \<open>Lemmas\<close>

lemma with_rates_simps [simp]:
  "clks (with_rates s r) x = (clks s x)\<lparr>clk_rate := r x\<rparr>" "dplls (with_rates s r) = dplls s" "regs (with_rates s r) = regs s"
  "cpu_mask (with_rates s r) = cpu_mask s" "es1_0 (with_rates s r) = es1_0 s" "clocks (with_rates s r) = clocks s"
  "with_rates (with_rates s r) r' = with_rates s r'"
  "with_rates s (\<lambda>x. rate_of x s) = s"
  by (simp_all add: with_rates_def)

lemma child_with_rates [simp]: "child (with_rates s r) = child s"
  by (simp add: child_def fun_eq_iff)

lemma with_rates_struct [simp]:
  "below (with_rates s r) = below s" "dpll_refs (with_rates s r) = dpll_refs s"
  "clk_acyclic h (with_rates s r) = clk_acyclic h s" "linked (with_rates s r) = linked s"
  by (auto simp: below_def dpll_refs_def clk_acyclic_def linked_def fun_eq_iff split: option.splits)

lemma rate_valid_with_rates [simp]: "rate_valid (with_rates s r) = rate_valid s"
  by (simp add: rate_valid_def fun_eq_iff)

lemma read_divisor_with_rates [simp]: "read_divisor x (with_rates s r) = read_divisor x s"
  by (simp add: read_divisor_def clksel_to_divisor_def get_clksel_by_parent_def raw_readl_def cong: option.case_cong)

text \<open>What a recalculation reads.\<close>

lemma run_recalc_cong:
  assumes "r x = rate_of x s" "\<And>p. clk_parent (clks s x) = Some p \<Longrightarrow> r p = rate_of p s"
    "\<And>p. p \<in> dpll_refs s x \<Longrightarrow> r p = rate_of p s"
  shows "run_recalc f x (with_rates s r) = run_recalc f x s"
  using assms
  by (cases f) (auto simp: followparent_recalc_def omap_fixed_divisor_recalc_def omap2_clksel_recalc_def
      ti814x_dpll_recalc_def ti814x_dpll_dco_recalc_def ti814x_get_dpll_rate_def Let_def dpll_refs_def raw_readl_def
      split: option.splits)

lemma run_recalc_None_cong: "(run_recalc f x (with_rates s r) = None) = (run_recalc f x s = None)"
  by (cases f) (auto simp: followparent_recalc_def omap_fixed_divisor_recalc_def omap2_clksel_recalc_def
      ti814x_dpll_recalc_def ti814x_dpll_dco_recalc_def Let_def split: option.splits)

lemma recalc_ok_with_rates [simp]: "recalc_ok (with_rates s r) x = recalc_ok s x"
  by (auto simp: recalc_ok_def run_recalc_None_cong split: option.splits simp del: not_None_eq)

text \<open>Only the rate of \<open>c\<close> changes, and \<open>c\<close> is coherent afterwards.\<close>

lemma recalc1_spec:
  assumes "recalc_ok s c" "clk_parent (clks s c) \<noteq> Some c" "c \<notin> dpll_refs s c"
  obtains v where "recalc1 c s = Some (with_rates s ((\<lambda>x. rate_of x s)(c := v)))"
    "coherent (with_rates s ((\<lambda>x. rate_of x s)(c := v))) c"
proof (cases "clk_recalc_fn (clks s c)")
  case None
  then show ?thesis using that [of "rate_of c s"]
    by (simp add: recalc1_def coherent_def with_rates_def fun_upd_idem)
next
  case (Some f)
  then obtain v where v: "run_recalc f c s = Some v" using assms(1) by (auto simp: recalc_ok_def)
  let ?t = "with_rates s ((\<lambda>x. rate_of x s)(c := v))"
  have "clk_upd c (\<lambda>k. k\<lparr>clk_rate := v\<rparr>) s = ?t"
    by (auto simp: clk_upd_def with_rates_def fun_eq_iff)
  then have run: "recalc1 c s = Some ?t" using Some v by (simp add: recalc1_def)
  have "run_recalc f c ?t = Some v"
    using v assms(2,3)
    by (cases f) (auto simp: followparent_recalc_def omap_fixed_divisor_recalc_def omap2_clksel_recalc_def
      ti814x_dpll_recalc_def ti814x_dpll_dco_recalc_def ti814x_get_dpll_rate_def Let_def dpll_refs_def raw_readl_def
      split: option.splits if_splits)
  then show ?thesis using that [OF run] Some by (simp add: coherent_def)
qed

lemma coherent_cong:
  assumes "coherent s x" "r x = rate_of x s" "\<And>p. clk_parent (clks s x) = Some p \<Longrightarrow> r p = rate_of p s"
    "\<And>p. p \<in> dpll_refs s x \<Longrightarrow> r p = rate_of p s"
  shows "coherent (with_rates s r) x"
  using assms run_recalc_cong [OF assms(2-4)] by (auto simp: coherent_def split: option.splits)

lemma below_Cons: "below s (c # cs) = {c} \<union> below s (clk_children (clks s c)) \<union> below s cs"
proof -
  have "(child s)\<^sup>*\<^sup>* c x \<longleftrightarrow> x = c \<or> (\<exists>y \<in> set (clk_children (clks s c)). (child s)\<^sup>*\<^sup>* y x)" for x
    by (auto simp: child_def elim: converse_rtranclpE intro: converse_rtranclp_into_rtranclp)
  then show ?thesis by (auto simp: below_def)
qed

lemma propagable_with_rates [simp]: "propagable h (with_rates s r) D = propagable h s D"
  by (simp add: propagable_def)

lemma propagable_mono: "propagable h s D \<Longrightarrow> E \<subseteq> D \<Longrightarrow> propagable h s E"
  by (auto simp: propagable_def)

lemma parent_not_self: "clk_acyclic h s \<Longrightarrow> linked s x \<Longrightarrow> clk_parent (clks s x) \<noteq> Some x"
  by (auto simp: clk_acyclic_def linked_def)

lemma propagate_list_coherent_aux:
  assumes "propagable h s (below s cs)" "\<forall>c \<in> set cs. h c < n"
  shows "\<exists>r. propagate_list cs s = Some (with_rates s r)
     \<and> (\<forall>x. x \<notin> below s cs \<longrightarrow> r x = rate_of x s)
     \<and> (\<forall>x \<in> set (clocks s). coherent s x \<or> x \<in> below s cs \<longrightarrow> coherent (with_rates s r) x)"
  using assms
proof (induction n arbitrary: cs s)
  case 0
  then have "cs = []" by (cases cs) auto
  then show ?case by (intro exI [of _ "\<lambda>x. rate_of x s"]) (simp add: propagate_list.simps below_def)
next
  case (Suc n)
  from Suc.prems show ?case
  proof (induction cs arbitrary: s)
    case Nil
    then show ?case by (intro exI [of _ "\<lambda>x. rate_of x s"]) (simp add: propagate_list.simps below_def)
  next
    case (Cons c cs)
    note P = Cons.prems(1)
    have c: "c \<in> below s (c # cs)" by (simp add: below_Cons)
    have cl: "c \<in> set (clocks s)" "linked s c" "recalc_ok s c" "clk_acyclic h s" using P c by (auto simp: propagable_def)
    have np: "clk_parent (clks s c) \<noteq> Some c" using cl(4,2) by (rule parent_not_self)
    have nr: "c \<notin> dpll_refs s c" using P c cl np unfolding propagable_def by blast
    obtain v where v: "recalc1 c s = Some (with_rates s ((\<lambda>x. rate_of x s)(c := v)))"
      "coherent (with_rates s ((\<lambda>x. rate_of x s)(c := v))) c"
      using cl(3) np nr by (rule recalc1_spec)
    define r1 where "r1 = (\<lambda>x. rate_of x s)(c := v)"
    define s1 where "s1 = with_rates s r1"
    have coh1: "coherent s1 x" if "x \<in> set (clocks s)" "coherent s x" "x \<notin> set (clk_children (clks s c))" for x
    proof (cases "x = c")
      case True
      then show ?thesis using v by (simp add: s1_def r1_def)
    next
      case False
      have "clk_parent (clks s x) \<noteq> Some c" using that P by (auto simp: propagable_def linked_def child_def)
      moreover have "c \<notin> dpll_refs s x" using P c that(1) calculation unfolding propagable_def by blast
      ultimately show ?thesis unfolding s1_def
        by (intro coherent_cong) (use that False in \<open>auto simp: r1_def\<close>)
    qed
    let ?K = "clk_children (clks s c)"
    have K: "below s1 ?K \<subseteq> below s (c # cs)" by (auto simp: s1_def below_Cons)
    have "\<forall>x \<in> set ?K. h x < n"
      using Cons.prems(2) cl(4) by (force simp: clk_acyclic_def child_def)
    moreover have "propagable h s1 (below s1 ?K)" using propagable_mono [OF P] K by (simp add: s1_def)
    ultimately obtain r2 where r2: "propagate_list ?K s1 = Some (with_rates s1 r2)"
      "\<forall>x. x \<notin> below s1 ?K \<longrightarrow> r2 x = rate_of x s1"
      "\<forall>x \<in> set (clocks s1). coherent s1 x \<or> x \<in> below s1 ?K \<longrightarrow> coherent (with_rates s1 r2) x"
      using Suc.IH [of s1 ?K] by blast
    define s2 where "s2 = with_rates s r2"
    have s2: "with_rates s1 r2 = s2" by (simp add: s1_def s2_def)
    have sub: "below s2 cs \<subseteq> below s (c # cs)" by (auto simp: s2_def below_Cons)
    have "propagable h s2 (below s2 cs)" using propagable_mono [OF P] sub by (simp add: s2_def)
    moreover have "\<forall>c \<in> set cs. h c < Suc n" using Cons.prems(2) by simp
    ultimately obtain r3 where r3: "propagate_list cs s2 = Some (with_rates s2 r3)"
      "\<forall>x. x \<notin> below s2 cs \<longrightarrow> r3 x = rate_of x s2"
      "\<forall>x \<in> set (clocks s2). coherent s2 x \<or> x \<in> below s2 cs \<longrightarrow> coherent (with_rates s2 r3) x"
      using Cons.IH [of s2] by blast
    have run: "propagate_list (c # cs) s = Some (with_rates s r3)"
      using v(1) r2(1) r3(1)
      by (subst propagate_list.simps) (simp add: r1_def [symmetric] s1_def [symmetric] s2 s2_def [symmetric],
          simp add: s1_def s2_def)
    have fr: "r3 x = rate_of x s" if "x \<notin> below s (c # cs)" for x
      using that r3(2) r2(2) by (auto simp: below_Cons s1_def s2_def r1_def)
    have coh: "coherent (with_rates s r3) x" if "x \<in> set (clocks s)" "coherent s x \<or> x \<in> below s (c # cs)" for x
    proof -
      have "coherent s2 x \<or> x \<in> below s2 cs"
      proof (cases "x = c \<or> x \<in> below s ?K \<or> coherent s x")
        case True
        have "x \<in> below s ?K" if "x \<in> set ?K" using that by (auto simp: below_def)
        then have "coherent s1 x \<or> x \<in> below s ?K"
          using True coh1 [OF that(1)] v(2) by (auto simp: s1_def r1_def)
        then show ?thesis using r2(3) that(1) by (auto simp: s1_def s2_def)
      next
        case False
        then show ?thesis using that(2) by (simp add: below_Cons s2_def)
      qed
      then show ?thesis using r3(3) that(1) by (auto simp: s2_def)
    qed
    show ?case using run fr coh by blast
  qed
qed

lemma clk_links_linked: "clk_links s \<Longrightarrow> x \<in> set (clocks s) \<Longrightarrow> linked s x"
  by (simp add: clk_links_def linked_def)

lemma clk_reparent_fields:
  "clk_parent (clks (clk_reparent c (Some p) s) x) = (if x = c then Some p else clk_parent (clks s x))"
  "set (clk_children (clks (clk_reparent c (Some p) s) x)) =
     (if x = p then insert c (set (clk_children (clks s x))) else set (clk_children (clks s x)) - {c})"
  "set (root_clks (clk_reparent c (Some p) s)) = set (root_clks s) - {c}"
  "clocks (clk_reparent c (Some p) s) = clocks s"
  "clk_node (clks (clk_reparent c (Some p) s) x) = clk_node (clks s x)"
  by (auto simp: clk_reparent_def clk_unlink_def clk_upd_def Let_def)

lemma clk_links_reparent:
  assumes "clk_links s" "c \<in> set (clocks s)"
  shows "clk_links (clk_reparent c (Some p) s)"
  using assms unfolding clk_links_def child_def clk_reparent_fields by auto

lemma run_init_cases:
  obtains "run_init f c s = s"
  | cs tab where "f = Omap2_init_clksel_parent" "clk_clksel (clks s c) = Some tab" "cs \<in> set tab"
      "run_init f c s = clk_reparent c (Some (cs_parent cs)) s"
  | d where "f = Ti814x_init_dpll_parent" "clk_dpll_data (clks s c) = Some d"
      "run_init f c s = clk_reparent c (Some (clk_bypass (dplls s d))) s"
proof (cases f)
  case Omap2_init_clksel_parent
  show ?thesis
  proof (cases "omap2_init_clksel_parent c s = s")
    case False
    then obtain tab cs where "clk_clksel (clks s c) = Some tab"
      "find (\<lambda>cs. \<exists>x \<in> set (cs_rates cs). rate_valid s x \<and>
         cr_val x = field_get (clk_clksel_mask (clks s c)) (raw_readl (clk_clksel_reg (clks s c)) s)) tab = Some cs"
      "omap2_init_clksel_parent c s = clk_reparent c (Some (cs_parent cs)) s"
      by (auto simp: omap2_init_clksel_parent_def Let_def split: option.splits if_splits)
    moreover then have "cs \<in> set tab" by (auto simp: find_Some_iff)
    ultimately show ?thesis using that(2) Omap2_init_clksel_parent by simp
  qed (use that(1) Omap2_init_clksel_parent in simp)
next
  case Ti814x_init_dpll_parent
  show ?thesis
  proof (cases "ti814x_init_dpll_parent c s = s")
    case False
    then obtain d where "clk_dpll_data (clks s c) = Some d"
      "ti814x_init_dpll_parent c s = clk_reparent c (Some (clk_bypass (dplls s d))) s"
      by (auto simp: ti814x_init_dpll_parent_def Let_def split: option.splits if_splits)
    then show ?thesis using that(3) Ti814x_init_dpll_parent by simp
  qed (use that(1) Ti814x_init_dpll_parent in simp)
qed

lemma clk_link_init_fn [simp]: "clk_init_fn (clks (clk_link c s) x) = clk_init_fn (clks s x)"
  by (auto simp: clk_link_def clk_upd_def Let_def split: option.splits)

lemma clk_register_link:
  "\<not> clk_node (clks s c) \<Longrightarrow>
   clk_register (Some c) s = (0, case clk_init_fn (clks s c) of None \<Rightarrow> clk_link c s | Some f \<Rightarrow> run_init f c (clk_link c s))"
  by (simp add: clk_register_def Let_def)

lemma clk_link_fields:
  "clk_parent (clks (clk_link c s) x) = clk_parent (clks s x)"
  "set (clk_children (clks (clk_link c s) x)) =
     (if clk_parent (clks s c) = Some x then insert c (set (clk_children (clks s x))) else set (clk_children (clks s x)))"
  "set (root_clks (clk_link c s)) = (if clk_parent (clks s c) = None then insert c (set (root_clks s)) else set (root_clks s))"
  "clocks (clk_link c s) = c # clocks s"
  "clk_node (clks (clk_link c s) x) = (x = c \<or> clk_node (clks s x))"
  by (auto simp: clk_link_def clk_upd_def Let_def split: option.splits)

lemma clk_links_link:
  "clk_links s \<Longrightarrow> clk_links (clk_link c s)"
  unfolding clk_links_def child_def clk_link_fields by auto

lemma clk_links_init:
  assumes "clk_links s" "c \<in> set (clocks s)"
  shows "clk_links (run_init f c s)"
  by (rule run_init_cases [of f c s]) (use assms clk_links_reparent in auto)

lemma clk_links_register: "clk_links s \<Longrightarrow> clk_links (snd (clk_register cc s))"
proof (cases cc)
  case (Some c)
  assume l: "clk_links s"
  show ?thesis
  proof (cases "clk_node (clks s c)")
    case False
    then show ?thesis using l Some clk_links_init [OF clk_links_link [OF l, of c], of c]
      by (auto simp: clk_register_link clk_link_fields clk_links_link split: option.splits)
  qed (use Some l in \<open>simp add: clk_register_def\<close>)
qed (simp add: clk_register_def)

lemma clk_links_unregister: "clk_links s \<Longrightarrow> clk_links (clk_unregister cc s)"
  by (auto simp: clk_unregister_def clk_unlink_def clk_links_def child_def split: option.splits)

lemma clk_links_with_rates [simp]: "clk_links (with_rates s r) = clk_links s"
  by (simp add: clk_links_def) (simp add: with_rates_def)

lemma clk_static_simps:
  "clk_clksel (clk_static k) = clk_clksel k" "clk_dpll_data (clk_static k) = clk_dpll_data k"
  "clk_recalc_fn (clk_static k) = clk_recalc_fn k" "clk_init_fn (clk_static k) = clk_init_fn k"
  "clk_clksel_mask (clk_static k) = clk_clksel_mask k"
  by (simp_all add: clk_static_def)

lemma same_static_fields:
  assumes "same_static s0 s"
  shows "clk_clksel (clks s x) = clk_clksel (clks s0 x)" "clk_dpll_data (clks s x) = clk_dpll_data (clks s0 x)"
    "clk_recalc_fn (clks s x) = clk_recalc_fn (clks s0 x)" "clk_init_fn (clks s x) = clk_init_fn (clks s0 x)"
    "dplls s = dplls s0" "clk_clksel_mask (clks s x) = clk_clksel_mask (clks s0 x)"
  using assms unfolding same_static_def by (metis clk_static_simps)+

lemma same_static_refl [simp]: "same_static s s"
  by (simp add: same_static_def)

lemma same_static_trans: "same_static s t \<Longrightarrow> same_static t u \<Longrightarrow> same_static s u"
  by (simp add: same_static_def)

lemma same_static_link: "same_static s (clk_link c s)"
  by (auto simp: same_static_def clk_static_def clk_link_def clk_upd_def Let_def split: option.splits)

lemma same_static_reparent: "same_static s (clk_reparent c p s)"
  by (auto simp: same_static_def clk_static_def clk_reparent_def clk_unlink_def clk_upd_def Let_def split: option.splits)

lemma same_static_clkdm: "same_static s (omap2_init_clk_clkdm c s)"
  by (auto simp: same_static_def clk_static_def omap2_init_clk_clkdm_def clk_upd_def split: option.splits)

lemma boot_inv_link: "boot_inv s0 s \<Longrightarrow> boot_inv s0 (clk_link c s)"
  by (simp add: boot_inv_def clk_link_fields clk_links_link same_static_trans [OF _ same_static_link])

lemma boot_inv_reparent:
  "boot_inv s0 s \<Longrightarrow> c \<in> set (clocks s) \<Longrightarrow> p \<in> set (parent_candidates (clks s0 c) (dplls s0))
   \<Longrightarrow> boot_inv s0 (clk_reparent c (Some p) s)"
  by (simp add: boot_inv_def clk_reparent_fields clk_links_reparent same_static_trans [OF _ same_static_reparent])

lemma boot_inv_init:
  assumes "boot_inv s0 s" "c \<in> set (clocks s)"
  shows "boot_inv s0 (run_init f c s)"
proof (rule run_init_cases [of f c s])
  assume "run_init f c s = s"
  then show ?thesis using assms by simp
next
  fix cs tab
  assume a: "clk_clksel (clks s c) = Some tab" "cs \<in> set tab" "run_init f c s = clk_reparent c (Some (cs_parent cs)) s"
  have "clk_clksel (clks s0 c) = Some tab"
    using same_static_fields(1) [of s0 s c] assms(1) a(1) by (simp add: boot_inv_def)
  then have "cs_parent cs \<in> set (parent_candidates (clks s0 c) (dplls s0))"
    using a(2) by (simp add: parent_candidates_def)
  then show ?thesis using boot_inv_reparent [OF assms] a by simp
next
  fix d
  assume a: "clk_dpll_data (clks s c) = Some d" "run_init f c s = clk_reparent c (Some (clk_bypass (dplls s d))) s"
  have "clk_dpll_data (clks s0 c) = Some d" "dplls s = dplls s0"
    using same_static_fields(2,5) [of s0 s] assms(1) a(1) by (simp_all add: boot_inv_def)
  then have "clk_bypass (dplls s d) \<in> set (parent_candidates (clks s0 c) (dplls s0))"
    by (simp add: parent_candidates_def)
  then show ?thesis using boot_inv_reparent [OF assms] a by simp
qed

lemma run_init_node [simp]:
  "clk_node (clks (run_init f c s) x) = clk_node (clks s x)" "clocks (run_init f c s) = clocks s"
  by (rule run_init_cases [of f c s]; simp add: clk_reparent_fields)+

lemma boot_inv_register:
  assumes "boot_inv s0 s" "\<forall>x. clk_node (clks s x) \<longleftrightarrow> x \<in> set (clocks s)"
  shows "boot_inv s0 (snd (clk_register (Some c) s))
    \<and> set (clocks (snd (clk_register (Some c) s))) = insert c (set (clocks s))
    \<and> (\<forall>x. clk_node (clks (snd (clk_register (Some c) s)) x) \<longleftrightarrow> x \<in> set (clocks (snd (clk_register (Some c) s))))"
proof (cases "clk_node (clks s c)")
  case True
  then show ?thesis using assms by (auto simp: clk_register_def)
next
  case False
  have "boot_inv s0 (run_init f c (clk_link c s))" for f
    using boot_inv_init [OF boot_inv_link [OF assms(1)]] by (simp add: clk_link_fields)
  then show ?thesis using False assms boot_inv_link [OF assms(1)]
    by (auto simp: clk_register_link clk_link_fields split: option.splits)
qed

lemma init_clk_clkdm_fields [simp]:
  "clocks (omap2_init_clk_clkdm c s) = clocks s" "root_clks (omap2_init_clk_clkdm c s) = root_clks s"
  "clk_node (clks (omap2_init_clk_clkdm c s) x) = clk_node (clks s x)"
  "clk_parent (clks (omap2_init_clk_clkdm c s) x) = clk_parent (clks s x)"
  "clk_children (clks (omap2_init_clk_clkdm c s) x) = clk_children (clks s x)"
  by (auto simp: omap2_init_clk_clkdm_def clk_upd_def split: option.splits)

lemma boot_inv_clkdm: "boot_inv s0 s \<Longrightarrow> boot_inv s0 (omap2_init_clk_clkdm c s)"
  by (simp add: boot_inv_def same_static_trans [OF _ same_static_clkdm] clk_links_def child_def)

text \<open>A tree in which every parent has a smaller number than its child has no cycle.\<close>

lemma ordered_acyclic:
  assumes "clk_links s" "\<forall>x \<in> set (clocks s). x < n \<and> (\<forall>p. clk_parent (clks s x) = Some p \<longrightarrow> p < x)"
  shows "clk_acyclic (\<lambda>x. n - x) s"
  using assms by (force simp: clk_acyclic_def clk_links_def)

lemma ordered_below_roots:
  assumes "clk_links s" "\<forall>x \<in> set (clocks s). \<forall>p. clk_parent (clks s x) = Some p \<longrightarrow> p < x \<and> p \<in> set (clocks s)"
  shows "x \<in> set (clocks s) \<Longrightarrow> x \<in> below s (root_clks s)"
proof (induction x rule: less_induct)
  case (less x)
  show ?case
  proof (cases "clk_parent (clks s x)")
    case None
    then have "x \<in> set (root_clks s)" using assms(1) less.prems by (simp add: clk_links_def)
    then show ?thesis by (auto simp: below_def)
  next
    case (Some p)
    then have "p \<in> below s (root_clks s)" "child s p x"
      using assms less by (auto simp: clk_links_def)
    then show ?thesis by (auto simp: below_def intro: rtranclp.rtrancl_into_rtrancl)
  qed
qed

lemma recalc_okI:
  assumes "clk_recalc_fn (clks s x) = Some Followparent_recalc \<or> clk_recalc_fn (clks s x) = Some Omap_fixed_divisor_recalc
      \<Longrightarrow> clk_parent (clks s x) \<noteq> None"
    and "clk_recalc_fn (clks s x) = Some Ti814x_dpll_dco_recalc \<Longrightarrow> clk_dpll_data (clks s x) \<noteq> None"
  shows "recalc_ok s x"
proof -
  have no: "find (\<lambda>cs. False) tab = None" for tab :: "clksel list" by (induction tab) auto
  have "clk_parent (clks s x) = None \<Longrightarrow> read_divisor x s = 0"
    by (auto simp: read_divisor_def clksel_to_divisor_def get_clksel_by_parent_def no split: option.splits)
  then show ?thesis
    using assms
    by (cases "clk_recalc_fn (clks s x)"; cases "the (clk_recalc_fn (clks s x))")
      (auto simp: recalc_ok_def followparent_recalc_def omap_fixed_divisor_recalc_def omap2_clksel_recalc_def
        ti814x_dpll_dco_recalc_def Let_def split: option.splits)
qed

lemma clk_upd_simps [simp]:
  "clks (clk_upd c f s) x = (if x = c then f (clks s c) else clks s x)" "regs (clk_upd c f s) = regs s"
  "cpu_mask (clk_upd c f s) = cpu_mask s" "dplls (clk_upd c f s) = dplls s"
  "clocks (clk_upd c f s) = clocks s" "root_clks (clk_upd c f s) = root_clks s" "es1_0 (clk_upd c f s) = es1_0 s"
  by (simp_all add: clk_upd_def)

lemma raw_readl_with_rates [simp]: "raw_readl a (with_rates s r) = raw_readl a s"
  by (simp add: raw_readl_def)

lemma raw_readl_clk_upd [simp]: "raw_readl a (clk_upd c f s) = raw_readl a s"
  by (simp add: raw_readl_def)

lemma rate_valid_cong: "cpu_mask t = cpu_mask s \<Longrightarrow> rate_valid t = rate_valid s"
  by (simp add: rate_valid_def fun_eq_iff)

lemma clk_reparent_same [simp]:
  "clk_recalc_fn (clks (clk_reparent c p s) x) = clk_recalc_fn (clks s x)"
  "clk_dpll_data (clks (clk_reparent c p s) x) = clk_dpll_data (clks s x)"
  "clk_rate (clks (clk_reparent c p s) x) = clk_rate (clks s x)"
  "clk_clksel (clks (clk_reparent c p s) x) = clk_clksel (clks s x)"
  "clk_clksel_mask (clks (clk_reparent c p s) x) = clk_clksel_mask (clks s x)"
  "clk_clksel_reg (clks (clk_reparent c p s) x) = clk_clksel_reg (clks s x)"
  "dplls (clk_reparent c p s) = dplls s" "regs (clk_reparent c p s) = regs s" "cpu_mask (clk_reparent c p s) = cpu_mask s"
  "clocks (clk_reparent c p s) = clocks s"
  by (auto simp: clk_reparent_def clk_unlink_def clk_upd_def Let_def split: option.splits)

lemma tree_wf_acyclic: "tree_wf s \<Longrightarrow> clk_acyclic (\<lambda>x. Suc (Max (set (clocks s))) - x) s"
  by (rule ordered_acyclic) (auto simp: tree_wf_def clk_wf_def less_Suc_eq_le)

lemma below_clocks:
  assumes "clk_links s" "set cs \<subseteq> set (clocks s)"
  shows "below s cs \<subseteq> set (clocks s)"
proof
  fix x assume "x \<in> below s cs"
  then obtain c where "c \<in> set cs" "(child s)\<^sup>*\<^sup>* c x" by (auto simp: below_def)
  from this(2,1) show "x \<in> set (clocks s)" using assms by cases (auto simp: clk_links_def)
qed

lemma tree_wf_propagable:
  assumes "tree_wf s" "set cs \<subseteq> set (clocks s)"
  shows "propagable (\<lambda>x. Suc (Max (set (clocks s))) - x) s (below s cs)"
proof -
  have l: "clk_links s" and w: "\<forall>x \<in> set (clocks s). clk_wf s x" using assms(1) by (auto simp: tree_wf_def)
  have 1: "below s cs \<subseteq> set (clocks s)" using below_clocks [OF l assms(2)] .
  have "recalc_ok s x" if "x \<in> set (clocks s)" for x
    using w that by (intro recalc_okI) (auto simp: clk_wf_def)
  moreover have "\<forall>x \<in> set (clocks s). \<forall>y \<in> dpll_refs s x. y \<in> below s cs \<longrightarrow> clk_parent (clks s x) = Some y"
    using w unfolding clk_wf_def by (metis elem_set subsetD)
  ultimately show ?thesis
    using 1 clk_links_linked [OF l] tree_wf_acyclic [OF assms(1)] unfolding propagable_def by blast
qed

lemma propagate_list_wf:
  assumes "tree_wf s" "set cs \<subseteq> set (clocks s)"
  shows "\<exists>r. propagate_list cs s = Some (with_rates s r)
     \<and> (\<forall>x. x \<notin> below s cs \<longrightarrow> r x = rate_of x s)
     \<and> (\<forall>x \<in> set (clocks s). coherent s x \<or> x \<in> below s cs \<longrightarrow> coherent (with_rates s r) x)"
  by (rule propagate_list_coherent_aux [OF tree_wf_propagable [OF assms], of "Suc (Suc (Max (set (clocks s))))"]) auto

lemma propagate_list_single:
  "propagate_list [c] (s :: 'a kstate_scheme) = do { s1 \<leftarrow> recalc1 c s; propagate_rate c s1 }"
proof -
  have "propagate_list [] = (Some :: 'a kstate_scheme \<Rightarrow> _)" by (simp add: propagate_list.simps fun_eq_iff)
  then show ?thesis by (simp add: propagate_list.simps [of "[c]"] propagate_rate_def)
qed

lemma tree_wf_with_rates [simp]: "tree_wf (with_rates s r) = tree_wf s"
  by (simp add: tree_wf_def clk_wf_def)

lemma clk_upd_rate_eq: "clk_upd c (\<lambda>k. k\<lparr>clk_rate := v\<rparr>) s = with_rates s ((\<lambda>x. rate_of x s)(c := v))"
  by (auto simp: clk_upd_def with_rates_def fun_eq_iff)

lemma tree_wf_update:
  assumes "tree_wf s" "clk_links t" "clocks t = clocks s" "dplls t = dplls s"
    "\<And>x. clk_recalc_fn (clks t x) = clk_recalc_fn (clks s x)" "\<And>x. clk_dpll_data (clks t x) = clk_dpll_data (clks s x)"
    and par: "\<And>x. clk_parent (clks t x) = clk_parent (clks s x)
      \<or> clk_dpll_data (clks s x) = None \<and> (\<exists>p \<in> set (clocks s). p < x \<and> clk_parent (clks t x) = Some p)"
  shows "tree_wf t"
proof -
  have "clk_wf t x" if "x \<in> set (clocks s)" for x
    using assms(1) that par [of x] unfolding tree_wf_def clk_wf_def dpll_refs_def assms(3-6) by fastforce
  then show ?thesis using assms(2,3) by (simp add: tree_wf_def)
qed

lemma recalculate_root_clocks_wf:
  assumes "tree_wf s"
  shows "\<exists>r. recalculate_root_clocks s = Some (with_rates s r) \<and> (\<forall>x \<in> set (clocks s). coherent (with_rates s r) x)"
proof -
  have l: "clk_links s" using assms by (simp add: tree_wf_def)
  have "set (root_clks s) \<subseteq> set (clocks s)" using l by (auto simp: clk_links_def)
  moreover have "set (clocks s) \<subseteq> below s (root_clks s)"
    using ordered_below_roots [OF l] assms by (auto simp: tree_wf_def clk_wf_def)
  ultimately show ?thesis unfolding recalculate_root_clocks_def
    using propagate_list_wf [OF assms, of "root_clks s"] by (meson subsetD)
qed

end
