(* ===== verification/Adpll.thy ===== *)
theory Adpll
  imports Clock_Tree
begin

unbundle bit_operations_syntax

text \<open>
  The all-digital PLLs of the TI814x (\<^verbatim>\<open>mach-omap2/adpll_ti814x.c\<close>): the mode
  transitions with their bounded waits, the choice of multiplier and dividers for a target
  rate, and the programming sequence. Private functions take the number of the
  \<^verbatim>\<open>dpll_data\<close> of the clock they are called on. The arithmetic is the source's,
  at the source's widths.
\<close>

section \<open>Constants\<close>

abbreviation (input) MAX_DPLL_WAIT_TRIES :: nat where "MAX_DPLL_WAIT_TRIES \<equiv> 100000"
abbreviation (input) ADPLL_LOW_POWER_BYPASS :: u8 where "ADPLL_LOW_POWER_BYPASS \<equiv> 0"
abbreviation (input) ADPLL_LOCKED :: u8 where "ADPLL_LOCKED \<equiv> 1"
abbreviation (input) ADPLL_LOW_POWER_STOP :: u8 where "ADPLL_LOW_POWER_STOP \<equiv> 2"
abbreviation (input) ST_ADPLL_BYPASSED :: u32 where "ST_ADPLL_BYPASSED \<equiv> 0x101"
abbreviation (input) ST_ADPLL_LOCKED :: u32 where "ST_ADPLL_LOCKED \<equiv> 0x600"
abbreviation (input) ST_ADPLL_RETENTION :: u32 where "ST_ADPLL_RETENTION \<equiv> 1"
abbreviation (input) ST_ADPLL_ACTIVE :: u32 where "ST_ADPLL_ACTIVE \<equiv> 0"
abbreviation (input) TI814X_ADPLL_LS_TYPE :: u8 where "TI814X_ADPLL_LS_TYPE \<equiv> 2"
abbreviation (input) TI814X_ADPLL_LJ_TYPE :: u8 where "TI814X_ADPLL_LJ_TYPE \<equiv> 4"
abbreviation (input) TI814X_ADPLL_STBYRET_ACK_MASK :: u32 where "TI814X_ADPLL_STBYRET_ACK_MASK \<equiv> 0x80"
abbreviation (input) TI814X_ADPLL_FRACT_MULT_MASK :: u32 where "TI814X_ADPLL_FRACT_MULT_MASK \<equiv> 0x3ffff"
abbreviation (input) TI814X_ADPLL_TINITZ_SHIFT :: u8 where "TI814X_ADPLL_TINITZ_SHIFT \<equiv> 0"
abbreviation (input) TI814X_ADPLL_CLKOUTLDOEN_SHIFT :: u8 where "TI814X_ADPLL_CLKOUTLDOEN_SHIFT \<equiv> 19"
abbreviation (input) TI814X_ADPLL_CLKDCOLDOEN_SHIFT :: u8 where "TI814X_ADPLL_CLKDCOLDOEN_SHIFT \<equiv> 29"
abbreviation (input) TI814X_ADPLL_LOAD_MN_SHIFT :: u8 where "TI814X_ADPLL_LOAD_MN_SHIFT \<equiv> 0"
abbreviation (input) TI814X_ADPLL_LOAD_M2N2_SHIFT :: u8 where "TI814X_ADPLL_LOAD_M2N2_SHIFT \<equiv> 0"

abbreviation (input) ADPLLS_FINT_BAND_MIN :: u32 where "ADPLLS_FINT_BAND_MIN \<equiv> 32000"
abbreviation (input) ADPLLS_FINT_BAND_MAX :: u32 where "ADPLLS_FINT_BAND_MAX \<equiv> 52000000"
abbreviation (input) ADPLLJ_FINT_BAND_MIN :: u32 where "ADPLLJ_FINT_BAND_MIN \<equiv> 500000"
abbreviation (input) ADPLLJ_FINT_BAND_MAX :: u32 where "ADPLLJ_FINT_BAND_MAX \<equiv> 2500000"
abbreviation (input) ADPLL_FINT_UNDERFLOW :: int where "ADPLL_FINT_UNDERFLOW \<equiv> - 1"
abbreviation (input) ADPLL_FINT_INVALID :: int where "ADPLL_FINT_INVALID \<equiv> - 2"
abbreviation (input) ADPLL_DCO_VALID :: int where "ADPLL_DCO_VALID \<equiv> 0"
abbreviation (input) ADPLL_DCO_UNDERFLOW :: int where "ADPLL_DCO_UNDERFLOW \<equiv> - 1"
abbreviation (input) ADPLL_DCO_INVALID :: int where "ADPLL_DCO_INVALID \<equiv> - 2"
abbreviation (input) ADPLLS_DCO_FREQ_MIN :: u64 where "ADPLLS_DCO_FREQ_MIN \<equiv> 20000000"
abbreviation (input) ADPLLS_DCO_FREQ_MAX :: u64 where "ADPLLS_DCO_FREQ_MAX \<equiv> 2000000000"
abbreviation (input) ADPLLJ_DCO_FREQ_MIN_HS2 :: u64 where "ADPLLJ_DCO_FREQ_MIN_HS2 \<equiv> 500000000"
abbreviation (input) ADPLLJ_DCO_FREQ_MAX_HS2 :: u64 where "ADPLLJ_DCO_FREQ_MAX_HS2 \<equiv> 1000000000"
abbreviation (input) ADPLLJ_DCO_FREQ_MAX_HS1 :: u64 where "ADPLLJ_DCO_FREQ_MAX_HS1 \<equiv> 2000000000"
abbreviation (input) ADPLLJ_MODE_HS2 :: u8 where "ADPLLJ_MODE_HS2 \<equiv> 2"
abbreviation (input) ADPLLJ_MODE_HS1 :: u8 where "ADPLLJ_MODE_HS1 \<equiv> 4"
abbreviation (input) TI814X_ADPLLS_MIN_M2_DIV :: u8 where "TI814X_ADPLLS_MIN_M2_DIV \<equiv> 1"
abbreviation (input) TI814X_ADPLLS_MAX_M2_DIV :: u8 where "TI814X_ADPLLS_MAX_M2_DIV \<equiv> 31"
abbreviation (input) TI814X_ADPLLJ_MIN_M2_DIV :: u8 where "TI814X_ADPLLJ_MIN_M2_DIV \<equiv> 1"
abbreviation (input) TI814X_ADPLLJ_MAX_M2_DIV :: u8 where "TI814X_ADPLLJ_MAX_M2_DIV \<equiv> 127"
abbreviation (input) TI814X_ADPLLJ_MIN_SD_DIV :: u32 where "TI814X_ADPLLJ_MIN_SD_DIV \<equiv> 2"
abbreviation (input) TI814X_ADPLLJ_MAX_SD_DIV :: u32 where "TI814X_ADPLLJ_MAX_SD_DIV \<equiv> 255"
abbreviation (input) TI814X_ADPLL_MIN_MULT :: u16 where "TI814X_ADPLL_MIN_MULT \<equiv> 2"
abbreviation (input) ADPLL_ROUNDING_DIVIDER :: u32 where "ADPLL_ROUNDING_DIVIDER \<equiv> 10000"

section \<open>Mode transitions\<close>

text \<open>\<^verbatim>\<open>v = readl(reg); v |= bits; writel(v, reg)\<close> and its counterpart.\<close>

definition reg_set :: "u32 \<Rightarrow> u32 \<Rightarrow> 'a world_scheme \<Rightarrow> 'a world_scheme" where
  "reg_set bits a s = raw_writel (raw_readl a s OR bits) a s"

definition reg_clear :: "u32 \<Rightarrow> u32 \<Rightarrow> 'a world_scheme \<Rightarrow> 'a world_scheme" where
  "reg_clear bits a s = raw_writel (raw_readl a s AND NOT bits) a s"

definition dpll_status_is :: "dpll_id \<Rightarrow> u32 \<Rightarrow> 'a kstate_scheme \<Rightarrow> bool" where
  "dpll_status_is d state s \<longleftrightarrow>
     raw_readl (idlest_reg (dplls s d)) s AND idlest_mask (dplls s d)
       = push_bit (ffs (idlest_mask (dplls s d))) state"

definition ti814x_wait_dpll_status ::
  "dpll_id \<Rightarrow> u32 \<Rightarrow> 'a kstate_scheme \<Rightarrow> int \<times> 'a kstate_scheme" where
  "ti814x_wait_dpll_status d state s =
     (let (i, s1) = omap_test_timeout (dpll_status_is d state) MAX_DPLL_WAIT_TRIES s
      in (if i = MAX_DPLL_WAIT_TRIES then - EINVAL else 0, s1))"

definition ti814x_dpll_bypass :: "dpll_id \<Rightarrow> 'a kstate_scheme \<Rightarrow> int \<times> 'a kstate_scheme" where
  "ti814x_dpll_bypass d s =
     (if ucast (modes (dplls s d)) AND BIT ADPLL_LOW_POWER_BYPASS = 0 then (- EINVAL, s)
      else ti814x_wait_dpll_status d ST_ADPLL_BYPASSED
             (reg_set (BIT (bypass_bit (dplls s d))) (control_reg (dplls s d)) s))"

definition ti814x_rel_dpll_bypass :: "dpll_id \<Rightarrow> 'a kstate_scheme \<Rightarrow> int \<times> 'a kstate_scheme" where
  "ti814x_rel_dpll_bypass d s =
     (0, reg_clear (BIT (bypass_bit (dplls s d))) (control_reg (dplls s d)) s)"

definition ti814x_dpll_lock :: "dpll_id \<Rightarrow> 'a kstate_scheme \<Rightarrow> int \<times> 'a kstate_scheme" where
  "ti814x_dpll_lock d s =
     (if ucast (modes (dplls s d)) AND BIT ADPLL_LOCKED = 0 then (- EINVAL, s)
      else ti814x_wait_dpll_status d ST_ADPLL_LOCKED (snd (ti814x_rel_dpll_bypass d s)))"

definition ti814x_dpll_init_config_sequence :: "dpll_id \<Rightarrow> 'a kstate_scheme \<Rightarrow> 'a kstate_scheme" where
  "ti814x_dpll_init_config_sequence d s =
     delay1 (reg_clear (BIT TI814X_ADPLL_TINITZ_SHIFT) (control_reg (dplls s d)) s)"

definition ti814x_dpll_end_config_sequence :: "dpll_id \<Rightarrow> 'a kstate_scheme \<Rightarrow> 'a kstate_scheme" where
  "ti814x_dpll_end_config_sequence d s =
     delay1 (reg_set (BIT TI814X_ADPLL_TINITZ_SHIFT) (control_reg (dplls s d)) s)"

definition dpll_ret_ack :: "dpll_id \<Rightarrow> 'a kstate_scheme \<Rightarrow> u32" where
  "dpll_ret_ack d s =
     field_get TI814X_ADPLL_STBYRET_ACK_MASK (raw_readl (idlest_reg (dplls s d)) s)"

text \<open>The do-while loop delays once before the first look at the register.\<close>

definition ti814x_wait_dpll_ret_ack ::
  "dpll_id \<Rightarrow> u32 \<Rightarrow> 'a kstate_scheme \<Rightarrow> int \<times> 'a kstate_scheme" where
  "ti814x_wait_dpll_ret_ack d val s =
     (let (i, s1) = omap_test_timeout (\<lambda>t. dpll_ret_ack d t = val) MAX_DPLL_WAIT_TRIES (delay1 s)
      in (if i = MAX_DPLL_WAIT_TRIES then - EINVAL else 0, s1))"

definition ti814_dpll_stop :: "dpll_id \<Rightarrow> 'a kstate_scheme \<Rightarrow> int \<times> 'a kstate_scheme" where
  "ti814_dpll_stop d s =
     (let dd = dplls s d in
      if ucast (modes dd) AND BIT ADPLL_LOW_POWER_STOP = 0 then (- EINVAL, s)
      else
        let s1 = reg_set (BIT (stby_ret_bit dd)) (control_reg dd) s;
            (r, s2) = ti814x_wait_dpll_ret_ack d ST_ADPLL_RETENTION s1
        in if r \<noteq> 0 then (- EINVAL, reg_clear (BIT (stby_ret_bit dd)) (control_reg dd) s2)
           else if dd_flags dd AND TI814X_ADPLL_LS_TYPE \<noteq> 0
             then (0, reg_set (BIT (stop_mode_bit dd)) (control_reg dd) s2)
           else (0, s2))"

definition ti814x_dpll_enable :: "clk_id \<Rightarrow> 'a kstate_scheme \<Rightarrow> int \<times> 'a kstate_scheme" where
  "ti814x_dpll_enable c s =
     (case clk_dpll_data (clks s c) of
        None \<Rightarrow> (- EINVAL, s)
      | Some d \<Rightarrow>
          let dd = dplls s d;
              s1 = reg_set (enable_mask dd) (control_reg dd) s;
              s2 = (if dpll_ret_ack d s1 \<noteq> 0
                    then snd (ti814x_wait_dpll_ret_ack d ST_ADPLL_ACTIVE
                                (reg_clear (BIT (stby_ret_bit dd)) (control_reg dd) s1))
                    else s1);
              (r, s3) = (if rate_of c s2 = rate_of (clk_bypass dd) s2
                         then ti814x_dpll_bypass d s2 else ti814x_dpll_lock d s2)
          in (r, if r = 0 then clk_upd c (\<lambda>k. k\<lparr>clk_rate := ti814x_get_dpll_rate c s3\<rparr>) s3 else s3))"

definition ti814x_dpll_disable :: "clk_id \<Rightarrow> 'a kstate_scheme \<Rightarrow> 'a kstate_scheme option" where
  "ti814x_dpll_disable c s =
     (case clk_dpll_data (clks s c) of
        None \<Rightarrow> None
      | Some d \<Rightarrow>
          Some (snd (ti814_dpll_stop d
                       (reg_clear (enable_mask (dplls s d)) (control_reg (dplls s d)) s))))"

section \<open>Choosing multiplier and dividers\<close>

definition adpll_compute_new_rate :: "u32 \<Rightarrow> u32 \<Rightarrow> u32 \<Rightarrow> u32 \<Rightarrow> u32 \<Rightarrow> u32" where
  "adpll_compute_new_rate ref_rate m frac_m n m2 =
     (let num = (ucast (push_bit 18 m + frac_m) :: u64);
          num = ucast ref_rate * num;
          den = (ucast (push_bit 18 (n + 1) * m2) :: u64)
      in ucast (do_div num den))"

text \<open>
  \<^verbatim>\<open>_adpll_test_fint\<close> narrows the divider bounds of an LJ-type DPLL as it rejects a
  divider. The rate goes through a signed \<^verbatim>\<open>long\<close>.
\<close>

definition adpll_test_fint :: "clk_id \<Rightarrow> dpll_id \<Rightarrow> u8 \<Rightarrow> 'a kstate_scheme \<Rightarrow> (int \<times> 'a kstate_scheme) option" where
  "adpll_test_fint c d n s =
     (case clk_parent (clks s c) of
        None \<Rightarrow> None
      | Some p \<Rightarrow>
          let fint = udiv (rate_of p s) (ucast n + 1) in
          Some (if dd_flags (dplls s d) AND TI814X_ADPLL_LS_TYPE \<noteq> 0
                then (if fint <s ADPLLS_FINT_BAND_MIN then (ADPLL_FINT_UNDERFLOW, s)
                      else if ADPLLS_FINT_BAND_MAX <s fint then (ADPLL_FINT_INVALID, s)
                      else (0, s))
                else (if fint <s ADPLLJ_FINT_BAND_MIN
                        then (ADPLL_FINT_UNDERFLOW, dpll_upd d (\<lambda>k. k\<lparr>max_divider := n\<rparr>) s)
                      else if ADPLLJ_FINT_BAND_MAX <s fint
                        then (ADPLL_FINT_INVALID, dpll_upd d (\<lambda>k. k\<lparr>min_divider := n\<rparr>) s)
                      else (0, s))))"

text \<open>
  The do-while loop of \<^verbatim>\<open>_adpll_test_dco_freq\<close>, once for each DPLL type: the
  32-bit product of target rate and M2 is compared with the DCO band, and M2 grows while
  the product is below it.
\<close>

function dco_loop :: "u64 \<Rightarrow> u64 \<Rightarrow> u8 \<Rightarrow> u32 \<Rightarrow> u8 \<Rightarrow> int \<times> u8" where
  "dco_loop lo hi max_m2 targ_rate m2 =
     (let dco_freq = (ucast (targ_rate * ucast m2) :: u64) in
      if dco_freq < lo then
        (if 1 \<le> m2 + 1 \<and> m2 + 1 \<le> max_m2 then dco_loop lo hi max_m2 targ_rate (m2 + 1)
         else (ADPLL_DCO_UNDERFLOW, m2 + 1))
      else if hi < dco_freq then (ADPLL_DCO_INVALID, m2)
      else (ADPLL_DCO_VALID, m2))"
  by pat_completeness auto
termination
proof (relation "measure (\<lambda>(lo, hi, max_m2, targ_rate, m2). 255 - unat m2)", simp)
  fix lo hi :: u64 and max_m2 m2 :: u8 and targ_rate :: u32
  assume "1 \<le> m2 + 1 \<and> m2 + 1 \<le> max_m2"
  then have "m2 + 1 \<noteq> 0" by auto
  then have "unat (m2 + 1) = Suc (unat m2)" by (simp add: unatSuc add.commute)
  moreover have "unat (m2 + 1) \<le> 255" using unsigned_less [of "m2 + 1", where ?'a = nat] by simp
  ultimately show "((lo, hi, max_m2, targ_rate, m2 + 1), lo, hi, max_m2, targ_rate, m2)
      \<in> measure (\<lambda>(lo, hi, max_m2, targ_rate, m2). 255 - unat m2)" by auto
qed

declare dco_loop.simps [simp del]

definition adpll_test_dco_freq :: "dpll_data \<Rightarrow> u32 \<Rightarrow> int \<times> dpll_data" where
  "adpll_test_dco_freq dd targ_rate =
     (if dd_flags dd AND TI814X_ADPLL_LS_TYPE \<noteq> 0 then
        (let (ret, m2) = dco_loop ADPLLS_DCO_FREQ_MIN ADPLLS_DCO_FREQ_MAX
                           TI814X_ADPLLS_MAX_M2_DIV targ_rate (post_div_m2 dd)
         in (ret, if ret = ADPLL_DCO_VALID then dd\<lparr>last_rounded_m2 := m2\<rparr> else dd))
      else
        (let (ret, m2) = dco_loop ADPLLJ_DCO_FREQ_MIN_HS2 ADPLLJ_DCO_FREQ_MAX_HS1
                           TI814X_ADPLLJ_MAX_M2_DIV targ_rate (post_div_m2 dd);
             dco_freq = (ucast (targ_rate * ucast m2) :: u64)
         in (ret, if ret = ADPLL_DCO_VALID
                  then dd\<lparr>last_rounded_m2 := m2,
                          dco_freq_sel := (if dco_freq \<le> ADPLLJ_DCO_FREQ_MAX_HS2
                                           then ADPLLJ_MODE_HS2 else ADPLLJ_MODE_HS1)\<rparr>
                  else dd)))"

text \<open>\<^verbatim>\<open>_lookup_sddiv\<close>; \<open>None\<close> leaves \<^verbatim>\<open>*sd_div\<close> as it was.\<close>

definition lookup_sddiv :: "u32 \<Rightarrow> u16 \<Rightarrow> u8 \<Rightarrow> u8 option" where
  "lookup_sddiv parent_rate m n =
     (let clkinp = parent_rate div 100000;
          mod1 = umod (clkinp * ucast m) (250 * ucast n);
          sd = udiv (clkinp * ucast m) (250 * ucast n);
          mod2 = sd mod 10;
          sd = sd div 10;
          sd = (if mod1 \<noteq> 0 \<or> mod2 \<noteq> 0 then sd + 1 else sd)
      in if TI814X_ADPLLJ_MIN_SD_DIV \<le> sd \<and> sd \<le> TI814X_ADPLLJ_MAX_SD_DIV
         then Some (ucast sd) else None)"

text \<open>
  \<^verbatim>\<open>_dpll_get_rounded_vals\<close>: \<open>M\<close> and its fraction from rates scaled
  down by 10000, with the fraction that the scaling lost added back. The remainder and the
  scaled rates are \<^verbatim>\<open>u32\<close>; \<^verbatim>\<open>m\<close> is the low half-word of the quotient.
\<close>

definition rounded_mult :: "u32 \<Rightarrow> dpll_data \<Rightarrow> u32 \<Rightarrow> int \<times> dpll_data" where
  "rounded_mult inp_rate dd target_rate =
     (let scaled_inp_rate = inp_rate div ADPLL_ROUNDING_DIVIDER;
          scaled_targ_rate = target_rate div ADPLL_ROUNDING_DIVIDER;
          dividend = (ucast (scaled_targ_rate * (ucast (pre_div_n dd) + 1) * ucast (last_rounded_m2 dd)) :: u64);
          quotient = udiv dividend (ucast scaled_inp_rate);
          remainder = (ucast (umod dividend (ucast scaled_inp_rate)) :: u32);
          rremainder = target_rate mod ADPLL_ROUNDING_DIVIDER;
          m = (ucast quotient :: u16)
      in if m < TI814X_ADPLL_MIN_MULT \<or> m > max_multiplier dd then (- EINVAL, dd)
         else
           let dd = dd\<lparr>last_rounded_m := m\<rparr> in
           if remainder = 0 \<and> rremainder = 0 then (0, dd\<lparr>last_rounded_frac_m := 0\<rparr>)
           else
             let frac = (ucast (do_div (ucast (push_bit 18 remainder)) (ucast scaled_inp_rate)) :: u32);
                 rfraction = (ucast (rremainder * (ucast (last_rounded_n dd) + 1)) :: u64);
                 rfraction = push_bit 18 (rfraction * ucast (last_rounded_m2 dd));
                 rfraction = do_div rfraction (ucast inp_rate);
                 frac = ucast (ucast frac + rfraction);
                 frac_overflow = drop_bit 18 frac
             in (0, if frac_overflow > 0
                    then dd\<lparr>last_rounded_m := m + ucast frac_overflow,
                            last_rounded_frac_m := frac AND TI814X_ADPLL_FRACT_MULT_MASK\<rparr>
                    else dd\<lparr>last_rounded_frac_m := frac\<rparr>))"

definition dpll_get_rounded_vals ::
  "clk_id \<Rightarrow> dpll_id \<Rightarrow> u32 \<Rightarrow> 'a kstate_scheme \<Rightarrow> (int \<times> 'a kstate_scheme) option" where
  "dpll_get_rounded_vals c d target_rate s =
     (case clk_parent (clks s c) of
        None \<Rightarrow> None
      | Some p \<Rightarrow>
          let dd0 = (dplls s d)\<lparr>last_rounded_n := pre_div_n (dplls s d)\<rparr>;
              (ret, dd1) = adpll_test_dco_freq dd0 target_rate
          in if ret \<noteq> 0 then Some (ret, dpll_upd d (\<lambda>_. dd1) s)
             else
               let (ret, dd2) = rounded_mult (rate_of p s) dd1 target_rate
               in Some (ret, dpll_upd d (\<lambda>_. dd2) s))"

definition ti814x_dpll_round_rate ::
  "clk_id \<Rightarrow> u32 \<Rightarrow> 'a kstate_scheme \<Rightarrow> (u32 \<times> 'a kstate_scheme) option" where
  "ti814x_dpll_round_rate c target_rate s =
     (case clk_dpll_data (clks s c) of
        None \<Rightarrow> Some (- 1, s)
      | Some d \<Rightarrow>
          do {
            (ret, s1) \<leftarrow> dpll_get_rounded_vals c d target_rate
                           (dpll_upd d (\<lambda>k. k\<lparr>last_rounded_rate := 0\<rparr>) s);
            if ret \<noteq> 0 then Some (word_of_int ret, s1)
            else
              let dd = dplls s1 d;
                  r = adpll_compute_new_rate (rate_of (clk_ref dd) s1) (ucast (last_rounded_m dd))
                        (last_rounded_frac_m dd) (ucast (last_rounded_n dd)) (ucast (last_rounded_m2 dd))
              in Some (r, dpll_upd d (\<lambda>k. k\<lparr>last_rounded_rate := r\<rparr>) s1)
          })"

section \<open>Programming\<close>

definition write_field :: "u32 \<Rightarrow> u32 \<Rightarrow> u32 \<Rightarrow> 'a world_scheme \<Rightarrow> 'a world_scheme" where
  "write_field m x a s = raw_writel (field_set m x (raw_readl a s)) a s"

text \<open>\<^verbatim>\<open>v &= ~(m2_mask | n_mask); v |= m2 << \<dots>; v |= n << \<dots>\<close>\<close>

definition write_m2n :: "dpll_data \<Rightarrow> u32 \<Rightarrow> u32 \<Rightarrow> 'a world_scheme \<Rightarrow> 'a world_scheme" where
  "write_m2n dd m2 n s =
     raw_writel (((raw_readl (div_m2n_reg dd) s AND NOT (div_m2_mask dd OR div_n_mask dd))
                   OR push_bit (ffs (div_m2_mask dd)) m2) OR push_bit (ffs (div_n_mask dd)) n)
       (div_m2n_reg dd) s"

text \<open>Asserting and de-asserting one of the load bits, with the delay between.\<close>

definition pulse_reg :: "u32 \<Rightarrow> u32 \<Rightarrow> 'a world_scheme \<Rightarrow> 'a world_scheme" where
  "pulse_reg bits a s = reg_clear bits a (delay1 (reg_set bits a s))"

text \<open>The register writes between entering and leaving the configuration sequence.\<close>

definition dpll_write_config ::
  "u32 \<Rightarrow> dpll_data \<Rightarrow> u16 \<Rightarrow> u32 \<Rightarrow> u8 \<Rightarrow> u8 \<Rightarrow> u8 \<Rightarrow> 'a world_scheme \<Rightarrow> 'a world_scheme" where
  "dpll_write_config parent_rate dd m frac_m n m2 dco s =
     (let s1 = write_field (mult_mask dd) (ucast m) (mult_div1_reg dd) s;
          s2 = write_field (frac_mult_mask dd) frac_m (frac_mult_reg dd) s1;
          s3 = write_m2n dd (ucast m2) (ucast n) s2;
          s4 = (if sddiv_mask dd \<noteq> 0
                then write_field (sddiv_mask dd)
                       (case lookup_sddiv parent_rate m (n + 1) of None \<Rightarrow> 0 | Some sd \<Rightarrow> ucast sd)
                       (frac_mult_reg dd) s3
                else s3);
          s5 = (if dd_flags dd AND TI814X_ADPLL_LJ_TYPE \<noteq> 0
                then write_field (dco_mask dd) (ucast dco) (control_reg dd) s4 else s4);
          s6 = pulse_reg (BIT TI814X_ADPLL_LOAD_MN_SHIFT) (load_mn_reg dd) s5;
          s7 = pulse_reg (BIT TI814X_ADPLL_LOAD_M2N2_SHIFT) (load_m2n2_reg dd) s6;
          s8 = reg_set (BIT TI814X_ADPLL_CLKOUTLDOEN_SHIFT) (control_reg dd) s7
      in reg_set (BIT TI814X_ADPLL_CLKDCOLDOEN_SHIFT) (control_reg dd) s8)"

text \<open>
  The last wait's failure is printed and 0 is returned all the same. The parent is read
  only when the sigma-delta divider has to be looked up.
\<close>

definition ti814x_dpll_program ::
  "clk_id \<Rightarrow> u16 \<Rightarrow> u32 \<Rightarrow> u8 \<Rightarrow> u8 \<Rightarrow> u8 \<Rightarrow> bool \<Rightarrow> 'a kstate_scheme
   \<Rightarrow> (int \<times> 'a kstate_scheme) option" where
  "ti814x_dpll_program c m frac_m n m2 dco enterbypass s =
     (case clk_dpll_data (clks s c) of
        None \<Rightarrow> Some (- EINVAL, s)
      | Some d \<Rightarrow>
          let dd = dplls s d;
              (ret, s1) = (if enterbypass then ti814x_dpll_bypass d s else (0, s))
          in if enterbypass \<and> ret \<noteq> 0 then Some (- EBUSY, s1)
             else if sddiv_mask dd \<noteq> 0 \<and> clk_parent (clks s c) = None then None
             else
               let s2 = (if enterbypass then ti814x_dpll_init_config_sequence d s1 else s1);
                   parent_rate = (case clk_parent (clks s c) of None \<Rightarrow> 0 | Some p \<Rightarrow> rate_of p s);
                   s3 = dpll_write_config parent_rate dd m frac_m n m2 dco s2;
                   s4 = (if enterbypass
                         then snd (ti814x_rel_dpll_bypass d (ti814x_dpll_end_config_sequence d s3))
                         else s3)
               in Some (0, snd (ti814x_wait_dpll_status d ST_ADPLL_LOCKED s4)))"

section \<open>Lemmas\<close>

end
