(* ===== verification/Omap2_Clock.thy ===== *)
theory Omap2_Clock
  imports Adpll
begin

unbundle bit_operations_syntax

text \<open>
  Enabling and disabling clocks: the hardware operations behind \<^verbatim>\<open>struct clkops\<close>
  (\<^verbatim>\<open>mach-omap2/clock.c\<close>, \<^verbatim>\<open>clock81xx.c\<close>, \<^verbatim>\<open>prcm.c\<close>), the
  reference-counted recursion over the parents (\<^verbatim>\<open>omap2_clk_enable\<close>,
  \<^verbatim>\<open>omap2_clk_disable\<close>) with its error path, and the driver interface
  \<^verbatim>\<open>clk_enable\<close>, \<^verbatim>\<open>clk_disable\<close> of \<^verbatim>\<open>plat-omap/clock.c\<close>.
\<close>

section \<open>Hardware operations\<close>

abbreviation (input) TI81XX_IDLEST_MASK :: u32 where "TI81XX_IDLEST_MASK \<equiv> 0x30000"
abbreviation (input) TI81XX_IDLEST_VAL :: u8 where "TI81XX_IDLEST_VAL \<equiv> 3"
abbreviation (input) MAX_MODULE_ENABLE_WAIT :: nat where "MAX_MODULE_ENABLE_WAIT \<equiv> 100000"
abbreviation (input) TI81XX_PRM_DEFAULT_MOD :: u16 where "TI81XX_PRM_DEFAULT_MOD \<equiv> 0x0b00"
abbreviation (input) TI81XX_PCI_LRST_MASK :: u32 where "TI81XX_PCI_LRST_MASK \<equiv> 0x80"
abbreviation (input) TI81XX_USB1_LRST_MASK :: u32 where "TI81XX_USB1_LRST_MASK \<equiv> 0x20"
abbreviation (input) TI81XX_USB2_LRST_MASK :: u32 where "TI81XX_USB2_LRST_MASK \<equiv> 0x40"

definition omap2_cm_wait_idlest ::
  "u32 \<Rightarrow> u32 \<Rightarrow> u8 \<Rightarrow> 'a world_scheme \<Rightarrow> int \<times> 'a world_scheme" where
  "omap2_cm_wait_idlest reg m idlest s =
     (let ena = (if idlest \<noteq> 0 then 0 else m);
          (i, s1) = omap_test_timeout (\<lambda>t. raw_readl reg t AND m = ena) MAX_MODULE_ENABLE_WAIT s
      in (if i < MAX_MODULE_ENABLE_WAIT then 1 else 0, s1))"

text \<open>
  None of the \<^verbatim>\<open>clkops\<close> of the DM814x data has a \<^verbatim>\<open>find_idlest\<close>, so
  \<^verbatim>\<open>_omap2_module_wait_ready\<close> is not reached from here.
\<close>

definition omap2_dflt_clk_enable :: "clk_id \<Rightarrow> 'a kstate_scheme \<Rightarrow> int \<times> 'a kstate_scheme" where
  "omap2_dflt_clk_enable c s =
     (let k = clks s c in
      if clk_enable_reg k = 0 then (0, s)
      else
        let v = raw_readl (clk_enable_reg k) s;
            v = (if clk_flags k AND INVERT_ENABLE \<noteq> 0
                 then v AND NOT (BIT (clk_enable_bit k)) else v OR BIT (clk_enable_bit k))
        in (0, raw_writel v (clk_enable_reg k) s))"

definition omap2_dflt_clk_disable :: "clk_id \<Rightarrow> 'a kstate_scheme \<Rightarrow> 'a kstate_scheme" where
  "omap2_dflt_clk_disable c s =
     (let k = clks s c in
      if clk_enable_reg k = 0 then s
      else
        let v = raw_readl (clk_enable_reg k) s;
            v = (if clk_flags k AND INVERT_ENABLE \<noteq> 0
                 then v OR BIT (clk_enable_bit k) else v AND NOT (BIT (clk_enable_bit k)))
        in raw_writel v (clk_enable_reg k) s)"

definition ti81xx_dflt_wait_clk_enable :: "clk_id \<Rightarrow> 'a kstate_scheme \<Rightarrow> int \<times> 'a kstate_scheme" where
  "ti81xx_dflt_wait_clk_enable c s =
     (let s1 = snd (omap2_dflt_clk_enable c s)
      in (0, snd (omap2_cm_wait_idlest (clk_enable_reg (clks s c)) TI81XX_IDLEST_MASK TI81XX_IDLEST_VAL s1)))"

definition ti81xx_pcie_clk_enable :: "clk_id \<Rightarrow> 'a kstate_scheme \<Rightarrow> int \<times> 'a kstate_scheme" where
  "ti81xx_pcie_clk_enable c s =
     (let s1 = snd (omap2_dflt_clk_enable c s);
          s2 = snd (omap2_prm_clear_mod_reg_bits TI81XX_PCI_LRST_MASK TI81XX_PRM_DEFAULT_MOD TI81XX_RM_RSTCTRL s1)
      in (0, snd (omap2_cm_wait_idlest (clk_enable_reg (clks s c)) TI81XX_IDLEST_MASK TI81XX_IDLEST_VAL s2)))"

definition ti81xx_pcie_clk_disable :: "clk_id \<Rightarrow> 'a kstate_scheme \<Rightarrow> 'a kstate_scheme" where
  "ti81xx_pcie_clk_disable c s =
     omap2_dflt_clk_disable c
       (snd (omap2_prm_set_mod_reg_bits TI81XX_PCI_LRST_MASK TI81XX_PRM_DEFAULT_MOD TI81XX_RM_RSTCTRL s))"

definition ti81xx_usb_clk_enable :: "clk_id \<Rightarrow> 'a kstate_scheme \<Rightarrow> int \<times> 'a kstate_scheme" where
  "ti81xx_usb_clk_enable c s =
     (let s1 = snd (omap2_dflt_clk_enable c s);
          s2 = snd (omap2_prm_clear_mod_reg_bits (TI81XX_USB1_LRST_MASK OR TI81XX_USB2_LRST_MASK)
                      TI81XX_PRM_DEFAULT_MOD TI81XX_RM_RSTCTRL s1)
      in (0, snd (omap2_cm_wait_idlest (clk_enable_reg (clks s c)) TI81XX_IDLEST_MASK TI81XX_IDLEST_VAL s2)))"

definition ti81xx_usb_clk_disable :: "clk_id \<Rightarrow> 'a kstate_scheme \<Rightarrow> 'a kstate_scheme" where
  "ti81xx_usb_clk_disable c s =
     omap2_dflt_clk_disable c
       (snd (omap2_prm_set_mod_reg_bits (TI81XX_USB1_LRST_MASK OR TI81XX_USB2_LRST_MASK)
               TI81XX_PRM_DEFAULT_MOD TI81XX_RM_RSTCTRL s))"

text \<open>The calls through \<^verbatim>\<open>clk->ops->enable\<close> and \<^verbatim>\<open>clk->ops->disable\<close>.\<close>

fun ops_enable :: "clkops \<Rightarrow> clk_id \<Rightarrow> 'a kstate_scheme \<Rightarrow> int \<times> 'a kstate_scheme" where
  "ops_enable Clkops_null c s = (0, s)"
| "ops_enable Clkops_omap2_dflt c s = omap2_dflt_clk_enable c s"
| "ops_enable Clkops_ti81xx_dflt_wait c s = ti81xx_dflt_wait_clk_enable c s"
| "ops_enable Clkops_ti81xx_pcie c s = ti81xx_pcie_clk_enable c s"
| "ops_enable Clkops_ti81xx_usb c s = ti81xx_usb_clk_enable c s"
| "ops_enable Clkops_ti814x_dpll c s = ti814x_dpll_enable c s"

fun ops_disable :: "clkops \<Rightarrow> clk_id \<Rightarrow> 'a kstate_scheme \<Rightarrow> 'a kstate_scheme option" where
  "ops_disable Clkops_null c s = Some s"
| "ops_disable Clkops_omap2_dflt c s = Some (omap2_dflt_clk_disable c s)"
| "ops_disable Clkops_ti81xx_dflt_wait c s = Some (omap2_dflt_clk_disable c s)"
| "ops_disable Clkops_ti81xx_pcie c s = Some (ti81xx_pcie_clk_disable c s)"
| "ops_disable Clkops_ti81xx_usb c s = Some (ti81xx_usb_clk_disable c s)"
| "ops_disable Clkops_ti814x_dpll c s = ti814x_dpll_disable c s"

section \<open>Reference-counted enable and disable\<close>

definition usecount_inc :: "clk_id \<Rightarrow> 'a kstate_scheme \<Rightarrow> 'a kstate_scheme" where
  "usecount_inc c s = clk_upd c (\<lambda>k. k\<lparr>clk_usecount := clk_usecount k + 1\<rparr>) s"

definition usecount_dec :: "clk_id \<Rightarrow> 'a kstate_scheme \<Rightarrow> 'a kstate_scheme" where
  "usecount_dec c s = clk_upd c (\<lambda>k. k\<lparr>clk_usecount := clk_usecount k - 1\<rparr>) s"

text \<open>\<^verbatim>\<open>if (clk->clkdm) omap2_clkdm_clk_\<dots>(clk->clkdm, clk)\<close>\<close>

definition clkdm_enable_of :: "clk_id \<Rightarrow> 'a kstate_scheme \<Rightarrow> (int \<times> 'a kstate_scheme) option" where
  "clkdm_enable_of c s =
     (case clk_clkdm (clks s c) of None \<Rightarrow> Some (0, s) | Some d \<Rightarrow> omap2_clkdm_clk_enable (Some d) s)"

definition clkdm_disable_of :: "clk_id \<Rightarrow> 'a kstate_scheme \<Rightarrow> 'a kstate_scheme option" where
  "clkdm_disable_of c s =
     (case clk_clkdm (clks s c) of None \<Rightarrow> Some s
      | Some d \<Rightarrow> map_option snd (omap2_clkdm_clk_disable (Some d) s))"

partial_function (option) omap2_clk_disable ::
  "clk_id \<Rightarrow> 'a kstate_scheme \<Rightarrow> 'a kstate_scheme option" where
  "omap2_clk_disable c s =
     (if usecount c s = 0 then Some s
      else if usecount c (usecount_dec c s) > 0 then Some (usecount_dec c s)
      else
        do {
          s1 \<leftarrow> ops_disable (clk_ops (clks s c)) c (usecount_dec c s);
          s2 \<leftarrow> clkdm_disable_of c s1;
          (case clk_parent (clks s2 c) of None \<Rightarrow> Some s2 | Some p \<Rightarrow> omap2_clk_disable p s2)
        })"

definition clk_disable_parent :: "clk_id \<Rightarrow> 'a kstate_scheme \<Rightarrow> 'a kstate_scheme option" where
  "clk_disable_parent c s =
     (case clk_parent (clks s c) of None \<Rightarrow> Some s | Some p \<Rightarrow> omap2_clk_disable p s)"

text \<open>
  The steps of \<^verbatim>\<open>omap2_clk_enable\<close> after the parent is on, with the labels
  \<^verbatim>\<open>oce_err3\<close>, \<^verbatim>\<open>oce_err2\<close> and \<^verbatim>\<open>oce_err1\<close> in the order the source
  falls through them.
\<close>

definition oce_err1 :: "clk_id \<Rightarrow> int \<Rightarrow> 'a kstate_scheme \<Rightarrow> (int \<times> 'a kstate_scheme) option" where
  "oce_err1 c ret s = Some (ret, usecount_dec c s)"

definition oce_err2 :: "clk_id \<Rightarrow> int \<Rightarrow> 'a kstate_scheme \<Rightarrow> (int \<times> 'a kstate_scheme) option" where
  "oce_err2 c ret s = do { s1 \<leftarrow> clk_disable_parent c s; oce_err1 c ret s1 }"

definition oce_err3 :: "clk_id \<Rightarrow> int \<Rightarrow> 'a kstate_scheme \<Rightarrow> (int \<times> 'a kstate_scheme) option" where
  "oce_err3 c ret s = do { s1 \<leftarrow> clkdm_disable_of c s; oce_err2 c ret s1 }"

definition clk_enable_self :: "clk_id \<Rightarrow> 'a kstate_scheme \<Rightarrow> (int \<times> 'a kstate_scheme) option" where
  "clk_enable_self c s =
     do {
       (ret, s1) \<leftarrow> clkdm_enable_of c s;
       if ret \<noteq> 0 then oce_err2 c ret s1
       else
         let (ret, s2) = ops_enable (clk_ops (clks s1 c)) c s1 in
         if ret \<noteq> 0 then oce_err3 c ret s2 else Some (0, s2)
     }"

partial_function (option) omap2_clk_enable ::
  "clk_id \<Rightarrow> 'a kstate_scheme \<Rightarrow> (int \<times> 'a kstate_scheme) option" where
  "omap2_clk_enable c s =
     (if usecount c (usecount_inc c s) > 1 then Some (0, usecount_inc c s)
      else
        do {
          (ret, s1) \<leftarrow> (case clk_parent (clks s c) of
                          None \<Rightarrow> Some (0, usecount_inc c s)
                        | Some p \<Rightarrow> omap2_clk_enable p (usecount_inc c s));
          if ret \<noteq> 0 then oce_err1 c ret s1 else clk_enable_self c s1
        })"

section \<open>The driver interface\<close>

definition clk_enable :: "clk_id option \<Rightarrow> 'a kstate_scheme \<Rightarrow> (int \<times> 'a kstate_scheme) option" where
  "clk_enable cc s =
     (case cc of None \<Rightarrow> Some (- EINVAL, s) | Some c \<Rightarrow> omap2_clk_enable c s)"

definition clk_disable :: "clk_id option \<Rightarrow> 'a kstate_scheme \<Rightarrow> 'a kstate_scheme option" where
  "clk_disable cc s =
     (case cc of None \<Rightarrow> Some s
      | Some c \<Rightarrow> if usecount c s = 0 then Some s else omap2_clk_disable c s)"

text \<open>\<^verbatim>\<open>clk_enable_init_clocks\<close>: every registered clock that asks for it.\<close>

fun enable_init_list :: "clk_id list \<Rightarrow> 'a kstate_scheme \<Rightarrow> 'a kstate_scheme option" where
  "enable_init_list [] s = Some s"
| "enable_init_list (c # cs) s =
     (if clk_flags (clks s c) AND ENABLE_ON_INIT \<noteq> 0
      then do { (_, s1) \<leftarrow> clk_enable (Some c) s; enable_init_list cs s1 }
      else enable_init_list cs s)"

definition clk_enable_init_clocks :: "'a kstate_scheme \<Rightarrow> 'a kstate_scheme option" where
  "clk_enable_init_clocks s = enable_init_list (clocks s) s"

text \<open>
  \<^verbatim>\<open>omap2_clk_disable_unused\<close> (on a TI81xx the hardware operation is called
  directly) and the late \<^verbatim>\<open>clk_disable_unused\<close> that runs it over all clocks.
\<close>

definition omap2_clk_disable_unused :: "clk_id \<Rightarrow> 'a kstate_scheme \<Rightarrow> 'a kstate_scheme option" where
  "omap2_clk_disable_unused c s =
     (let k = clks s c;
          v = (if clk_flags k AND INVERT_ENABLE \<noteq> 0 then BIT (clk_enable_bit k) else 0)
      in if raw_readl (clk_enable_reg k) s AND BIT (clk_enable_bit k) = v then Some s
         else do {
           s1 \<leftarrow> ops_disable (clk_ops k) c s;
           (case clk_clkdm (clks s1 c) of
              None \<Rightarrow> Some s1
            | Some d \<Rightarrow> map_option snd (pwrdm_clkdm_state_switch (Some d) s1))
         })"

fun disable_unused_list :: "clk_id list \<Rightarrow> 'a kstate_scheme \<Rightarrow> 'a kstate_scheme option" where
  "disable_unused_list [] s = Some s"
| "disable_unused_list (c # cs) s =
     (if clk_ops (clks s c) = Clkops_null then disable_unused_list cs s
      else if usecount c s > 0 \<or> clk_enable_reg (clks s c) = 0 then disable_unused_list cs s
      else do { s1 \<leftarrow> omap2_clk_disable_unused c s; disable_unused_list cs s1 })"

definition clk_disable_unused :: "'a kstate_scheme \<Rightarrow> 'a kstate_scheme option" where
  "clk_disable_unused s = disable_unused_list (clocks s) s"

section \<open>Specification\<close>

text \<open>What enabling and disabling clocks leaves of the tree: everything but rates and use counts.\<close>

definition clk_core :: "clk \<Rightarrow> clk" where
  "clk_core k = k\<lparr>clk_rate := 0, clk_usecount := 0\<rparr>"

definition same_tree :: "'a kstate_scheme \<Rightarrow> 'a kstate_scheme \<Rightarrow> bool" where
  "same_tree s t \<longleftrightarrow> (\<forall>x. clk_core (clks t x) = clk_core (clks s x)) \<and> dplls t = dplls s
     \<and> clocks t = clocks s \<and> root_clks t = root_clks s \<and> cpu_mask t = cpu_mask s \<and> es1_0 t = es1_0 s
     \<and> (\<forall>d. clkdm_pwrdm (clkdms t d) = clkdm_pwrdm (clkdms s d))
     \<and> (\<forall>p. pwrdm_wf (pwrdms s p) \<longrightarrow> pwrdm_wf (pwrdms t p))"

text \<open>An operation that changes neither the tree nor a use count.\<close>

definition quiet :: "'a kstate_scheme \<Rightarrow> 'a kstate_scheme \<Rightarrow> bool" where
  "quiet s t \<longleftrightarrow> same_tree s t \<and> (\<forall>x. clk_usecount (clks t x) = clk_usecount (clks s x))"

section \<open>Lemmas\<close>

lemma same_tree_refl [simp]: "same_tree s s"
  by (simp add: same_tree_def)

lemma same_tree_trans: "same_tree s t \<Longrightarrow> same_tree t u \<Longrightarrow> same_tree s u"
  by (simp add: same_tree_def)

lemma clk_core_fields:
  assumes "clk_core k = clk_core k'"
  shows "clk_node k = clk_node k'" "clk_ops k = clk_ops k'" "clk_parent k = clk_parent k'" "clk_children k = clk_children k'"
    "clk_recalc_fn k = clk_recalc_fn k'" "clk_dpll_data k = clk_dpll_data k'" "clk_clkdm k = clk_clkdm k'"
    "clk_enable_reg k = clk_enable_reg k'" "clk_enable_bit k = clk_enable_bit k'" "clk_flags k = clk_flags k'"
    "clk_clksel k = clk_clksel k'" "clk_clksel_mask k = clk_clksel_mask k'" "clk_clksel_reg k = clk_clksel_reg k'"
    "clk_set_rate_fn k = clk_set_rate_fn k'" "clk_round_rate_fn k = clk_round_rate_fn k'" "clk_init_fn k = clk_init_fn k'"
  using assms by (cases k; cases k'; simp add: clk_core_def)+

lemma more_kstate:
  fixes s t :: "'a kstate_scheme"
  assumes "pm_world.more t = pm_world.more s"
  shows "clks t = clks s" "dplls t = dplls s" "clocks t = clocks s" "root_clks t = root_clks s" "cpu_mask t = cpu_mask s"
    "es1_0 t = es1_0 s"
  using assms by (cases s; cases t; simp)+

lemma quiet_refl [simp]: "quiet s s"
  by (simp add: quiet_def)

lemma quiet_trans: "quiet s t \<Longrightarrow> quiet t u \<Longrightarrow> quiet s u"
  by (auto simp: quiet_def intro: same_tree_trans)

lemma pm_step_quiet: "pm_step s t \<Longrightarrow> quiet s t"
  using more_kstate [of t s] by (simp add: quiet_def same_tree_def pm_step_def)

lemma quiet_rate: "quiet s (clk_upd c (\<lambda>k. k\<lparr>clk_rate := v\<rparr>) s)"
  by (simp add: quiet_def same_tree_def clk_core_def clk_upd_def)

lemma pm_step_idlest [simp]: "pm_step s (snd (omap2_cm_wait_idlest reg m v s))"
  by (simp add: omap2_cm_wait_idlest_def Let_def case_prod_unfold)

lemma pm_step_dflt [simp]: "pm_step s (snd (omap2_dflt_clk_enable c s))" "pm_step s (omap2_dflt_clk_disable c s)"
  by (simp_all add: omap2_dflt_clk_enable_def omap2_dflt_clk_disable_def Let_def)

lemma pm_step_reg [simp]: "pm_step s (reg_set bits a s)" "pm_step s (reg_clear bits a s)"
  by (simp_all add: reg_set_def reg_clear_def)

lemmas pm_steps = pm_step_trans [OF _ pm_step_reg(1)] pm_step_trans [OF _ pm_step_reg(2)]
  pm_step_trans [OF _ pm_step_basic(1)] pm_step_trans [OF _ pm_step_basic(2)] pm_step_trans [OF _ pm_step_basic(4)]
  pm_step_trans [OF _ pm_step_prm(2)] pm_step_trans [OF _ pm_step_prm(3)] pm_step_trans [OF _ pm_step_idlest]
  pm_step_trans [OF _ pm_step_dflt(1)] pm_step_trans [OF _ pm_step_dflt(2)]

lemma pm_step_dpll_wait:
  "pm_step s u \<Longrightarrow> pm_step s (snd (ti814x_wait_dpll_status d st u))"
  "pm_step s u \<Longrightarrow> pm_step s (snd (ti814x_wait_dpll_ret_ack d v u))"
  by (auto simp: ti814x_wait_dpll_status_def ti814x_wait_dpll_ret_ack_def Let_def case_prod_unfold intro: pm_steps)

lemma pm_step_dpll_mode:
  "pm_step s u \<Longrightarrow> pm_step s (snd (ti814x_dpll_bypass d u))" "pm_step s u \<Longrightarrow> pm_step s (snd (ti814x_rel_dpll_bypass d u))"
  "pm_step s u \<Longrightarrow> pm_step s (snd (ti814x_dpll_lock d u))" "pm_step s u \<Longrightarrow> pm_step s (snd (ti814_dpll_stop d u))"
  by (auto simp: ti814x_dpll_bypass_def ti814x_dpll_lock_def ti814x_rel_dpll_bypass_def ti814_dpll_stop_def Let_def case_prod_unfold
      intro!: pm_steps pm_step_dpll_wait)

lemma ops_enable_quiet: "quiet s (snd (ops_enable f c s))"
proof (cases f)
  case Clkops_ti814x_dpll
  show ?thesis
  proof (cases "clk_dpll_data (clks s c)")
    case (Some d)
    define u where "u = (let dd = dplls s d; s1 = reg_set (enable_mask dd) (control_reg dd) s in
      if dpll_ret_ack d s1 \<noteq> 0 then snd (ti814x_wait_dpll_ret_ack d ST_ADPLL_ACTIVE
         (reg_clear (BIT (stby_ret_bit dd)) (control_reg dd) s1)) else s1)"
    define w where "w = snd (if rate_of c u = rate_of (clk_bypass (dplls s d)) u then ti814x_dpll_bypass d u else ti814x_dpll_lock d u)"
    have "pm_step s u" by (auto simp: u_def Let_def intro!: pm_steps pm_step_dpll_wait)
    then have "quiet s w" by (auto simp: w_def intro!: pm_step_quiet pm_step_dpll_mode)
    moreover have "snd (ops_enable f c s) = w \<or> (\<exists>v. snd (ops_enable f c s) = clk_upd c (\<lambda>k. k\<lparr>clk_rate := v\<rparr>) w)"
      using Some by (auto simp: Clkops_ti814x_dpll ti814x_dpll_enable_def u_def w_def Let_def case_prod_unfold)
    ultimately show ?thesis using quiet_rate quiet_trans by metis
  qed (simp add: Clkops_ti814x_dpll ti814x_dpll_enable_def)
qed (auto simp: ti81xx_dflt_wait_clk_enable_def ti81xx_pcie_clk_enable_def ti81xx_usb_clk_enable_def Let_def
    intro!: pm_step_quiet pm_steps)

lemma ops_disable_quiet:
  assumes "f = Clkops_ti814x_dpll \<longrightarrow> clk_dpll_data (clks s c) \<noteq> None"
  obtains t where "ops_disable f c s = Some t" "quiet s t"
proof (cases f)
  case Clkops_ti814x_dpll
  then obtain d where "clk_dpll_data (clks s c) = Some d" using assms by blast
  then have "ops_disable f c s = Some (snd (ti814_dpll_stop d (reg_clear (enable_mask (dplls s d)) (control_reg (dplls s d)) s)))"
    by (simp add: Clkops_ti814x_dpll ti814x_dpll_disable_def)
  moreover have "quiet s (snd (ti814_dpll_stop d (reg_clear (enable_mask (dplls s d)) (control_reg (dplls s d)) s)))"
    by (auto intro!: pm_step_quiet pm_steps pm_step_dpll_mode)
  ultimately show thesis by (rule that)
qed (rule that, simp, auto simp: ti81xx_pcie_clk_disable_def ti81xx_usb_clk_disable_def intro!: pm_step_quiet pm_steps)+

lemma sint_u8_inc: "sint (w :: u8) < 127 \<Longrightarrow> sint (w + 1) = sint w + 1"
proof -
  assume a: "sint w < 127"
  have "- 128 \<le> sint w" using sint_ge [of w] by simp
  then show ?thesis using a by (simp add: sint_word_ariths(1) signed_take_bit_int_eq_self)
qed

lemma sint_u8_dec: "0 < sint (w :: u8) \<Longrightarrow> sint (w - 1) = sint w - 1"
proof -
  assume a: "0 < sint w"
  have "sint w < 128" using sint_lt [of w] by simp
  then show ?thesis using a by (simp add: sint_word_ariths(2) signed_take_bit_int_eq_self)
qed

lemma same_tree_fields:
  assumes "same_tree s t"
  shows "clk_node (clks t x) = clk_node (clks s x)" "clk_ops (clks t x) = clk_ops (clks s x)"
    "clk_parent (clks t x) = clk_parent (clks s x)" "clk_children (clks t x) = clk_children (clks s x)"
    "clk_recalc_fn (clks t x) = clk_recalc_fn (clks s x)" "clk_dpll_data (clks t x) = clk_dpll_data (clks s x)"
    "clk_clkdm (clks t x) = clk_clkdm (clks s x)" "clocks t = clocks s" "root_clks t = root_clks s" "dplls t = dplls s"
  using assms clk_core_fields [of "clks t x" "clks s x"] by (simp_all add: same_tree_def)

lemma same_tree_links: "same_tree s t \<Longrightarrow> clk_links t = clk_links s"
  by (simp add: clk_links_def child_def same_tree_fields)

lemma same_tree_wf: "same_tree s t \<Longrightarrow> tree_wf t = tree_wf s"
  by (simp add: tree_wf_def clk_wf_def same_tree_fields same_tree_links dpll_refs_def cong: option.case_cong)

lemma usecount_inc_simps [simp]:
  "clk_usecount (clks (usecount_inc c s) x) = (if x = c then clk_usecount (clks s c) + 1 else clk_usecount (clks s x))"
  "clk_usecount (clks (usecount_dec c s) x) = (if x = c then clk_usecount (clks s c) - 1 else clk_usecount (clks s x))"
  by (simp_all add: usecount_inc_def usecount_dec_def)

lemma clocks_usecount [simp]: "clocks (usecount_inc c s) = clocks s" "clocks (usecount_dec c s) = clocks s"
  by (simp_all add: usecount_inc_def usecount_dec_def)

lemma same_tree_usecount [simp]: "same_tree s (usecount_inc c s)" "same_tree s (usecount_dec c s)"
  by (simp_all add: same_tree_def usecount_inc_def usecount_dec_def clk_core_def clk_upd_def)

end
