(* ===== verification/Clksel.thy ===== *)
theory Clksel
  imports Clock_Tree
begin

unbundle bit_operations_syntax

text \<open>
  Selectable clocks (\<^verbatim>\<open>mach-omap2/clkt_clksel.c\<close>): the tables that relate register
  field values and divisors, the search for a divisor, and the operations that program a
  rate or a parent. What is printed, and the arguments of the messages, are not modelled.
\<close>

section \<open>Tables\<close>

text \<open>
  The search of \<^verbatim>\<open>_get_div_and_fieldval\<close> for the largest divisor of a table:
  the first entry that attains it.
\<close>

fun max_div_entry :: "('r \<Rightarrow> bool) \<Rightarrow> ('r \<Rightarrow> u8) \<Rightarrow> 'r list \<Rightarrow> u8 \<Rightarrow> 'r option \<Rightarrow> u8 \<times> 'r option" where
  "max_div_entry ok dv [] max_div best = (max_div, best)"
| "max_div_entry ok dv (r # rs) max_div best =
     (if \<not> ok r then max_div_entry ok dv rs max_div best
      else if dv r > max_div then max_div_entry ok dv rs (dv r) (Some r)
      else max_div_entry ok dv rs max_div best)"

text \<open>\<open>None\<close> is the return of 0, the error.\<close>

definition get_div_and_fieldval ::
  "clk_id \<Rightarrow> clk_id \<Rightarrow> 'a kstate_scheme \<Rightarrow> (u8 \<times> u32) option" where
  "get_div_and_fieldval src c s =
     (case get_clksel_by_parent c (Some src) s of
        None \<Rightarrow> None
      | Some cs \<Rightarrow>
         (case max_div_entry (rate_valid s) cr_div (cs_rates cs) 0 None of
            (max_div, Some r) \<Rightarrow> Some (max_div, cr_val r)
          | (_, None) \<Rightarrow> None))"

definition write_clksel_reg :: "clk_id \<Rightarrow> u32 \<Rightarrow> 'a kstate_scheme \<Rightarrow> 'a kstate_scheme" where
  "write_clksel_reg c field_val s =
     (let k = clks s c in
      raw_writel (field_set (clk_clksel_mask k) field_val (raw_readl (clk_clksel_reg k) s))
        (clk_clksel_reg k) s)"

definition divisor_to_clksel :: "clk_id \<Rightarrow> u32 \<Rightarrow> 'a kstate_scheme \<Rightarrow> u32" where
  "divisor_to_clksel c dv s =
     (case get_clksel_by_parent c (clk_parent (clks s c)) s of
        None \<Rightarrow> - 1
      | Some cs \<Rightarrow>
         (case find (\<lambda>r. rate_valid s r \<and> ucast (cr_div r) = dv) (cs_rates cs) of
            None \<Rightarrow> - 1
          | Some r \<Rightarrow> cr_val r))"

section \<open>Rounding, programming, reparenting\<close>

text \<open>
  The second result is \<^verbatim>\<open>*new_div\<close>, given with the value it had at the call. The
  loop stops at the first valid divisor whose rate does not exceed the target.
\<close>

definition omap2_clksel_round_rate_div ::
  "clk_id \<Rightarrow> u32 \<Rightarrow> u32 \<Rightarrow> 'a kstate_scheme \<Rightarrow> u32 \<times> u32" where
  "omap2_clksel_round_rate_div c target_rate new_div s =
     (if clk_clksel (clks s c) = None \<or> clk_clksel_mask (clks s c) = 0 then (- 1, new_div)
      else
        (case clk_parent (clks s c) of
           None \<Rightarrow> (- 1, 1)
         | Some p \<Rightarrow>
             (case get_clksel_by_parent c (Some p) s of
                None \<Rightarrow> (- 1, 1)
              | Some cs \<Rightarrow>
                 (case find (\<lambda>r. rate_valid s r \<and> udiv (rate_of p s) (ucast (cr_div r)) \<le> target_rate)
                         (cs_rates cs) of
                    None \<Rightarrow> (- 1, 1)
                  | Some r \<Rightarrow> (udiv (rate_of p s) (ucast (cr_div r)), ucast (cr_div r))))))"

definition omap2_clksel_round_rate :: "clk_id \<Rightarrow> u32 \<Rightarrow> 'a kstate_scheme \<Rightarrow> u32" where
  "omap2_clksel_round_rate c target_rate s = fst (omap2_clksel_round_rate_div c target_rate 0 s)"

definition omap2_clksel_set_rate ::
  "clk_id \<Rightarrow> u32 \<Rightarrow> 'a kstate_scheme \<Rightarrow> (int \<times> 'a kstate_scheme) option" where
  "omap2_clksel_set_rate c rate s =
     (if clk_clksel (clks s c) = None \<or> clk_clksel_mask (clks s c) = 0 then Some (- EINVAL, s)
      else
        let (validrate, new_div) = omap2_clksel_round_rate_div c rate 0 s in
        if validrate \<noteq> rate then Some (- EINVAL, s)
        else
          let field_val = divisor_to_clksel c new_div s in
          if field_val = - 1 then Some (- EINVAL, s)
          else
            let s1 = write_clksel_reg c field_val s in
            (case clk_parent (clks s1 c) of
               None \<Rightarrow> None
             | Some p \<Rightarrow> Some (0, clk_upd c (\<lambda>k. k\<lparr>clk_rate := udiv (rate_of p s1) new_div\<rparr>) s1)))"

definition omap2_clksel_set_parent ::
  "clk_id \<Rightarrow> clk_id \<Rightarrow> 'a kstate_scheme \<Rightarrow> int \<times> 'a kstate_scheme" where
  "omap2_clksel_set_parent c new_parent s =
     (if clk_clksel (clks s c) = None \<or> clk_clksel_mask (clks s c) = 0 then (- EINVAL, s)
      else
        (case get_div_and_fieldval new_parent c s of
           None \<Rightarrow> (- EINVAL, s)
         | Some (parent_div, field_val) \<Rightarrow>
             let s1 = write_clksel_reg c field_val s;
                 s2 = clk_reparent c (Some new_parent) s1
             in (0, clk_upd c (\<lambda>k. k\<lparr>clk_rate :=
                       (if parent_div > 0 then udiv (rate_of new_parent s2) (ucast parent_div)
                        else rate_of new_parent s2)\<rparr>) s2)))"

definition omap2_clk_set_parent ::
  "clk_id \<Rightarrow> clk_id \<Rightarrow> 'a kstate_scheme \<Rightarrow> int \<times> 'a kstate_scheme" where
  "omap2_clk_set_parent c new_parent s =
     (if clk_clksel (clks s c) = None then (- EINVAL, s)
      else if clk_parent (clks s c) = Some new_parent then (0, s)
      else omap2_clksel_set_parent c new_parent s)"

definition clk_set_parent ::
  "clk_id option \<Rightarrow> clk_id option \<Rightarrow> 'a kstate_scheme \<Rightarrow> (int \<times> 'a kstate_scheme) option" where
  "clk_set_parent cc pp s =
     (case (cc, pp) of
        (Some c, Some p) \<Rightarrow>
          (if usecount c s = 0 then
             let (ret, s1) = omap2_clk_set_parent c p s in
             if ret = 0 then
               do { s2 \<leftarrow> recalc1 c s1; s3 \<leftarrow> propagate_rate c s2; Some (ret, s3) }
             else Some (ret, s1)
           else Some (- EBUSY, s))
      | _ \<Rightarrow> Some (- EINVAL, s))"

section \<open>Specification\<close>

definition table_ok :: "'a kstate_scheme \<Rightarrow> u32 \<Rightarrow> clksel_rate list \<Rightarrow> bool" where
  "table_ok s m rs \<longleftrightarrow> distinct (map cr_val (filter (rate_valid s) rs))
     \<and> (\<forall>r \<in> set rs. rate_valid s r \<longrightarrow> field_fits m (cr_val r) \<and> cr_div r \<noteq> 0)"

definition clksel_ok :: "clk_id \<Rightarrow> 'a kstate_scheme \<Rightarrow> bool" where
  "clksel_ok c s \<longleftrightarrow> (case clk_clksel (clks s c) of None \<Rightarrow> True
     | Some tab \<Rightarrow> \<forall>cs \<in> set tab. table_ok s (clk_clksel_mask (clks s c)) (cs_rates cs))"

text \<open>Rounding on a table in the order of its divisors.\<close>

definition achievable :: "clk_id \<Rightarrow> clk_id \<Rightarrow> 'a kstate_scheme \<Rightarrow> clksel \<Rightarrow> u32 set" where
  "achievable c p s cs = {udiv (rate_of p s) (ucast (cr_div r)) | r. r \<in> set (cs_rates cs) \<and> rate_valid s r}"

text \<open>Each field value belongs to one parent.\<close>

definition valid_vals :: "'a kstate_scheme \<Rightarrow> clksel \<Rightarrow> u32 set" where
  "valid_vals s cs = cr_val ` set (filter (rate_valid s) (cs_rates cs))"

definition clksel_unique :: "clk_id \<Rightarrow> 'a kstate_scheme \<Rightarrow> bool" where
  "clksel_unique c s \<longleftrightarrow> (case clk_clksel (clks s c) of None \<Rightarrow> True
     | Some tab \<Rightarrow> \<forall>cs \<in> set tab. \<forall>cs' \<in> set tab. cs_parent cs \<noteq> cs_parent cs' \<longrightarrow> valid_vals s cs \<inter> valid_vals s cs' = {})"

section \<open>Lemmas\<close>

lemma get_clksel_by_parent_mem:
  "get_clksel_by_parent c src s = Some cs \<Longrightarrow>
   \<exists>tab. clk_clksel (clks s c) = Some tab \<and> cs \<in> set tab \<and> src = Some (cs_parent cs)"
  by (auto simp: get_clksel_by_parent_def split: option.splits dest!: find_SomeD)

text \<open>In a well-formed table a valid entry is found again by its field value.\<close>

lemma table_find_val:
  assumes "distinct (map cr_val (filter ok rs))" "r \<in> set rs" "ok r"
  shows "find (\<lambda>x. ok x \<and> cr_val x = cr_val r) rs = Some r"
  using assms
proof (induction rs)
  case (Cons a rs)
  show ?case
  proof (cases "ok a \<and> cr_val a = cr_val r")
    case True
    moreover have "a = r"
    proof (rule ccontr)
      assume "a \<noteq> r"
      then have "cr_val r \<in> cr_val ` set (filter ok rs)" using Cons.prems by auto
      then show False using True Cons.prems(1) by auto
    qed
    ultimately show ?thesis by simp
  next
    case False
    then have "r \<in> set rs" using Cons.prems by auto
    moreover have "distinct (map cr_val (filter ok rs))" using Cons.prems(1) by (simp split: if_splits)
    ultimately show ?thesis using Cons.IH Cons.prems(3) False by auto
  qed
qed simp

lemma write_clksel_reg_simps [simp]:
  "clks (write_clksel_reg c v s) = clks s" "cpu_mask (write_clksel_reg c v s) = cpu_mask s"
  "dplls (write_clksel_reg c v s) = dplls s" "clocks (write_clksel_reg c v s) = clocks s"
  "root_clks (write_clksel_reg c v s) = root_clks s" "es1_0 (write_clksel_reg c v s) = es1_0 s"
  by (simp_all add: write_clksel_reg_def raw_writel_def Let_def)

lemma write_clksel_reg_field:
  "field_fits (clk_clksel_mask (clks s c)) v \<Longrightarrow>
   field_get (clk_clksel_mask (clks s c)) (raw_readl (clk_clksel_reg (clks s c)) (write_clksel_reg c v s)) = v"
  by (simp add: write_clksel_reg_def Let_def mmio_simps field_get_set)

text \<open>The divisor read back after writing the field value of an entry of the present parent's table.\<close>

lemma read_divisor_written:
  assumes "clksel_ok c s" "get_clksel_by_parent c (clk_parent (clks s c)) s = Some cs"
    "r \<in> set (cs_rates cs)" "rate_valid s r" "clk_clksel_mask (clks s c) \<noteq> 0"
    and t: "clk_parent (clks t c) = clk_parent (clks s c)" "clk_clksel (clks t c) = clk_clksel (clks s c)"
      "clk_clksel_mask (clks t c) = clk_clksel_mask (clks s c)" "clk_clksel_reg (clks t c) = clk_clksel_reg (clks s c)"
      "cpu_mask t = cpu_mask s"
      "field_get (clk_clksel_mask (clks s c)) (raw_readl (clk_clksel_reg (clks s c)) t) = cr_val r"
  shows "read_divisor c t = ucast (cr_div r)"
proof -
  obtain tab where tab: "clk_clksel (clks s c) = Some tab" "cs \<in> set tab"
    using get_clksel_by_parent_mem [OF assms(2)] by blast
  have ok: "table_ok s (clk_clksel_mask (clks s c)) (cs_rates cs)"
    using assms(1) tab by (simp add: clksel_ok_def)
  have "get_clksel_by_parent c (clk_parent (clks t c)) t = Some cs"
    using assms(2) t(1,2) by (simp add: get_clksel_by_parent_def)
  moreover have "find (\<lambda>x. rate_valid t x \<and> cr_val x = cr_val r) (cs_rates cs) = Some r"
    using table_find_val [of "rate_valid s" "cs_rates cs" r] ok assms(3,4) rate_valid_cong [OF t(5)]
    by (simp add: table_ok_def)
  ultimately show ?thesis
    using tab(1) assms(5) t by (simp add: read_divisor_def clksel_to_divisor_def)
qed

lemma round_rate_div_found:
  assumes "omap2_clksel_round_rate_div c rate d0 s = (v, d)" "v \<noteq> - 1"
  shows "\<exists>p cs r. clk_parent (clks s c) = Some p \<and> get_clksel_by_parent c (Some p) s = Some cs
    \<and> r \<in> set (cs_rates cs) \<and> rate_valid s r \<and> d = ucast (cr_div r) \<and> v = udiv (rate_of p s) d \<and> v \<le> rate"
  using assms
  by (auto simp: omap2_clksel_round_rate_div_def split: if_splits option.splits dest!: find_SomeD)

lemma divisor_to_clksel_found:
  assumes "divisor_to_clksel c d s = v" "v \<noteq> - 1"
  shows "\<exists>cs r. get_clksel_by_parent c (clk_parent (clks s c)) s = Some cs
    \<and> r \<in> set (cs_rates cs) \<and> rate_valid s r \<and> ucast (cr_div r) = d \<and> v = cr_val r"
  using assms
  by (auto simp: divisor_to_clksel_def split: option.splits dest!: find_SomeD)

lemma write_clksel_reg_frame:
  "raw_readl a (write_clksel_reg c v s) =
     (if a = clk_clksel_reg (clks s c) then field_set (clk_clksel_mask (clks s c)) v (raw_readl a s) else raw_readl a s)"
  by (simp add: write_clksel_reg_def Let_def mmio_simps)

lemma omap2_clksel_set_rate_result:
  assumes "omap2_clksel_set_rate c rate s = Some (0, t)" "rate \<noteq> - 1" "clksel_ok c s"
  obtains p f d where "clk_parent (clks s c) = Some p" "t = clk_upd c (\<lambda>k. k\<lparr>clk_rate := rate\<rparr>) (write_clksel_reg c f s)"
    "field_fits (clk_clksel_mask (clks s c)) f" "read_divisor c t = d" "d \<noteq> 0" "rate = udiv (rate_of p s) d"
proof -
  obtain v d where rd: "omap2_clksel_round_rate_div c rate 0 s = (v, d)" by (cases "omap2_clksel_round_rate_div c rate 0 s")
  have v: "v = rate" and f: "divisor_to_clksel c d s \<noteq> - 1" and m: "clk_clksel_mask (clks s c) \<noteq> 0"
    using assms(1) rd by (auto simp: omap2_clksel_set_rate_def Let_def split: if_splits)
  obtain p cs r where r: "clk_parent (clks s c) = Some p" "get_clksel_by_parent c (Some p) s = Some cs"
      "d = ucast (cr_div (r :: clksel_rate))" "rate = udiv (rate_of p s) d"
    using round_rate_div_found [OF rd] assms(2) unfolding v by metis
  obtain r' where r': "r' \<in> set (cs_rates cs)" "rate_valid s r'" "ucast (cr_div r') = d" "divisor_to_clksel c d s = cr_val r'"
    using divisor_to_clksel_found [OF refl f] r(1,2) by auto
  obtain tab where tab: "clk_clksel (clks s c) = Some tab" "cs \<in> set tab"
    using get_clksel_by_parent_mem [OF r(2)] by blast
  then have fits: "field_fits (clk_clksel_mask (clks s c)) (cr_val r')" and nz: "cr_div r' \<noteq> 0"
    using assms(3) r'(1,2) by (auto simp: clksel_ok_def table_ok_def)
  have t: "t = clk_upd c (\<lambda>k. k\<lparr>clk_rate := rate\<rparr>) (write_clksel_reg c (cr_val r') s)"
    using assms(1) rd v f r(1,4) r'(4) by (auto simp: omap2_clksel_set_rate_def Let_def split: if_splits)
  have "read_divisor c t = ucast (cr_div r')"
    using r(1,2) r'(1,2) m write_clksel_reg_field [OF fits]
    by (intro read_divisor_written [OF assms(3), of cs]) (simp_all add: t)
  moreover have "d \<noteq> 0" using nz r'(3) by (metis ucast_u8_0)
  ultimately show thesis using that [OF r(1) t fits] r(4) r'(3) by simp
qed

text \<open>
  C19: when omap2_clksel_set_rate returns 0, recalculating the rate from the selector
  register gives the rate that was asked for; no other clock, no other register and no bit
  of the register outside the clock field changes.
\<close>

theorem omap2_clksel_set_rate_reads_back:
  assumes "omap2_clksel_set_rate c rate s = Some (0, t)" "rate \<noteq> - 1"
    "clksel_ok c s" "clk_parent (clks s c) \<noteq> Some c"
  shows "rate_of c t = rate \<and> omap2_clksel_recalc c t = Some rate
    \<and> (\<forall>x. x \<noteq> c \<longrightarrow> clks t x = clks s x)
    \<and> (\<forall>a. a \<noteq> clk_clksel_reg (clks s c) \<longrightarrow> raw_readl a t = raw_readl a s)
    \<and> raw_readl (clk_clksel_reg (clks s c)) t AND NOT (clk_clksel_mask (clks s c))
      = raw_readl (clk_clksel_reg (clks s c)) s AND NOT (clk_clksel_mask (clks s c))"
proof -
  obtain p f d where p: "clk_parent (clks s c) = Some p" and t: "t = clk_upd c (\<lambda>k. k\<lparr>clk_rate := rate\<rparr>) (write_clksel_reg c f s)"
    and d: "field_fits (clk_clksel_mask (clks s c)) f" "read_divisor c t = d" "d \<noteq> 0" "rate = udiv (rate_of p s) d"
    using assms(1-3) by (rule omap2_clksel_set_rate_result)
  have "omap2_clksel_recalc c t = Some rate"
    using p assms(4) d(2-4) by (auto simp: omap2_clksel_recalc_def t)
  moreover have "field_set m x w AND NOT m = w AND NOT m" if "field_fits m x" for m x w
    using that by (auto simp: field_fits_def field_set_def bit_eq_iff bit_simps)
  ultimately show ?thesis by (auto simp: t write_clksel_reg_frame d(1))
qed

text \<open>
  C20: on a table whose divisors ascend, the first-fit search of omap2_clksel_round_rate
  returns the greatest achievable rate that does not exceed the target, and ~0 exactly when
  there is none.
\<close>

theorem omap2_clksel_round_rate_best:
  assumes "clk_clksel (clks s c) \<noteq> None" "clk_clksel_mask (clks s c) \<noteq> 0" "clk_parent (clks s c) = Some p"
    "get_clksel_by_parent c (Some p) s = Some cs" "clksel_ok c s"
    "sorted_wrt (\<le>) (map cr_div (filter (rate_valid s) (cs_rates cs)))"
  shows "omap2_clksel_round_rate c rate s =
    (if \<exists>v \<in> achievable c p s cs. v \<le> rate then Max {v \<in> achievable c p s cs. v \<le> rate} else - 1)"
proof -
  let ?f = "\<lambda>r. udiv (rate_of p s) (ucast (cr_div r))"
  let ?ok = "\<lambda>r. rate_valid s r \<and> ?f r \<le> rate"
  have fin: "finite (achievable c p s cs)" by (simp add: achievable_def)
  show ?thesis
  proof (cases "find ?ok (cs_rates cs)")
    case None
    then have "\<not> (\<exists>v \<in> achievable c p s cs. v \<le> rate)" by (auto simp: achievable_def find_None_iff)
    then show ?thesis using assms None by (simp add: omap2_clksel_round_rate_def omap2_clksel_round_rate_div_def)
  next
    case (Some r)
    then have r: "r \<in> set (cs_rates cs)" "rate_valid s r" "?f r \<le> rate" using find_SomeD by fastforce+
    have "?f r' \<le> ?f r" if "r' \<in> set (cs_rates cs)" "rate_valid s r'" "?f r' \<le> rate" for r'
    proof -
      have "cr_div r \<le> cr_div r'"
        using find_first_best [of cr_div "rate_valid s" "cs_rates cs" "\<lambda>d. udiv (rate_of p s) (ucast d) \<le> rate" r r']
          assms(6) Some that by blast
      then have "(ucast (cr_div r) :: u32) \<le> ucast (cr_div r')" by (simp add: word_le_nat_alt unat_ucast_up)
      moreover have "cr_div r \<noteq> 0"
        using assms(5) get_clksel_by_parent_mem [OF assms(4)] r by (auto simp: clksel_ok_def table_ok_def)
      ultimately show ?thesis by (intro udiv_antimono) simp_all
    qed
    then have "Max {v \<in> achievable c p s cs. v \<le> rate} = ?f r"
      using r fin by (intro Max_eqI) (auto simp: achievable_def)
    moreover have "\<exists>v \<in> achievable c p s cs. v \<le> rate" using r by (auto simp: achievable_def)
    ultimately show ?thesis using assms Some by (auto simp: omap2_clksel_round_rate_def omap2_clksel_round_rate_div_def)
  qed
qed

lemma max_div_entry_max:
  assumes "max_div_entry ok dv rs m best = (m', best')"
  shows "m \<le> m' \<and> (\<forall>r \<in> set rs. ok r \<longrightarrow> dv r \<le> m')
    \<and> (best' = best \<and> m' = m \<or> (\<exists>r \<in> set rs. ok r \<and> dv r = m' \<and> best' = Some r \<and> m < m'))"
  using assms
proof (induction rs arbitrary: m best)
  case (Cons r rs)
  show ?case
  proof (cases "ok r \<and> m < dv r")
    case True
    then have "max_div_entry ok dv rs (dv r) (Some r) = (m', best')" using Cons.prems by simp
    from Cons.IH [OF this] True show ?thesis by (auto simp del: max_div_entry.simps)
  next
    case False
    then have "max_div_entry ok dv rs m best = (m', best')" using Cons.prems by (simp split: if_splits)
    from Cons.IH [OF this] False show ?thesis by (auto simp del: max_div_entry.simps simp: not_less)
  qed
qed simp

lemma get_div_and_fieldval_max:
  assumes "get_clksel_by_parent c (Some p) s = Some cs" "\<exists>r \<in> set (cs_rates cs). rate_valid s r \<and> cr_div r \<noteq> 0"
  obtains r where "r \<in> set (cs_rates cs)" "rate_valid s r" "get_div_and_fieldval p c s = Some (cr_div r, cr_val r)"
    "cr_div r \<noteq> 0" "\<forall>r' \<in> set (cs_rates cs). rate_valid s r' \<longrightarrow> cr_div r' \<le> cr_div r"
proof -
  obtain m best where mb: "max_div_entry (rate_valid s) cr_div (cs_rates cs) 0 None = (m, best)"
    by (cases "max_div_entry (rate_valid s) cr_div (cs_rates cs) 0 None")
  note mx = max_div_entry_max [OF mb]
  have "m \<noteq> 0" using assms(2) mx by (metis word_le_0_iff)
  then obtain r where "r \<in> set (cs_rates cs)" "rate_valid s r" "cr_div r = m" "best = Some r" using mx by auto
  then show thesis using that [of r] mx mb assms(1) \<open>m \<noteq> 0\<close> by (auto simp: get_div_and_fieldval_def)
qed

lemma clk_links_write_clksel_reg [simp]: "clk_links (write_clksel_reg c v s) = clk_links s"
  by (simp add: clk_links_def child_def)

lemma init_parent_agrees:
  assumes "clksel_unique c s" "clk_clksel (clks s c) = Some tab" "cs \<in> set tab" "r \<in> set (cs_rates cs)" "rate_valid s r"
    and "clk_parent (clks s c) = Some (cs_parent cs)"
    "field_get (clk_clksel_mask (clks s c)) (raw_readl (clk_clksel_reg (clks s c)) s) = cr_val r"
  shows "omap2_init_clksel_parent c s = s"
proof (cases "find (\<lambda>cs. \<exists>x \<in> set (cs_rates cs). rate_valid s x \<and> cr_val x = cr_val r) tab")
  case None
  then show ?thesis using assms by (auto simp: find_None_iff)
next
  case (Some cs')
  then have "cs' \<in> set tab" "cr_val r \<in> valid_vals s cs'"
    using find_SomeD [OF Some] by (auto simp: valid_vals_def image_iff)
  moreover have "cr_val r \<in> valid_vals s cs" using assms(4,5) by (auto simp: valid_vals_def)
  ultimately have "cs_parent cs' = cs_parent cs" using assms(1-3) by (auto simp: clksel_unique_def)
  then show ?thesis using Some assms by (simp add: omap2_init_clksel_parent_def Let_def)
qed

text \<open>The state in which a new parent is selected, before the rates are propagated.\<close>

lemma clk_set_parent_selected:
  assumes "clk_links s" "c \<in> set (clocks s)" "clksel_ok c s" "clk_clksel_mask (clks s c) \<noteq> 0"
    "clk_clksel (clks s c) = Some tab" "clk_parent (clks s c) \<noteq> Some p"
    "get_clksel_by_parent c (Some p) s = Some cs" "\<exists>r \<in> set (cs_rates cs). rate_valid s r"
  obtains r t where "r \<in> set (cs_rates cs)" "rate_valid s r" "omap2_clk_set_parent c p s = (0, t)"
    "\<forall>x. x \<noteq> c \<longrightarrow> rate_of x t = rate_of x s" "clk_links t"
    "clocks t = clocks s" "dplls t = dplls s" "cpu_mask t = cpu_mask s"
    "\<And>x. clk_parent (clks t x) = (if x = c then Some p else clk_parent (clks s x))"
    "\<And>x. clk_recalc_fn (clks t x) = clk_recalc_fn (clks s x)" "\<And>x. clk_dpll_data (clks t x) = clk_dpll_data (clks s x)"
    "\<And>x. clk_clksel (clks t x) = clk_clksel (clks s x)" "\<And>x. clk_clksel_mask (clks t x) = clk_clksel_mask (clks s x)"
    "\<And>x. clk_clksel_reg (clks t x) = clk_clksel_reg (clks s x)"
    "field_get (clk_clksel_mask (clks s c)) (raw_readl (clk_clksel_reg (clks s c)) t) = cr_val r"
    "\<And>r'. r' \<in> set (cs_rates cs) \<Longrightarrow> rate_valid s r' \<Longrightarrow> cr_div r' \<le> cr_div r"
proof -
  have tab: "cs \<in> set tab" using get_clksel_by_parent_mem [OF assms(7)] assms(5) by auto
  then have ok: "table_ok s (clk_clksel_mask (clks s c)) (cs_rates cs)" using assms(3,5) by (simp add: clksel_ok_def)
  then have "\<exists>r \<in> set (cs_rates cs). rate_valid s r \<and> cr_div r \<noteq> 0" using assms(8) by (auto simp: table_ok_def)
  from get_div_and_fieldval_max [OF assms(7) this]
  obtain r where r: "r \<in> set (cs_rates cs)" "rate_valid s r" "get_div_and_fieldval p c s = Some (cr_div r, cr_val r)"
    "\<forall>r' \<in> set (cs_rates cs). rate_valid s r' \<longrightarrow> cr_div r' \<le> cr_div r" by metis
  have fits: "field_fits (clk_clksel_mask (clks s c)) (cr_val r)" using ok r by (simp add: table_ok_def)
  define s2 where "s2 = clk_reparent c (Some p) (write_clksel_reg c (cr_val r) s)"
  have "raw_readl a s2 = raw_readl a (write_clksel_reg c (cr_val r) s)" for a by (simp add: s2_def raw_readl_def)
  then have fg: "field_get (clk_clksel_mask (clks s c)) (raw_readl (clk_clksel_reg (clks s c)) s2) = cr_val r"
    using write_clksel_reg_field [OF fits] by simp
  have l: "clk_links s2" unfolding s2_def by (rule clk_links_reparent) (use assms in simp_all)
  obtain v where t: "omap2_clk_set_parent c p s = (0, clk_upd c (\<lambda>k. k\<lparr>clk_rate := v\<rparr>) s2)"
    using assms(4,5,6) r(3) by (auto simp: omap2_clk_set_parent_def omap2_clksel_set_parent_def s2_def Let_def)
  show thesis
    by (rule that [OF r(1,2) t]) (use fg l r(4) in \<open>simp_all add: clk_upd_rate_eq, simp_all add: s2_def clk_reparent_fields\<close>)
qed

lemma clksel_unique_cong:
  "clk_clksel (clks t c) = clk_clksel (clks s c) \<Longrightarrow> cpu_mask t = cpu_mask s \<Longrightarrow> clksel_unique c t = clksel_unique c s"
  by (simp add: clksel_unique_def valid_vals_def [abs_def] rate_valid_cong [of t s] cong: option.case_cong)

lemma clk_set_parent_coherent:
  assumes "tree_wf s" "c \<in> set (clocks s)" "usecount c s = 0" "clk_dpll_data (clks s c) = None"
    and sel: "clk_clksel (clks s c) = Some tab" "clk_clksel_mask (clks s c) \<noteq> 0" "clksel_ok c s" "clksel_unique c s"
    and p: "p \<in> set (clocks s)" "p < c" "clk_parent (clks s c) \<noteq> Some p"
    and cs: "get_clksel_by_parent c (Some p) s = Some cs" "\<exists>r \<in> set (cs_rates cs). rate_valid s r"
  shows "\<exists>t. clk_set_parent (Some c) (Some p) s = Some (0, t) \<and> tree_wf t
    \<and> (\<forall>x. clk_parent (clks t x) = (if x = c then Some p else clk_parent (clks s x)))
    \<and> (\<forall>x \<in> below t [c]. coherent t x) \<and> (\<forall>x. x \<notin> below t [c] \<longrightarrow> rate_of x t = rate_of x s)
    \<and> omap2_init_clksel_parent c t = t \<and> clocks t = clocks s \<and> cpu_mask t = cpu_mask s
    \<and> (\<forall>x. clk_clksel (clks t x) = clk_clksel (clks s x) \<and> clk_clksel_mask (clks t x) = clk_clksel_mask (clks s x)
         \<and> clk_dpll_data (clks t x) = clk_dpll_data (clks s x))"
proof -
  have l: "clk_links s" using assms(1) by (simp add: tree_wf_def)
  from clk_set_parent_selected [OF l assms(2) sel(3,2,1) p(3) cs]
  obtain r t where r: "r \<in> set (cs_rates cs)" "rate_valid s r" and t: "omap2_clk_set_parent c p s = (0, t)"
    and same: "\<forall>x. x \<noteq> c \<longrightarrow> rate_of x t = rate_of x s" "clk_links t" "clocks t = clocks s" "dplls t = dplls s" "cpu_mask t = cpu_mask s"
    and par: "\<And>x. clk_parent (clks t x) = (if x = c then Some p else clk_parent (clks s x))"
    and fields: "\<And>x. clk_recalc_fn (clks t x) = clk_recalc_fn (clks s x)" "\<And>x. clk_dpll_data (clks t x) = clk_dpll_data (clks s x)"
      "\<And>x. clk_clksel (clks t x) = clk_clksel (clks s x)" "\<And>x. clk_clksel_mask (clks t x) = clk_clksel_mask (clks s x)"
      "\<And>x. clk_clksel_reg (clks t x) = clk_clksel_reg (clks s x)"
    and fg: "field_get (clk_clksel_mask (clks s c)) (raw_readl (clk_clksel_reg (clks s c)) t) = cr_val r" by metis
  have wf: "tree_wf t"
    using assms(1) same(2-4) fields(1,2) by (rule tree_wf_update) (use p assms(4) par in auto)
  obtain v where v: "propagate_list [c] t = Some (with_rates t v)" "\<forall>x. x \<notin> below t [c] \<longrightarrow> v x = rate_of x t"
     "\<forall>x \<in> set (clocks t). coherent t x \<or> x \<in> below t [c] \<longrightarrow> coherent (with_rates t v) x"
    using propagate_list_wf [OF wf, of "[c]"] assms(2) same(3) by auto
  have c: "c \<in> below t [c]" by (auto simp: below_def)
  have sub: "below t [c] \<subseteq> set (clocks t)" using below_clocks [OF same(2), of "[c]"] assms(2) same(3) by simp
  have run: "clk_set_parent (Some c) (Some p) s = Some (0, with_rates t v)"
    using v(1) assms(3) t by (auto simp: clk_set_parent_def propagate_list_single Let_def split: bind_splits)
  have mem: "cs \<in> set tab" "cs_parent cs = p" using get_clksel_by_parent_mem [OF cs(1)] sel(1) by auto
  have "omap2_init_clksel_parent c (with_rates t v) = with_rates t v"
    by (rule init_parent_agrees [where cs = cs and r = r and tab = tab])
      (use fg mem r sel same fields par in \<open>simp_all add: rate_valid_cong [of t s] clksel_unique_cong [of "with_rates t v" c s]\<close>)
  moreover have "rate_of x t = rate_of x s" if "x \<notin> below t [c]" for x using that c same(1) by metis
  ultimately show ?thesis using run wf par v(2,3) sub same fields by (intro exI [of _ "with_rates t v"]) auto
qed

lemma clk_set_parent_same:
  assumes "tree_wf s" "c \<in> set (clocks s)" "usecount c s = 0" "clk_clksel (clks s c) \<noteq> None" "clk_parent (clks s c) = Some p"
  obtains r where "clk_set_parent (Some c) (Some p) s = Some (0, with_rates s r)"
    "\<forall>x. x \<notin> below s [c] \<longrightarrow> r x = rate_of x s" "\<forall>x \<in> below s [c]. coherent (with_rates s r) x"
proof -
  have sub: "below s [c] \<subseteq> set (clocks s)" using below_clocks [of s "[c]"] assms(1,2) by (simp add: tree_wf_def)
  obtain r where r: "propagate_list [c] s = Some (with_rates s r)" "\<forall>x. x \<notin> below s [c] \<longrightarrow> r x = rate_of x s"
     "\<forall>x \<in> set (clocks s). coherent s x \<or> x \<in> below s [c] \<longrightarrow> coherent (with_rates s r) x"
    using propagate_list_wf [OF assms(1), of "[c]"] assms(2) by auto
  have "clk_set_parent (Some c) (Some p) s = Some (0, with_rates s r)"
    using r(1) assms(3-5)
    by (auto simp: clk_set_parent_def omap2_clk_set_parent_def propagate_list_single Let_def split: bind_splits)
  then show thesis using that r(2,3) sub by blast
qed

end
