(* ===== verification/Clock_Rates.thy ===== *)
theory Clock_Rates
  imports Omap2_Clock Clksel
begin

unbundle bit_operations_syntax

text \<open>
  Changing rates: \<^verbatim>\<open>ti814x_dpll_set_rate\<close>, \<^verbatim>\<open>ti814x_clksel_set_rate\<close> and
  the calls through \<^verbatim>\<open>clk->set_rate\<close> and \<^verbatim>\<open>clk->round_rate\<close> that the
  driver interface makes, and the initialisation \<^verbatim>\<open>ti814x_clk_init\<close>.
\<close>

section \<open>DPLL rates\<close>

text \<open>
  \<^verbatim>\<open>abs(dd->last_rounded_rate/1000 - currate/1000)\<close>: the difference is an
  \<^verbatim>\<open>unsigned long\<close> and goes through a signed \<^verbatim>\<open>long\<close> in the macro.
\<close>

definition abs_diff :: "u32 \<Rightarrow> u32 \<Rightarrow> u32" where
  "abs_diff a b = (let x = a - b in if x <s 0 then - x else x)"

text \<open>
  The tail of \<^verbatim>\<open>ti814x_dpll_set_rate\<close>: on success the clock moves to its new
  parent (enabled before the old one is released), takes the rounded rate and propagates
  it; then the references on the two input clocks are dropped.
\<close>

definition ti814x_dpll_switch ::
  "clk_id \<Rightarrow> dpll_id \<Rightarrow> clk_id \<Rightarrow> 'a kstate_scheme \<Rightarrow> 'a kstate_scheme option" where
  "ti814x_dpll_switch c d new_parent s =
     do {
       s1 \<leftarrow> (if clk_usecount (clks s c) \<noteq> 0
               then do {
                 (_, t) \<leftarrow> omap2_clk_enable new_parent s;
                 (case clk_parent (clks t c) of None \<Rightarrow> None | Some p \<Rightarrow> omap2_clk_disable p t)
               }
               else Some s);
       let s2 = clk_reparent c (Some new_parent) s1;
           s3 = clk_upd c (\<lambda>k. k\<lparr>clk_rate := last_rounded_rate (dplls s2 d)\<rparr>) s2
       in propagate_rate c s3
     }"

definition ti814x_dpll_finish ::
  "clk_id \<Rightarrow> dpll_id \<Rightarrow> int \<Rightarrow> clk_id \<Rightarrow> 'a kstate_scheme \<Rightarrow> (int \<times> 'a kstate_scheme) option" where
  "ti814x_dpll_finish c d ret new_parent s =
     do {
       s1 \<leftarrow> (if ret = 0 then ti814x_dpll_switch c d new_parent s else Some s);
       s2 \<leftarrow> omap2_clk_disable (clk_ref (dplls s1 d)) s1;
       s3 \<leftarrow> omap2_clk_disable (clk_bypass (dplls s2 d)) s2;
       Some (0, s3)
     }"

text \<open>
  The return after a failed rounding leaves both input clocks enabled, and the final
  return is 0 whatever \<^verbatim>\<open>ret\<close> is: both are kept.
\<close>

definition ti814x_dpll_set_rate ::
  "clk_id \<Rightarrow> u32 \<Rightarrow> 'a kstate_scheme \<Rightarrow> (int \<times> 'a kstate_scheme) option" where
  "ti814x_dpll_set_rate c rate s =
     (if rate = 0 then Some (- EINVAL, s)
      else
       (case clk_dpll_data (clks s c) of
          None \<Rightarrow> Some (- EINVAL, s)
        | Some d \<Rightarrow>
            let currate = ti814x_get_dpll_rate c s in
            if rate = currate then Some (0, s)
            else do {
              (fret, s1) \<leftarrow> adpll_test_fint c d (pre_div_n (dplls s d)) s;
              if fret \<noteq> 0 then Some (- EINVAL, s1)
              else do {
                (_, s2) \<leftarrow> omap2_clk_enable (clk_bypass (dplls s1 d)) s1;
                (_, s3) \<leftarrow> omap2_clk_enable (clk_ref (dplls s2 d)) s2;
                if rate_of (clk_bypass (dplls s3 d)) s3 = rate
                   \<and> ucast (modes (dplls s3 d)) AND BIT ADPLL_LOW_POWER_BYPASS \<noteq> 0
                then do {
                  (ret, s4) \<leftarrow> Some (ti814x_dpll_bypass d s3);
                  ti814x_dpll_finish c d ret (clk_bypass (dplls s4 d)) s4
                }
                else do {
                  s4 \<leftarrow> (if last_rounded_rate (dplls s3 d) \<noteq> rate
                          then map_option snd (ti814x_dpll_round_rate c rate s3) else Some s3);
                  let dd = dplls s4 d in
                  if last_rounded_rate dd = 0 then Some (- EINVAL, s4)
                  else
                    let diff = abs_diff (last_rounded_rate dd div 1000) (currate div 1000);
                        sc_rate = currate div 1000;
                        enterbyp = \<not> (udiv (diff * 100) sc_rate < 3)
                    in do {
                      (ret, s5) \<leftarrow> ti814x_dpll_program c (last_rounded_m dd) (last_rounded_frac_m dd)
                                     (last_rounded_n dd) (last_rounded_m2 dd) (dco_freq_sel dd) enterbyp s4;
                      ti814x_dpll_finish c d ret (clk_ref (dplls s5 d)) s5
                    }
                }
              }
            }))"

section \<open>Rates of selectable clocks\<close>

abbreviation (input) TI814X_ARM_DPLL_ID :: u8 where "TI814X_ARM_DPLL_ID \<equiv> 1"
abbreviation (input) TI814X_DDR_DPLL_ID :: u8 where "TI814X_DDR_DPLL_ID \<equiv> 2"

text \<open>
  \<^verbatim>\<open>_ti814x_adpll_check_and_set_rate\<close>; \<open>sr\<close> is the call through a
  clock's \<^verbatim>\<open>set_rate\<close> and the second result is \<^verbatim>\<open>*dpll_setrate\<close>.
\<close>

definition ti814x_adpll_check_and_set_rate ::
  "(set_rate_fn \<Rightarrow> clk_id \<Rightarrow> u32 \<Rightarrow> 'a kstate_scheme \<Rightarrow> (int \<times> 'a kstate_scheme) option)
   \<Rightarrow> clk_id \<Rightarrow> u32 \<Rightarrow> 'a kstate_scheme \<Rightarrow> ((int \<times> bool) \<times> 'a kstate_scheme) option" where
  "ti814x_adpll_check_and_set_rate sr c rate s =
     (case clk_parent (clks s c) of
        None \<Rightarrow> None
      | Some dclk \<Rightarrow>
         (case clk_dpll_data (clks s dclk) of
            Some d \<Rightarrow>
              if dd_dpll_id (dplls s d) = TI814X_ARM_DPLL_ID \<or> dd_dpll_id (dplls s d) = TI814X_DDR_DPLL_ID
              then Some ((- EINVAL, False), s) else Some ((0, True), s)
          | None \<Rightarrow>
             (case clk_set_rate_fn (clks s dclk) of
                None \<Rightarrow> Some ((0, False), s)
              | Some f \<Rightarrow>
                  if usecount dclk s > 1 then Some ((- EBUSY, False), s)
                  else do {
                    (ret, s1) \<leftarrow> sr f dclk rate s;
                    if ret \<noteq> 0 then Some ((ret, False), s1)
                    else do {
                      (ret, s2) \<leftarrow> omap2_clksel_set_rate c (rate_of dclk s1) s1;
                      if ret \<noteq> 0 then Some ((ret, False), s2)
                      else do { s3 \<leftarrow> propagate_rate dclk s2; Some ((0, False), s3) }
                    }
                  })))"

text \<open>The part of \<^verbatim>\<open>ti814x_clksel_set_rate\<close> that changes the DPLL.\<close>

definition ti814x_clksel_set_dpll ::
  "(set_rate_fn \<Rightarrow> clk_id \<Rightarrow> u32 \<Rightarrow> 'a kstate_scheme \<Rightarrow> (int \<times> 'a kstate_scheme) option)
   \<Rightarrow> clk_id \<Rightarrow> clk_id \<Rightarrow> u32 \<Rightarrow> 'a kstate_scheme \<Rightarrow> (int \<times> 'a kstate_scheme) option" where
  "ti814x_clksel_set_dpll sr pclk dclk rate s =
     (if usecount dclk s > 1 then Some (- EBUSY, s)
      else
       (case clk_set_rate_fn (clks s dclk) of
          None \<Rightarrow> None
        | Some f \<Rightarrow> do {
            (ret, s1) \<leftarrow> sr f dclk rate s;
            if ret \<noteq> 0 then Some (- EINVAL, s1)
            else do {
              (ret, s2) \<leftarrow> omap2_clksel_set_rate pclk (rate_of dclk s1) s1;
              if ret \<noteq> 0 then Some (- EINVAL, s2)
              else do { s3 \<leftarrow> propagate_rate dclk s2; Some (0, s3) }
            }
          }))"

definition ti814x_clksel_set_rate ::
  "(set_rate_fn \<Rightarrow> clk_id \<Rightarrow> u32 \<Rightarrow> 'a kstate_scheme \<Rightarrow> (int \<times> 'a kstate_scheme) option)
   \<Rightarrow> clk_id \<Rightarrow> u32 \<Rightarrow> 'a kstate_scheme \<Rightarrow> (int \<times> 'a kstate_scheme) option" where
  "ti814x_clksel_set_rate sr c rate s =
     (if usecount c s = 0 then Some (- EINVAL, s)
      else if usecount c s > 1 then Some (- EBUSY, s)
      else do {
        pclk \<leftarrow> clk_parent (clks s c);
        if usecount pclk s > 1 then Some (- EBUSY, s)
        else do {
          f \<leftarrow> clk_set_rate_fn (clks s pclk);
          let dclk = clk_parent (clks s pclk);
          (ret, s1) \<leftarrow> sr f pclk rate s;
          if ret = 0 then do { s2 \<leftarrow> propagate_rate pclk s1; Some (0, s2) }
          else do {
            ((ret, dpll_setrate), s2) \<leftarrow> ti814x_adpll_check_and_set_rate sr pclk rate s1;
            if ret \<noteq> 0 \<and> dpll_setrate then Some (ret, s2)
            else if ret \<noteq> 0 then do {
              pclk2 \<leftarrow> dclk;
              let dclk2 = clk_parent (clks s2 pclk2);
              ((ret, dpll_setrate), s3) \<leftarrow> ti814x_adpll_check_and_set_rate sr pclk2 rate s2;
              if ret \<noteq> 0 \<and> dpll_setrate then Some (ret, s3)
              else if dpll_setrate then do { d2 \<leftarrow> dclk2; ti814x_clksel_set_dpll sr pclk2 d2 rate s3 }
              else Some (0, s3)
            }
            else if dpll_setrate then do { d1 \<leftarrow> dclk; ti814x_clksel_set_dpll sr pclk d1 rate s2 }
            else Some (0, s2)
          }
        }
      })"

text \<open>
  The call through \<^verbatim>\<open>clk->set_rate\<close>. A selectable clock may call its parent's or
  grandparent's function in turn, so the first argument bounds the nesting of such calls;
  a clock is never nested deeper than its distance from the root.
\<close>

fun run_set_rate ::
  "nat \<Rightarrow> set_rate_fn \<Rightarrow> clk_id \<Rightarrow> u32 \<Rightarrow> 'a kstate_scheme \<Rightarrow> (int \<times> 'a kstate_scheme) option" where
  "run_set_rate n Omap2_clksel_set_rate c rate s = omap2_clksel_set_rate c rate s"
| "run_set_rate n Ti814x_dpll_set_rate c rate s = ti814x_dpll_set_rate c rate s"
| "run_set_rate 0 Ti814x_clksel_set_rate c rate s = None"
| "run_set_rate (Suc n) Ti814x_clksel_set_rate c rate s = ti814x_clksel_set_rate (run_set_rate n) c rate s"

section \<open>The driver interface\<close>

definition omap2_clk_round_rate ::
  "clk_id \<Rightarrow> u32 \<Rightarrow> 'a kstate_scheme \<Rightarrow> (u32 \<times> 'a kstate_scheme) option" where
  "omap2_clk_round_rate c rate s =
     (case clk_round_rate_fn (clks s c) of
        None \<Rightarrow> Some (rate_of c s, s)
      | Some Omap2_clksel_round_rate \<Rightarrow> Some (omap2_clksel_round_rate c rate s, s)
      | Some Ti814x_dpll_round_rate \<Rightarrow> ti814x_dpll_round_rate c rate s)"

definition clk_round_rate ::
  "clk_id option \<Rightarrow> u32 \<Rightarrow> 'a kstate_scheme \<Rightarrow> (u32 \<times> 'a kstate_scheme) option" where
  "clk_round_rate cc rate s =
     (case cc of None \<Rightarrow> Some (0, s) | Some c \<Rightarrow> omap2_clk_round_rate c rate s)"

definition omap2_clk_set_rate ::
  "nat \<Rightarrow> clk_id \<Rightarrow> u32 \<Rightarrow> 'a kstate_scheme \<Rightarrow> (int \<times> 'a kstate_scheme) option" where
  "omap2_clk_set_rate n c rate s =
     (case clk_set_rate_fn (clks s c) of
        None \<Rightarrow> Some (- EINVAL, s)
      | Some f \<Rightarrow> run_set_rate n f c rate s)"

definition clk_set_rate ::
  "nat \<Rightarrow> clk_id option \<Rightarrow> u32 \<Rightarrow> 'a kstate_scheme \<Rightarrow> (int \<times> 'a kstate_scheme) option" where
  "clk_set_rate n cc rate s =
     (case cc of None \<Rightarrow> Some (- EINVAL, s)
      | Some c \<Rightarrow> do {
          (ret, s1) \<leftarrow> omap2_clk_set_rate n c rate s;
          if ret = 0 then do { s2 \<leftarrow> recalc1 c s1; s3 \<leftarrow> propagate_rate c s2; Some (0, s3) }
          else Some (ret, s1)
        })"

text \<open>
  The loops of \<^verbatim>\<open>ti814x_clk_init\<close> over the table \<^verbatim>\<open>ti814x_clks\<close>, given
  as its clocks with the test of the chip flag.
\<close>

fun register_list :: "(clk_id \<times> bool) list \<Rightarrow> 'a kstate_scheme \<Rightarrow> 'a kstate_scheme" where
  "register_list [] s = s"
| "register_list ((c, on_chip) # cs) s =
     register_list cs (if on_chip then omap2_init_clk_clkdm c (snd (clk_register (Some c) s)) else s)"

definition clk_register_table :: "(clk_id \<times> bool) list \<Rightarrow> 'a kstate_scheme \<Rightarrow> 'a kstate_scheme" where
  "clk_register_table table s = register_list table (fold (\<lambda>(c, _). clk_preinit c) table s)"

definition clk_init_table :: "(clk_id \<times> bool) list \<Rightarrow> 'a kstate_scheme \<Rightarrow> (int \<times> 'a kstate_scheme) option" where
  "clk_init_table table s =
     do { s1 \<leftarrow> recalculate_root_clocks (clk_register_table table s);
          s2 \<leftarrow> clk_enable_init_clocks s1;
          Some (0, s2) }"

section \<open>Lemmas\<close>

lemma boot_inv_register_list:
  "boot_inv s0 s \<Longrightarrow> \<forall>x. clk_node (clks s x) \<longleftrightarrow> x \<in> set (clocks s) \<Longrightarrow>
   boot_inv s0 (register_list table s)
   \<and> set (clocks (register_list table s)) = set (clocks s) \<union> {c. (c, True) \<in> set table}"
proof (induction table s rule: register_list.induct)
  case (2 c on_chip cs s)
  show ?case
  proof (cases on_chip)
    case True
    let ?t = "omap2_init_clk_clkdm c (snd (clk_register (Some c) s))"
    have "boot_inv s0 ?t" "\<forall>x. clk_node (clks ?t x) \<longleftrightarrow> x \<in> set (clocks ?t)" "set (clocks ?t) = insert c (set (clocks s))"
      using boot_inv_register [OF 2(2,3), of c] by (simp_all add: boot_inv_clkdm)
    then show ?thesis using 2(1) True by auto
  next
    case False
    then show ?thesis using 2 by auto
  qed
qed simp

lemma below_ge:
  assumes "tree_wf s" "x \<in> below s [c]"
  shows "c \<le> x"
proof -
  have "(child s)\<^sup>*\<^sup>* c x" using assms(2) by (simp add: below_def)
  then show ?thesis
  proof (induction rule: rtranclp_induct)
    case (step y z)
    then have "y < z" using assms(1) by (auto simp: tree_wf_def clk_links_def clk_wf_def)
    then show ?case using step.IH by simp
  qed simp
qed

lemma tree_wf_clksel_write:
  assumes "tree_wf s"
  shows "tree_wf (clk_upd c (\<lambda>k. k\<lparr>clk_rate := r\<rparr>) (write_clksel_reg c f s))"
  using assms by (rule tree_wf_update) (use assms in \<open>simp_all add: tree_wf_def clk_links_def child_def clk_upd_def\<close>)

text \<open>The rate of a selectable clock: the hardware divides as asked, and the tree below the clock follows.\<close>

lemma clk_set_rate_clksel:
  assumes "tree_wf s" "c \<in> set (clocks s)" "clksel_ok c s" "clk_parent (clks s c) = Some p" "rate \<noteq> - 1"
    "clk_set_rate_fn (clks s c) = Some Omap2_clksel_set_rate" "omap2_clksel_set_rate c rate s = Some (0, u)"
  obtains v where "clk_set_rate n (Some c) rate s = Some (0, with_rates u v)" "tree_wf (with_rates u v)"
    "\<forall>x \<in> below u [c]. coherent (with_rates u v) x" "\<forall>x. x \<notin> below u [c] \<longrightarrow> v x = rate_of x s"
    "omap2_clksel_recalc c (with_rates u v) = Some rate" "v p = rate_of p s" "\<And>x. clk_core (clks u x) = clk_core (clks s x)"
proof -
  have "p < c" using assms(1,2,4) by (auto simp: tree_wf_def clk_wf_def)
  obtain f d where eq: "u = clk_upd c (\<lambda>k. k\<lparr>clk_rate := rate\<rparr>) (write_clksel_reg c f s)"
    and d: "read_divisor c u = d" "d \<noteq> 0" "rate = udiv (rate_of p s) d"
    using omap2_clksel_set_rate_result [OF assms(7,5,3)] assms(4) by (metis option.inject)
  have wf: "tree_wf u" using tree_wf_clksel_write [OF assms(1)] by (simp add: eq)
  obtain v where v: "propagate_list [c] u = Some (with_rates u v)" "\<forall>x. x \<notin> below u [c] \<longrightarrow> v x = rate_of x u"
     "\<forall>x \<in> set (clocks u). coherent u x \<or> x \<in> below u [c] \<longrightarrow> coherent (with_rates u v) x"
    using propagate_list_wf [OF wf, of "[c]"] assms(2) eq by auto
  have "p \<notin> below u [c]" using below_ge [OF wf] \<open>p < c\<close> by (metis not_less)
  then have p: "v p = rate_of p s" using v(2) \<open>p < c\<close> by (simp add: eq)
  have c: "c \<in> below u [c]" by (auto simp: below_def)
  have out: "\<forall>x. x \<notin> below u [c] \<longrightarrow> v x = rate_of x s"
  proof (intro allI impI)
    fix x assume x: "x \<notin> below u [c]"
    then have "x \<noteq> c" using c by blast
    then show "v x = rate_of x s" using v(2) x by (simp add: eq)
  qed
  have run: "clk_set_rate n (Some c) rate s = Some (0, with_rates u v)"
    using v(1) assms(6,7) by (auto simp: clk_set_rate_def omap2_clk_set_rate_def propagate_list_single split: bind_splits)
  have div: "omap2_clksel_recalc c (with_rates u v) = Some rate"
    using d assms(4) p by (simp add: omap2_clksel_recalc_def) (simp add: eq)
  have core: "clk_core (clks u x) = clk_core (clks s x)" for x by (simp add: eq clk_core_def)
  have sub: "\<forall>x \<in> below u [c]. coherent (with_rates u v) x"
    using v(3) below_clocks [of u "[c]"] wf assms(2) by (auto simp: tree_wf_def eq)
  show thesis using that [OF run _ sub out div p core] wf by simp
qed

section \<open>Properties\<close>


text \<open>
  C30: for a clock with a divider table and the followparent recalculation, such as
  sysclk22_ck, a successful clk_set_rate divides the hardware clock as asked while the
  framework reports the rate of the parent.
\<close>

theorem clk_set_rate_followparent:
  assumes "tree_wf s" "c \<in> set (clocks s)" "clksel_ok c s" "clk_parent (clks s c) = Some p" "rate \<noteq> - 1"
    and fns: "clk_set_rate_fn (clks s c) = Some Omap2_clksel_set_rate" "clk_recalc_fn (clks s c) = Some Followparent_recalc"
    and run: "clk_set_rate n (Some c) rate s = Some (0, t)"
  shows "rate_of c t = rate_of p s \<and> omap2_clksel_recalc c t = Some rate"
proof -
  obtain u where u: "omap2_clksel_set_rate c rate s = Some (0, u)"
    using run fns(1) by (auto simp: clk_set_rate_def omap2_clk_set_rate_def split: bind_splits if_splits)
  obtain v where v: "clk_set_rate n (Some c) rate s = Some (0, with_rates u v)" "\<forall>x \<in> below u [c]. coherent (with_rates u v) x"
      "omap2_clksel_recalc c (with_rates u v) = Some rate" "v p = rate_of p s" "\<And>x. clk_core (clks u x) = clk_core (clks s x)"
    using clk_set_rate_clksel [OF assms(1-5) fns(1) u, of n] by metis
  have "c \<in> below u [c]" by (auto simp: below_def)
  then have "coherent (with_rates u v) c" using v(2) by blast
  then have "v c = v p" using fns(2) clk_core_fields(3,5) [OF v(5), of c] assms(4) by (simp add: coherent_def followparent_recalc_def)
  moreover have "t = with_rates u v" using run v(1) by simp
  ultimately show ?thesis using v(3,4) by simp
qed

end
