(* ===== verification/Domain_Boot.thy ===== *)
theory Domain_Boot
  imports Power_Domains
begin

unbundle bit_operations_syntax

text \<open>
  The power and clock domain tables of the TI81xx (\<^verbatim>\<open>powerdomains81xx.h\<close>,
  \<^verbatim>\<open>clockdomains81xx.h\<close> and the arrays of \<^verbatim>\<open>powerdomains3xxx_data.c\<close>
  and \<^verbatim>\<open>clockdomains2xxx_3xxx_data.c\<close>) as this board's configuration compiles
  them, the boot sequence that registers them, and the properties of the power and clock
  domain layers. A structure is named by its position in its table; \<^verbatim>\<open>omap_chip\<close>
  is the answer of \<^verbatim>\<open>omap_chip_is\<close> on a DM814x.
\<close>

section \<open>Tables\<close>

abbreviation (input) PWRSTS_OFF_ON :: u8 where "PWRSTS_OFF_ON \<equiv> 9"
abbreviation (input) CLKDM_CAN_SWSUP :: u8 where "CLKDM_CAN_SWSUP \<equiv> 3"
abbreviation (input) CLKDM_CAN_HWSUP_SWSUP :: u8 where "CLKDM_CAN_HWSUP_SWSUP \<equiv> 15"
abbreviation (input) DM385_CM_ALWON2_SATA1_CKDM :: u16 where "DM385_CM_ALWON2_SATA1_CKDM \<equiv> 0x000C"
abbreviation (input) TI814X_CM_ALWON2_L3_MED_CLKDM :: u16 where "TI814X_CM_ALWON2_L3_MED_CLKDM \<equiv> 0x0004"
abbreviation (input) TI814X_CM_ALWON2_L3_SLOW_CLKDM :: u16 where "TI814X_CM_ALWON2_L3_SLOW_CLKDM \<equiv> 0x0014"
abbreviation (input) TI814X_CM_ALWON2_MC_CLKDM :: u16 where "TI814X_CM_ALWON2_MC_CLKDM \<equiv> 0x0018"
abbreviation (input) TI814X_CM_ALWON2_MOD :: u16 where "TI814X_CM_ALWON2_MOD \<equiv> 0x0500"
abbreviation (input) TI814X_CM_ALWON2_PCI_CLKDM :: u16 where "TI814X_CM_ALWON2_PCI_CLKDM \<equiv> 0x0010"
abbreviation (input) TI814X_CM_DSP_CLKDM :: u16 where "TI814X_CM_DSP_CLKDM \<equiv> 0x0000"
abbreviation (input) TI814X_CM_DSP_MOD :: u16 where "TI814X_CM_DSP_MOD \<equiv> 0x0400"
abbreviation (input) TI814X_CM_GFX_CLKDM :: u16 where "TI814X_CM_GFX_CLKDM \<equiv> 0x0000"
abbreviation (input) TI814X_CM_GFX_MOD :: u16 where "TI814X_CM_GFX_MOD \<equiv> 0x0900"
abbreviation (input) TI814X_CM_HDVICP_CLKDM :: u16 where "TI814X_CM_HDVICP_CLKDM \<equiv> 0x0000"
abbreviation (input) TI814X_CM_HDVICP_MOD :: u16 where "TI814X_CM_HDVICP_MOD \<equiv> 0x0600"
abbreviation (input) TI814X_CM_HDVPSS_CLKDM :: u16 where "TI814X_CM_HDVPSS_CLKDM \<equiv> 0x0000"
abbreviation (input) TI814X_CM_HDVPSS_MOD :: u16 where "TI814X_CM_HDVPSS_MOD \<equiv> 0x0800"
abbreviation (input) TI814X_CM_ISP_CLKDM :: u16 where "TI814X_CM_ISP_CLKDM \<equiv> 0x0000"
abbreviation (input) TI814X_CM_ISP_MOD :: u16 where "TI814X_CM_ISP_MOD \<equiv> 0x0700"
abbreviation (input) TI814X_CM_OCMC_CLKDM :: u16 where "TI814X_CM_OCMC_CLKDM \<equiv> 0x0014"
abbreviation (input) TI814X_PRM_DSP_MOD :: u16 where "TI814X_PRM_DSP_MOD \<equiv> 0x0a00"
abbreviation (input) TI814X_PRM_HDVICP_MOD :: u16 where "TI814X_PRM_HDVICP_MOD \<equiv> 0x0c00"
abbreviation (input) TI814X_PRM_HDVPSS_MOD :: u16 where "TI814X_PRM_HDVPSS_MOD \<equiv> 0x0e00"
abbreviation (input) TI814X_PRM_ISP_MOD :: u16 where "TI814X_PRM_ISP_MOD \<equiv> 0x0d00"
abbreviation (input) TI816X_CM_ACTIVE_GEM_CLKDM :: u16 where "TI816X_CM_ACTIVE_GEM_CLKDM \<equiv> 0x0000"
abbreviation (input) TI816X_CM_ACTIVE_MOD :: u16 where "TI816X_CM_ACTIVE_MOD \<equiv> 0x0400"
abbreviation (input) TI816X_CM_DEFAULT_DUCATI_CLKDM :: u16 where "TI816X_CM_DEFAULT_DUCATI_CLKDM \<equiv> 0x0018"
abbreviation (input) TI816X_CM_DEFAULT_L3_MED_CLKDM :: u16 where "TI816X_CM_DEFAULT_L3_MED_CLKDM \<equiv> 0x0004"
abbreviation (input) TI816X_CM_DEFAULT_L3_SLOW_CLKDM :: u16 where "TI816X_CM_DEFAULT_L3_SLOW_CLKDM \<equiv> 0x0014"
abbreviation (input) TI816X_CM_DEFAULT_MOD :: u16 where "TI816X_CM_DEFAULT_MOD \<equiv> 0x0500"
abbreviation (input) TI816X_CM_DEFAULT_PCI_CLKDM :: u16 where "TI816X_CM_DEFAULT_PCI_CLKDM \<equiv> 0x0010"
abbreviation (input) TI816X_CM_IVAHD0_CLKDM :: u16 where "TI816X_CM_IVAHD0_CLKDM \<equiv> 0x0000"
abbreviation (input) TI816X_CM_IVAHD0_MOD :: u16 where "TI816X_CM_IVAHD0_MOD \<equiv> 0x0600"
abbreviation (input) TI816X_CM_IVAHD1_CLKDM :: u16 where "TI816X_CM_IVAHD1_CLKDM \<equiv> 0x0000"
abbreviation (input) TI816X_CM_IVAHD1_MOD :: u16 where "TI816X_CM_IVAHD1_MOD \<equiv> 0x0700"
abbreviation (input) TI816X_CM_IVAHD2_CLKDM :: u16 where "TI816X_CM_IVAHD2_CLKDM \<equiv> 0x0000"
abbreviation (input) TI816X_CM_IVAHD2_MOD :: u16 where "TI816X_CM_IVAHD2_MOD \<equiv> 0x0800"
abbreviation (input) TI816X_CM_SGX_CLKDM :: u16 where "TI816X_CM_SGX_CLKDM \<equiv> 0x0000"
abbreviation (input) TI816X_CM_SGX_MOD :: u16 where "TI816X_CM_SGX_MOD \<equiv> 0x0900"
abbreviation (input) TI816X_PRM_ACTIVE_MOD :: u16 where "TI816X_PRM_ACTIVE_MOD \<equiv> 0x0a00"
abbreviation (input) TI816X_PRM_IVAHD0_MOD :: u16 where "TI816X_PRM_IVAHD0_MOD \<equiv> 0x0c00"
abbreviation (input) TI816X_PRM_IVAHD1_MOD :: u16 where "TI816X_PRM_IVAHD1_MOD \<equiv> 0x0d00"
abbreviation (input) TI816X_PRM_IVAHD2_MOD :: u16 where "TI816X_PRM_IVAHD2_MOD \<equiv> 0x0e00"
abbreviation (input) TI816X_PRM_SGX_MOD :: u16 where "TI816X_PRM_SGX_MOD \<equiv> 0x0f00"
abbreviation (input) TI81XX_CLKTRCTRL_MASK :: u16 where "TI81XX_CLKTRCTRL_MASK \<equiv> 3"
abbreviation (input) TI81XX_CM_ALWON_L3_SLOW_CLKDM :: u16 where "TI81XX_CM_ALWON_L3_SLOW_CLKDM \<equiv> 0x0000"
abbreviation (input) TI81XX_CM_ALWON_MOD :: u16 where "TI81XX_CM_ALWON_MOD \<equiv> 0x1400"
abbreviation (input) TI81XX_CM_ALWON_MPU_CLKDM :: u16 where "TI81XX_CM_ALWON_MPU_CLKDM \<equiv> 0x001C"
abbreviation (input) TI81XX_CM_ETHERNET_CLKDM :: u16 where "TI81XX_CM_ETHERNET_CLKDM \<equiv> 0x0004"
abbreviation (input) TI81XX_CM_MMUCFG_CLKDM :: u16 where "TI81XX_CM_MMUCFG_CLKDM \<equiv> 0x0010"
abbreviation (input) TI81XX_CM_MMU_CLKDM :: u16 where "TI81XX_CM_MMU_CLKDM \<equiv> 0x000C"
abbreviation (input) TI81XX_PRM_ALWON_MOD :: u16 where "TI81XX_PRM_ALWON_MOD \<equiv> 0x1800"
abbreviation (input) TI81XX_PRM_DEFAULT_MOD :: u16 where "TI81XX_PRM_DEFAULT_MOD \<equiv> 0x0b00"

text \<open>The fields that no TI81xx table sets are zero, as in any static C object.\<close>

definition ti81xx_pwrdm :: "string \<Rightarrow> u16 \<Rightarrow> u8 \<Rightarrow> bool \<Rightarrow> powerdomain" where
  "ti81xx_pwrdm name offs sts chip =
     \<lparr>pwrdm_name = name, pwrdm_chip_ok = chip, prcm_offs = offs, pwrsts = sts, pwrsts_logic_ret = 0,
      banks = 0, pwrsts_mem_ret = replicate 5 0, pwrdm_clkdms = replicate PWRDM_MAX_CLKDMS None,
      pwrdm_state = 0, state_counter = replicate PWRDM_MAX_PWRSTS 0, ret_logic_off_counter = 0,
      ret_mem_off_counter = replicate 5 0\<rparr>"

definition ti81xx_clkdm ::
  "string \<Rightarrow> string \<Rightarrow> u16 \<Rightarrow> u16 \<Rightarrow> u16 \<Rightarrow> u8 \<Rightarrow> bool \<Rightarrow> clockdomain" where
  "ti81xx_clkdm name pwrdm inst offs m flags chip =
     \<lparr>clkdm_name = name, clkdm_pwrdm_name = pwrdm, clkdm_pwrdm = None, clktrctrl_mask = m,
      clkdm_flags = flags, dep_bit = 0, cm_inst = inst, clkdm_offs = offs, wkdep_srcs = None,
      clkdm_chip_ok = chip, clkdm_usecount = 0\<rparr>"

definition alwon_81xx_pwrdm :: powerdomain where
  "alwon_81xx_pwrdm = ti81xx_pwrdm ''alwon_pwrdm'' TI81XX_PRM_ALWON_MOD 0 True"

definition gem_814x_pwrdm :: powerdomain where
  "gem_814x_pwrdm = ti81xx_pwrdm ''gem_pwrdm'' TI814X_PRM_DSP_MOD PWRSTS_OFF_ON True"

definition ivahd_814x_pwrdm :: powerdomain where
  "ivahd_814x_pwrdm = ti81xx_pwrdm ''ivahd_pwrdm'' TI814X_PRM_HDVICP_MOD PWRSTS_OFF_ON True"

definition hdvpss_814x_pwrdm :: powerdomain where
  "hdvpss_814x_pwrdm = ti81xx_pwrdm ''hdvpss_pwrdm'' TI814X_PRM_HDVPSS_MOD PWRSTS_OFF_ON True"

definition sgx_814x_pwrdm :: powerdomain where
  "sgx_814x_pwrdm = ti81xx_pwrdm ''sgx_pwrdm'' TI814X_PRM_GFX_MOD PWRSTS_OFF_ON True"

definition isp_814x_pwrdm :: powerdomain where
  "isp_814x_pwrdm = ti81xx_pwrdm ''isp_pwrdm'' TI814X_PRM_ISP_MOD PWRSTS_OFF_ON True"

definition active_816x_pwrdm :: powerdomain where
  "active_816x_pwrdm = ti81xx_pwrdm ''active_pwrdm'' TI816X_PRM_ACTIVE_MOD PWRSTS_OFF_ON False"

definition default_816x_pwrdm :: powerdomain where
  "default_816x_pwrdm = ti81xx_pwrdm ''default_pwrdm'' TI81XX_PRM_DEFAULT_MOD PWRSTS_OFF_ON False"

definition ivahd0_816x_pwrdm :: powerdomain where
  "ivahd0_816x_pwrdm = ti81xx_pwrdm ''ivahd0_pwrdm'' TI816X_PRM_IVAHD0_MOD PWRSTS_OFF_ON False"

definition ivahd1_816x_pwrdm :: powerdomain where
  "ivahd1_816x_pwrdm = ti81xx_pwrdm ''ivahd1_pwrdm'' TI816X_PRM_IVAHD1_MOD PWRSTS_OFF_ON False"

definition ivahd2_816x_pwrdm :: powerdomain where
  "ivahd2_816x_pwrdm = ti81xx_pwrdm ''ivahd2_pwrdm'' TI816X_PRM_IVAHD2_MOD PWRSTS_OFF_ON False"

definition sgx_816x_pwrdm :: powerdomain where
  "sgx_816x_pwrdm = ti81xx_pwrdm ''sgx_pwrdm'' TI816X_PRM_SGX_MOD PWRSTS_OFF_ON False"

definition powerdomains_ti81xx :: "powerdomain list" where
  "powerdomains_ti81xx =
     [alwon_81xx_pwrdm, gem_814x_pwrdm, ivahd_814x_pwrdm, hdvpss_814x_pwrdm, sgx_814x_pwrdm, 
      isp_814x_pwrdm, active_816x_pwrdm, default_816x_pwrdm, ivahd0_816x_pwrdm, 
      ivahd1_816x_pwrdm, ivahd2_816x_pwrdm, sgx_816x_pwrdm]"


definition wkup_clkdm :: clockdomain where
  "wkup_clkdm = (ti81xx_clkdm ''wkup_clkdm'' ''wkup_pwrdm'' 0 0 0 0 False)\<lparr>dep_bit := 4\<rparr>"

definition prm_clkdm :: clockdomain where
  "prm_clkdm = ti81xx_clkdm ''prm_clkdm'' ''wkup_pwrdm'' 0 0 0 0 False"

definition cm_clkdm :: clockdomain where
  "cm_clkdm = ti81xx_clkdm ''cm_clkdm'' ''core_pwrdm'' 0 0 0 0 False"

definition alwon_l3_slow_81xx_clkdm :: clockdomain where
  "alwon_l3_slow_81xx_clkdm = ti81xx_clkdm ''alwon_l3_slow_clkdm'' ''alwon_pwrdm'' TI81XX_CM_ALWON_MOD TI81XX_CM_ALWON_L3_SLOW_CLKDM
     TI81XX_CLKTRCTRL_MASK CLKDM_CAN_SWSUP True"

definition alwon_ethernet_81xx_clkdm :: clockdomain where
  "alwon_ethernet_81xx_clkdm = ti81xx_clkdm ''alwon_ethernet_clkdm'' ''alwon_pwrdm'' TI81XX_CM_ALWON_MOD TI81XX_CM_ETHERNET_CLKDM
     TI81XX_CLKTRCTRL_MASK CLKDM_CAN_SWSUP True"

definition alwon_ocmc_814x_clkdm :: clockdomain where
  "alwon_ocmc_814x_clkdm = ti81xx_clkdm ''alwon_ocmc_clkdm'' ''alwon_pwrdm'' TI81XX_CM_ALWON_MOD TI814X_CM_OCMC_CLKDM
     TI81XX_CLKTRCTRL_MASK CLKDM_CAN_SWSUP True"

definition mmu_81xx_clkdm :: clockdomain where
  "mmu_81xx_clkdm = ti81xx_clkdm ''mmu_clkdm'' ''alwon_pwrdm'' TI81XX_CM_ALWON_MOD TI81XX_CM_MMU_CLKDM
     TI81XX_CLKTRCTRL_MASK CLKDM_CAN_SWSUP True"

definition mmu_cfg_81xx_clkdm :: clockdomain where
  "mmu_cfg_81xx_clkdm = ti81xx_clkdm ''mmu_cfg_clkdm'' ''alwon_pwrdm'' TI81XX_CM_ALWON_MOD TI81XX_CM_MMUCFG_CLKDM
     TI81XX_CLKTRCTRL_MASK CLKDM_CAN_SWSUP True"

definition gem_814x_clkdm :: clockdomain where
  "gem_814x_clkdm = ti81xx_clkdm ''gem_clkdm'' ''gem_pwrdm'' TI814X_CM_DSP_MOD TI814X_CM_DSP_CLKDM
     TI81XX_CLKTRCTRL_MASK CLKDM_CAN_SWSUP True"

definition ivahd_814x_clkdm :: clockdomain where
  "ivahd_814x_clkdm = ti81xx_clkdm ''ivahd_clkdm'' ''ivahd_pwrdm'' TI814X_CM_HDVICP_MOD TI814X_CM_HDVICP_CLKDM
     TI81XX_CLKTRCTRL_MASK CLKDM_CAN_SWSUP True"

definition alwon2_mc_814x_clkdm :: clockdomain where
  "alwon2_mc_814x_clkdm = ti81xx_clkdm ''alwon2_mc_clkdm'' ''alwon_pwrdm'' TI814X_CM_ALWON2_MOD TI814X_CM_ALWON2_MC_CLKDM
     TI81XX_CLKTRCTRL_MASK CLKDM_CAN_SWSUP True"

definition sgx_814x_clkdm :: clockdomain where
  "sgx_814x_clkdm = ti81xx_clkdm ''sgx_clkdm'' ''sgx_pwrdm'' TI814X_CM_GFX_MOD TI814X_CM_GFX_CLKDM
     TI81XX_CLKTRCTRL_MASK CLKDM_CAN_SWSUP True"

definition hdvpss_814x_clkdm :: clockdomain where
  "hdvpss_814x_clkdm = ti81xx_clkdm ''hdvpss_clkdm'' ''hdvpss_pwrdm'' TI814X_CM_HDVPSS_MOD TI814X_CM_HDVPSS_CLKDM
     TI81XX_CLKTRCTRL_MASK CLKDM_CAN_SWSUP True"

definition isp_814x_clkdm :: clockdomain where
  "isp_814x_clkdm = ti81xx_clkdm ''isp_clkdm'' ''isp_pwrdm'' TI814X_CM_ISP_MOD TI814X_CM_ISP_CLKDM
     TI81XX_CLKTRCTRL_MASK CLKDM_CAN_SWSUP True"

definition alwon2_l3_med_814x_clkdm :: clockdomain where
  "alwon2_l3_med_814x_clkdm = ti81xx_clkdm ''alwon2_l3_med_clkdm'' ''alwon_pwrdm'' TI814X_CM_ALWON2_MOD TI814X_CM_ALWON2_L3_MED_CLKDM
     TI81XX_CLKTRCTRL_MASK CLKDM_CAN_SWSUP True"

definition alwon2_pcie_814x_clkdm :: clockdomain where
  "alwon2_pcie_814x_clkdm = ti81xx_clkdm ''alwon2_pcie_clkdm'' ''alwon_pwrdm'' TI814X_CM_ALWON2_MOD TI814X_CM_ALWON2_PCI_CLKDM
     TI81XX_CLKTRCTRL_MASK CLKDM_CAN_SWSUP True"

definition alwon2_sata1_dm385_clkdm :: clockdomain where
  "alwon2_sata1_dm385_clkdm = ti81xx_clkdm ''alwon2_sata1_clkdm'' ''alwon_pwrdm'' TI814X_CM_ALWON2_MOD DM385_CM_ALWON2_SATA1_CKDM
     TI81XX_CLKTRCTRL_MASK CLKDM_CAN_SWSUP False"

definition alwon2_usb_814x_clkdm :: clockdomain where
  "alwon2_usb_814x_clkdm = ti81xx_clkdm ''alwon2_usb_clkdm'' ''alwon_pwrdm'' TI814X_CM_ALWON2_MOD TI814X_CM_ALWON2_L3_SLOW_CLKDM
     TI81XX_CLKTRCTRL_MASK CLKDM_CAN_SWSUP True"

definition alwon_mpu_816x_clkdm :: clockdomain where
  "alwon_mpu_816x_clkdm = ti81xx_clkdm ''alwon_mpu_clkdm'' ''alwon_pwrdm'' TI81XX_CM_ALWON_MOD TI81XX_CM_ALWON_MPU_CLKDM
     TI81XX_CLKTRCTRL_MASK CLKDM_CAN_HWSUP_SWSUP False"

definition active_gem_816x_clkdm :: clockdomain where
  "active_gem_816x_clkdm = ti81xx_clkdm ''active_gem_clkdm'' ''active_pwrdm'' TI816X_CM_ACTIVE_MOD TI816X_CM_ACTIVE_GEM_CLKDM
     TI81XX_CLKTRCTRL_MASK CLKDM_CAN_HWSUP_SWSUP False"

definition ivahd0_816x_clkdm :: clockdomain where
  "ivahd0_816x_clkdm = ti81xx_clkdm ''ivahd0_clkdm'' ''ivahd0_pwrdm'' TI816X_CM_IVAHD0_MOD TI816X_CM_IVAHD0_CLKDM
     TI81XX_CLKTRCTRL_MASK CLKDM_CAN_HWSUP_SWSUP False"

definition ivahd1_816x_clkdm :: clockdomain where
  "ivahd1_816x_clkdm = ti81xx_clkdm ''ivahd1_clkdm'' ''ivahd1_pwrdm'' TI816X_CM_IVAHD1_MOD TI816X_CM_IVAHD1_CLKDM
     TI81XX_CLKTRCTRL_MASK CLKDM_CAN_HWSUP_SWSUP False"

definition ivahd2_816x_clkdm :: clockdomain where
  "ivahd2_816x_clkdm = ti81xx_clkdm ''ivahd2_clkdm'' ''ivahd2_pwrdm'' TI816X_CM_IVAHD2_MOD TI816X_CM_IVAHD2_CLKDM
     TI81XX_CLKTRCTRL_MASK CLKDM_CAN_HWSUP_SWSUP False"

definition sgx_816x_clkdm :: clockdomain where
  "sgx_816x_clkdm = ti81xx_clkdm ''sgx_clkdm'' ''sgx_pwrdm'' TI816X_CM_SGX_MOD TI816X_CM_SGX_CLKDM
     TI81XX_CLKTRCTRL_MASK CLKDM_CAN_HWSUP_SWSUP False"

definition default_l3_med_816x_clkdm :: clockdomain where
  "default_l3_med_816x_clkdm = ti81xx_clkdm ''default_l3_med_clkdm'' ''default_pwrdm'' TI816X_CM_DEFAULT_MOD TI816X_CM_DEFAULT_L3_MED_CLKDM
     TI81XX_CLKTRCTRL_MASK CLKDM_CAN_HWSUP_SWSUP False"

definition default_ducati_816x_clkdm :: clockdomain where
  "default_ducati_816x_clkdm = ti81xx_clkdm ''default_ducati_clkdm'' ''default_pwrdm'' TI816X_CM_DEFAULT_MOD TI816X_CM_DEFAULT_DUCATI_CLKDM
     TI81XX_CLKTRCTRL_MASK CLKDM_CAN_HWSUP_SWSUP False"

definition default_pcie_816x_clkdm :: clockdomain where
  "default_pcie_816x_clkdm = ti81xx_clkdm ''default_pcie_clkdm'' ''default_pwrdm'' TI816X_CM_DEFAULT_MOD TI816X_CM_DEFAULT_PCI_CLKDM
     TI81XX_CLKTRCTRL_MASK CLKDM_CAN_HWSUP_SWSUP False"

definition default_usb_816x_clkdm :: clockdomain where
  "default_usb_816x_clkdm = ti81xx_clkdm ''default_usb_clkdm'' ''default_pwrdm'' TI816X_CM_DEFAULT_MOD TI816X_CM_DEFAULT_L3_SLOW_CLKDM
     TI81XX_CLKTRCTRL_MASK CLKDM_CAN_HWSUP_SWSUP False"

definition clockdomains_omap2 :: "clockdomain list" where
  "clockdomains_omap2 =
     [wkup_clkdm, cm_clkdm, prm_clkdm,
      alwon_mpu_816x_clkdm, alwon_l3_slow_81xx_clkdm, alwon_ethernet_81xx_clkdm, 
      alwon_ocmc_814x_clkdm, mmu_81xx_clkdm, mmu_cfg_81xx_clkdm, gem_814x_clkdm, 
      ivahd_814x_clkdm, alwon2_mc_814x_clkdm, sgx_814x_clkdm, hdvpss_814x_clkdm, 
      isp_814x_clkdm, alwon2_l3_med_814x_clkdm, alwon2_pcie_814x_clkdm, 
      alwon2_sata1_dm385_clkdm, alwon2_usb_814x_clkdm, active_gem_816x_clkdm, 
      ivahd0_816x_clkdm, ivahd1_816x_clkdm, ivahd2_816x_clkdm, sgx_816x_clkdm, 
      default_l3_med_816x_clkdm, default_ducati_816x_clkdm, default_pcie_816x_clkdm, 
      default_usb_816x_clkdm]"

section \<open>The boot sequence\<close>

text \<open>The static objects before \<^verbatim>\<open>ti81xx_powerdomains_init\<close> runs.\<close>

definition domains_static :: "'a pm_world_scheme \<Rightarrow> bool" where
  "domains_static s \<longleftrightarrow>
     pwrdms s = (\<lambda>i. powerdomains_ti81xx ! i) \<and> clkdms s = (\<lambda>i. clockdomains_omap2 ! i)
     \<and> pwrdm_list s = [] \<and> clkdm_list s = []"

definition domains_boot :: "'a pm_world_scheme \<Rightarrow> 'a pm_world_scheme option" where
  "domains_boot s =
     do { s1 \<leftarrow> pwrdm_init [0..<length powerdomains_ti81xx] s;
          clkdm_init [0..<length clockdomains_omap2] s1 }"

section \<open>Specification\<close>

definition dm814x_pwrdms :: "nat list" where
  "dm814x_pwrdms = [5, 4, 3, 2, 1, 0]"

definition dm814x_clkdms :: "nat list" where
  "dm814x_clkdms = [18, 16, 15, 14, 13, 12, 11, 10, 9, 8, 7, 6, 5, 4]"

definition dm814x_clkstctrl :: "u32 \<Rightarrow> u32 set" where
  "dm814x_clkstctrl cm =
     (\<lambda>c. cm + scast (cm_inst (clockdomains_omap2 ! c)) + ucast (clkdm_offs (clockdomains_omap2 ! c))) ` set dm814x_clkdms"

text \<open>A DM814x out of reset: every register reads 0 and no register changes by itself.\<close>

definition dm814x_reset :: pm_world where
  "dm814x_reset =
     \<lparr>regs = (\<lambda>_. 0), now = 0, hw = (\<lambda>_ r. r), prm_base = 0xfa180000, cm_base = 0xfa180000,
      pwrdms = (\<lambda>i. powerdomains_ti81xx ! i), clkdms = (\<lambda>i. clockdomains_omap2 ! i),
      pwrdm_list = [], clkdm_list = []\<rparr>"

section \<open>Lemmas\<close>

lemma write_clktrctrl_clktrctrl:
  assumes "clkdm_layout s" "c \<in> set (clkdm_list s)" "d \<in> set (clkdm_list s)"
  shows "clktrctrl d (ti81xx_write_clktrctrl CLKSTCTRL_FORCE_WAKEUP (cm_inst (clkdms s c))
     (clkdm_offs (clkdms s c)) (ucast (clktrctrl_mask (clkdms s c))) s)
    = (if d = c then ucast CLKSTCTRL_FORCE_WAKEUP else clktrctrl d s)"
proof -
  have addr: "clkstctrl_addr e (ti81xx_write_clktrctrl v m i k s) = clkstctrl_addr e s" for e v m i k
    by (simp add: clkstctrl_addr_def frame_simps)
  have inj: "clkstctrl_addr d s = clkstctrl_addr c s \<longleftrightarrow> d = c"
    using assms by (auto simp: clkdm_layout_def inj_on_def)
  have "clkdm_static (clkdms s c)" using assms by (simp add: clkdm_layout_def)
  then have "field_fits (ucast (clktrctrl_mask (clkdms s c))) (ucast CLKSTCTRL_FORCE_WAKEUP)"
    by (simp add: clkdm_static_def)
  then show ?thesis using inj
    unfolding addr raw_readl_write_clktrctrl write_clktrctrl_frame
    by (simp add: clkstctrl_addr_def [symmetric] field_get_set)
qed

lemma clkdm_layout_write:
  "clkdm_layout (ti81xx_write_clktrctrl v m i k s) = clkdm_layout s"
  by (simp add: clkdm_layout_def clkdm_addrs_def clkstctrl_addr_def frame_simps hw_keeps_def)

lemma clkdm_init_each_awake:
  assumes "clkdm_layout s" "set cs \<subseteq> set (clkdm_list s)" "clkdm_bound s"
    "\<forall>c \<in> set (clkdm_list s). wkdep_srcs (clkdms s c) = None"
  shows "\<exists>t. clkdm_init_each cs s = Some t \<and> clkdms t = clkdms s \<and> clkdm_list t = clkdm_list s
    \<and> clkdm_layout t
    \<and> (\<forall>d \<in> set (clkdm_list s). clktrctrl d t = (if d \<in> set cs then ucast CLKSTCTRL_FORCE_WAKEUP else clktrctrl d s))"
  using assms
proof (induction cs arbitrary: s)
  case (Cons c cs)
  define s1 where "s1 = ti81xx_write_clktrctrl CLKSTCTRL_FORCE_WAKEUP (cm_inst (clkdms s c))
     (clkdm_offs (clkdms s c)) (ucast (clktrctrl_mask (clkdms s c))) s"
  have c: "c \<in> set (clkdm_list s)" using Cons.prems by simp
  then have one: "clkdm_init_one c s = Some s1"
    using Cons.prems unfolding s1_def by (intro clkdm_init_one_eq) (auto simp: clkdm_layout_def clkdm_bound_def)
  have fr: "clkdms s1 = clkdms s" "clkdm_list s1 = clkdm_list s" by (simp_all add: s1_def frame_simps)
  have l1: "clkdm_layout s1" using Cons.prems(1) by (simp add: s1_def clkdm_layout_write)
  have "\<exists>t. clkdm_init_each cs s1 = Some t \<and> clkdms t = clkdms s1 \<and> clkdm_list t = clkdm_list s1
    \<and> clkdm_layout t
    \<and> (\<forall>d \<in> set (clkdm_list s1). clktrctrl d t = (if d \<in> set cs then ucast CLKSTCTRL_FORCE_WAKEUP else clktrctrl d s1))"
    using Cons.prems l1 by (intro Cons.IH) (auto simp: fr clkdm_bound_def)
  then obtain t where t: "clkdm_init_each cs s1 = Some t" "clkdms t = clkdms s1" "clkdm_list t = clkdm_list s1" "clkdm_layout t"
    "\<forall>d \<in> set (clkdm_list s1). clktrctrl d t = (if d \<in> set cs then ucast CLKSTCTRL_FORCE_WAKEUP else clktrctrl d s1)"
    by blast
  have "clktrctrl d s1 = (if d = c then ucast CLKSTCTRL_FORCE_WAKEUP else clktrctrl d s)" if "d \<in> set (clkdm_list s)" for d
    using write_clktrctrl_clktrctrl [OF Cons.prems(1) c that] unfolding s1_def .
  then show ?case using t one fr by (intro exI [of _ t]) simp
qed simp

text \<open>Which domains a DM814x has.\<close>

lemmas table_defs = powerdomains_ti81xx_def clockdomains_omap2_def ti81xx_pwrdm_def ti81xx_clkdm_def
  alwon_81xx_pwrdm_def gem_814x_pwrdm_def ivahd_814x_pwrdm_def hdvpss_814x_pwrdm_def sgx_814x_pwrdm_def isp_814x_pwrdm_def
  alwon_l3_slow_81xx_clkdm_def alwon_ethernet_81xx_clkdm_def alwon_ocmc_814x_clkdm_def mmu_81xx_clkdm_def
  mmu_cfg_81xx_clkdm_def gem_814x_clkdm_def ivahd_814x_clkdm_def alwon2_mc_814x_clkdm_def sgx_814x_clkdm_def
  hdvpss_814x_clkdm_def isp_814x_clkdm_def alwon2_l3_med_814x_clkdm_def alwon2_pcie_814x_clkdm_def alwon2_usb_814x_clkdm_def

lemma reg_list_pwrdms:
  "reg_list (\<lambda>p. pwrdm_name (powerdomains_ti81xx ! p)) (\<lambda>p. pwrdm_chip_ok (powerdomains_ti81xx ! p))
     [0..<length powerdomains_ti81xx] [] = dm814x_pwrdms"
  by code_simp

lemma reg_list_clkdms:
  "reg_list (\<lambda>c. clkdm_name (clockdomains_omap2 ! c))
     (\<lambda>c. clkdm_chip_ok (clockdomains_omap2 ! c)
        \<and> clkdm_pwrdm_name (clockdomains_omap2 ! c) \<in> (\<lambda>p. pwrdm_name (powerdomains_ti81xx ! p)) ` set dm814x_pwrdms)
     [0..<length clockdomains_omap2] [] = dm814x_clkdms"
  by code_simp

lemma field_fits_3: "x < 4 \<Longrightarrow> field_fits 3 x"
  using word_and_3 [of x] and_outside [of x 3] by (simp add: field_fits_def)

lemma dm814x_clkdms_static: "\<forall>c \<in> set dm814x_clkdms. clkdm_static (clockdomains_omap2 ! c)"
  by (simp add: dm814x_clkdms_def table_defs clkdm_static_def field_fits_3)

lemma dm814x_clkdms_inj:
  "inj_on (\<lambda>c. cm + scast (cm_inst (clockdomains_omap2 ! c)) + ucast (clkdm_offs (clockdomains_omap2 ! c)) :: u32)
     (set dm814x_clkdms)"
  by (simp add: dm814x_clkdms_def table_defs add.assoc)

lemma dm814x_reset_simps [simp]:
  "pwrdms dm814x_reset = (\<lambda>i. powerdomains_ti81xx ! i)" "clkdms dm814x_reset = (\<lambda>i. clockdomains_omap2 ! i)"
  "regs dm814x_reset = (\<lambda>_. 0)" "hw dm814x_reset = (\<lambda>_ r. r)" "clkdm_list dm814x_reset = []"
  "pwrdm_list dm814x_reset = []"
  by (simp_all add: dm814x_reset_def)

lemma domains_boot_result:
  assumes "domains_static s" "hw_keeps (dm814x_clkstctrl (cm_base s)) s"
  obtains t where "domains_boot s = Some t" "clkdm_list t = dm814x_clkdms" "clkdm_layout t"
    "\<forall>c \<in> set dm814x_clkdms. clkdm_usecount (clkdms t c) = 0 \<and> clktrctrl c t = ucast CLKSTCTRL_FORCE_WAKEUP"
    "bound_wf t" "pm_world.more t = pm_world.more s"
proof -
  obtain s1 where s1: "pwrdm_init [0..<length powerdomains_ti81xx] s = Some s1" "clkdm_frame s s1" "pwrdm_same s s1"
    "pwrdm_list s1 = dm814x_pwrdms"
    using pwrdm_init_shape [of "[0..<length powerdomains_ti81xx]" s] assms(1) reg_list_pwrdms
    by (auto simp: domains_static_def)
  have cl: "clkdms s1 = (\<lambda>i. clockdomains_omap2 ! i)" "clkdm_list s1 = []" "cm_base s1 = cm_base s" "hw s1 = hw s"
    using s1(2) assms(1) by (auto simp: clkdm_frame_def domains_static_def)
  have nm: "pwrdm_name (pwrdms s1 p) = pwrdm_name (powerdomains_ti81xx ! p)" for p
    using s1(3) assms(1) by (simp add: pwrdm_same_def domains_static_def)
  define s2 where "s2 = clkdm_register_all [0..<length clockdomains_omap2] s1"
  have s2: "clkdm_same s1 s2" "clkdm_bound s2" "clkdm_list s2 = dm814x_clkdms"
    using clkdm_register_all_shape [of s1 "[0..<length clockdomains_omap2]"] reg_list_clkdms
    by (simp_all add: s2_def clkdm_bound_def cl s1(4) nm)
  have wk: "\<forall>c \<in> set dm814x_clkdms. wkdep_srcs (clockdomains_omap2 ! c) = None \<and> clkdm_usecount (clockdomains_omap2 ! c) = 0"
    by (simp add: dm814x_clkdms_def table_defs)
  have addr: "clkstctrl_addr c s2 = cm_base s + scast (cm_inst (clockdomains_omap2 ! c)) + ucast (clkdm_offs (clockdomains_omap2 ! c))" for c
    using clkdm_same_fields(7) [OF s2(1)] by (simp add: clkstctrl_addr_def cl)
  have "hw s2 = hw s" using s2(1) cl by (simp add: clkdm_same_def)
  then have lay: "clkdm_layout s2"
    using dm814x_clkdms_inj [of "cm_base s"] dm814x_clkdms_static assms(2)
    by (simp add: clkdm_layout_def s2(3) addr clkdm_addrs_def clkdm_same_fields [OF s2(1)] cl hw_keeps_cong [of s2 s]
        dm814x_clkstctrl_def)
  obtain t where t: "clkdm_init_each dm814x_clkdms s2 = Some t" "clkdms t = clkdms s2" "clkdm_list t = dm814x_clkdms"
    "clkdm_layout t" "\<forall>d \<in> set dm814x_clkdms. clktrctrl d t = ucast CLKSTCTRL_FORCE_WAKEUP"
    using clkdm_init_each_awake [OF lay, of dm814x_clkdms] s2 wk clkdm_same_fields [OF s2(1)] by (auto simp: cl)
  have run: "domains_boot s = Some t"
    using s1(1) t(1) s2(3) by (simp add: domains_boot_def clkdm_init_def s2_def [symmetric])
  have "bound_wf s" using assms(1) by (simp add: bound_wf_def domains_static_def)
  then have "bound_wf s2 \<and> pm_world.more s2 = pm_world.more s"
    using pwrdm_init_bound [OF s1(1)] clkdm_register_all_bound [of s1 "[0..<length clockdomains_omap2]"] by (simp add: s2_def)
  moreover have "\<forall>c \<in> set dm814x_clkdms. clkdm_static (clkdms s2 c) \<and> wkdep_srcs (clkdms s2 c) = None \<and> clkdm_pwrdm (clkdms s2 c) \<noteq> None"
    using lay s2(2,3) wk clkdm_same_fields [OF s2(1)] by (simp add: clkdm_layout_def clkdm_bound_def cl)
  ultimately have "bound_wf t" "pm_world.more t = pm_world.more s" using clkdm_init_each_bound [OF _ t(1)] by auto
  then show ?thesis using that [OF run] t wk clkdm_same_fields(6) [OF s2(1)] by (simp add: cl)
qed

text \<open>
  C6: booting the power and clock domain tables of a DM814x registers exactly its fourteen
  clock domains, each unused and forced awake, and in every state that enabling and
  disabling clocks reaches from there no use count is negative and every domain that has
  users is forced awake, whatever the hardware does to registers other than the CLKSTCTRL
  ones.
\<close>

theorem domains_stay_awake:
  assumes "domains_static s" "hw_keeps (dm814x_clkstctrl (cm_base s)) s"
  shows "\<exists>t. domains_boot s = Some t \<and> clkdm_list t = dm814x_clkdms
    \<and> (\<forall>c \<in> set dm814x_clkdms. clkdm_usecount (clkdms t c) = 0 \<and> clktrctrl c t = ucast CLKSTCTRL_FORCE_WAKEUP)
    \<and> (\<forall>u g. clkdm_step\<^sup>*\<^sup>* (t, \<lambda>_. 0) (u, g) \<longrightarrow>
         (\<forall>c \<in> set dm814x_clkdms. clkdm_usecount (clkdms u c) = int (g c)
           \<and> (0 < g c \<longrightarrow> clktrctrl c u = ucast CLKSTCTRL_FORCE_WAKEUP)))"
proof -
  obtain t where t: "domains_boot s = Some t" "clkdm_list t = dm814x_clkdms" "clkdm_layout t"
    "\<forall>c \<in> set dm814x_clkdms. clkdm_usecount (clkdms t c) = 0 \<and> clktrctrl c t = ucast CLKSTCTRL_FORCE_WAKEUP"
    using assms by (rule domains_boot_result)
  have "\<forall>c \<in> set (clkdm_list t). clkdm_awake c (t, \<lambda>_. 0)" using t by (simp add: clkdm_awake_def)
  then have "\<forall>c \<in> set dm814x_clkdms. clkdm_awake c (u, g)" if "clkdm_step\<^sup>*\<^sup>* (t, \<lambda>_. 0) (u, g)" for u g
    using clkdm_steps_awake [OF that] t(2,3) by simp
  then show ?thesis using t unfolding clkdm_awake_def fst_conv snd_conv by blast
qed

theorem domains_stay_awake_witness:
  "domains_static dm814x_reset \<and> (\<exists>t. domains_boot dm814x_reset = Some t \<and> clkdm_list t = dm814x_clkdms
    \<and> (\<forall>c \<in> set dm814x_clkdms. clktrctrl c t = ucast CLKSTCTRL_FORCE_WAKEUP))"
proof -
  have "domains_static dm814x_reset" "hw_keeps (dm814x_clkstctrl (cm_base dm814x_reset)) dm814x_reset"
    by (simp_all add: domains_static_def hw_keeps_def)
  with domains_stay_awake [of dm814x_reset] show ?thesis by blast
qed

lemma pwrdm_post_transition_cb_oob:
  assumes "pwrdm_wf (pwrdms s p)"
  shows "pwrdm_post_transition_cb p s = None"
  using assms
  by (auto simp: pwrdm_post_transition_cb_def pwrdm_state_switch_flag_def pwrdm_read_prev_pwrst_def
      pwrdm_count_state_def counter_inc_def pwrdm_wf_def Let_def)

text \<open>
  C25: recording the state of a power domain never leaves the counter array: it stores the
  state read from the hardware, increments that state's counter exactly when the state
  differs from the recorded one, and leaves every other counter, every other power domain
  and the registers alone.
\<close>

theorem pwrdm_state_switch_counts:
  assumes "pwrdm_wf (pwrdms s p)"
  shows "\<exists>s'. pwrdm_state_switch (Some p) s = Some (0, s') \<and> pwrdm_wf (pwrdms s' p)
     \<and> pwrdm_state (pwrdms s' p) = ti81xx_pwrdm_read_pwrst p s
     \<and> (\<forall>i < 4. state_counter (pwrdms s' p) ! i =
           state_counter (pwrdms s p) ! i
           + (if int i = ti81xx_pwrdm_read_pwrst p s \<and> int i \<noteq> pwrdm_state (pwrdms s p) then 1 else 0))
     \<and> (\<forall>q. q \<noteq> p \<longrightarrow> pwrdms s' q = pwrdms s q) \<and> regs s' = regs s"
  using assms ti81xx_pwrdm_read_pwrst_range [of p s]
  by (auto simp: pwrdm_state_switch_eq Let_def pwrdm_wf_def nth_list_update)

text \<open>domain 3 of the table (hdvpss) found on\<close>

theorem pwrdm_state_switch_counts_witness:
  "\<exists>t. pwrdm_state_switch (Some 3) (dm814x_reset\<lparr>regs := \<lambda>_. 3\<rparr>) = Some (0, t)
     \<and> pwrdm_state (pwrdms t 3) = 3 \<and> state_counter (pwrdms t 3) ! 3 = 1 \<and> state_counter (pwrdms t 3) ! 0 = 0"
proof -
  have rd: "ti81xx_pwrdm_read_pwrst 3 (dm814x_reset\<lparr>regs := \<lambda>_. 3\<rparr>) = 3"
    by (simp add: ti81xx_pwrdm_read_pwrst_def omap2_prm_read_mod_bits_shift_def omap2_prm_read_mod_reg_def raw_readl_def)
  have wf: "pwrdm_wf (pwrdms (dm814x_reset\<lparr>regs := \<lambda>_. 3\<rparr>) 3)" by (simp add: pwrdm_wf_def table_defs)
  obtain t where t: "pwrdm_state_switch (Some 3) (dm814x_reset\<lparr>regs := \<lambda>_. 3\<rparr>) = Some (0, t)"
     "pwrdm_state (pwrdms t 3) = 3"
     "\<forall>i < 4. state_counter (pwrdms t 3) ! i = state_counter (powerdomains_ti81xx ! 3) ! i
           + (if int i = 3 \<and> int i \<noteq> pwrdm_state (powerdomains_ti81xx ! 3) then 1 else 0)"
    using pwrdm_state_switch_counts [OF wf] unfolding rd by auto
  have "state_counter (pwrdms t 3) ! 3 = 1" "state_counter (pwrdms t 3) ! 0 = 0"
    using spec [OF t(3), of 3] spec [OF t(3), of 0] by (simp_all add: table_defs)
  with t show ?thesis by blast
qed

text \<open>
  C26: recording the previous state of a power domain on a TI81xx writes outside the counter
  array: there is no operation that reads the previous state, so the index is the error code
  -EINVAL and the execution leaves the model for every registered power domain.
\<close>

theorem pwrdm_post_transition_out_of_bounds:
  assumes "pwrdm_list s = p # ps" "pwrdm_wf (pwrdms s p)"
  shows "pwrdm_post_transition s = None"
  using pwrdm_post_transition_cb_oob [OF assms(2)] assms(1) by (simp add: pwrdm_post_transition_def)

theorem pwrdm_post_transition_out_of_bounds_witness:
  "pwrdm_post_transition (dm814x_reset\<lparr>pwrdm_list := dm814x_pwrdms\<rparr>) = None"
  by (rule pwrdm_post_transition_out_of_bounds [of _ 5 "[4, 3, 2, 1, 0]"])
    (simp_all add: dm814x_pwrdms_def pwrdm_wf_def table_defs)

text \<open>
  C27: waiting for a power domain returns 0 at the first of the instants 0 to 100000 at
  which the hardware reports no transition, and -EAGAIN after 100000 microseconds when there
  is none.
\<close>

theorem pwrdm_wait_transition_first:
  "pwrdm_wait_transition (Some p) s =
     (case find (\<lambda>k. \<not> pwrdm_in_transition p (delays k s)) [0..<100001] of
        Some k \<Rightarrow> (0, delays k s) | None \<Rightarrow> (- EAGAIN, delays 100000 s))"
proof -
  have "Suc 100000 = 100001" by simp
  with pwrdm_transition_loop_eq [of p 100000 s] show ?thesis
    by (simp only: pwrdm_wait_transition_def ti81xx_pwrdm_wait_transition_def option.case)
qed

text \<open>
  C28: a power state that the power domain allows is accepted, reads back as the next state,
  and changes no other bit of the control register.
\<close>

theorem pwrdm_set_next_pwrst_reads_back:
  assumes "pwrst < 4" "ucast (pwrsts (pwrdms s p)) AND BIT pwrst \<noteq> (0 :: u32)"
  shows "\<exists>t. pwrdm_set_next_pwrst (Some p) pwrst s = (0, t)
     \<and> pwrdm_read_next_pwrst (Some p) t = int (unat pwrst)
     \<and> omap2_prm_read_mod_reg (prcm_offs (pwrdms s p)) TI81XX_PM_PWSTCTRL t AND NOT 3
       = omap2_prm_read_mod_reg (prcm_offs (pwrdms s p)) TI81XX_PM_PWSTCTRL s AND NOT 3
     \<and> pwrdms t = pwrdms s"
proof -
  define t where "t = snd (omap2_prm_rmw_mod_reg_bits 3 (ucast pwrst) (prcm_offs (pwrdms s p)) TI81XX_PM_PWSTCTRL s)"
  have le: "(ucast pwrst :: u32) < 4" using assms(1) by (simp add: word_less_nat_alt unat_ucast_up)
  have a3: "(ucast pwrst :: u32) AND 3 = ucast pwrst" using le by (rule word_and_3)
  have out: "(ucast pwrst :: u32) AND NOT 3 = 0"
    using a3 by (rule and_outside)
  have rd: "omap2_prm_read_mod_reg (prcm_offs (pwrdms s p)) TI81XX_PM_PWSTCTRL t =
      (omap2_prm_read_mod_reg (prcm_offs (pwrdms s p)) TI81XX_PM_PWSTCTRL s AND NOT 3) OR ucast pwrst"
    unfolding t_def by (rule prm.rd_rmw)
  have "((x AND NOT 3) OR ucast pwrst) AND 3 = (ucast pwrst :: u32)" for x :: u32
    using a3 by (rule and_merge)
  moreover have "sint (ucast pwrst :: u32) = int (unat pwrst)"
    using sint_eq_uint_small [of "ucast pwrst :: u32"] le
    by (simp add: word_less_def uint_ucast_up)
  moreover have "pwrdms t = pwrdms s"
    by (simp add: t_def omap2_prm_rmw_mod_reg_bits_def omap2_prm_write_mod_reg_def raw_writel_def Let_def)
  moreover have "omap2_prm_read_mod_reg (prcm_offs (pwrdms s p)) TI81XX_PM_PWSTCTRL t AND NOT 3
       = omap2_prm_read_mod_reg (prcm_offs (pwrdms s p)) TI81XX_PM_PWSTCTRL s AND NOT 3"
    unfolding t_def using out by (rule prm.rd_rmw_outside)
  ultimately show ?thesis using assms(2)
    by (intro exI [of _ t]) (simp add: pwrdm_set_next_pwrst_def ti81xx_pwrdm_set_next_pwrst_def t_def [symmetric]
        pwrdm_read_next_pwrst_def ti81xx_pwrdm_read_next_pwrst_def omap2_prm_read_mod_bits_shift_def rd)
qed

theorem pwrdm_set_next_pwrst_reads_back_witness:
  "\<exists>t. pwrdm_set_next_pwrst (Some 3) 3 dm814x_reset = (0, t) \<and> pwrdm_read_next_pwrst (Some 3) t = 3"
  using pwrdm_set_next_pwrst_reads_back [of 3 dm814x_reset 3] by (auto simp: table_defs BIT_def)

text \<open>
  C29: registering a clock domain keeps the names of the registered ones distinct; when it
  succeeds the domain is bound to the power domain its table names and the lookup by its
  name finds it.
\<close>

theorem clkdm_register_names:
  assumes "names_distinct s" "clkdm_register (Some c) s = (r, t)"
  shows "names_distinct t \<and> clkdm_list t = (if r = 0 then c # clkdm_list s else clkdm_list s)
    \<and> (r = 0 \<longrightarrow> clkdm_pwrdm (clkdms t c) = pwrdm_lookup (clkdm_pwrdm_name (clkdms s c)) s
        \<and> clkdm_pwrdm (clkdms t c) \<noteq> None
        \<and> clkdm_lookup (Some (clkdm_name (clkdms s c))) t = Some c)"
  using assms(2)
proof (cases rule: clkdm_register_cases)
  case 1
  then show ?thesis using assms(1) by (simp add: names_distinct_def)
next
  case (2 p)
  then have "names_distinct t" using assms(1) by (simp add: names_distinct_def)
  then show ?thesis using 2 clkdm_lookup_registered [of t c] by simp
qed

theorem clkdm_register_names_witness:
  "names_distinct (dm814x_reset\<lparr>pwrdm_list := dm814x_pwrdms\<rparr>)
   \<and> (\<exists>t. clkdm_register (Some 4) (dm814x_reset\<lparr>pwrdm_list := dm814x_pwrdms\<rparr>) = (0, t)
          \<and> clkdm_lookup (Some ''alwon_l3_slow_clkdm'') t = Some 4 \<and> clkdm_pwrdm (clkdms t 4) = Some 0)"
proof -
  let ?s = "dm814x_reset\<lparr>pwrdm_list := dm814x_pwrdms\<rparr>"
  obtain r t where r: "clkdm_register (Some 4) ?s = (r, t)" by (cases "clkdm_register (Some 4) ?s")
  moreover have "fst (clkdm_register (Some 4) ?s) = 0"
    by (simp add: clkdm_register_def dm814x_pwrdms_def table_defs pwrdm_lookup_def clkdm_lookup_def clkdm_upd_def)
  moreover have "names_distinct ?s" by (simp add: names_distinct_def)
  moreover have "pwrdm_lookup ''alwon_pwrdm'' ?s = Some 0"
    by (simp add: pwrdm_lookup_def dm814x_pwrdms_def table_defs)
  moreover have "clkdm_name (clkdms ?s 4) = ''alwon_l3_slow_clkdm''" "clkdm_pwrdm_name (clkdms ?s 4) = ''alwon_pwrdm''"
    by (simp_all add: table_defs)
  ultimately show ?thesis using clkdm_register_names [of ?s 4 r t] by simp
qed

end
