(* ===== verification/Clock_Data.thy ===== *)
theory Clock_Data
  imports Clock_Rates Domain_Boot
begin

unbundle bit_operations_syntax

text \<open>
  The clock tables of the DM814x (\<^verbatim>\<open>clock814x_data.c\<close>): every
  \<^verbatim>\<open>clksel_rate\<close>, \<^verbatim>\<open>clksel\<close>, \<^verbatim>\<open>dpll_data\<close> and
  \<^verbatim>\<open>clk\<close> object of the file with its initialisers, and the registration table
  \<^verbatim>\<open>ti814x_clks\<close>. A clock is named by its position in the file, so that what an
  initialiser can point to has a smaller number. Register addresses are the virtual
  addresses that the address macros of \<^verbatim>\<open>cm81xx.h\<close> expand to.
\<close>

section \<open>Names\<close>

abbreviation (input) ID_rcosc_32k_ck :: clk_id where "ID_rcosc_32k_ck \<equiv> 0"
abbreviation (input) ID_sys_32k_clkin_ck :: clk_id where "ID_sys_32k_clkin_ck \<equiv> 1"
abbreviation (input) ID_tclkin_ck :: clk_id where "ID_tclkin_ck \<equiv> 2"
abbreviation (input) ID_osc0_clkin_ck :: clk_id where "ID_osc0_clkin_ck \<equiv> 3"
abbreviation (input) ID_osc1_clkin_ck :: clk_id where "ID_osc1_clkin_ck \<equiv> 4"
abbreviation (input) ID_rtc_divider_ck :: clk_id where "ID_rtc_divider_ck \<equiv> 5"
abbreviation (input) ID_osc1_x1_ck :: clk_id where "ID_osc1_x1_ck \<equiv> 6"
abbreviation (input) ID_xref0_ck :: clk_id where "ID_xref0_ck \<equiv> 7"
abbreviation (input) ID_xref1_ck :: clk_id where "ID_xref1_ck \<equiv> 8"
abbreviation (input) ID_xref2_ck :: clk_id where "ID_xref2_ck \<equiv> 9"
abbreviation (input) ID_tsi0_dck_ck :: clk_id where "ID_tsi0_dck_ck \<equiv> 10"
abbreviation (input) ID_tsi1_dck_ck :: clk_id where "ID_tsi1_dck_ck \<equiv> 11"
abbreviation (input) ID_external_ck :: clk_id where "ID_external_ck \<equiv> 12"
abbreviation (input) ID_atl0_clk_ck :: clk_id where "ID_atl0_clk_ck \<equiv> 13"
abbreviation (input) ID_atl1_clk_ck :: clk_id where "ID_atl1_clk_ck \<equiv> 14"
abbreviation (input) ID_atl2_clk_ck :: clk_id where "ID_atl2_clk_ck \<equiv> 15"
abbreviation (input) ID_atl3_clk_ck :: clk_id where "ID_atl3_clk_ck \<equiv> 16"
abbreviation (input) ID_arm_dpll_clkin_ck :: clk_id where "ID_arm_dpll_clkin_ck \<equiv> 23"
abbreviation (input) ID_arm_dpll_ck :: clk_id where "ID_arm_dpll_ck \<equiv> 24"
abbreviation (input) ID_mpu_ck :: clk_id where "ID_mpu_ck \<equiv> 25"
abbreviation (input) ID_dsp_dpll_ck :: clk_id where "ID_dsp_dpll_ck \<equiv> 26"
abbreviation (input) ID_sgx_dpll_ck :: clk_id where "ID_sgx_dpll_ck \<equiv> 28"
abbreviation (input) ID_sysclk23_ck :: clk_id where "ID_sysclk23_ck \<equiv> 29"
abbreviation (input) ID_hdvicp_dpll_ck :: clk_id where "ID_hdvicp_dpll_ck \<equiv> 33"
abbreviation (input) ID_sysclk3_ck :: clk_id where "ID_sysclk3_ck \<equiv> 34"
abbreviation (input) ID_l3_dpll_clkin_ck :: clk_id where "ID_l3_dpll_clkin_ck \<equiv> 36"
abbreviation (input) ID_l3_dpll_ck :: clk_id where "ID_l3_dpll_ck \<equiv> 37"
abbreviation (input) ID_sysclk4_ck :: clk_id where "ID_sysclk4_ck \<equiv> 38"
abbreviation (input) ID_sysclk5_ck :: clk_id where "ID_sysclk5_ck \<equiv> 52"
abbreviation (input) ID_mlb_ick :: clk_id where "ID_mlb_ick \<equiv> 61"
abbreviation (input) ID_sysclk6_ck :: clk_id where "ID_sysclk6_ck \<equiv> 72"
abbreviation (input) ID_gpio234_ick :: clk_id where "ID_gpio234_ick \<equiv> 98"
abbreviation (input) ID_mlbp_ick :: clk_id where "ID_mlbp_ick \<equiv> 112"
abbreviation (input) ID_iss_dpll_ck :: clk_id where "ID_iss_dpll_ck \<equiv> 135"
abbreviation (input) ID_iss_dpll_d2_ck :: clk_id where "ID_iss_dpll_d2_ck \<equiv> 139"
abbreviation (input) ID_hdvpss_dpll_ck :: clk_id where "ID_hdvpss_dpll_ck \<equiv> 141"
abbreviation (input) ID_hdvpss_proc_d2_fck :: clk_id where "ID_hdvpss_proc_d2_fck \<equiv> 143"
abbreviation (input) ID_usb_dpll_clkin_ck :: clk_id where "ID_usb_dpll_clkin_ck \<equiv> 150"
abbreviation (input) ID_usb_dpll_ck :: clk_id where "ID_usb_dpll_ck \<equiv> 151"
abbreviation (input) ID_usb_dpll_div5_ck :: clk_id where "ID_usb_dpll_div5_ck \<equiv> 154"
abbreviation (input) ID_sysclk10_ck :: clk_id where "ID_sysclk10_ck \<equiv> 155"
abbreviation (input) ID_i2c02_ck :: clk_id where "ID_i2c02_ck \<equiv> 160"
abbreviation (input) ID_i2c13_ck :: clk_id where "ID_i2c13_ck \<equiv> 161"
abbreviation (input) ID_sysclk8_ck :: clk_id where "ID_sysclk8_ck \<equiv> 170"
abbreviation (input) ID_ddr_dpll_clkin_ck :: clk_id where "ID_ddr_dpll_clkin_ck \<equiv> 180"
abbreviation (input) ID_ddr_dpll_ck :: clk_id where "ID_ddr_dpll_ck \<equiv> 181"
abbreviation (input) ID_ddr0_half_fck :: clk_id where "ID_ddr0_half_fck \<equiv> 184"
abbreviation (input) ID_ddr1_half_fck :: clk_id where "ID_ddr1_half_fck \<equiv> 185"
abbreviation (input) ID_video0_dpll_clkin_ck :: clk_id where "ID_video0_dpll_clkin_ck \<equiv> 191"
abbreviation (input) ID_video0_dpll_ck :: clk_id where "ID_video0_dpll_ck \<equiv> 192"
abbreviation (input) ID_video1_dpll_clkin_ck :: clk_id where "ID_video1_dpll_clkin_ck \<equiv> 193"
abbreviation (input) ID_video1_dpll_ck :: clk_id where "ID_video1_dpll_ck \<equiv> 194"
abbreviation (input) ID_hdmi_dpll_clkin_ck :: clk_id where "ID_hdmi_dpll_clkin_ck \<equiv> 195"
abbreviation (input) ID_hdmi_dpll_ck :: clk_id where "ID_hdmi_dpll_ck \<equiv> 196"
abbreviation (input) ID_video_m_pclk_ck :: clk_id where "ID_video_m_pclk_ck \<equiv> 197"
abbreviation (input) ID_hdmi_dpll_muxout_ck :: clk_id where "ID_hdmi_dpll_muxout_ck \<equiv> 199"
abbreviation (input) ID_video012_dpll_muxout_ck :: clk_id where "ID_video012_dpll_muxout_ck \<equiv> 200"
abbreviation (input) ID_sysclk16_d1mux_ck :: clk_id where "ID_sysclk16_d1mux_ck \<equiv> 201"
abbreviation (input) ID_sysclk16_b3mux_ck :: clk_id where "ID_sysclk16_b3mux_ck \<equiv> 202"
abbreviation (input) ID_sysclk14_c1mux_ck :: clk_id where "ID_sysclk14_c1mux_ck \<equiv> 203"
abbreviation (input) ID_sysclk16_ck :: clk_id where "ID_sysclk16_ck \<equiv> 204"
abbreviation (input) ID_hd_venc_d_ck :: clk_id where "ID_hd_venc_d_ck \<equiv> 207"
abbreviation (input) ID_hd_venc_a_ck :: clk_id where "ID_hd_venc_a_ck \<equiv> 208"
abbreviation (input) ID_sysclk14_ck :: clk_id where "ID_sysclk14_ck \<equiv> 212"
abbreviation (input) ID_audio_dpll_clk2_ck :: clk_id where "ID_audio_dpll_clk2_ck \<equiv> 214"
abbreviation (input) ID_audio_dpll_clkin_ck :: clk_id where "ID_audio_dpll_clkin_ck \<equiv> 215"
abbreviation (input) ID_audio_dpll_ck :: clk_id where "ID_audio_dpll_ck \<equiv> 216"
abbreviation (input) ID_audio_dpll_clk1_ck :: clk_id where "ID_audio_dpll_clk1_ck \<equiv> 217"
abbreviation (input) ID_audio_prcm_clkin_ck :: clk_id where "ID_audio_prcm_clkin_ck \<equiv> 218"
abbreviation (input) ID_sysclk18_ck :: clk_id where "ID_sysclk18_ck \<equiv> 219"
abbreviation (input) ID_sysclk19_ck :: clk_id where "ID_sysclk19_ck \<equiv> 221"
abbreviation (input) ID_sysclk20_ck :: clk_id where "ID_sysclk20_ck \<equiv> 222"
abbreviation (input) ID_sysclk21_ck :: clk_id where "ID_sysclk21_ck \<equiv> 223"
abbreviation (input) ID_sysclk22_ck :: clk_id where "ID_sysclk22_ck \<equiv> 224"
abbreviation (input) ID_audio_prcm1_out_ck :: clk_id where "ID_audio_prcm1_out_ck \<equiv> 225"
abbreviation (input) ID_hdmi_i2s_ck :: clk_id where "ID_hdmi_i2s_ck \<equiv> 230"
abbreviation (input) ID_gpio234_dbck :: clk_id where "ID_gpio234_dbck \<equiv> 234"
abbreviation (input) ID_mcasp_auxclk_mux0_ck :: clk_id where "ID_mcasp_auxclk_mux0_ck \<equiv> 254"
abbreviation (input) ID_cpts_rft_clk_ck :: clk_id where "ID_cpts_rft_clk_ck \<equiv> 266"
abbreviation (input) ID_cpts_rft_div5_ck :: clk_id where "ID_cpts_rft_div5_ck \<equiv> 267"
abbreviation (input) ID_cpts_rft_div2_ck :: clk_id where "ID_cpts_rft_div2_ck \<equiv> 268"
abbreviation (input) ID_ljcb_serdesp_ck :: clk_id where "ID_ljcb_serdesp_ck \<equiv> 269"
abbreviation (input) ID_ljcb_serdesn_ck :: clk_id where "ID_ljcb_serdesn_ck \<equiv> 270"
abbreviation (input) ID_pciess_125m_ck :: clk_id where "ID_pciess_125m_ck \<equiv> 275"
abbreviation (input) ID_satass_50m_ck :: clk_id where "ID_satass_50m_ck \<equiv> 279"
abbreviation (input) ID_satass_125m_ck :: clk_id where "ID_satass_125m_ck \<equiv> 280"
abbreviation (input) ID_sata1ss_50m_ck :: clk_id where "ID_sata1ss_50m_ck \<equiv> 284"
abbreviation (input) ID_sata1ss_125m_ck :: clk_id where "ID_sata1ss_125m_ck \<equiv> 285"
abbreviation (input) ID_gmac0to1_mux_out_ck :: clk_id where "ID_gmac0to1_mux_out_ck \<equiv> 287"
abbreviation (input) ID_sata01_125m_mux_out_ck :: clk_id where "ID_sata01_125m_mux_out_ck \<equiv> 288"
abbreviation (input) ID_dummy_clk_ck :: clk_id where "ID_dummy_clk_ck \<equiv> 293"
abbreviation (input) ID_clkout_prcm_mux_ck :: clk_id where "ID_clkout_prcm_mux_ck \<equiv> 294"
abbreviation (input) ID_clkout_prcm_ck :: clk_id where "ID_clkout_prcm_ck \<equiv> 295"

section \<open>Objects without initialisers\<close>

text \<open>All members of a static object without an initialiser are zero.\<close>

definition clk_zero :: clk where
  "clk_zero =
     \<lparr>clk_node = False, clk_ops = Clkops_null, clk_name = [], clk_parent = None, clk_children = [], clk_rate = 0,
      clk_enable_reg = 0, clk_recalc_fn = None, clk_set_rate_fn = None, clk_round_rate_fn = None,
      clk_init_fn = None, clk_enable_bit = 0, clk_usecount = 0, clk_fixed_div = 0, clk_flags = 0,
      clk_clksel_reg = 0, clk_clksel_mask = 0, clk_clksel = None, clk_dpll_data = None,
      clk_clkdm_name = None, clk_clkdm = None\<rparr>"

definition dpll_zero :: dpll_data where
  "dpll_zero =
     \<lparr>mult_div1_reg = 0, mult_mask = 0, clk_bypass = 0, clk_ref = 0, control_reg = 0, enable_mask = 0,
      last_rounded_rate = 0, last_rounded_m = 0, max_multiplier = 0, last_rounded_n = 0,
      min_divider = 0, max_divider = 0, modes = 0, idlest_reg = 0, idlest_mask = 0, dco_mask = 0,
      sddiv_mask = 0, dd_flags = 0, dd_dpll_id = 0, div_m2n_reg = 0, div_m2_mask = 0, div_n_mask = 0,
      pre_div_n = 0, post_div_m2 = 0, frac_mult_reg = 0, frac_mult_mask = 0, last_rounded_frac_m = 0,
      last_rounded_m2 = 0, bypass_bit = 0, stby_ret_bit = 0, stop_mode_bit = 0, load_mn_reg = 0,
      load_m2n2_reg = 0, dco_freq_sel = 0\<rparr>"

section \<open>Divider and multiplexer tables\<close>

text \<open>Every entry has the flags \<^verbatim>\<open>RATE_IN_TI814X | RATE_IN_DM385\<close>.\<close>

definition rate_ti814x :: "u8 \<Rightarrow> u32 \<Rightarrow> clksel_rate" where
  "rate_ti814x d v = \<lparr>cr_val = v, cr_div = d, cr_flags = 0x60\<rparr>"

definition div_1_0_rates :: "clksel_rate list" where
  "div_1_0_rates =
     [rate_ti814x 1 0]"

definition div_1_1_rates :: "clksel_rate list" where
  "div_1_1_rates =
     [rate_ti814x 1 1]"

definition div_1_2_rates :: "clksel_rate list" where
  "div_1_2_rates =
     [rate_ti814x 1 2]"

definition div_1_3_rates :: "clksel_rate list" where
  "div_1_3_rates =
     [rate_ti814x 1 3]"

definition div_1_4_rates :: "clksel_rate list" where
  "div_1_4_rates =
     [rate_ti814x 1 4]"

definition div_1_5_rates :: "clksel_rate list" where
  "div_1_5_rates =
     [rate_ti814x 1 5]"

definition div_1_6_rates :: "clksel_rate list" where
  "div_1_6_rates =
     [rate_ti814x 1 6]"

definition div_1_7_rates :: "clksel_rate list" where
  "div_1_7_rates =
     [rate_ti814x 1 7]"

definition div_1_8_rates :: "clksel_rate list" where
  "div_1_8_rates =
     [rate_ti814x 1 8]"

definition div_1_9_rates :: "clksel_rate list" where
  "div_1_9_rates =
     [rate_ti814x 1 9]"

definition div_1_10_rates :: "clksel_rate list" where
  "div_1_10_rates =
     [rate_ti814x 1 10]"

definition div8_rates :: "clksel_rate list" where
  "div8_rates =
     [rate_ti814x 1 0, rate_ti814x 2 1, rate_ti814x 3 2, rate_ti814x 4 3, rate_ti814x 5 4, rate_ti814x 6 5, rate_ti814x 7 6, rate_ti814x 8 7]"

definition div5_prcmckout_rates :: "clksel_rate list" where
  "div5_prcmckout_rates =
     [rate_ti814x 1 0, rate_ti814x 2 1, rate_ti814x 4 2, rate_ti814x 8 3, rate_ti814x 16 4]"

definition div2_sysclk6_rates :: "clksel_rate list" where
  "div2_sysclk6_rates =
     [rate_ti814x 2 0, rate_ti814x 4 1]"

definition div4_b3c1_rates :: "clksel_rate list" where
  "div4_b3c1_rates =
     [rate_ti814x 1 0, rate_ti814x 2 1, rate_ti814x 22 2, rate_ti814x 1 3]"

definition arm_dpll_mux_sel :: "clksel list" where
  "arm_dpll_mux_sel =
     [\<lparr>cs_parent = ID_osc0_clkin_ck, cs_rates = div_1_0_rates\<rparr>,
      \<lparr>cs_parent = ID_rtc_divider_ck, cs_rates = div_1_1_rates\<rparr>]"

definition sysclk23_div :: "clksel list" where
  "sysclk23_div =
     [\<lparr>cs_parent = ID_sgx_dpll_ck, cs_rates = div8_rates\<rparr>]"

definition sysclk3_div :: "clksel list" where
  "sysclk3_div =
     [\<lparr>cs_parent = ID_hdvicp_dpll_ck, cs_rates = div8_rates\<rparr>]"

definition osc_l3dpll_clk_mux_sel :: "clksel list" where
  "osc_l3dpll_clk_mux_sel =
     [\<lparr>cs_parent = ID_osc0_clkin_ck, cs_rates = div_1_0_rates\<rparr>,
      \<lparr>cs_parent = ID_osc1_clkin_ck, cs_rates = div_1_1_rates\<rparr>]"

definition sysclk6_div :: "clksel list" where
  "sysclk6_div =
     [\<lparr>cs_parent = ID_sysclk4_ck, cs_rates = div2_sysclk6_rates\<rparr>]"

definition sysclk10_div :: "clksel list" where
  "sysclk10_div =
     [\<lparr>cs_parent = ID_usb_dpll_div5_ck, cs_rates = div8_rates\<rparr>]"

definition sysclk8_div :: "clksel list" where
  "sysclk8_div =
     [\<lparr>cs_parent = ID_usb_dpll_div5_ck, cs_rates = div_1_0_rates\<rparr>]"

definition uart456_mux_sel :: "clksel list" where
  "uart456_mux_sel =
     [\<lparr>cs_parent = ID_sysclk8_ck, cs_rates = div_1_0_rates\<rparr>,
      \<lparr>cs_parent = ID_sysclk10_ck, cs_rates = div_1_1_rates\<rparr>,
      \<lparr>cs_parent = ID_sysclk6_ck, cs_rates = div_1_2_rates\<rparr>]"

definition secureSS_mux_sel :: "clksel list" where
  "secureSS_mux_sel =
     [\<lparr>cs_parent = ID_iss_dpll_d2_ck, cs_rates = div_1_0_rates\<rparr>,
      \<lparr>cs_parent = ID_usb_dpll_div5_ck, cs_rates = div_1_1_rates\<rparr>]"

definition osc_video0_dpll_mux_sel :: "clksel list" where
  "osc_video0_dpll_mux_sel =
     [\<lparr>cs_parent = ID_osc0_clkin_ck, cs_rates = div_1_0_rates\<rparr>,
      \<lparr>cs_parent = ID_osc1_clkin_ck, cs_rates = div_1_1_rates\<rparr>]"

definition osc_video1_dpll_mux_sel :: "clksel list" where
  "osc_video1_dpll_mux_sel =
     [\<lparr>cs_parent = ID_osc0_clkin_ck, cs_rates = div_1_0_rates\<rparr>,
      \<lparr>cs_parent = ID_osc1_clkin_ck, cs_rates = div_1_1_rates\<rparr>]"

definition osc_hdmi_dpll_mux_sel :: "clksel list" where
  "osc_hdmi_dpll_mux_sel =
     [\<lparr>cs_parent = ID_osc0_clkin_ck, cs_rates = div_1_0_rates\<rparr>,
      \<lparr>cs_parent = ID_osc1_clkin_ck, cs_rates = div_1_1_rates\<rparr>]"

definition video_dpll_clk_mux_sel :: "clksel list" where
  "video_dpll_clk_mux_sel =
     [\<lparr>cs_parent = ID_hdmi_dpll_ck, cs_rates = div_1_0_rates\<rparr>,
      \<lparr>cs_parent = ID_video_m_pclk_ck, cs_rates = div_1_1_rates\<rparr>]"

definition audio_dpll_prcm_mux_sel :: "clksel list" where
  "audio_dpll_prcm_mux_sel =
     [\<lparr>cs_parent = ID_video0_dpll_ck, cs_rates = div_1_0_rates\<rparr>,
      \<lparr>cs_parent = ID_hdmi_dpll_muxout_ck, cs_rates = div_1_1_rates\<rparr>,
      \<lparr>cs_parent = ID_video1_dpll_ck, cs_rates = div_1_2_rates\<rparr>]"

definition sysclk16_d1_div :: "clksel list" where
  "sysclk16_d1_div =
     [\<lparr>cs_parent = ID_video0_dpll_ck, cs_rates = div8_rates\<rparr>]"

definition sysclk16_b3_div :: "clksel list" where
  "sysclk16_b3_div =
     [\<lparr>cs_parent = ID_hdmi_dpll_muxout_ck, cs_rates = div4_b3c1_rates\<rparr>]"

definition sysclk14_c1_div :: "clksel list" where
  "sysclk14_c1_div =
     [\<lparr>cs_parent = ID_video1_dpll_ck, cs_rates = div4_b3c1_rates\<rparr>]"

definition sysclk16_clk_mux_sel :: "clksel list" where
  "sysclk16_clk_mux_sel =
     [\<lparr>cs_parent = ID_sysclk16_d1mux_ck, cs_rates = div_1_0_rates\<rparr>,
      \<lparr>cs_parent = ID_sysclk16_b3mux_ck, cs_rates = div_1_1_rates\<rparr>]"

definition hdvpss_clk_mux_sel :: "clksel list" where
  "hdvpss_clk_mux_sel =
     [\<lparr>cs_parent = ID_video1_dpll_ck, cs_rates = div_1_0_rates\<rparr>,
      \<lparr>cs_parent = ID_hdmi_dpll_muxout_ck, cs_rates = div_1_1_rates\<rparr>]"

definition hd_venc_a_mux_sel :: "clksel list" where
  "hd_venc_a_mux_sel =
     [\<lparr>cs_parent = ID_hdmi_dpll_muxout_ck, cs_rates = div_1_0_rates\<rparr>,
      \<lparr>cs_parent = ID_video1_dpll_ck, cs_rates = div_1_1_rates\<rparr>,
      \<lparr>cs_parent = ID_video0_dpll_ck, cs_rates = div_1_2_rates\<rparr>]"

definition sysclk14_ck_mux_sel :: "clksel list" where
  "sysclk14_ck_mux_sel =
     [\<lparr>cs_parent = ID_sysclk16_b3mux_ck, cs_rates = div_1_0_rates\<rparr>,
      \<lparr>cs_parent = ID_video0_dpll_clkin_ck, cs_rates = div_1_1_rates\<rparr>,
      \<lparr>cs_parent = ID_sysclk14_c1mux_ck, cs_rates = div_1_2_rates\<rparr>]"

definition video_dpll_xref_ck_mux_sel :: "clksel list" where
  "video_dpll_xref_ck_mux_sel =
     [\<lparr>cs_parent = ID_sysclk14_ck, cs_rates = div_1_0_rates\<rparr>,
      \<lparr>cs_parent = ID_xref0_ck, cs_rates = div_1_1_rates\<rparr>,
      \<lparr>cs_parent = ID_xref1_ck, cs_rates = div_1_2_rates\<rparr>,
      \<lparr>cs_parent = ID_xref2_ck, cs_rates = div_1_3_rates\<rparr>]"

definition tppss_tso_dclk_mux_sel :: "clksel list" where
  "tppss_tso_dclk_mux_sel =
     [\<lparr>cs_parent = ID_iss_dpll_d2_ck, cs_rates = div_1_0_rates\<rparr>,
      \<lparr>cs_parent = ID_iss_dpll_ck, cs_rates = div_1_1_rates\<rparr>,
      \<lparr>cs_parent = ID_tsi0_dck_ck, cs_rates = div_1_2_rates\<rparr>,
      \<lparr>cs_parent = ID_tsi1_dck_ck, cs_rates = div_1_3_rates\<rparr>]"

definition osc_audio_dpll_mux_sel :: "clksel list" where
  "osc_audio_dpll_mux_sel =
     [\<lparr>cs_parent = ID_osc0_clkin_ck, cs_rates = div_1_0_rates\<rparr>,
      \<lparr>cs_parent = ID_osc1_clkin_ck, cs_rates = div_1_1_rates\<rparr>]"

definition sysclk18_a_div :: "clksel list" where
  "sysclk18_a_div =
     [\<lparr>cs_parent = ID_rtc_divider_ck, cs_rates = div8_rates\<rparr>]"

definition rtc_clkin32_mux_sel :: "clksel list" where
  "rtc_clkin32_mux_sel =
     [\<lparr>cs_parent = ID_rtc_divider_ck, cs_rates = div_1_0_rates\<rparr>,
      \<lparr>cs_parent = ID_sys_32k_clkin_ck, cs_rates = div_1_1_rates\<rparr>]"

definition sysclk18_mux_sel :: "clksel list" where
  "sysclk18_mux_sel =
     [\<lparr>cs_parent = ID_audio_prcm_clkin_ck, cs_rates = div_1_0_rates\<rparr>,
      \<lparr>cs_parent = ID_audio_dpll_clk1_ck, cs_rates = div_1_1_rates\<rparr>]"

definition sysclk19_b_div :: "clksel list" where
  "sysclk19_b_div =
     [\<lparr>cs_parent = ID_audio_dpll_clk2_ck, cs_rates = div8_rates\<rparr>]"

definition sysclk20_c_div :: "clksel list" where
  "sysclk20_c_div =
     [\<lparr>cs_parent = ID_audio_dpll_ck, cs_rates = div8_rates\<rparr>]"

definition sysclk21_d_div :: "clksel list" where
  "sysclk21_d_div =
     [\<lparr>cs_parent = ID_video012_dpll_muxout_ck, cs_rates = div8_rates\<rparr>]"

definition sysclk22_e_div :: "clksel list" where
  "sysclk22_e_div =
     [\<lparr>cs_parent = ID_osc0_clkin_ck, cs_rates = div8_rates\<rparr>]"

definition audio_prcm_mux_sel :: "clksel list" where
  "audio_prcm_mux_sel =
     [\<lparr>cs_parent = ID_sysclk20_ck, cs_rates = div_1_0_rates\<rparr>,
      \<lparr>cs_parent = ID_sysclk21_ck, cs_rates = div_1_1_rates\<rparr>,
      \<lparr>cs_parent = ID_sysclk22_ck, cs_rates = div_1_2_rates\<rparr>]"

definition mcbsp_clks_mux_sel :: "clksel list" where
  "mcbsp_clks_mux_sel =
     [\<lparr>cs_parent = ID_audio_prcm1_out_ck, cs_rates = div_1_0_rates\<rparr>,
      \<lparr>cs_parent = ID_xref0_ck, cs_rates = div_1_1_rates\<rparr>,
      \<lparr>cs_parent = ID_xref1_ck, cs_rates = div_1_2_rates\<rparr>,
      \<lparr>cs_parent = ID_xref2_ck, cs_rates = div_1_3_rates\<rparr>,
      \<lparr>cs_parent = ID_osc1_x1_ck, cs_rates = div_1_4_rates\<rparr>]"

definition hdmi_i2s_mclk_mux_sel :: "clksel list" where
  "hdmi_i2s_mclk_mux_sel =
     [\<lparr>cs_parent = ID_hdmi_i2s_ck, cs_rates = div_1_0_rates\<rparr>,
      \<lparr>cs_parent = ID_xref0_ck, cs_rates = div_1_1_rates\<rparr>,
      \<lparr>cs_parent = ID_xref1_ck, cs_rates = div_1_2_rates\<rparr>,
      \<lparr>cs_parent = ID_xref2_ck, cs_rates = div_1_3_rates\<rparr>,
      \<lparr>cs_parent = ID_osc1_x1_ck, cs_rates = div_1_4_rates\<rparr>]"

definition atlp_clk_mux_sel :: "clksel list" where
  "atlp_clk_mux_sel =
     [\<lparr>cs_parent = ID_sysclk19_ck, cs_rates = div_1_0_rates\<rparr>,
      \<lparr>cs_parent = ID_audio_dpll_ck, cs_rates = div_1_1_rates\<rparr>,
      \<lparr>cs_parent = ID_video012_dpll_muxout_ck, cs_rates = div_1_2_rates\<rparr>]"

definition gpt0to7_fclk_mux_sel :: "clksel list" where
  "gpt0to7_fclk_mux_sel =
     [\<lparr>cs_parent = ID_sysclk18_ck, cs_rates = div_1_0_rates\<rparr>,
      \<lparr>cs_parent = ID_xref0_ck, cs_rates = div_1_1_rates\<rparr>,
      \<lparr>cs_parent = ID_xref1_ck, cs_rates = div_1_2_rates\<rparr>,
      \<lparr>cs_parent = ID_xref2_ck, cs_rates = div_1_3_rates\<rparr>,
      \<lparr>cs_parent = ID_osc0_clkin_ck, cs_rates = div_1_4_rates\<rparr>,
      \<lparr>cs_parent = ID_osc1_x1_ck, cs_rates = div_1_5_rates\<rparr>,
      \<lparr>cs_parent = ID_tclkin_ck, cs_rates = div_1_6_rates\<rparr>]"

definition mlb0to1_clk_mux_sel :: "clksel list" where
  "mlb0to1_clk_mux_sel =
     [\<lparr>cs_parent = ID_mlb_ick, cs_rates = div_1_0_rates\<rparr>,
      \<lparr>cs_parent = ID_mlbp_ick, cs_rates = div_1_1_rates\<rparr>]"

definition mcasp0to6_auxclk_mux_sel :: "clksel list" where
  "mcasp0to6_auxclk_mux_sel =
     [\<lparr>cs_parent = ID_mcasp_auxclk_mux0_ck, cs_rates = div_1_0_rates\<rparr>,
      \<lparr>cs_parent = ID_audio_dpll_ck, cs_rates = div_1_1_rates\<rparr>,
      \<lparr>cs_parent = ID_video012_dpll_muxout_ck, cs_rates = div_1_2_rates\<rparr>,
      \<lparr>cs_parent = ID_xref0_ck, cs_rates = div_1_3_rates\<rparr>,
      \<lparr>cs_parent = ID_xref1_ck, cs_rates = div_1_4_rates\<rparr>,
      \<lparr>cs_parent = ID_xref2_ck, cs_rates = div_1_5_rates\<rparr>,
      \<lparr>cs_parent = ID_osc1_x1_ck, cs_rates = div_1_6_rates\<rparr>]"

definition mcasp0to7_ahclk_mux_sel :: "clksel list" where
  "mcasp0to7_ahclk_mux_sel =
     [\<lparr>cs_parent = ID_xref0_ck, cs_rates = div_1_0_rates\<rparr>,
      \<lparr>cs_parent = ID_xref1_ck, cs_rates = div_1_1_rates\<rparr>,
      \<lparr>cs_parent = ID_xref2_ck, cs_rates = div_1_2_rates\<rparr>,
      \<lparr>cs_parent = ID_osc1_x1_ck, cs_rates = div_1_3_rates\<rparr>,
      \<lparr>cs_parent = ID_atl0_clk_ck, cs_rates = div_1_4_rates\<rparr>,
      \<lparr>cs_parent = ID_atl1_clk_ck, cs_rates = div_1_5_rates\<rparr>,
      \<lparr>cs_parent = ID_atl2_clk_ck, cs_rates = div_1_6_rates\<rparr>,
      \<lparr>cs_parent = ID_atl3_clk_ck, cs_rates = div_1_7_rates\<rparr>]"

definition cpts0to4_rft_clk_mux_sel :: "clksel list" where
  "cpts0to4_rft_clk_mux_sel =
     [\<lparr>cs_parent = ID_video0_dpll_ck, cs_rates = div_1_0_rates\<rparr>,
      \<lparr>cs_parent = ID_video1_dpll_ck, cs_rates = div_1_1_rates\<rparr>,
      \<lparr>cs_parent = ID_audio_dpll_ck, cs_rates = div_1_2_rates\<rparr>,
      \<lparr>cs_parent = ID_hdmi_dpll_muxout_ck, cs_rates = div_1_3_rates\<rparr>,
      \<lparr>cs_parent = ID_l3_dpll_ck, cs_rates = div_1_4_rates\<rparr>]"

definition sata01_50m_mux_sel :: "clksel list" where
  "sata01_50m_mux_sel =
     [\<lparr>cs_parent = ID_satass_50m_ck, cs_rates = div_1_0_rates\<rparr>,
      \<lparr>cs_parent = ID_sata1ss_50m_ck, cs_rates = div_1_1_rates\<rparr>]"

definition gmac0to1_mux_sel :: "clksel list" where
  "gmac0to1_mux_sel =
     [\<lparr>cs_parent = ID_satass_50m_ck, cs_rates = div_1_0_rates\<rparr>,
      \<lparr>cs_parent = ID_external_ck, cs_rates = div_1_1_rates\<rparr>]"

definition gmac0to1_385_mux_sel :: "clksel list" where
  "gmac0to1_385_mux_sel =
     [\<lparr>cs_parent = ID_satass_50m_ck, cs_rates = div_1_0_rates\<rparr>,
      \<lparr>cs_parent = ID_sata1ss_50m_ck, cs_rates = div_1_1_rates\<rparr>]"

definition rmii_mux_sel :: "clksel list" where
  "rmii_mux_sel =
     [\<lparr>cs_parent = ID_gmac0to1_mux_out_ck, cs_rates = div_1_0_rates\<rparr>,
      \<lparr>cs_parent = ID_cpts_rft_div5_ck, cs_rates = div_1_1_rates\<rparr>]"

definition sata01_125m_mux_sel :: "clksel list" where
  "sata01_125m_mux_sel =
     [\<lparr>cs_parent = ID_satass_125m_ck, cs_rates = div_1_0_rates\<rparr>,
      \<lparr>cs_parent = ID_sata1ss_125m_ck, cs_rates = div_1_1_rates\<rparr>]"

definition gmii_mux_sel :: "clksel list" where
  "gmii_mux_sel =
     [\<lparr>cs_parent = ID_sata01_125m_mux_out_ck, cs_rates = div_1_0_rates\<rparr>,
      \<lparr>cs_parent = ID_cpts_rft_div2_ck, cs_rates = div_1_1_rates\<rparr>]"

definition wdt0to1_fclk_mux_sel :: "clksel list" where
  "wdt0to1_fclk_mux_sel =
     [\<lparr>cs_parent = ID_rtc_divider_ck, cs_rates = div_1_0_rates\<rparr>,
      \<lparr>cs_parent = ID_rcosc_32k_ck, cs_rates = div_1_1_rates\<rparr>]"

definition clkout0to3_mux_sel :: "clksel list" where
  "clkout0to3_mux_sel =
     [\<lparr>cs_parent = ID_dsp_dpll_ck, cs_rates = div_1_0_rates\<rparr>,
      \<lparr>cs_parent = ID_hdvicp_dpll_ck, cs_rates = div_1_1_rates\<rparr>,
      \<lparr>cs_parent = ID_video0_dpll_ck, cs_rates = div_1_2_rates\<rparr>,
      \<lparr>cs_parent = ID_rtc_divider_ck, cs_rates = div_1_3_rates\<rparr>]"

definition clkout0to3_385_mux_sel :: "clksel list" where
  "clkout0to3_385_mux_sel =
     [\<lparr>cs_parent = ID_dummy_clk_ck, cs_rates = div_1_0_rates\<rparr>,
      \<lparr>cs_parent = ID_hdvicp_dpll_ck, cs_rates = div_1_1_rates\<rparr>,
      \<lparr>cs_parent = ID_video0_dpll_ck, cs_rates = div_1_2_rates\<rparr>,
      \<lparr>cs_parent = ID_rtc_divider_ck, cs_rates = div_1_3_rates\<rparr>]"

definition clkout_1to16_div :: "clksel list" where
  "clkout_1to16_div =
     [\<lparr>cs_parent = ID_clkout_prcm_mux_ck, cs_rates = div5_prcmckout_rates\<rparr>]"

definition clkout0to10_mux_sel :: "clksel list" where
  "clkout0to10_mux_sel =
     [\<lparr>cs_parent = ID_clkout_prcm_ck, cs_rates = div_1_0_rates\<rparr>,
      \<lparr>cs_parent = ID_satass_125m_ck, cs_rates = div_1_1_rates\<rparr>,
      \<lparr>cs_parent = ID_pciess_125m_ck, cs_rates = div_1_2_rates\<rparr>,
      \<lparr>cs_parent = ID_hdvpss_proc_d2_fck, cs_rates = div_1_3_rates\<rparr>,
      \<lparr>cs_parent = ID_iss_dpll_d2_ck, cs_rates = div_1_4_rates\<rparr>,
      \<lparr>cs_parent = ID_l3_dpll_ck, cs_rates = div_1_5_rates\<rparr>,
      \<lparr>cs_parent = ID_osc0_clkin_ck, cs_rates = div_1_6_rates\<rparr>,
      \<lparr>cs_parent = ID_osc1_clkin_ck, cs_rates = div_1_7_rates\<rparr>,
      \<lparr>cs_parent = ID_mpu_ck, cs_rates = div_1_8_rates\<rparr>,
      \<lparr>cs_parent = ID_sgx_dpll_ck, cs_rates = div_1_9_rates\<rparr>,
      \<lparr>cs_parent = ID_rcosc_32k_ck, cs_rates = div_1_10_rates\<rparr>]"

definition clkout0to10_385_mux_sel :: "clksel list" where
  "clkout0to10_385_mux_sel =
     [\<lparr>cs_parent = ID_clkout_prcm_ck, cs_rates = div_1_0_rates\<rparr>,
      \<lparr>cs_parent = ID_satass_125m_ck, cs_rates = div_1_1_rates\<rparr>,
      \<lparr>cs_parent = ID_pciess_125m_ck, cs_rates = div_1_2_rates\<rparr>,
      \<lparr>cs_parent = ID_hdvpss_proc_d2_fck, cs_rates = div_1_3_rates\<rparr>,
      \<lparr>cs_parent = ID_iss_dpll_d2_ck, cs_rates = div_1_4_rates\<rparr>,
      \<lparr>cs_parent = ID_l3_dpll_ck, cs_rates = div_1_5_rates\<rparr>,
      \<lparr>cs_parent = ID_osc0_clkin_ck, cs_rates = div_1_6_rates\<rparr>,
      \<lparr>cs_parent = ID_osc1_clkin_ck, cs_rates = div_1_7_rates\<rparr>,
      \<lparr>cs_parent = ID_mpu_ck, cs_rates = div_1_8_rates\<rparr>,
      \<lparr>cs_parent = ID_dummy_clk_ck, cs_rates = div_1_9_rates\<rparr>,
      \<lparr>cs_parent = ID_rcosc_32k_ck, cs_rates = div_1_10_rates\<rparr>]"

section \<open>DPLLs\<close>

definition arm_dpll_dd :: dpll_data where
  "arm_dpll_dd = dpll_zero
    \<lparr>mult_div1_reg := 0xfa1c505c, mult_mask := 0xfff, clk_bypass := ID_arm_dpll_clkin_ck,
     clk_ref := ID_arm_dpll_clkin_ck, control_reg := 0xfa1c504c, enable_mask := 0x100000,
     max_multiplier := 0x7ff, modes := 7, idlest_reg := 0xfa1c506c, idlest_mask := 0x701,
     dd_flags := 2, dd_dpll_id := 1, div_m2n_reg := 0xfa1c5058, div_m2_mask := 0x1f0000,
     div_n_mask := 0x7f, pre_div_n := 1, post_div_m2 := 1, frac_mult_reg := 0xfa1c5060,
     frac_mult_mask := 0x3ffff, bypass_bit := 0x17, stby_ret_bit := 0x15,
     stop_mode_bit := 0xe, load_mn_reg := 0xfa1c5050, load_m2n2_reg := 0xfa1c5054\<rparr>"

definition dsp_dpll_dd :: dpll_data where
  "dsp_dpll_dd = dpll_zero
    \<lparr>mult_div1_reg := 0xfa1c5094, mult_mask := 0xfff, clk_bypass := ID_osc0_clkin_ck,
     clk_ref := ID_osc0_clkin_ck, control_reg := 0xfa1c5084, enable_mask := 0x100000,
     max_multiplier := 0xfff, modes := 7, idlest_reg := 0xfa1c50a4, idlest_mask := 0x701,
     sddiv_mask := 0xff000000, dd_flags := 4, div_m2n_reg := 0xfa1c5090,
     div_m2_mask := 0x7f0000, div_n_mask := 0xff, pre_div_n := 0x13, post_div_m2 := 1,
     frac_mult_reg := 0xfa1c5098, frac_mult_mask := 0x3ffff, bypass_bit := 0x17,
     stby_ret_bit := 0x15, load_mn_reg := 0xfa1c5088, load_m2n2_reg := 0xfa1c508c\<rparr>"

definition sgx_dpll_dd :: dpll_data where
  "sgx_dpll_dd = dpll_zero
    \<lparr>mult_div1_reg := 0xfa1c50c4, mult_mask := 0xfff, clk_bypass := ID_osc0_clkin_ck,
     clk_ref := ID_osc0_clkin_ck, control_reg := 0xfa1c50b4, enable_mask := 0x100000,
     max_multiplier := 0xfff, modes := 7, idlest_reg := 0xfa1c50d4, idlest_mask := 0x701,
     sddiv_mask := 0xff000000, dd_flags := 4, div_m2n_reg := 0xfa1c50c0,
     div_m2_mask := 0x7f0000, div_n_mask := 0xff, pre_div_n := 0x13, post_div_m2 := 1,
     frac_mult_reg := 0xfa1c50c8, frac_mult_mask := 0x3ffff, bypass_bit := 0x17,
     stby_ret_bit := 0x15, load_mn_reg := 0xfa1c50b8, load_m2n2_reg := 0xfa1c50bc\<rparr>"

definition hdvicp_dpll_dd :: dpll_data where
  "hdvicp_dpll_dd = dpll_zero
    \<lparr>mult_div1_reg := 0xfa1c50f4, mult_mask := 0xfff, clk_bypass := ID_osc0_clkin_ck,
     clk_ref := ID_osc0_clkin_ck, control_reg := 0xfa1c50e4, enable_mask := 0x100000,
     max_multiplier := 0xfff, modes := 7, idlest_reg := 0xfa1c5104, idlest_mask := 0x701,
     sddiv_mask := 0xff000000, dd_flags := 4, div_m2n_reg := 0xfa1c50f0,
     div_m2_mask := 0x7f0000, div_n_mask := 0xff, pre_div_n := 0x13, post_div_m2 := 2,
     frac_mult_reg := 0xfa1c50f8, frac_mult_mask := 0x3ffff, bypass_bit := 0x17,
     stby_ret_bit := 0x15, load_mn_reg := 0xfa1c50e8, load_m2n2_reg := 0xfa1c50ec\<rparr>"

definition l3_dpll_dd :: dpll_data where
  "l3_dpll_dd = dpll_zero
    \<lparr>mult_div1_reg := 0xfa1c5124, mult_mask := 0xfff, clk_bypass := ID_l3_dpll_clkin_ck,
     clk_ref := ID_l3_dpll_clkin_ck, control_reg := 0xfa1c5114, enable_mask := 0x100000,
     max_multiplier := 0xfff, modes := 7, idlest_reg := 0xfa1c5134, idlest_mask := 0x701,
     sddiv_mask := 0xff000000, dd_flags := 4, div_m2n_reg := 0xfa1c5120,
     div_m2_mask := 0x7f0000, div_n_mask := 0xff, pre_div_n := 0x13, post_div_m2 := 4,
     frac_mult_reg := 0xfa1c5128, frac_mult_mask := 0x3ffff, bypass_bit := 0x17,
     stby_ret_bit := 0x15, load_mn_reg := 0xfa1c5118, load_m2n2_reg := 0xfa1c511c\<rparr>"

definition iss_dpll_dd :: dpll_data where
  "iss_dpll_dd = dpll_zero
    \<lparr>mult_div1_reg := 0xfa1c5154, mult_mask := 0xfff, clk_bypass := ID_osc0_clkin_ck,
     clk_ref := ID_osc0_clkin_ck, control_reg := 0xfa1c5144, enable_mask := 0x100000,
     max_multiplier := 0xfff, modes := 7, idlest_reg := 0xfa1c5164, idlest_mask := 0x701,
     sddiv_mask := 0xff000000, dd_flags := 4, div_m2n_reg := 0xfa1c5150,
     div_m2_mask := 0x7f0000, div_n_mask := 0xff, pre_div_n := 0x13, post_div_m2 := 2,
     frac_mult_reg := 0xfa1c5158, frac_mult_mask := 0x3ffff, bypass_bit := 0x17,
     stby_ret_bit := 0x15, load_mn_reg := 0xfa1c5148, load_m2n2_reg := 0xfa1c514c\<rparr>"

definition hdvpss_dpll_dd :: dpll_data where
  "hdvpss_dpll_dd = dpll_zero
    \<lparr>mult_div1_reg := 0xfa1c5184, mult_mask := 0xfff, clk_bypass := ID_osc0_clkin_ck,
     clk_ref := ID_osc0_clkin_ck, control_reg := 0xfa1c5174, enable_mask := 0x100000,
     max_multiplier := 0xfff, modes := 7, idlest_reg := 0xfa1c5194, idlest_mask := 0x701,
     sddiv_mask := 0xff000000, dd_flags := 4, div_m2n_reg := 0xfa1c5180,
     div_m2_mask := 0x7f0000, div_n_mask := 0xff, pre_div_n := 0x13, post_div_m2 := 4,
     frac_mult_reg := 0xfa1c5188, frac_mult_mask := 0x3ffff, bypass_bit := 0x17,
     stby_ret_bit := 0x15, load_mn_reg := 0xfa1c5178, load_m2n2_reg := 0xfa1c517c\<rparr>"

definition usb_dpll_dd :: dpll_data where
  "usb_dpll_dd = dpll_zero
    \<lparr>mult_div1_reg := 0xfa1c5274, mult_mask := 0xfff, clk_bypass := ID_usb_dpll_clkin_ck,
     clk_ref := ID_usb_dpll_clkin_ck, control_reg := 0xfa1c5264, enable_mask := 0x100000,
     max_multiplier := 0xfff, modes := 7, idlest_reg := 0xfa1c5284, idlest_mask := 0x701,
     sddiv_mask := 0xff000000, dd_flags := 4, div_m2n_reg := 0xfa1c5270,
     div_m2_mask := 0x7f0000, div_n_mask := 0xff, pre_div_n := 0x13, post_div_m2 := 1,
     frac_mult_reg := 0xfa1c5278, frac_mult_mask := 0x3ffff, bypass_bit := 0x17,
     stby_ret_bit := 0x15, load_mn_reg := 0xfa1c5268, load_m2n2_reg := 0xfa1c526c\<rparr>"

definition ddr_dpll_dd :: dpll_data where
  "ddr_dpll_dd = dpll_zero
    \<lparr>mult_div1_reg := 0xfa1c52a4, mult_mask := 0xfff, clk_bypass := ID_ddr_dpll_clkin_ck,
     clk_ref := ID_ddr_dpll_clkin_ck, control_reg := 0xfa1c5294, enable_mask := 0x100000,
     max_multiplier := 0xfff, modes := 7, idlest_reg := 0xfa1c52b4, idlest_mask := 0x701,
     sddiv_mask := 0xff000000, dd_flags := 4, dd_dpll_id := 2, div_m2n_reg := 0xfa1c52a0,
     div_m2_mask := 0x7f0000, div_n_mask := 0xff, pre_div_n := 0x13, post_div_m2 := 2,
     frac_mult_reg := 0xfa1c52a8, frac_mult_mask := 0x3ffff, bypass_bit := 0x17,
     stby_ret_bit := 0x15, load_mn_reg := 0xfa1c5298, load_m2n2_reg := 0xfa1c529c\<rparr>"

definition video0_dpll_dd :: dpll_data where
  "video0_dpll_dd = dpll_zero
    \<lparr>mult_div1_reg := 0xfa1c51b4, mult_mask := 0xfff,
     clk_bypass := ID_video0_dpll_clkin_ck, clk_ref := ID_video0_dpll_clkin_ck,
     control_reg := 0xfa1c51a4, enable_mask := 0x100000, max_multiplier := 0xfff,
     modes := 7, idlest_reg := 0xfa1c51c4, idlest_mask := 0x701, sddiv_mask := 0xff000000,
     dd_flags := 4, div_m2n_reg := 0xfa1c51b0, div_m2_mask := 0x7f0000,
     div_n_mask := 0xff, pre_div_n := 0x13, post_div_m2 := 1, frac_mult_reg := 0xfa1c51b8,
     frac_mult_mask := 0x3ffff, bypass_bit := 0x17, stby_ret_bit := 0x15,
     load_mn_reg := 0xfa1c51a8, load_m2n2_reg := 0xfa1c51ac\<rparr>"

definition video1_dpll_dd :: dpll_data where
  "video1_dpll_dd = dpll_zero
    \<lparr>mult_div1_reg := 0xfa1c51e4, mult_mask := 0xfff,
     clk_bypass := ID_video1_dpll_clkin_ck, clk_ref := ID_video1_dpll_clkin_ck,
     control_reg := 0xfa1c51d4, enable_mask := 0x100000, max_multiplier := 0xfff,
     modes := 7, idlest_reg := 0xfa1c51f4, idlest_mask := 0x701, sddiv_mask := 0xff000000,
     dd_flags := 4, div_m2n_reg := 0xfa1c51e0, div_m2_mask := 0x7f0000,
     div_n_mask := 0xff, pre_div_n := 0x13, post_div_m2 := 1, frac_mult_reg := 0xfa1c51e8,
     frac_mult_mask := 0x3ffff, bypass_bit := 0x17, stby_ret_bit := 0x15,
     load_mn_reg := 0xfa1c51d8, load_m2n2_reg := 0xfa1c51dc\<rparr>"

definition hdmi_dpll_dd :: dpll_data where
  "hdmi_dpll_dd = dpll_zero
    \<lparr>mult_div1_reg := 0xfa1c5214, mult_mask := 0xfff, clk_bypass := ID_hdmi_dpll_clkin_ck,
     clk_ref := ID_hdmi_dpll_clkin_ck, control_reg := 0xfa1c5204, enable_mask := 0x100000,
     max_multiplier := 0xfff, modes := 7, idlest_reg := 0xfa1c5224, idlest_mask := 0x701,
     sddiv_mask := 0xff000000, dd_flags := 4, div_m2n_reg := 0xfa1c5210,
     div_m2_mask := 0x7f0000, div_n_mask := 0xff, pre_div_n := 0x13, post_div_m2 := 1,
     frac_mult_reg := 0xfa1c5218, frac_mult_mask := 0x3ffff, bypass_bit := 0x17,
     stby_ret_bit := 0x15, load_mn_reg := 0xfa1c5208, load_m2n2_reg := 0xfa1c520c\<rparr>"

definition audio_dpll_dd :: dpll_data where
  "audio_dpll_dd = dpll_zero
    \<lparr>mult_div1_reg := 0xfa1c5244, mult_mask := 0xfff,
     clk_bypass := ID_audio_dpll_clkin_ck, clk_ref := ID_audio_dpll_clkin_ck,
     control_reg := 0xfa1c5234, enable_mask := 0x100000, max_multiplier := 0xfff,
     modes := 7, idlest_reg := 0xfa1c5254, idlest_mask := 0x701, sddiv_mask := 0xff000000,
     dd_flags := 4, div_m2n_reg := 0xfa1c5240, div_m2_mask := 0x7f0000,
     div_n_mask := 0xff, pre_div_n := 0x13, post_div_m2 := 2, frac_mult_reg := 0xfa1c5248,
     frac_mult_mask := 0x3ffff, bypass_bit := 0x17, stby_ret_bit := 0x15,
     load_mn_reg := 0xfa1c5238, load_m2n2_reg := 0xfa1c523c\<rparr>"

definition ti814x_dplls :: "dpll_data list" where
  "ti814x_dplls =
     [arm_dpll_dd, dsp_dpll_dd, sgx_dpll_dd, hdvicp_dpll_dd, l3_dpll_dd, iss_dpll_dd,
      hdvpss_dpll_dd, usb_dpll_dd, ddr_dpll_dd, video0_dpll_dd, video1_dpll_dd, hdmi_dpll_dd,
      audio_dpll_dd]"

section \<open>Clocks\<close>

definition rcosc_32k_ck :: clk where
  "rcosc_32k_ck = clk_zero
    \<lparr>clk_ops := Clkops_null, clk_name := ''rcosc_32k_ck'', clk_rate := 32768,
     clk_flags := 0x60\<rparr>"

definition sys_32k_clkin_ck :: clk where
  "sys_32k_clkin_ck = clk_zero
    \<lparr>clk_ops := Clkops_null, clk_name := ''sys_32k_clkin_ck'', clk_rate := 32768,
     clk_flags := 0x60\<rparr>"

definition tclkin_ck :: clk where
  "tclkin_ck = clk_zero
    \<lparr>clk_ops := Clkops_null, clk_name := ''tclkin_ck'', clk_rate := 32768,
     clk_flags := 0x60\<rparr>"

definition osc0_clkin_ck :: clk where
  "osc0_clkin_ck = clk_zero
    \<lparr>clk_ops := Clkops_null, clk_name := ''osc0_clkin_ck'', clk_rate := 20000000,
     clk_flags := 0x60\<rparr>"

definition osc1_clkin_ck :: clk where
  "osc1_clkin_ck = clk_zero
    \<lparr>clk_ops := Clkops_null, clk_name := ''osc1_clkin_ck'', clk_rate := 22579000,
     clk_flags := 0x60\<rparr>"

definition rtc_divider_ck :: clk where
  "rtc_divider_ck = clk_zero
    \<lparr>clk_ops := Clkops_null, clk_name := ''rtc_divider_ck'', clk_rate := 32768,
     clk_flags := 0x60\<rparr>"

definition osc1_x1_ck :: clk where
  "osc1_x1_ck = clk_zero
    \<lparr>clk_ops := Clkops_null, clk_name := ''osc1_x1_ck'', clk_rate := 20000000,
     clk_flags := 0x60\<rparr>"

definition xref0_ck :: clk where
  "xref0_ck = clk_zero
    \<lparr>clk_ops := Clkops_null, clk_name := ''xref0_ck'', clk_rate := 27000000,
     clk_flags := 0x60\<rparr>"

definition xref1_ck :: clk where
  "xref1_ck = clk_zero
    \<lparr>clk_ops := Clkops_null, clk_name := ''xref1_ck'', clk_rate := 27000000,
     clk_flags := 0x60\<rparr>"

definition xref2_ck :: clk where
  "xref2_ck = clk_zero
    \<lparr>clk_ops := Clkops_null, clk_name := ''xref2_ck'', clk_rate := 27000000,
     clk_flags := 0x60\<rparr>"

definition tsi0_dck_ck :: clk where
  "tsi0_dck_ck = clk_zero
    \<lparr>clk_ops := Clkops_null, clk_name := ''tsi0_dck_ck'', clk_rate := 82000000,
     clk_flags := 0x40\<rparr>"

definition tsi1_dck_ck :: clk where
  "tsi1_dck_ck = clk_zero
    \<lparr>clk_ops := Clkops_null, clk_name := ''tsi1_dck_ck'', clk_rate := 82000000,
     clk_flags := 0x40\<rparr>"

definition external_ck :: clk where
  "external_ck = clk_zero
    \<lparr>clk_ops := Clkops_null, clk_name := ''external_ck'', clk_rate := 50000000,
     clk_flags := 0x60\<rparr>"

definition atl0_clk_ck :: clk where
  "atl0_clk_ck = clk_zero
    \<lparr>clk_ops := Clkops_null, clk_name := ''atl0_clk_ck'', clk_rate := 22579000,
     clk_flags := 0x60\<rparr>"

definition atl1_clk_ck :: clk where
  "atl1_clk_ck = clk_zero
    \<lparr>clk_ops := Clkops_null, clk_name := ''atl1_clk_ck'', clk_rate := 22579000,
     clk_flags := 0x60\<rparr>"

definition atl2_clk_ck :: clk where
  "atl2_clk_ck = clk_zero
    \<lparr>clk_ops := Clkops_null, clk_name := ''atl2_clk_ck'', clk_rate := 22579000,
     clk_flags := 0x60\<rparr>"

definition atl3_clk_ck :: clk where
  "atl3_clk_ck = clk_zero
    \<lparr>clk_ops := Clkops_null, clk_name := ''atl3_clk_ck'', clk_rate := 22579000,
     clk_flags := 0x60\<rparr>"

definition dcan0_fck :: clk where
  "dcan0_fck = clk_zero
    \<lparr>clk_ops := Clkops_ti81xx_dflt_wait, clk_name := ''dcan0_fck'',
     clk_parent := Some ID_osc0_clkin_ck, clk_enable_reg := 0xfa181618,
     clk_recalc_fn := Some Followparent_recalc, clk_enable_bit := 1\<rparr>"

definition dcan1_fck :: clk where
  "dcan1_fck = clk_zero
    \<lparr>clk_ops := Clkops_ti81xx_dflt_wait, clk_name := ''dcan1_fck'',
     clk_parent := Some ID_osc0_clkin_ck, clk_enable_reg := 0xfa181618,
     clk_recalc_fn := Some Followparent_recalc, clk_enable_bit := 1\<rparr>"

definition sr1_fck :: clk where
  "sr1_fck = clk_zero
    \<lparr>clk_ops := Clkops_null, clk_name := ''sr1_fck'', clk_parent := Some ID_osc0_clkin_ck,
     clk_recalc_fn := Some Followparent_recalc\<rparr>"

definition sr2_fck :: clk where
  "sr2_fck = clk_zero
    \<lparr>clk_ops := Clkops_null, clk_name := ''sr2_fck'', clk_parent := Some ID_osc0_clkin_ck,
     clk_recalc_fn := Some Followparent_recalc\<rparr>"

definition sr3_fck :: clk where
  "sr3_fck = clk_zero
    \<lparr>clk_ops := Clkops_null, clk_name := ''sr3_fck'', clk_parent := Some ID_osc0_clkin_ck,
     clk_recalc_fn := Some Followparent_recalc\<rparr>"

definition sr4_fck :: clk where
  "sr4_fck = clk_zero
    \<lparr>clk_ops := Clkops_null, clk_name := ''sr4_fck'', clk_parent := Some ID_osc0_clkin_ck,
     clk_recalc_fn := Some Followparent_recalc\<rparr>"

definition arm_dpll_clkin_ck :: clk where
  "arm_dpll_clkin_ck = clk_zero
    \<lparr>clk_ops := Clkops_null, clk_name := ''arm_dpll_clkin_ck'',
     clk_recalc_fn := Some Omap2_clksel_recalc,
     clk_init_fn := Some Omap2_init_clksel_parent, clk_clksel_reg := 0xfa1c52c4,
     clk_clksel_mask := 1, clk_clksel := Some arm_dpll_mux_sel\<rparr>"

definition arm_dpll_ck :: clk where
  "arm_dpll_ck = clk_zero
    \<lparr>clk_ops := Clkops_null, clk_name := ''arm_dpll_ck'',
     clk_parent := Some ID_arm_dpll_clkin_ck, clk_recalc_fn := Some Ti814x_dpll_recalc,
     clk_set_rate_fn := Some Ti814x_dpll_set_rate,
     clk_round_rate_fn := Some Ti814x_dpll_round_rate,
     clk_init_fn := Some Ti814x_init_dpll_parent, clk_dpll_data := Some 0,
     clk_clkdm_name := Some ''alwon_l3_slow_clkdm''\<rparr>"

definition mpu_ck :: clk where
  "mpu_ck = clk_zero
    \<lparr>clk_ops := Clkops_null, clk_name := ''mpu_ck'', clk_parent := Some ID_arm_dpll_ck,
     clk_recalc_fn := Some Followparent_recalc,
     clk_clkdm_name := Some ''alwon_l3_slow_clkdm''\<rparr>"

definition dsp_dpll_ck :: clk where
  "dsp_dpll_ck = clk_zero
    \<lparr>clk_ops := Clkops_ti814x_dpll, clk_name := ''dsp_dpll_ck'',
     clk_parent := Some ID_osc0_clkin_ck, clk_recalc_fn := Some Ti814x_dpll_recalc,
     clk_set_rate_fn := Some Ti814x_dpll_set_rate,
     clk_round_rate_fn := Some Ti814x_dpll_round_rate, clk_dpll_data := Some 1,
     clk_clkdm_name := Some ''alwon_l3_slow_clkdm''\<rparr>"

definition gem_fck :: clk where
  "gem_fck = clk_zero
    \<lparr>clk_ops := Clkops_null, clk_name := ''gem_fck'', clk_parent := Some ID_dsp_dpll_ck,
     clk_recalc_fn := Some Followparent_recalc,
     clk_set_rate_fn := Some Ti814x_clksel_set_rate, clk_clkdm_name := Some ''gem_clkdm''\<rparr>"

definition sgx_dpll_ck :: clk where
  "sgx_dpll_ck = clk_zero
    \<lparr>clk_ops := Clkops_ti814x_dpll, clk_name := ''sgx_dpll_ck'',
     clk_parent := Some ID_osc0_clkin_ck, clk_recalc_fn := Some Ti814x_dpll_recalc,
     clk_set_rate_fn := Some Ti814x_dpll_set_rate,
     clk_round_rate_fn := Some Ti814x_dpll_round_rate, clk_dpll_data := Some 2,
     clk_clkdm_name := Some ''sgx_clkdm''\<rparr>"

definition sysclk23_ck :: clk where
  "sysclk23_ck = clk_zero
    \<lparr>clk_ops := Clkops_null, clk_name := ''sysclk23_ck'',
     clk_parent := Some ID_sgx_dpll_ck, clk_recalc_fn := Some Omap2_clksel_recalc,
     clk_set_rate_fn := Some Omap2_clksel_set_rate,
     clk_round_rate_fn := Some Omap2_clksel_round_rate, clk_clksel_reg := 0xfa1803b0,
     clk_clksel_mask := 7, clk_clksel := Some sysclk23_div\<rparr>"

definition sgx_ck :: clk where
  "sgx_ck = clk_zero
    \<lparr>clk_ops := Clkops_omap2_dflt, clk_name := ''sgx_ck'',
     clk_parent := Some ID_sysclk23_ck, clk_enable_reg := 0xfa180920,
     clk_recalc_fn := Some Followparent_recalc,
     clk_set_rate_fn := Some Ti814x_clksel_set_rate, clk_enable_bit := 1,
     clk_clkdm_name := Some ''sgx_clkdm''\<rparr>"

definition sgx_sys_ck :: clk where
  "sgx_sys_ck = clk_zero
    \<lparr>clk_ops := Clkops_null, clk_name := ''sgx_sys_ck'',
     clk_parent := Some ID_sysclk23_ck, clk_recalc_fn := Some Followparent_recalc,
     clk_clkdm_name := Some ''sgx_clkdm''\<rparr>"

definition sgx_mem_ck :: clk where
  "sgx_mem_ck = clk_zero
    \<lparr>clk_ops := Clkops_null, clk_name := ''sgx_mem_ck'',
     clk_parent := Some ID_sysclk23_ck, clk_recalc_fn := Some Followparent_recalc,
     clk_clkdm_name := Some ''sgx_clkdm''\<rparr>"

definition hdvicp_dpll_ck :: clk where
  "hdvicp_dpll_ck = clk_zero
    \<lparr>clk_ops := Clkops_ti814x_dpll, clk_name := ''hdvicp_dpll_ck'',
     clk_parent := Some ID_osc0_clkin_ck, clk_recalc_fn := Some Ti814x_dpll_recalc,
     clk_set_rate_fn := Some Ti814x_dpll_set_rate,
     clk_round_rate_fn := Some Ti814x_dpll_round_rate, clk_dpll_data := Some 3,
     clk_clkdm_name := Some ''ivahd_clkdm''\<rparr>"

definition sysclk3_ck :: clk where
  "sysclk3_ck = clk_zero
    \<lparr>clk_ops := Clkops_null, clk_name := ''sysclk3_ck'',
     clk_parent := Some ID_hdvicp_dpll_ck, clk_recalc_fn := Some Omap2_clksel_recalc,
     clk_set_rate_fn := Some Omap2_clksel_set_rate,
     clk_round_rate_fn := Some Omap2_clksel_round_rate, clk_clksel_reg := 0xfa180308,
     clk_clksel_mask := 7, clk_clksel := Some sysclk3_div\<rparr>"

definition ivahd0_ck :: clk where
  "ivahd0_ck = clk_zero
    \<lparr>clk_ops := Clkops_omap2_dflt, clk_name := ''ivahd0_ck'',
     clk_parent := Some ID_sysclk3_ck, clk_enable_reg := 0xfa180620,
     clk_recalc_fn := Some Followparent_recalc,
     clk_set_rate_fn := Some Ti814x_clksel_set_rate, clk_enable_bit := 1,
     clk_clkdm_name := Some ''ivahd_clkdm''\<rparr>"

definition l3_dpll_clkin_ck :: clk where
  "l3_dpll_clkin_ck = clk_zero
    \<lparr>clk_ops := Clkops_null, clk_name := ''l3_dpll_clkin_ck'',
     clk_recalc_fn := Some Omap2_clksel_recalc,
     clk_init_fn := Some Omap2_init_clksel_parent, clk_clksel_reg := 0xfa1c52c0,
     clk_clksel_mask := 1, clk_clksel := Some osc_l3dpll_clk_mux_sel\<rparr>"

definition l3_dpll_ck :: clk where
  "l3_dpll_ck = clk_zero
    \<lparr>clk_ops := Clkops_ti814x_dpll, clk_name := ''l3_dpll_ck'',
     clk_parent := Some ID_l3_dpll_clkin_ck, clk_recalc_fn := Some Ti814x_dpll_recalc,
     clk_set_rate_fn := Some Ti814x_dpll_set_rate,
     clk_round_rate_fn := Some Ti814x_dpll_round_rate, clk_dpll_data := Some 4,
     clk_clkdm_name := Some ''alwon_l3_slow_clkdm''\<rparr>"

definition sysclk4_ck :: clk where
  "sysclk4_ck = clk_zero
    \<lparr>clk_ops := Clkops_null, clk_name := ''sysclk4_ck'', clk_parent := Some ID_l3_dpll_ck,
     clk_recalc_fn := Some Followparent_recalc\<rparr>"

definition l3_fast_ick :: clk where
  "l3_fast_ick = clk_zero
    \<lparr>clk_ops := Clkops_ti81xx_dflt_wait, clk_name := ''l3_fast_ick'',
     clk_parent := Some ID_sysclk4_ck, clk_enable_reg := 0xfa1815e4,
     clk_recalc_fn := Some Followparent_recalc, clk_enable_bit := 1,
     clk_clkdm_name := Some ''alwon_l3_slow_clkdm''\<rparr>"

definition ivahd0_ick :: clk where
  "ivahd0_ick = clk_zero
    \<lparr>clk_ops := Clkops_null, clk_name := ''ivahd0_ick'', clk_parent := Some ID_sysclk4_ck,
     clk_recalc_fn := Some Followparent_recalc, clk_clkdm_name := Some ''ivahd_clkdm''\<rparr>"

definition exp_slot_ick :: clk where
  "exp_slot_ick = clk_zero
    \<lparr>clk_ops := Clkops_null, clk_name := ''exp_slot_ick'',
     clk_parent := Some ID_sysclk4_ck, clk_recalc_fn := Some Followparent_recalc,
     clk_clkdm_name := Some ''ivahd_clkdm''\<rparr>"

definition mmu_ick :: clk where
  "mmu_ick = clk_zero
    \<lparr>clk_ops := Clkops_ti81xx_dflt_wait, clk_name := ''mmu_ick'',
     clk_parent := Some ID_sysclk4_ck, clk_enable_reg := 0xfa18159c,
     clk_recalc_fn := Some Followparent_recalc, clk_enable_bit := 1,
     clk_clkdm_name := Some ''mmu_clkdm''\<rparr>"

definition gem_ick :: clk where
  "gem_ick = clk_zero
    \<lparr>clk_ops := Clkops_omap2_dflt, clk_name := ''gem_ick'',
     clk_parent := Some ID_sysclk4_ck, clk_enable_reg := 0xfa180420,
     clk_recalc_fn := Some Followparent_recalc, clk_enable_bit := 1,
     clk_clkdm_name := Some ''gem_clkdm''\<rparr>"

definition tptc0_ick :: clk where
  "tptc0_ick = clk_zero
    \<lparr>clk_ops := Clkops_ti81xx_dflt_wait, clk_name := ''tptc0_ick'',
     clk_parent := Some ID_sysclk4_ck, clk_enable_reg := 0xfa1815f8,
     clk_recalc_fn := Some Followparent_recalc, clk_enable_bit := 1,
     clk_clkdm_name := Some ''alwon_l3_med_clkdm''\<rparr>"

definition tptc1_ick :: clk where
  "tptc1_ick = clk_zero
    \<lparr>clk_ops := Clkops_ti81xx_dflt_wait, clk_name := ''tptc1_ick'',
     clk_parent := Some ID_sysclk4_ck, clk_enable_reg := 0xfa1815fc,
     clk_recalc_fn := Some Followparent_recalc, clk_enable_bit := 1,
     clk_clkdm_name := Some ''alwon_l3_med_clkdm''\<rparr>"

definition tptc2_ick :: clk where
  "tptc2_ick = clk_zero
    \<lparr>clk_ops := Clkops_ti81xx_dflt_wait, clk_name := ''tptc2_ick'',
     clk_parent := Some ID_sysclk4_ck, clk_enable_reg := 0xfa181600,
     clk_recalc_fn := Some Followparent_recalc, clk_enable_bit := 1,
     clk_clkdm_name := Some ''alwon_l3_med_clkdm''\<rparr>"

definition tptc3_ick :: clk where
  "tptc3_ick = clk_zero
    \<lparr>clk_ops := Clkops_ti81xx_dflt_wait, clk_name := ''tptc3_ick'',
     clk_parent := Some ID_sysclk4_ck, clk_enable_reg := 0xfa181604,
     clk_recalc_fn := Some Followparent_recalc, clk_enable_bit := 1,
     clk_clkdm_name := Some ''alwon_l3_med_clkdm''\<rparr>"

definition ivahd0_sl2_ick :: clk where
  "ivahd0_sl2_ick = clk_zero
    \<lparr>clk_ops := Clkops_omap2_dflt, clk_name := ''ivahd0_sl2_ick'',
     clk_parent := Some ID_sysclk4_ck, clk_enable_reg := 0xfa180624,
     clk_recalc_fn := Some Followparent_recalc, clk_enable_bit := 1,
     clk_clkdm_name := Some ''ivahd_clkdm''\<rparr>"

definition tpcc_ick :: clk where
  "tpcc_ick = clk_zero
    \<lparr>clk_ops := Clkops_ti81xx_dflt_wait, clk_name := ''tpcc_ick'',
     clk_parent := Some ID_sysclk4_ck, clk_enable_reg := 0xfa1815f4,
     clk_recalc_fn := Some Followparent_recalc, clk_enable_bit := 1,
     clk_clkdm_name := Some ''alwon_l3_slow_clkdm''\<rparr>"

definition fdif_ick :: clk where
  "fdif_ick = clk_zero
    \<lparr>clk_ops := Clkops_null, clk_name := ''fdif_ick'', clk_parent := Some ID_sysclk4_ck,
     clk_recalc_fn := Some Followparent_recalc,
     clk_clkdm_name := Some ''alwon2_l3_med_clkdm''\<rparr>"

definition hdvpss_l3_ick :: clk where
  "hdvpss_l3_ick = clk_zero
    \<lparr>clk_ops := Clkops_null, clk_name := ''hdvpss_l3_ick'',
     clk_parent := Some ID_sysclk4_ck, clk_recalc_fn := Some Followparent_recalc,
     clk_clkdm_name := Some ''hdvpss_clkdm''\<rparr>"

definition sysclk5_ck :: clk where
  "sysclk5_ck = clk_zero
    \<lparr>clk_ops := Clkops_null, clk_name := ''sysclk5_ck'', clk_parent := Some ID_sysclk4_ck,
     clk_recalc_fn := Some Followparent_recalc\<rparr>"

definition l3_med_ick :: clk where
  "l3_med_ick = clk_zero
    \<lparr>clk_ops := Clkops_ti81xx_dflt_wait, clk_name := ''l3_med_ick'',
     clk_parent := Some ID_sysclk5_ck, clk_enable_reg := 0xfa1815e4,
     clk_recalc_fn := Some Followparent_recalc, clk_enable_bit := 1,
     clk_clkdm_name := Some ''alwon2_l3_med_clkdm''\<rparr>"

definition l4_fast_ick :: clk where
  "l4_fast_ick = clk_zero
    \<lparr>clk_ops := Clkops_ti81xx_dflt_wait, clk_name := ''l4_fast_ick'',
     clk_parent := Some ID_sysclk5_ck, clk_enable_reg := 0xfa1815e8,
     clk_recalc_fn := Some Followparent_recalc, clk_enable_bit := 1,
     clk_clkdm_name := Some ''alwon_l3_slow_clkdm''\<rparr>"

definition securess_ick :: clk where
  "securess_ick = clk_zero
    \<lparr>clk_ops := Clkops_omap2_dflt, clk_name := ''securess_ick'',
     clk_parent := Some ID_sysclk5_ck, clk_enable_reg := 0xfa1815c8,
     clk_recalc_fn := Some Followparent_recalc, clk_enable_bit := 1,
     clk_clkdm_name := Some ''alwon_l3_slow_clkdm''\<rparr>"

definition tpgsw_ick :: clk where
  "tpgsw_ick = clk_zero
    \<lparr>clk_ops := Clkops_null, clk_name := ''tpgsw_ick'', clk_parent := Some ID_sysclk5_ck,
     clk_recalc_fn := Some Followparent_recalc,
     clk_clkdm_name := Some ''alwon_l3_slow_clkdm''\<rparr>"

definition sata_ick :: clk where
  "sata_ick = clk_zero
    \<lparr>clk_ops := Clkops_ti81xx_dflt_wait, clk_name := ''sata_ick'',
     clk_parent := Some ID_sysclk5_ck, clk_enable_reg := 0xfa180560,
     clk_recalc_fn := Some Followparent_recalc, clk_enable_bit := 1,
     clk_clkdm_name := Some ''alwon2_l3_med_clkdm''\<rparr>"

definition sata1_ick :: clk where
  "sata1_ick = clk_zero
    \<lparr>clk_ops := Clkops_ti81xx_dflt_wait, clk_name := ''sata1_ick'',
     clk_parent := Some ID_sysclk5_ck, clk_enable_reg := 0xfa180554,
     clk_recalc_fn := Some Followparent_recalc, clk_enable_bit := 1,
     clk_clkdm_name := Some ''alwon2_sata1_clkdm''\<rparr>"

definition pcie_ck :: clk where
  "pcie_ck = clk_zero
    \<lparr>clk_ops := Clkops_ti81xx_pcie, clk_name := ''pcie_ck'',
     clk_parent := Some ID_sysclk5_ck, clk_enable_reg := 0xfa180578,
     clk_recalc_fn := Some Followparent_recalc, clk_enable_bit := 1,
     clk_clkdm_name := Some ''alwon2_pcie_clkdm''\<rparr>"

definition vcp2_fck :: clk where
  "vcp2_fck = clk_zero
    \<lparr>clk_ops := Clkops_ti81xx_dflt_wait, clk_name := ''vcp2_fck'',
     clk_parent := Some ID_sysclk5_ck, clk_enable_reg := 0xfa1815b8,
     clk_recalc_fn := Some Followparent_recalc, clk_enable_bit := 1,
     clk_clkdm_name := Some ''alwon_l3_med_clkdm''\<rparr>"

definition mlb_ick :: clk where
  "mlb_ick = clk_zero
    \<lparr>clk_ops := Clkops_ti81xx_dflt_wait, clk_name := ''mlb_ick'',
     clk_parent := Some ID_sysclk5_ck, clk_enable_reg := 0xfa181574,
     clk_recalc_fn := Some Followparent_recalc, clk_enable_bit := 1,
     clk_clkdm_name := Some ''alwon_l3_slow_clkdm''\<rparr>"

definition fdif_fck :: clk where
  "fdif_fck = clk_zero
    \<lparr>clk_ops := Clkops_null, clk_name := ''fdif_fck'', clk_parent := Some ID_sysclk5_ck,
     clk_recalc_fn := Some Followparent_recalc,
     clk_clkdm_name := Some ''alwon_l3_slow_clkdm''\<rparr>"

definition dap_ick :: clk where
  "dap_ick = clk_zero
    \<lparr>clk_ops := Clkops_null, clk_name := ''dap_ick'', clk_parent := Some ID_sysclk5_ck,
     clk_recalc_fn := Some Followparent_recalc,
     clk_clkdm_name := Some ''alwon_l3_slow_clkdm''\<rparr>"

definition ocmc_ram_ick :: clk where
  "ocmc_ram_ick = clk_zero
    \<lparr>clk_ops := Clkops_ti81xx_dflt_wait, clk_name := ''ocmc_ram_ick'',
     clk_parent := Some ID_sysclk5_ck, clk_enable_reg := 0xfa1815b4,
     clk_recalc_fn := Some Followparent_recalc, clk_enable_bit := 1, clk_flags := 8,
     clk_clkdm_name := Some ''alwon_ocmc_clkdm''\<rparr>"

definition mmchs3_ick :: clk where
  "mmchs3_ick = clk_zero
    \<lparr>clk_ops := Clkops_null, clk_name := ''mmchs3_ick'', clk_parent := Some ID_sysclk5_ck,
     clk_recalc_fn := Some Followparent_recalc,
     clk_clkdm_name := Some ''alwon_l3_slow_clkdm''\<rparr>"

definition cpsw_ick :: clk where
  "cpsw_ick = clk_zero
    \<lparr>clk_ops := Clkops_ti81xx_dflt_wait, clk_name := ''cpsw_ick'',
     clk_parent := Some ID_sysclk5_ck, clk_enable_reg := 0xfa1815d4,
     clk_recalc_fn := Some Followparent_recalc, clk_enable_bit := 1,
     clk_clkdm_name := Some ''alwon_ethernet_clkdm''\<rparr>"

definition gem_trc_fck :: clk where
  "gem_trc_fck = clk_zero
    \<lparr>clk_ops := Clkops_null, clk_name := ''gem_trc_fck'',
     clk_parent := Some ID_sysclk5_ck, clk_recalc_fn := Some Followparent_recalc,
     clk_clkdm_name := Some ''gem_clkdm''\<rparr>"

definition mcasp4_ick :: clk where
  "mcasp4_ick = clk_zero
    \<lparr>clk_ops := Clkops_null, clk_name := ''mcasp4_ick'', clk_parent := Some ID_sysclk5_ck,
     clk_recalc_fn := Some Followparent_recalc,
     clk_clkdm_name := Some ''alwon_l3_slow_clkdm''\<rparr>"

definition mcasp5_ick :: clk where
  "mcasp5_ick = clk_zero
    \<lparr>clk_ops := Clkops_null, clk_name := ''mcasp5_ick'', clk_parent := Some ID_sysclk5_ck,
     clk_recalc_fn := Some Followparent_recalc,
     clk_clkdm_name := Some ''alwon_l3_slow_clkdm''\<rparr>"

definition mcasp6_ick :: clk where
  "mcasp6_ick = clk_zero
    \<lparr>clk_ops := Clkops_null, clk_name := ''mcasp6_ick'', clk_parent := Some ID_sysclk5_ck,
     clk_recalc_fn := Some Followparent_recalc,
     clk_clkdm_name := Some ''alwon_l3_slow_clkdm''\<rparr>"

definition hdvpss_l4_ick :: clk where
  "hdvpss_l4_ick = clk_zero
    \<lparr>clk_ops := Clkops_null, clk_name := ''hdvpss_l4_ick'',
     clk_parent := Some ID_sysclk5_ck, clk_recalc_fn := Some Followparent_recalc,
     clk_clkdm_name := Some ''hdvpss_clkdm''\<rparr>"

definition sysclk6_ck :: clk where
  "sysclk6_ck = clk_zero
    \<lparr>clk_ops := Clkops_null, clk_name := ''sysclk6_ck'', clk_parent := Some ID_sysclk4_ck,
     clk_recalc_fn := Some Omap2_clksel_recalc,
     clk_set_rate_fn := Some Omap2_clksel_set_rate,
     clk_round_rate_fn := Some Omap2_clksel_round_rate, clk_clksel_reg := 0xfa180314,
     clk_clksel_mask := 1, clk_clksel := Some sysclk6_div\<rparr>"

definition l3_slow_ick :: clk where
  "l3_slow_ick = clk_zero
    \<lparr>clk_ops := Clkops_ti81xx_dflt_wait, clk_name := ''l3_slow_ick'',
     clk_parent := Some ID_sysclk6_ck, clk_enable_reg := 0xfa1815e4,
     clk_recalc_fn := Some Followparent_recalc, clk_enable_bit := 1,
     clk_clkdm_name := Some ''alwon_l3_slow_clkdm''\<rparr>"

definition l4_slow_ick :: clk where
  "l4_slow_ick = clk_zero
    \<lparr>clk_ops := Clkops_ti81xx_dflt_wait, clk_name := ''l4_slow_ick'',
     clk_parent := Some ID_sysclk6_ck, clk_enable_reg := 0xfa1815ec,
     clk_recalc_fn := Some Followparent_recalc, clk_enable_bit := 1,
     clk_clkdm_name := Some ''alwon_l3_slow_clkdm''\<rparr>"

definition uart1_ick :: clk where
  "uart1_ick = clk_zero
    \<lparr>clk_ops := Clkops_null, clk_name := ''uart1_ick'', clk_parent := Some ID_sysclk6_ck,
     clk_recalc_fn := Some Followparent_recalc,
     clk_clkdm_name := Some ''alwon_l3_slow_clkdm''\<rparr>"

definition uart2_ick :: clk where
  "uart2_ick = clk_zero
    \<lparr>clk_ops := Clkops_null, clk_name := ''uart2_ick'', clk_parent := Some ID_sysclk6_ck,
     clk_recalc_fn := Some Followparent_recalc,
     clk_clkdm_name := Some ''alwon_l3_slow_clkdm''\<rparr>"

definition uart3_ick :: clk where
  "uart3_ick = clk_zero
    \<lparr>clk_ops := Clkops_null, clk_name := ''uart3_ick'', clk_parent := Some ID_sysclk6_ck,
     clk_recalc_fn := Some Followparent_recalc,
     clk_clkdm_name := Some ''alwon_l3_slow_clkdm''\<rparr>"

definition uart4_ick :: clk where
  "uart4_ick = clk_zero
    \<lparr>clk_ops := Clkops_null, clk_name := ''uart4_ick'', clk_parent := Some ID_sysclk6_ck,
     clk_recalc_fn := Some Followparent_recalc,
     clk_clkdm_name := Some ''alwon_l3_slow_clkdm''\<rparr>"

definition uart5_ick :: clk where
  "uart5_ick = clk_zero
    \<lparr>clk_ops := Clkops_null, clk_name := ''uart5_ick'', clk_parent := Some ID_sysclk6_ck,
     clk_recalc_fn := Some Followparent_recalc,
     clk_clkdm_name := Some ''alwon_l3_slow_clkdm''\<rparr>"

definition uart6_ick :: clk where
  "uart6_ick = clk_zero
    \<lparr>clk_ops := Clkops_null, clk_name := ''uart6_ick'', clk_parent := Some ID_sysclk6_ck,
     clk_recalc_fn := Some Followparent_recalc,
     clk_clkdm_name := Some ''alwon_l3_slow_clkdm''\<rparr>"

definition i2c1_ick :: clk where
  "i2c1_ick = clk_zero
    \<lparr>clk_ops := Clkops_null, clk_name := ''i2c1_ick'', clk_parent := Some ID_sysclk6_ck,
     clk_recalc_fn := Some Followparent_recalc,
     clk_clkdm_name := Some ''alwon_l3_slow_clkdm''\<rparr>"

definition i2c2_ick :: clk where
  "i2c2_ick = clk_zero
    \<lparr>clk_ops := Clkops_null, clk_name := ''i2c2_ick'', clk_parent := Some ID_sysclk6_ck,
     clk_recalc_fn := Some Followparent_recalc,
     clk_clkdm_name := Some ''alwon_l3_slow_clkdm''\<rparr>"

definition i2c3_ick :: clk where
  "i2c3_ick = clk_zero
    \<lparr>clk_ops := Clkops_null, clk_name := ''i2c3_ick'', clk_parent := Some ID_sysclk6_ck,
     clk_recalc_fn := Some Followparent_recalc,
     clk_clkdm_name := Some ''alwon_l3_slow_clkdm''\<rparr>"

definition i2c4_ick :: clk where
  "i2c4_ick = clk_zero
    \<lparr>clk_ops := Clkops_null, clk_name := ''i2c4_ick'', clk_parent := Some ID_sysclk6_ck,
     clk_recalc_fn := Some Followparent_recalc,
     clk_clkdm_name := Some ''alwon_l3_slow_clkdm''\<rparr>"

definition mcspi1_ick :: clk where
  "mcspi1_ick = clk_zero
    \<lparr>clk_ops := Clkops_null, clk_name := ''mcspi1_ick'', clk_parent := Some ID_sysclk6_ck,
     clk_recalc_fn := Some Followparent_recalc,
     clk_clkdm_name := Some ''alwon_l3_slow_clkdm''\<rparr>"

definition mcspi2_ick :: clk where
  "mcspi2_ick = clk_zero
    \<lparr>clk_ops := Clkops_null, clk_name := ''mcspi2_ick'', clk_parent := Some ID_sysclk6_ck,
     clk_recalc_fn := Some Followparent_recalc,
     clk_clkdm_name := Some ''alwon_l3_slow_clkdm''\<rparr>"

definition mcspi3_ick :: clk where
  "mcspi3_ick = clk_zero
    \<lparr>clk_ops := Clkops_null, clk_name := ''mcspi3_ick'', clk_parent := Some ID_sysclk6_ck,
     clk_recalc_fn := Some Followparent_recalc,
     clk_clkdm_name := Some ''alwon_l3_slow_clkdm''\<rparr>"

definition mcspi4_ick :: clk where
  "mcspi4_ick = clk_zero
    \<lparr>clk_ops := Clkops_null, clk_name := ''mcspi4_ick'', clk_parent := Some ID_sysclk6_ck,
     clk_recalc_fn := Some Followparent_recalc,
     clk_clkdm_name := Some ''alwon_l3_slow_clkdm''\<rparr>"

definition sdio_ick :: clk where
  "sdio_ick = clk_zero
    \<lparr>clk_ops := Clkops_null, clk_name := ''sdio_ick'', clk_parent := Some ID_sysclk6_ck,
     clk_recalc_fn := Some Followparent_recalc,
     clk_clkdm_name := Some ''alwon_l3_slow_clkdm''\<rparr>"

definition gpt1_ick :: clk where
  "gpt1_ick = clk_zero
    \<lparr>clk_ops := Clkops_null, clk_name := ''gpt1_ick'', clk_parent := Some ID_sysclk6_ck,
     clk_recalc_fn := Some Followparent_recalc,
     clk_clkdm_name := Some ''alwon_l3_slow_clkdm''\<rparr>"

definition gpt2_ick :: clk where
  "gpt2_ick = clk_zero
    \<lparr>clk_ops := Clkops_null, clk_name := ''gpt2_ick'', clk_parent := Some ID_sysclk6_ck,
     clk_recalc_fn := Some Followparent_recalc,
     clk_clkdm_name := Some ''alwon_l3_slow_clkdm''\<rparr>"

definition gpt3_ick :: clk where
  "gpt3_ick = clk_zero
    \<lparr>clk_ops := Clkops_null, clk_name := ''gpt3_ick'', clk_parent := Some ID_sysclk6_ck,
     clk_recalc_fn := Some Followparent_recalc,
     clk_clkdm_name := Some ''alwon_l3_slow_clkdm''\<rparr>"

definition gpt4_ick :: clk where
  "gpt4_ick = clk_zero
    \<lparr>clk_ops := Clkops_null, clk_name := ''gpt4_ick'', clk_parent := Some ID_sysclk6_ck,
     clk_recalc_fn := Some Followparent_recalc,
     clk_clkdm_name := Some ''alwon_l3_slow_clkdm''\<rparr>"

definition gpt5_ick :: clk where
  "gpt5_ick = clk_zero
    \<lparr>clk_ops := Clkops_null, clk_name := ''gpt5_ick'', clk_parent := Some ID_sysclk6_ck,
     clk_recalc_fn := Some Followparent_recalc,
     clk_clkdm_name := Some ''alwon_l3_slow_clkdm''\<rparr>"

definition gpt6_ick :: clk where
  "gpt6_ick = clk_zero
    \<lparr>clk_ops := Clkops_null, clk_name := ''gpt6_ick'', clk_parent := Some ID_sysclk6_ck,
     clk_recalc_fn := Some Followparent_recalc,
     clk_clkdm_name := Some ''alwon_l3_slow_clkdm''\<rparr>"

definition gpt7_ick :: clk where
  "gpt7_ick = clk_zero
    \<lparr>clk_ops := Clkops_null, clk_name := ''gpt7_ick'', clk_parent := Some ID_sysclk6_ck,
     clk_recalc_fn := Some Followparent_recalc,
     clk_clkdm_name := Some ''alwon_l3_slow_clkdm''\<rparr>"

definition gpt8_ick :: clk where
  "gpt8_ick = clk_zero
    \<lparr>clk_ops := Clkops_null, clk_name := ''gpt8_ick'', clk_parent := Some ID_sysclk6_ck,
     clk_recalc_fn := Some Followparent_recalc,
     clk_clkdm_name := Some ''alwon_l3_slow_clkdm''\<rparr>"

definition gpio234_ick :: clk where
  "gpio234_ick = clk_zero
    \<lparr>clk_ops := Clkops_ti81xx_dflt_wait, clk_name := ''gpio234_ick'',
     clk_parent := Some ID_sysclk6_ck, clk_enable_reg := 0xfa181560,
     clk_recalc_fn := Some Followparent_recalc, clk_enable_bit := 1,
     clk_clkdm_name := Some ''alwon_l3_slow_clkdm''\<rparr>"

definition gpio1_ick :: clk where
  "gpio1_ick = clk_zero
    \<lparr>clk_ops := Clkops_ti81xx_dflt_wait, clk_name := ''gpio1_ick'',
     clk_parent := Some ID_sysclk6_ck, clk_enable_reg := 0xfa18155c,
     clk_recalc_fn := Some Followparent_recalc, clk_enable_bit := 1,
     clk_clkdm_name := Some ''alwon_l3_slow_clkdm''\<rparr>"

definition gpio2_ick :: clk where
  "gpio2_ick = clk_zero
    \<lparr>clk_ops := Clkops_null, clk_name := ''gpio2_ick'', clk_parent := Some ID_gpio234_ick,
     clk_recalc_fn := Some Followparent_recalc,
     clk_clkdm_name := Some ''alwon_l3_slow_clkdm''\<rparr>"

definition gpio3_ick :: clk where
  "gpio3_ick = clk_zero
    \<lparr>clk_ops := Clkops_null, clk_name := ''gpio3_ick'', clk_parent := Some ID_gpio234_ick,
     clk_recalc_fn := Some Followparent_recalc,
     clk_clkdm_name := Some ''alwon_l3_slow_clkdm''\<rparr>"

definition gpio4_ick :: clk where
  "gpio4_ick = clk_zero
    \<lparr>clk_ops := Clkops_null, clk_name := ''gpio4_ick'', clk_parent := Some ID_gpio234_ick,
     clk_recalc_fn := Some Followparent_recalc,
     clk_clkdm_name := Some ''alwon_l3_slow_clkdm''\<rparr>"

definition prcm_ick :: clk where
  "prcm_ick = clk_zero
    \<lparr>clk_ops := Clkops_null, clk_name := ''prcm_ick'', clk_parent := Some ID_sysclk6_ck,
     clk_recalc_fn := Some Followparent_recalc,
     clk_clkdm_name := Some ''alwon_l3_slow_clkdm''\<rparr>"

definition smartcard1_ick :: clk where
  "smartcard1_ick = clk_zero
    \<lparr>clk_ops := Clkops_ti81xx_dflt_wait, clk_name := ''smartcard1_ick'',
     clk_parent := Some ID_sysclk6_ck, clk_enable_reg := 0xfa1815bc,
     clk_recalc_fn := Some Followparent_recalc, clk_enable_bit := 1,
     clk_clkdm_name := Some ''alwon_l3_slow_clkdm''\<rparr>"

definition smartcard2_ick :: clk where
  "smartcard2_ick = clk_zero
    \<lparr>clk_ops := Clkops_ti81xx_dflt_wait, clk_name := ''smartcard2_ick'',
     clk_parent := Some ID_sysclk6_ck, clk_enable_reg := 0xfa1815c0,
     clk_recalc_fn := Some Followparent_recalc, clk_enable_bit := 1,
     clk_clkdm_name := Some ''alwon_l3_slow_clkdm''\<rparr>"

definition mcasp1_ick :: clk where
  "mcasp1_ick = clk_zero
    \<lparr>clk_ops := Clkops_null, clk_name := ''mcasp1_ick'', clk_parent := Some ID_sysclk6_ck,
     clk_recalc_fn := Some Followparent_recalc,
     clk_clkdm_name := Some ''alwon_l3_slow_clkdm''\<rparr>"

definition mcasp2_ick :: clk where
  "mcasp2_ick = clk_zero
    \<lparr>clk_ops := Clkops_null, clk_name := ''mcasp2_ick'', clk_parent := Some ID_sysclk6_ck,
     clk_recalc_fn := Some Followparent_recalc,
     clk_clkdm_name := Some ''alwon_l3_slow_clkdm''\<rparr>"

definition mcasp3_ick :: clk where
  "mcasp3_ick = clk_zero
    \<lparr>clk_ops := Clkops_null, clk_name := ''mcasp3_ick'', clk_parent := Some ID_sysclk6_ck,
     clk_recalc_fn := Some Followparent_recalc,
     clk_clkdm_name := Some ''alwon_l3_slow_clkdm''\<rparr>"

definition mcbsp_ick :: clk where
  "mcbsp_ick = clk_zero
    \<lparr>clk_ops := Clkops_null, clk_name := ''mcbsp_ick'', clk_parent := Some ID_sysclk6_ck,
     clk_recalc_fn := Some Followparent_recalc,
     clk_clkdm_name := Some ''alwon_l3_slow_clkdm''\<rparr>"

definition gpmc_fck :: clk where
  "gpmc_fck = clk_zero
    \<lparr>clk_ops := Clkops_ti81xx_dflt_wait, clk_name := ''gpmc_fck'',
     clk_parent := Some ID_sysclk6_ck, clk_enable_reg := 0xfa1815d0,
     clk_recalc_fn := Some Followparent_recalc, clk_enable_bit := 1,
     clk_clkdm_name := Some ''alwon_l3_slow_clkdm''\<rparr>"

definition hdmi_ick :: clk where
  "hdmi_ick = clk_zero
    \<lparr>clk_ops := Clkops_null, clk_name := ''hdmi_ick'', clk_parent := Some ID_sysclk6_ck,
     clk_recalc_fn := Some Followparent_recalc,
     clk_clkdm_name := Some ''alwon_l3_slow_clkdm''\<rparr>"

definition mlbp_ick :: clk where
  "mlbp_ick = clk_zero
    \<lparr>clk_ops := Clkops_ti81xx_dflt_wait, clk_name := ''mlbp_ick'',
     clk_parent := Some ID_sysclk6_ck, clk_enable_reg := 0xfa181574,
     clk_recalc_fn := Some Followparent_recalc, clk_enable_bit := 1,
     clk_clkdm_name := Some ''alwon_l3_slow_clkdm''\<rparr>"

definition wdt1_ick :: clk where
  "wdt1_ick = clk_zero
    \<lparr>clk_ops := Clkops_ti81xx_dflt_wait, clk_name := ''wdt1_ick'',
     clk_parent := Some ID_sysclk6_ck, clk_enable_reg := 0xfa18158c,
     clk_recalc_fn := Some Followparent_recalc, clk_enable_bit := 1,
     clk_clkdm_name := Some ''alwon_l3_slow_clkdm''\<rparr>"

definition wdt2_ick :: clk where
  "wdt2_ick = clk_zero
    \<lparr>clk_ops := Clkops_null, clk_name := ''wdt2_ick'', clk_parent := Some ID_sysclk6_ck,
     clk_recalc_fn := Some Followparent_recalc,
     clk_clkdm_name := Some ''alwon_l3_slow_clkdm''\<rparr>"

definition sync_timer_ick :: clk where
  "sync_timer_ick = clk_zero
    \<lparr>clk_ops := Clkops_null, clk_name := ''sync_timer_ick'',
     clk_parent := Some ID_sysclk6_ck, clk_recalc_fn := Some Followparent_recalc,
     clk_clkdm_name := Some ''alwon_l3_slow_clkdm''\<rparr>"

definition pata_ick :: clk where
  "pata_ick = clk_zero
    \<lparr>clk_ops := Clkops_ti81xx_dflt_wait, clk_name := ''pata_ick'',
     clk_parent := Some ID_sysclk6_ck, clk_enable_reg := 0xfa181578,
     clk_recalc_fn := Some Followparent_recalc, clk_enable_bit := 1,
     clk_clkdm_name := Some ''alwon_l3_slow_clkdm''\<rparr>"

definition mailbox_ick :: clk where
  "mailbox_ick = clk_zero
    \<lparr>clk_ops := Clkops_ti81xx_dflt_wait, clk_name := ''mailbox_ick'',
     clk_parent := Some ID_sysclk6_ck, clk_enable_reg := 0xfa181594,
     clk_recalc_fn := Some Followparent_recalc, clk_enable_bit := 1,
     clk_clkdm_name := Some ''alwon_l3_slow_clkdm''\<rparr>"

definition spinbox_ick :: clk where
  "spinbox_ick = clk_zero
    \<lparr>clk_ops := Clkops_ti81xx_dflt_wait, clk_name := ''spinbox_ick'',
     clk_parent := Some ID_sysclk6_ck, clk_enable_reg := 0xfa181598,
     clk_recalc_fn := Some Followparent_recalc, clk_enable_bit := 1,
     clk_clkdm_name := Some ''alwon_l3_slow_clkdm''\<rparr>"

definition sr1_ick :: clk where
  "sr1_ick = clk_zero
    \<lparr>clk_ops := Clkops_ti81xx_dflt_wait, clk_name := ''sr1_ick'',
     clk_parent := Some ID_sysclk6_ck, clk_enable_reg := 0xfa181608,
     clk_recalc_fn := Some Followparent_recalc, clk_enable_bit := 1,
     clk_clkdm_name := Some ''alwon_l3_slow_clkdm''\<rparr>"

definition sr2_ick :: clk where
  "sr2_ick = clk_zero
    \<lparr>clk_ops := Clkops_ti81xx_dflt_wait, clk_name := ''sr2_ick'',
     clk_parent := Some ID_sysclk6_ck, clk_enable_reg := 0xfa18160c,
     clk_recalc_fn := Some Followparent_recalc, clk_enable_bit := 1,
     clk_clkdm_name := Some ''alwon_l3_slow_clkdm''\<rparr>"

definition sr3_ick :: clk where
  "sr3_ick = clk_zero
    \<lparr>clk_ops := Clkops_ti81xx_dflt_wait, clk_name := ''sr3_ick'',
     clk_parent := Some ID_sysclk6_ck, clk_enable_reg := 0xfa181610,
     clk_recalc_fn := Some Followparent_recalc, clk_enable_bit := 1,
     clk_clkdm_name := Some ''alwon_l3_slow_clkdm''\<rparr>"

definition sr4_ick :: clk where
  "sr4_ick = clk_zero
    \<lparr>clk_ops := Clkops_ti81xx_dflt_wait, clk_name := ''sr4_ick'',
     clk_parent := Some ID_sysclk6_ck, clk_enable_reg := 0xfa181614,
     clk_recalc_fn := Some Followparent_recalc, clk_enable_bit := 1,
     clk_clkdm_name := Some ''alwon_l3_slow_clkdm''\<rparr>"

definition usbotg_ick :: clk where
  "usbotg_ick = clk_zero
    \<lparr>clk_ops := Clkops_ti81xx_usb, clk_name := ''usb_ick'',
     clk_parent := Some ID_sysclk6_ck, clk_enable_reg := 0xfa180558,
     clk_recalc_fn := Some Followparent_recalc, clk_enable_bit := 1,
     clk_clkdm_name := Some ''alwon2_usb_clkdm''\<rparr>"

definition mmu_cfg_ick :: clk where
  "mmu_cfg_ick = clk_zero
    \<lparr>clk_ops := Clkops_ti81xx_dflt_wait, clk_name := ''mmu_cfg_ick'',
     clk_parent := Some ID_sysclk6_ck, clk_enable_reg := 0xfa1815a8,
     clk_recalc_fn := Some Followparent_recalc, clk_enable_bit := 1,
     clk_clkdm_name := Some ''mmu_cfg_clkdm''\<rparr>"

definition p1500_ick :: clk where
  "p1500_ick = clk_zero
    \<lparr>clk_ops := Clkops_null, clk_name := ''p1500_ick'', clk_parent := Some ID_sysclk6_ck,
     clk_recalc_fn := Some Followparent_recalc,
     clk_clkdm_name := Some ''alwon_l3_slow_clkdm''\<rparr>"

definition elm_ick :: clk where
  "elm_ick = clk_zero
    \<lparr>clk_ops := Clkops_null, clk_name := ''elm_ick'', clk_parent := Some ID_sysclk6_ck,
     clk_recalc_fn := Some Followparent_recalc,
     clk_clkdm_name := Some ''alwon_l3_slow_clkdm''\<rparr>"

definition elm_fck :: clk where
  "elm_fck = clk_zero
    \<lparr>clk_ops := Clkops_null, clk_name := ''elm_fck'', clk_parent := Some ID_sysclk6_ck,
     clk_recalc_fn := Some Followparent_recalc,
     clk_clkdm_name := Some ''alwon_l3_slow_clkdm''\<rparr>"

definition mmchs1_ick :: clk where
  "mmchs1_ick = clk_zero
    \<lparr>clk_ops := Clkops_null, clk_name := ''mmchs1_ick'', clk_parent := Some ID_sysclk6_ck,
     clk_recalc_fn := Some Followparent_recalc,
     clk_clkdm_name := Some ''alwon_l3_slow_clkdm''\<rparr>"

definition mmchs2_ick :: clk where
  "mmchs2_ick = clk_zero
    \<lparr>clk_ops := Clkops_null, clk_name := ''mmchs2_ick'', clk_parent := Some ID_sysclk6_ck,
     clk_recalc_fn := Some Followparent_recalc,
     clk_clkdm_name := Some ''alwon_l3_slow_clkdm''\<rparr>"

definition atl_ick :: clk where
  "atl_ick = clk_zero
    \<lparr>clk_ops := Clkops_null, clk_name := ''atl_ick'', clk_parent := Some ID_sysclk6_ck,
     clk_recalc_fn := Some Followparent_recalc,
     clk_clkdm_name := Some ''alwon_l3_slow_clkdm''\<rparr>"

definition fdif_enb_ck :: clk where
  "fdif_enb_ck = clk_zero
    \<lparr>clk_ops := Clkops_ti81xx_dflt_wait, clk_name := ''fdif_enb_ck'',
     clk_parent := Some ID_sysclk6_ck, clk_enable_reg := 0xfa180724,
     clk_recalc_fn := Some Followparent_recalc, clk_enable_bit := 1,
     clk_clkdm_name := Some ''alwon_l3_slow_clkdm''\<rparr>"

definition rtc_c32k_ick :: clk where
  "rtc_c32k_ick = clk_zero
    \<lparr>clk_ops := Clkops_null, clk_name := ''rtc_c32k_ick'',
     clk_parent := Some ID_sysclk6_ck, clk_recalc_fn := Some Followparent_recalc,
     clk_clkdm_name := Some ''alwon_l3_slow_clkdm''\<rparr>"

definition dcan0_ick :: clk where
  "dcan0_ick = clk_zero
    \<lparr>clk_ops := Clkops_null, clk_name := ''dcan0_ick'', clk_parent := Some ID_sysclk6_ck,
     clk_recalc_fn := Some Followparent_recalc,
     clk_clkdm_name := Some ''alwon_l3_slow_clkdm''\<rparr>"

definition dcan1_ick :: clk where
  "dcan1_ick = clk_zero
    \<lparr>clk_ops := Clkops_null, clk_name := ''dcan1_ick'', clk_parent := Some ID_sysclk6_ck,
     clk_recalc_fn := Some Followparent_recalc,
     clk_clkdm_name := Some ''alwon_l3_slow_clkdm''\<rparr>"

definition iss_dpll_ck :: clk where
  "iss_dpll_ck = clk_zero
    \<lparr>clk_ops := Clkops_ti814x_dpll, clk_name := ''iss_dpll_ck'',
     clk_parent := Some ID_osc0_clkin_ck, clk_recalc_fn := Some Ti814x_dpll_recalc,
     clk_set_rate_fn := Some Ti814x_dpll_set_rate,
     clk_round_rate_fn := Some Ti814x_dpll_round_rate, clk_dpll_data := Some 5,
     clk_clkdm_name := Some ''alwon_l3_slow_clkdm''\<rparr>"

definition iss_ick :: clk where
  "iss_ick = clk_zero
    \<lparr>clk_ops := Clkops_null, clk_name := ''iss_ick'', clk_parent := Some ID_iss_dpll_ck,
     clk_recalc_fn := Some Followparent_recalc,
     clk_set_rate_fn := Some Ti814x_clksel_set_rate,
     clk_clkdm_name := Some ''alwon_l3_slow_clkdm''\<rparr>"

definition isp_ick :: clk where
  "isp_ick = clk_zero
    \<lparr>clk_ops := Clkops_ti81xx_dflt_wait, clk_name := ''isp_ick'',
     clk_parent := Some ID_iss_dpll_ck, clk_enable_reg := 0xfa180720,
     clk_recalc_fn := Some Followparent_recalc, clk_enable_bit := 1,
     clk_clkdm_name := Some ''isp_clkdm''\<rparr>"

definition tppss_tso_ick :: clk where
  "tppss_tso_ick = clk_zero
    \<lparr>clk_ops := Clkops_null, clk_name := ''tppss_tso_ick'',
     clk_parent := Some ID_iss_dpll_ck, clk_recalc_fn := Some Followparent_recalc,
     clk_set_rate_fn := Some Ti814x_clksel_set_rate, clk_clkdm_name := Some ''iss_clkdm''\<rparr>"

definition iss_dpll_d2_ck :: clk where
  "iss_dpll_d2_ck = clk_zero
    \<lparr>clk_ops := Clkops_null, clk_name := ''iss_dpll_d2_ck'',
     clk_parent := Some ID_iss_dpll_ck, clk_recalc_fn := Some Omap_fixed_divisor_recalc,
     clk_fixed_div := 2, clk_clkdm_name := Some ''iss_clkdm''\<rparr>"

definition ducati_ick :: clk where
  "ducati_ick = clk_zero
    \<lparr>clk_ops := Clkops_omap2_dflt, clk_name := ''ducati_ick'',
     clk_parent := Some ID_iss_dpll_d2_ck, clk_enable_reg := 0xfa180574,
     clk_recalc_fn := Some Followparent_recalc, clk_enable_bit := 1,
     clk_clkdm_name := Some ''alwon2_mc_clkdm''\<rparr>"

definition hdvpss_dpll_ck :: clk where
  "hdvpss_dpll_ck = clk_zero
    \<lparr>clk_ops := Clkops_ti814x_dpll, clk_name := ''hdvpss_dpll_ck'',
     clk_parent := Some ID_osc0_clkin_ck, clk_recalc_fn := Some Ti814x_dpll_recalc,
     clk_set_rate_fn := Some Ti814x_dpll_set_rate,
     clk_round_rate_fn := Some Ti814x_dpll_round_rate, clk_dpll_data := Some 6,
     clk_clkdm_name := Some ''hdvpss_clkdm''\<rparr>"

definition hdvpss_proc_fck :: clk where
  "hdvpss_proc_fck = clk_zero
    \<lparr>clk_ops := Clkops_null, clk_name := ''hdvpss_proc_fck'',
     clk_parent := Some ID_hdvpss_dpll_ck, clk_recalc_fn := Some Followparent_recalc,
     clk_set_rate_fn := Some Ti814x_clksel_set_rate,
     clk_clkdm_name := Some ''hdvpss_clkdm''\<rparr>"

definition hdvpss_proc_d2_fck :: clk where
  "hdvpss_proc_d2_fck = clk_zero
    \<lparr>clk_ops := Clkops_null, clk_name := ''hdvpss_proc_d2_fck'',
     clk_parent := Some ID_hdvpss_dpll_ck,
     clk_recalc_fn := Some Omap_fixed_divisor_recalc, clk_fixed_div := 2,
     clk_clkdm_name := Some ''hdvpss_clkdm''\<rparr>"

definition dvi_ch1_ck :: clk where
  "dvi_ch1_ck = clk_zero
    \<lparr>clk_ops := Clkops_null, clk_name := ''dvi_ch1_ck'', clk_rate := 166000000,
     clk_flags := 0x40\<rparr>"

definition dvi_ch2_ck :: clk where
  "dvi_ch2_ck = clk_zero
    \<lparr>clk_ops := Clkops_null, clk_name := ''dvi_ch2_ck'', clk_rate := 166000000,
     clk_flags := 0x40\<rparr>"

definition dvi_ch3_ck :: clk where
  "dvi_ch3_ck = clk_zero
    \<lparr>clk_ops := Clkops_null, clk_name := ''dvi_ch3_ck'', clk_rate := 166000000,
     clk_flags := 0x40\<rparr>"

definition dvi_ch4_ck :: clk where
  "dvi_ch4_ck = clk_zero
    \<lparr>clk_ops := Clkops_null, clk_name := ''dvi_ch4_ck'', clk_rate := 166000000,
     clk_flags := 0x40\<rparr>"

definition dvoi1_ck :: clk where
  "dvoi1_ck = clk_zero
    \<lparr>clk_ops := Clkops_null, clk_name := ''dvoi1_ck'', clk_rate := 162000000,
     clk_flags := 0x40\<rparr>"

definition dvoi2_ck :: clk where
  "dvoi2_ck = clk_zero
    \<lparr>clk_ops := Clkops_null, clk_name := ''dvoi2_ck'', clk_rate := 162000000,
     clk_flags := 0x40\<rparr>"

definition usb_dpll_clkin_ck :: clk where
  "usb_dpll_clkin_ck = clk_zero
    \<lparr>clk_ops := Clkops_null, clk_name := ''usb_dpll_clkin_ck'',
     clk_parent := Some ID_osc0_clkin_ck, clk_recalc_fn := Some Followparent_recalc\<rparr>"

definition usb_dpll_ck :: clk where
  "usb_dpll_ck = clk_zero
    \<lparr>clk_ops := Clkops_ti814x_dpll, clk_name := ''usb_dpll_ck'',
     clk_parent := Some ID_usb_dpll_clkin_ck, clk_recalc_fn := Some Ti814x_dpll_recalc,
     clk_set_rate_fn := Some Ti814x_dpll_set_rate,
     clk_round_rate_fn := Some Ti814x_dpll_round_rate, clk_dpll_data := Some 7,
     clk_clkdm_name := Some ''alwon2_usb_clkdm''\<rparr>"

definition usb_phy0_rclk_ick :: clk where
  "usb_phy0_rclk_ick = clk_zero
    \<lparr>clk_ops := Clkops_null, clk_name := ''usb_phy0_rclk_ick'',
     clk_parent := Some ID_usb_dpll_clkin_ck,
     clk_recalc_fn := Some Ti814x_dpll_dco_recalc, clk_dpll_data := Some 7,
     clk_clkdm_name := Some ''alwon2_usb_clkdm''\<rparr>"

definition usb_phy1_rclk_ick :: clk where
  "usb_phy1_rclk_ick = clk_zero
    \<lparr>clk_ops := Clkops_null, clk_name := ''usb_phy1_rclk_ick'',
     clk_parent := Some ID_usb_dpll_clkin_ck,
     clk_recalc_fn := Some Ti814x_dpll_dco_recalc, clk_dpll_data := Some 7,
     clk_clkdm_name := Some ''alwon2_usb_clkdm''\<rparr>"

definition usb_dpll_div5_ck :: clk where
  "usb_dpll_div5_ck = clk_zero
    \<lparr>clk_ops := Clkops_null, clk_name := ''usb_dpll_clk2_ck'',
     clk_parent := Some ID_usb_dpll_ck, clk_recalc_fn := Some Omap_fixed_divisor_recalc,
     clk_fixed_div := 5\<rparr>"

definition sysclk10_ck :: clk where
  "sysclk10_ck = clk_zero
    \<lparr>clk_ops := Clkops_null, clk_name := ''sysclk10_ck'',
     clk_parent := Some ID_usb_dpll_div5_ck, clk_recalc_fn := Some Omap2_clksel_recalc,
     clk_clksel_reg := 0xfa180324, clk_clksel_mask := 7, clk_clksel := Some sysclk10_div\<rparr>"

definition mcspi1_fck :: clk where
  "mcspi1_fck = clk_zero
    \<lparr>clk_ops := Clkops_ti81xx_dflt_wait, clk_name := ''mcspi1_fck'',
     clk_parent := Some ID_sysclk10_ck, clk_enable_reg := 0xfa181590,
     clk_recalc_fn := Some Followparent_recalc, clk_enable_bit := 1,
     clk_clkdm_name := Some ''alwon_l3_slow_clkdm''\<rparr>"

definition mcspi2_fck :: clk where
  "mcspi2_fck = clk_zero
    \<lparr>clk_ops := Clkops_ti81xx_dflt_wait, clk_name := ''mcspi2_fck'',
     clk_parent := Some ID_sysclk10_ck, clk_enable_reg := 0xfa181590,
     clk_recalc_fn := Some Followparent_recalc, clk_enable_bit := 1,
     clk_clkdm_name := Some ''alwon_l3_slow_clkdm''\<rparr>"

definition mcspi3_fck :: clk where
  "mcspi3_fck = clk_zero
    \<lparr>clk_ops := Clkops_ti81xx_dflt_wait, clk_name := ''mcspi3_fck'',
     clk_parent := Some ID_sysclk10_ck, clk_enable_reg := 0xfa181590,
     clk_recalc_fn := Some Followparent_recalc, clk_enable_bit := 1,
     clk_clkdm_name := Some ''alwon_l3_slow_clkdm''\<rparr>"

definition mcspi4_fck :: clk where
  "mcspi4_fck = clk_zero
    \<lparr>clk_ops := Clkops_ti81xx_dflt_wait, clk_name := ''mcspi4_fck'',
     clk_parent := Some ID_sysclk10_ck, clk_enable_reg := 0xfa181590,
     clk_recalc_fn := Some Followparent_recalc, clk_enable_bit := 1,
     clk_clkdm_name := Some ''alwon_l3_slow_clkdm''\<rparr>"

definition i2c02_ck :: clk where
  "i2c02_ck = clk_zero
    \<lparr>clk_ops := Clkops_ti81xx_dflt_wait, clk_name := ''i2c02_ck'',
     clk_parent := Some ID_sysclk10_ck, clk_enable_reg := 0xfa181564,
     clk_recalc_fn := Some Followparent_recalc, clk_enable_bit := 1,
     clk_clkdm_name := Some ''alwon_l3_slow_clkdm''\<rparr>"

definition i2c13_ck :: clk where
  "i2c13_ck = clk_zero
    \<lparr>clk_ops := Clkops_ti81xx_dflt_wait, clk_name := ''i2c13_ck'',
     clk_parent := Some ID_sysclk10_ck, clk_enable_reg := 0xfa181568,
     clk_recalc_fn := Some Followparent_recalc, clk_enable_bit := 1,
     clk_clkdm_name := Some ''alwon_l3_slow_clkdm''\<rparr>"

definition i2c1_fck :: clk where
  "i2c1_fck = clk_zero
    \<lparr>clk_ops := Clkops_null, clk_name := ''i2c1_fck'', clk_parent := Some ID_i2c02_ck,
     clk_recalc_fn := Some Followparent_recalc,
     clk_clkdm_name := Some ''alwon_l3_slow_clkdm''\<rparr>"

definition i2c2_fck :: clk where
  "i2c2_fck = clk_zero
    \<lparr>clk_ops := Clkops_null, clk_name := ''i2c2_fck'', clk_parent := Some ID_i2c13_ck,
     clk_recalc_fn := Some Followparent_recalc,
     clk_clkdm_name := Some ''alwon_l3_slow_clkdm''\<rparr>"

definition i2c3_fck :: clk where
  "i2c3_fck = clk_zero
    \<lparr>clk_ops := Clkops_null, clk_name := ''i2c3_fck'', clk_parent := Some ID_i2c02_ck,
     clk_recalc_fn := Some Followparent_recalc,
     clk_clkdm_name := Some ''alwon_l3_slow_clkdm''\<rparr>"

definition i2c4_fck :: clk where
  "i2c4_fck = clk_zero
    \<lparr>clk_ops := Clkops_null, clk_name := ''i2c4_fck'', clk_parent := Some ID_i2c13_ck,
     clk_recalc_fn := Some Followparent_recalc,
     clk_clkdm_name := Some ''alwon_l3_slow_clkdm''\<rparr>"

definition uart1_fck :: clk where
  "uart1_fck = clk_zero
    \<lparr>clk_ops := Clkops_ti81xx_dflt_wait, clk_name := ''uart1_fck'',
     clk_parent := Some ID_sysclk10_ck, clk_enable_reg := 0xfa181550,
     clk_recalc_fn := Some Followparent_recalc, clk_enable_bit := 1,
     clk_clkdm_name := Some ''alwon_l3_slow_clkdm''\<rparr>"

definition uart2_fck :: clk where
  "uart2_fck = clk_zero
    \<lparr>clk_ops := Clkops_ti81xx_dflt_wait, clk_name := ''uart2_fck'',
     clk_parent := Some ID_sysclk10_ck, clk_enable_reg := 0xfa181554,
     clk_recalc_fn := Some Followparent_recalc, clk_enable_bit := 1,
     clk_clkdm_name := Some ''alwon_l3_slow_clkdm''\<rparr>"

definition uart3_fck :: clk where
  "uart3_fck = clk_zero
    \<lparr>clk_ops := Clkops_ti81xx_dflt_wait, clk_name := ''uart3_fck'',
     clk_parent := Some ID_sysclk10_ck, clk_enable_reg := 0xfa181558,
     clk_recalc_fn := Some Followparent_recalc, clk_enable_bit := 1,
     clk_clkdm_name := Some ''alwon_l3_slow_clkdm''\<rparr>"

definition hdmi_cec_dcc_fck :: clk where
  "hdmi_cec_dcc_fck = clk_zero
    \<lparr>clk_ops := Clkops_null, clk_name := ''hdmi_cec_dcc_fck'',
     clk_parent := Some ID_sysclk10_ck, clk_recalc_fn := Some Followparent_recalc,
     clk_clkdm_name := Some ''alwon_l3_slow_clkdm''\<rparr>"

definition sysclk8_ck :: clk where
  "sysclk8_ck = clk_zero
    \<lparr>clk_ops := Clkops_null, clk_name := ''sysclk8_ck'',
     clk_parent := Some ID_usb_dpll_div5_ck, clk_recalc_fn := Some Followparent_recalc,
     clk_clksel := Some sysclk8_div\<rparr>"

definition mmchs1_fck :: clk where
  "mmchs1_fck = clk_zero
    \<lparr>clk_ops := Clkops_ti81xx_dflt_wait, clk_name := ''mmchs1_fck'',
     clk_parent := Some ID_sysclk8_ck, clk_enable_reg := 0xfa18161c,
     clk_recalc_fn := Some Followparent_recalc, clk_enable_bit := 1,
     clk_clkdm_name := Some ''alwon_l3_slow_clkdm''\<rparr>"

definition mmchs2_fck :: clk where
  "mmchs2_fck = clk_zero
    \<lparr>clk_ops := Clkops_ti81xx_dflt_wait, clk_name := ''mmchs2_fck'',
     clk_parent := Some ID_sysclk8_ck, clk_enable_reg := 0xfa181620,
     clk_recalc_fn := Some Followparent_recalc, clk_enable_bit := 1,
     clk_clkdm_name := Some ''alwon_l3_slow_clkdm''\<rparr>"

definition mmchs3_fck :: clk where
  "mmchs3_fck = clk_zero
    \<lparr>clk_ops := Clkops_ti81xx_dflt_wait, clk_name := ''mmchs3_fck'',
     clk_parent := Some ID_sysclk8_ck, clk_enable_reg := 0xfa181624,
     clk_recalc_fn := Some Followparent_recalc, clk_enable_bit := 1,
     clk_clkdm_name := Some ''alwon_l3_slow_clkdm''\<rparr>"

definition uart4_fck :: clk where
  "uart4_fck = clk_zero
    \<lparr>clk_ops := Clkops_ti81xx_dflt_wait, clk_name := ''uart4_fck'',
     clk_enable_reg := 0xfa181580, clk_recalc_fn := Some Omap2_clksel_recalc,
     clk_set_rate_fn := Some Ti814x_clksel_set_rate,
     clk_init_fn := Some Omap2_init_clksel_parent, clk_enable_bit := 1,
     clk_clksel_reg := 0xfa1c52d8, clk_clksel_mask := 0x18,
     clk_clksel := Some uart456_mux_sel, clk_clkdm_name := Some ''alwon_l3_slow_clkdm''\<rparr>"

definition uart5_fck :: clk where
  "uart5_fck = clk_zero
    \<lparr>clk_ops := Clkops_ti81xx_dflt_wait, clk_name := ''uart5_fck'',
     clk_enable_reg := 0xfa181584, clk_recalc_fn := Some Omap2_clksel_recalc,
     clk_set_rate_fn := Some Ti814x_clksel_set_rate,
     clk_init_fn := Some Omap2_init_clksel_parent, clk_enable_bit := 1,
     clk_clksel_reg := 0xfa1c52d8, clk_clksel_mask := 0x18,
     clk_clksel := Some uart456_mux_sel, clk_clkdm_name := Some ''alwon_l3_slow_clkdm''\<rparr>"

definition uart6_fck :: clk where
  "uart6_fck = clk_zero
    \<lparr>clk_ops := Clkops_ti81xx_dflt_wait, clk_name := ''uart6_fck'',
     clk_enable_reg := 0xfa181588, clk_recalc_fn := Some Omap2_clksel_recalc,
     clk_set_rate_fn := Some Ti814x_clksel_set_rate,
     clk_init_fn := Some Omap2_init_clksel_parent, clk_enable_bit := 1,
     clk_clksel_reg := 0xfa1c52d8, clk_clksel_mask := 0x18,
     clk_clksel := Some uart456_mux_sel, clk_clkdm_name := Some ''alwon_l3_slow_clkdm''\<rparr>"

definition securess_fck :: clk where
  "securess_fck = clk_zero
    \<lparr>clk_ops := Clkops_omap2_dflt, clk_name := ''securess_fck'',
     clk_enable_reg := 0xfa1815c8, clk_recalc_fn := Some Omap2_clksel_recalc,
     clk_init_fn := Some Omap2_init_clksel_parent, clk_enable_bit := 1,
     clk_clksel_reg := 0xfa1c52ec, clk_clksel_mask := 1,
     clk_clksel := Some secureSS_mux_sel, clk_clkdm_name := Some ''alwon_l3_med_clkdm''\<rparr>"

definition tppss_fck :: clk where
  "tppss_fck = clk_zero
    \<lparr>clk_ops := Clkops_null, clk_name := ''tppss_fck'', clk_parent := Some ID_iss_dpll_ck,
     clk_recalc_fn := Some Omap_fixed_divisor_recalc, clk_fixed_div := 2,
     clk_clkdm_name := Some ''alwon_l3_slow_clkdm''\<rparr>"

definition csi2_phy_fck :: clk where
  "csi2_phy_fck = clk_zero
    \<lparr>clk_ops := Clkops_null, clk_name := ''csi2_phy_fck'',
     clk_parent := Some ID_usb_dpll_div5_ck,
     clk_recalc_fn := Some Omap_fixed_divisor_recalc, clk_fixed_div := 2,
     clk_clkdm_name := Some ''alwon_l3_slow_clkdm''\<rparr>"

definition ddr_dpll_clkin_ck :: clk where
  "ddr_dpll_clkin_ck = clk_zero
    \<lparr>clk_ops := Clkops_null, clk_name := ''ddr_dpll_clkin_ck'',
     clk_parent := Some ID_osc0_clkin_ck, clk_recalc_fn := Some Followparent_recalc\<rparr>"

definition ddr_dpll_ck :: clk where
  "ddr_dpll_ck = clk_zero
    \<lparr>clk_ops := Clkops_ti814x_dpll, clk_name := ''ddr_dpll_ck'',
     clk_parent := Some ID_ddr_dpll_clkin_ck, clk_recalc_fn := Some Ti814x_dpll_recalc,
     clk_set_rate_fn := Some Ti814x_dpll_set_rate,
     clk_round_rate_fn := Some Ti814x_dpll_round_rate, clk_dpll_data := Some 8,
     clk_clkdm_name := Some ''alwon_l3_slow_clkdm''\<rparr>"

definition ddr0_phy_fck :: clk where
  "ddr0_phy_fck = clk_zero
    \<lparr>clk_ops := Clkops_omap2_dflt, clk_name := ''ddr0_phy_fck'',
     clk_parent := Some ID_ddr_dpll_ck, clk_enable_reg := 0xfa1c530c,
     clk_recalc_fn := Some Followparent_recalc, clk_enable_bit := 2,
     clk_clkdm_name := Some ''alwon_l3_slow_clkdm''\<rparr>"

definition ddr1_phy_fck :: clk where
  "ddr1_phy_fck = clk_zero
    \<lparr>clk_ops := Clkops_omap2_dflt, clk_name := ''ddr1_phy_fck'',
     clk_parent := Some ID_ddr_dpll_ck, clk_enable_reg := 0xfa1c530c,
     clk_recalc_fn := Some Followparent_recalc, clk_enable_bit := 0,
     clk_clkdm_name := Some ''alwon_l3_slow_clkdm''\<rparr>"

definition ddr0_half_fck :: clk where
  "ddr0_half_fck = clk_zero
    \<lparr>clk_ops := Clkops_omap2_dflt, clk_name := ''ddr0_half_fck'',
     clk_parent := Some ID_ddr_dpll_ck, clk_enable_reg := 0xfa1c530c,
     clk_recalc_fn := Some Omap_fixed_divisor_recalc, clk_enable_bit := 0,
     clk_fixed_div := 2, clk_clkdm_name := Some ''alwon_l3_slow_clkdm''\<rparr>"

definition ddr1_half_fck :: clk where
  "ddr1_half_fck = clk_zero
    \<lparr>clk_ops := Clkops_omap2_dflt, clk_name := ''ddr1_half_fck'',
     clk_parent := Some ID_ddr_dpll_ck, clk_enable_reg := 0xfa1c530c,
     clk_recalc_fn := Some Omap_fixed_divisor_recalc, clk_enable_bit := 2,
     clk_fixed_div := 2, clk_clkdm_name := Some ''alwon_l3_slow_clkdm''\<rparr>"

definition ddr0_phy_d2_fck :: clk where
  "ddr0_phy_d2_fck = clk_zero
    \<lparr>clk_ops := Clkops_null, clk_name := ''ddr0_phy_d2_fck'',
     clk_parent := Some ID_ddr0_half_fck, clk_recalc_fn := Some Followparent_recalc,
     clk_clkdm_name := Some ''alwon_l3_slow_clkdm''\<rparr>"

definition ddr0_emif_fck :: clk where
  "ddr0_emif_fck = clk_zero
    \<lparr>clk_ops := Clkops_null, clk_name := ''ddr0_emif_fck'',
     clk_parent := Some ID_ddr0_half_fck, clk_recalc_fn := Some Followparent_recalc,
     clk_clkdm_name := Some ''alwon_l3_slow_clkdm''\<rparr>"

definition dmm_phy_fck :: clk where
  "dmm_phy_fck = clk_zero
    \<lparr>clk_ops := Clkops_null, clk_name := ''dmm_phy_fck'',
     clk_parent := Some ID_ddr0_half_fck, clk_recalc_fn := Some Followparent_recalc,
     clk_clkdm_name := Some ''alwon_l3_slow_clkdm''\<rparr>"

definition ddr1_phy_d2_fck :: clk where
  "ddr1_phy_d2_fck = clk_zero
    \<lparr>clk_ops := Clkops_null, clk_name := ''ddr1_phy_d2_fck'',
     clk_parent := Some ID_ddr1_half_fck, clk_recalc_fn := Some Followparent_recalc,
     clk_clkdm_name := Some ''alwon_l3_slow_clkdm''\<rparr>"

definition ddr1_emif_fck :: clk where
  "ddr1_emif_fck = clk_zero
    \<lparr>clk_ops := Clkops_null, clk_name := ''ddr1_emif_fck'',
     clk_parent := Some ID_ddr1_half_fck, clk_recalc_fn := Some Followparent_recalc,
     clk_clkdm_name := Some ''alwon_l3_slow_clkdm''\<rparr>"

definition video0_dpll_clkin_ck :: clk where
  "video0_dpll_clkin_ck = clk_zero
    \<lparr>clk_ops := Clkops_null, clk_name := ''video0_dpll_clkin_ck'',
     clk_recalc_fn := Some Omap2_clksel_recalc,
     clk_init_fn := Some Omap2_init_clksel_parent, clk_clksel_reg := 0xfa1c52c0,
     clk_clksel_mask := 0x10000, clk_clksel := Some osc_video0_dpll_mux_sel\<rparr>"

definition video0_dpll_ck :: clk where
  "video0_dpll_ck = clk_zero
    \<lparr>clk_ops := Clkops_ti814x_dpll, clk_name := ''video0_dpll_ck'',
     clk_parent := Some ID_video0_dpll_clkin_ck, clk_recalc_fn := Some Ti814x_dpll_recalc,
     clk_set_rate_fn := Some Ti814x_dpll_set_rate,
     clk_round_rate_fn := Some Ti814x_dpll_round_rate, clk_dpll_data := Some 9,
     clk_clkdm_name := Some ''alwon_l3_slow_clkdm''\<rparr>"

definition video1_dpll_clkin_ck :: clk where
  "video1_dpll_clkin_ck = clk_zero
    \<lparr>clk_ops := Clkops_null, clk_name := ''video1_dpll_clkin_ck'',
     clk_recalc_fn := Some Omap2_clksel_recalc,
     clk_init_fn := Some Omap2_init_clksel_parent, clk_clksel_reg := 0xfa1c52c0,
     clk_clksel_mask := 0x20000, clk_clksel := Some osc_video1_dpll_mux_sel\<rparr>"

definition video1_dpll_ck :: clk where
  "video1_dpll_ck = clk_zero
    \<lparr>clk_ops := Clkops_ti814x_dpll, clk_name := ''video1_dpll_ck'',
     clk_parent := Some ID_video1_dpll_clkin_ck, clk_recalc_fn := Some Ti814x_dpll_recalc,
     clk_set_rate_fn := Some Ti814x_dpll_set_rate,
     clk_round_rate_fn := Some Ti814x_dpll_round_rate, clk_dpll_data := Some 10,
     clk_clkdm_name := Some ''alwon_l3_slow_clkdm''\<rparr>"

definition hdmi_dpll_clkin_ck :: clk where
  "hdmi_dpll_clkin_ck = clk_zero
    \<lparr>clk_ops := Clkops_null, clk_name := ''hdmi_dpll_clkin_ck'',
     clk_recalc_fn := Some Omap2_clksel_recalc,
     clk_init_fn := Some Omap2_init_clksel_parent, clk_clksel_reg := 0xfa1c52c0,
     clk_clksel_mask := 0x40000, clk_clksel := Some osc_hdmi_dpll_mux_sel\<rparr>"

definition hdmi_dpll_ck :: clk where
  "hdmi_dpll_ck = clk_zero
    \<lparr>clk_ops := Clkops_ti814x_dpll, clk_name := ''hdmi_dpll_ck'',
     clk_parent := Some ID_hdmi_dpll_clkin_ck, clk_recalc_fn := Some Ti814x_dpll_recalc,
     clk_set_rate_fn := Some Ti814x_dpll_set_rate,
     clk_round_rate_fn := Some Ti814x_dpll_round_rate, clk_dpll_data := Some 11,
     clk_clkdm_name := Some ''alwon_l3_slow_clkdm''\<rparr>"

definition video_m_pclk_ck :: clk where
  "video_m_pclk_ck = clk_zero
    \<lparr>clk_ops := Clkops_null, clk_name := ''video_m_pclk_ck'', clk_rate := 165000000,
     clk_flags := 0x60\<rparr>"

definition hdmi_phy_tclk_ck :: clk where
  "hdmi_phy_tclk_ck = clk_zero
    \<lparr>clk_ops := Clkops_null, clk_name := ''hdmi_phy_tclk_ck'', clk_rate := 185625000,
     clk_flags := 0x60\<rparr>"

definition hdmi_dpll_muxout_ck :: clk where
  "hdmi_dpll_muxout_ck = clk_zero
    \<lparr>clk_ops := Clkops_null, clk_name := ''hdmi_dpll_muxout_ck'',
     clk_recalc_fn := Some Omap2_clksel_recalc,
     clk_set_rate_fn := Some Ti814x_clksel_set_rate,
     clk_init_fn := Some Omap2_init_clksel_parent, clk_clksel_reg := 0xfa1c52c8,
     clk_clksel_mask := 1, clk_clksel := Some video_dpll_clk_mux_sel\<rparr>"

definition video012_dpll_muxout_ck :: clk where
  "video012_dpll_muxout_ck = clk_zero
    \<lparr>clk_ops := Clkops_null, clk_name := ''video012_dpll_muxout_ck'',
     clk_recalc_fn := Some Omap2_clksel_recalc,
     clk_set_rate_fn := Some Ti814x_clksel_set_rate,
     clk_init_fn := Some Omap2_init_clksel_parent, clk_clksel_reg := 0xfa1c52c8,
     clk_clksel_mask := 0x300, clk_clksel := Some audio_dpll_prcm_mux_sel\<rparr>"

definition sysclk16_d1mux_ck :: clk where
  "sysclk16_d1mux_ck = clk_zero
    \<lparr>clk_ops := Clkops_null, clk_name := ''sysclk16_d1mux_ck'',
     clk_parent := Some ID_video0_dpll_ck, clk_recalc_fn := Some Omap2_clksel_recalc,
     clk_set_rate_fn := Some Ti814x_clksel_set_rate, clk_clksel_reg := 0xfa180348,
     clk_clksel_mask := 7, clk_clksel := Some sysclk16_d1_div\<rparr>"

definition sysclk16_b3mux_ck :: clk where
  "sysclk16_b3mux_ck = clk_zero
    \<lparr>clk_ops := Clkops_null, clk_name := ''sysclk16_b3mux_ck'',
     clk_parent := Some ID_hdmi_dpll_muxout_ck, clk_recalc_fn := Some Omap2_clksel_recalc,
     clk_set_rate_fn := Some Omap2_clksel_set_rate,
     clk_round_rate_fn := Some Omap2_clksel_round_rate, clk_clksel_reg := 0xfa180340,
     clk_clksel_mask := 3, clk_clksel := Some sysclk16_b3_div\<rparr>"

definition sysclk14_c1mux_ck :: clk where
  "sysclk14_c1mux_ck = clk_zero
    \<lparr>clk_ops := Clkops_null, clk_name := ''sysclk14_c1mux_ck'',
     clk_parent := Some ID_video1_dpll_ck, clk_recalc_fn := Some Omap2_clksel_recalc,
     clk_clksel_reg := 0xfa180344, clk_clksel_mask := 1, clk_clksel := Some sysclk14_c1_div\<rparr>"

definition sysclk16_ck :: clk where
  "sysclk16_ck = clk_zero
    \<lparr>clk_ops := Clkops_null, clk_name := ''sysclk16_ck'',
     clk_recalc_fn := Some Omap2_clksel_recalc,
     clk_set_rate_fn := Some Omap2_clksel_set_rate,
     clk_round_rate_fn := Some Omap2_clksel_round_rate,
     clk_init_fn := Some Omap2_init_clksel_parent, clk_clksel_reg := 0xfa180374,
     clk_clksel_mask := 1, clk_clksel := Some sysclk16_clk_mux_sel\<rparr>"

definition tppss_stc1_fck :: clk where
  "tppss_stc1_fck = clk_zero
    \<lparr>clk_ops := Clkops_null, clk_name := ''tppss_stc1_fck'',
     clk_parent := Some ID_sysclk16_ck, clk_recalc_fn := Some Followparent_recalc,
     clk_set_rate_fn := Some Ti814x_clksel_set_rate,
     clk_clkdm_name := Some ''alwon_l3_slow_clkdm''\<rparr>"

definition hd_venc_g_ck :: clk where
  "hd_venc_g_ck = clk_zero
    \<lparr>clk_ops := Clkops_null, clk_name := ''hd_venc_g_ck'',
     clk_recalc_fn := Some Omap2_clksel_recalc,
     clk_set_rate_fn := Some Ti814x_clksel_set_rate,
     clk_init_fn := Some Omap2_init_clksel_parent, clk_clksel_reg := 0xfa1c52c8,
     clk_clksel_mask := 0x1000000, clk_clksel := Some hdvpss_clk_mux_sel,
     clk_clkdm_name := Some ''alwon_l3_slow_clkdm''\<rparr>"

definition hd_venc_d_ck :: clk where
  "hd_venc_d_ck = clk_zero
    \<lparr>clk_ops := Clkops_null, clk_name := ''hd_venc_d_ck'',
     clk_parent := Some ID_hdmi_dpll_muxout_ck, clk_recalc_fn := Some Followparent_recalc,
     clk_clkdm_name := Some ''alwon_l3_slow_clkdm''\<rparr>"

definition hd_venc_a_ck :: clk where
  "hd_venc_a_ck = clk_zero
    \<lparr>clk_ops := Clkops_null, clk_name := ''hd_venc_a_ck'',
     clk_recalc_fn := Some Omap2_clksel_recalc,
     clk_set_rate_fn := Some Ti814x_clksel_set_rate,
     clk_init_fn := Some Omap2_init_clksel_parent, clk_clksel_reg := 0xfa1c52f8,
     clk_clksel_mask := 3, clk_clksel := Some hd_venc_a_mux_sel,
     clk_clkdm_name := Some ''alwon_l3_slow_clkdm''\<rparr>"

definition hd_dac_ck :: clk where
  "hd_dac_ck = clk_zero
    \<lparr>clk_ops := Clkops_null, clk_name := ''hd_dac_ck'',
     clk_parent := Some ID_hd_venc_a_ck, clk_recalc_fn := Some Followparent_recalc,
     clk_clkdm_name := Some ''alwon_l3_slow_clkdm''\<rparr>"

definition hdmi_phy_gclk_ck :: clk where
  "hdmi_phy_gclk_ck = clk_zero
    \<lparr>clk_ops := Clkops_null, clk_name := ''hdmi_phy_gclk_ck'',
     clk_parent := Some ID_hd_venc_d_ck, clk_recalc_fn := Some Followparent_recalc,
     clk_clkdm_name := Some ''alwon_l3_slow_clkdm''\<rparr>"

definition sd_venc_ck :: clk where
  "sd_venc_ck = clk_zero
    \<lparr>clk_ops := Clkops_null, clk_name := ''sd_venc_ck'',
     clk_parent := Some ID_video0_dpll_ck, clk_recalc_fn := Some Followparent_recalc,
     clk_clkdm_name := Some ''alwon_l3_slow_clkdm''\<rparr>"

definition sysclk14_ck :: clk where
  "sysclk14_ck = clk_zero
    \<lparr>clk_ops := Clkops_null, clk_name := ''sysclk14_ck'',
     clk_recalc_fn := Some Omap2_clksel_recalc,
     clk_init_fn := Some Omap2_init_clksel_parent, clk_clksel_reg := 0xfa180370,
     clk_clksel_mask := 3, clk_clksel := Some sysclk14_ck_mux_sel\<rparr>"

definition tppss_stc0_fck :: clk where
  "tppss_stc0_fck = clk_zero
    \<lparr>clk_ops := Clkops_null, clk_name := ''tppss_stc0_fck'',
     clk_recalc_fn := Some Omap2_clksel_recalc,
     clk_init_fn := Some Omap2_init_clksel_parent, clk_clksel_reg := 0xfa1c52c8,
     clk_clksel_mask := 0x30000, clk_clksel := Some video_dpll_xref_ck_mux_sel,
     clk_clkdm_name := Some ''alwon_l3_slow_clkdm''\<rparr>"

definition audio_dpll_clk2_ck :: clk where
  "audio_dpll_clk2_ck = clk_zero
    \<lparr>clk_ops := Clkops_null, clk_name := ''audio_dpll_clk2_ck'',
     clk_recalc_fn := Some Omap2_clksel_recalc,
     clk_init_fn := Some Omap2_init_clksel_parent, clk_clksel_reg := 0xfa1c52c8,
     clk_clksel_mask := 0xc0000, clk_clksel := Some tppss_tso_dclk_mux_sel\<rparr>"

definition audio_dpll_clkin_ck :: clk where
  "audio_dpll_clkin_ck = clk_zero
    \<lparr>clk_ops := Clkops_null, clk_name := ''audio_dpll_clkin_ck'',
     clk_recalc_fn := Some Omap2_clksel_recalc,
     clk_init_fn := Some Omap2_init_clksel_parent, clk_clksel_reg := 0xfa1c52c0,
     clk_clksel_mask := 0x1000000, clk_clksel := Some osc_audio_dpll_mux_sel\<rparr>"

definition audio_dpll_ck :: clk where
  "audio_dpll_ck = clk_zero
    \<lparr>clk_ops := Clkops_ti814x_dpll, clk_name := ''audio_dpll_ck'',
     clk_parent := Some ID_audio_dpll_clkin_ck, clk_recalc_fn := Some Ti814x_dpll_recalc,
     clk_set_rate_fn := Some Ti814x_dpll_set_rate,
     clk_round_rate_fn := Some Ti814x_dpll_round_rate, clk_dpll_data := Some 12,
     clk_clkdm_name := Some ''alwon_l3_slow_clkdm''\<rparr>"

definition audio_dpll_clk1_ck :: clk where
  "audio_dpll_clk1_ck = clk_zero
    \<lparr>clk_ops := Clkops_null, clk_name := ''audio_dpll_clk1_ck'',
     clk_parent := Some ID_rtc_divider_ck, clk_recalc_fn := Some Omap2_clksel_recalc,
     clk_init_fn := Some Omap2_init_clksel_parent, clk_clksel_reg := 0xfa18035c,
     clk_clksel_mask := 7, clk_clksel := Some sysclk18_a_div,
     clk_clkdm_name := Some ''alwon_l3_slow_clkdm''\<rparr>"

definition audio_prcm_clkin_ck :: clk where
  "audio_prcm_clkin_ck = clk_zero
    \<lparr>clk_ops := Clkops_null, clk_name := ''audio_prcm_clkin_ck'',
     clk_recalc_fn := Some Omap2_clksel_recalc,
     clk_init_fn := Some Omap2_init_clksel_parent, clk_clksel_reg := 0xfa1c52f0,
     clk_clksel_mask := 1, clk_clksel := Some rtc_clkin32_mux_sel,
     clk_clkdm_name := Some ''alwon_l3_slow_clkdm''\<rparr>"

definition sysclk18_ck :: clk where
  "sysclk18_ck = clk_zero
    \<lparr>clk_ops := Clkops_null, clk_name := ''sysclk18_ck'',
     clk_recalc_fn := Some Omap2_clksel_recalc,
     clk_init_fn := Some Omap2_init_clksel_parent, clk_clksel_reg := 0xfa180378,
     clk_clksel_mask := 1, clk_clksel := Some sysclk18_mux_sel\<rparr>"

definition rtc_c32k_fck :: clk where
  "rtc_c32k_fck = clk_zero
    \<lparr>clk_ops := Clkops_null, clk_name := ''rtc_c32k_fck'',
     clk_parent := Some ID_sysclk18_ck, clk_recalc_fn := Some Followparent_recalc,
     clk_clkdm_name := Some ''alwon_l3_slow_clkdm''\<rparr>"

definition sysclk19_ck :: clk where
  "sysclk19_ck = clk_zero
    \<lparr>clk_ops := Clkops_null, clk_name := ''sysclk19_ck'',
     clk_parent := Some ID_audio_dpll_clk2_ck, clk_recalc_fn := Some Omap2_clksel_recalc,
     clk_set_rate_fn := Some Omap2_clksel_set_rate,
     clk_round_rate_fn := Some Omap2_clksel_round_rate,
     clk_init_fn := Some Omap2_init_clksel_parent, clk_clksel_reg := 0xfa18034c,
     clk_clksel_mask := 7, clk_clksel := Some sysclk19_b_div\<rparr>"

definition sysclk20_ck :: clk where
  "sysclk20_ck = clk_zero
    \<lparr>clk_ops := Clkops_null, clk_name := ''sysclk20_ck'',
     clk_parent := Some ID_audio_dpll_ck, clk_recalc_fn := Some Omap2_clksel_recalc,
     clk_set_rate_fn := Some Omap2_clksel_set_rate,
     clk_round_rate_fn := Some Omap2_clksel_round_rate,
     clk_init_fn := Some Omap2_init_clksel_parent, clk_clksel_reg := 0xfa180350,
     clk_clksel_mask := 7, clk_clksel := Some sysclk20_c_div\<rparr>"

definition sysclk21_ck :: clk where
  "sysclk21_ck = clk_zero
    \<lparr>clk_ops := Clkops_null, clk_name := ''sysclk21_ck'',
     clk_parent := Some ID_video012_dpll_muxout_ck,
     clk_recalc_fn := Some Omap2_clksel_recalc,
     clk_set_rate_fn := Some Omap2_clksel_set_rate,
     clk_round_rate_fn := Some Omap2_clksel_round_rate,
     clk_init_fn := Some Omap2_init_clksel_parent, clk_clksel_reg := 0xfa180354,
     clk_clksel_mask := 7, clk_clksel := Some sysclk21_d_div\<rparr>"

definition sysclk22_ck :: clk where
  "sysclk22_ck = clk_zero
    \<lparr>clk_ops := Clkops_null, clk_name := ''sysclk22_ck'',
     clk_parent := Some ID_osc0_clkin_ck, clk_recalc_fn := Some Followparent_recalc,
     clk_set_rate_fn := Some Omap2_clksel_set_rate,
     clk_round_rate_fn := Some Omap2_clksel_round_rate, clk_clksel_reg := 0xfa180358,
     clk_clksel_mask := 7, clk_clksel := Some sysclk22_e_div\<rparr>"

definition audio_prcm1_out_ck :: clk where
  "audio_prcm1_out_ck = clk_zero
    \<lparr>clk_ops := Clkops_ti81xx_dflt_wait, clk_name := ''audio_prcm1_out_ck'',
     clk_enable_reg := 0xfa18154c, clk_recalc_fn := Some Omap2_clksel_recalc,
     clk_set_rate_fn := Some Ti814x_clksel_set_rate,
     clk_init_fn := Some Omap2_init_clksel_parent, clk_enable_bit := 1,
     clk_clksel_reg := 0xfa180388, clk_clksel_mask := 3,
     clk_clksel := Some audio_prcm_mux_sel\<rparr>"

definition mcbsp_fck :: clk where
  "mcbsp_fck = clk_zero
    \<lparr>clk_ops := Clkops_null, clk_name := ''mcbsp_fck'',
     clk_recalc_fn := Some Omap2_clksel_recalc,
     clk_set_rate_fn := Some Ti814x_clksel_set_rate,
     clk_init_fn := Some Omap2_init_clksel_parent, clk_clksel_reg := 0xfa1c52d8,
     clk_clksel_mask := 7, clk_clksel := Some mcbsp_clks_mux_sel,
     clk_clkdm_name := Some ''alwon_l3_slow_clkdm''\<rparr>"

definition mcasp1_fck :: clk where
  "mcasp1_fck = clk_zero
    \<lparr>clk_ops := Clkops_ti81xx_dflt_wait, clk_name := ''mcasp1_fck'',
     clk_enable_reg := 0xfa181540, clk_recalc_fn := Some Omap2_clksel_recalc,
     clk_set_rate_fn := Some Ti814x_clksel_set_rate,
     clk_init_fn := Some Omap2_init_clksel_parent, clk_enable_bit := 1,
     clk_clksel_reg := 0xfa18037c, clk_clksel_mask := 3,
     clk_clksel := Some audio_prcm_mux_sel, clk_clkdm_name := Some ''alwon_l3_slow_clkdm''\<rparr>"

definition mcasp2_fck :: clk where
  "mcasp2_fck = clk_zero
    \<lparr>clk_ops := Clkops_ti81xx_dflt_wait, clk_name := ''mcasp2_fck'',
     clk_enable_reg := 0xfa181544, clk_recalc_fn := Some Omap2_clksel_recalc,
     clk_set_rate_fn := Some Ti814x_clksel_set_rate,
     clk_init_fn := Some Omap2_init_clksel_parent, clk_enable_bit := 1,
     clk_clksel_reg := 0xfa180380, clk_clksel_mask := 3,
     clk_clksel := Some audio_prcm_mux_sel, clk_clkdm_name := Some ''alwon_l3_slow_clkdm''\<rparr>"

definition mcasp3_fck :: clk where
  "mcasp3_fck = clk_zero
    \<lparr>clk_ops := Clkops_ti81xx_dflt_wait, clk_name := ''mcasp3_fck'',
     clk_enable_reg := 0xfa181548, clk_recalc_fn := Some Omap2_clksel_recalc,
     clk_set_rate_fn := Some Ti814x_clksel_set_rate,
     clk_init_fn := Some Omap2_init_clksel_parent, clk_enable_bit := 1,
     clk_clksel_reg := 0xfa180384, clk_clksel_mask := 3,
     clk_clksel := Some audio_prcm_mux_sel, clk_clkdm_name := Some ''alwon_l3_slow_clkdm''\<rparr>"

definition hdmi_i2s_ck :: clk where
  "hdmi_i2s_ck = clk_zero
    \<lparr>clk_ops := Clkops_ti81xx_dflt_wait, clk_name := ''hdmi_i2s_ck'',
     clk_enable_reg := 0xfa180824, clk_recalc_fn := Some Omap2_clksel_recalc,
     clk_set_rate_fn := Some Ti814x_clksel_set_rate,
     clk_init_fn := Some Omap2_init_clksel_parent, clk_enable_bit := 1,
     clk_clksel_reg := 0xfa1803ac, clk_clksel_mask := 3,
     clk_clksel := Some audio_prcm_mux_sel, clk_clkdm_name := Some ''alwon_l3_slow_clkdm''\<rparr>"

definition hdmi_i2s_fck :: clk where
  "hdmi_i2s_fck = clk_zero
    \<lparr>clk_ops := Clkops_null, clk_name := ''hdmi_i2s_fck'',
     clk_recalc_fn := Some Omap2_clksel_recalc,
     clk_set_rate_fn := Some Ti814x_clksel_set_rate,
     clk_init_fn := Some Omap2_init_clksel_parent, clk_clksel_reg := 0xfa1c52dc,
     clk_clksel_mask := 7, clk_clksel := Some hdmi_i2s_mclk_mux_sel,
     clk_clkdm_name := Some ''alwon_l3_slow_clkdm''\<rparr>"

definition tppss_tso_fck :: clk where
  "tppss_tso_fck = clk_zero
    \<lparr>clk_ops := Clkops_ti81xx_dflt_wait, clk_name := ''tppss_tso_fck'',
     clk_parent := Some ID_sysclk19_ck, clk_enable_reg := 0xfa180554,
     clk_recalc_fn := Some Followparent_recalc, clk_enable_bit := 1,
     clk_clkdm_name := Some ''alwon_l3_slow_clkdm''\<rparr>"

definition atl_fck :: clk where
  "atl_fck = clk_zero
    \<lparr>clk_ops := Clkops_ti81xx_dflt_wait, clk_name := ''atl_fck'',
     clk_enable_reg := 0xfa181570, clk_recalc_fn := Some Omap2_clksel_recalc,
     clk_init_fn := Some Omap2_init_clksel_parent, clk_enable_bit := 1,
     clk_clksel_reg := 0xfa1c52dc, clk_clksel_mask := 7,
     clk_clksel := Some atlp_clk_mux_sel, clk_clkdm_name := Some ''alwon_l3_slow_clkdm''\<rparr>"

definition gpio234_dbck :: clk where
  "gpio234_dbck = clk_zero
    \<lparr>clk_ops := Clkops_ti81xx_dflt_wait, clk_name := ''gpio234_dbck'',
     clk_parent := Some ID_sysclk18_ck, clk_enable_reg := 0xfa181560,
     clk_recalc_fn := Some Followparent_recalc, clk_enable_bit := 8,
     clk_clkdm_name := Some ''alwon_l3_slow_clkdm''\<rparr>"

definition gpio1_dbck :: clk where
  "gpio1_dbck = clk_zero
    \<lparr>clk_ops := Clkops_ti81xx_dflt_wait, clk_name := ''gpio1_dbck'',
     clk_parent := Some ID_sysclk18_ck, clk_enable_reg := 0xfa18155c,
     clk_recalc_fn := Some Followparent_recalc, clk_enable_bit := 8,
     clk_clkdm_name := Some ''alwon_l3_slow_clkdm''\<rparr>"

definition gpio2_dbck :: clk where
  "gpio2_dbck = clk_zero
    \<lparr>clk_ops := Clkops_null, clk_name := ''gpio2_dbck'',
     clk_parent := Some ID_gpio234_dbck, clk_recalc_fn := Some Followparent_recalc,
     clk_clkdm_name := Some ''alwon_l3_slow_clkdm''\<rparr>"

definition gpio3_dbck :: clk where
  "gpio3_dbck = clk_zero
    \<lparr>clk_ops := Clkops_null, clk_name := ''gpio3_dbck'',
     clk_parent := Some ID_gpio234_dbck, clk_recalc_fn := Some Followparent_recalc,
     clk_clkdm_name := Some ''alwon_l3_slow_clkdm''\<rparr>"

definition gpio4_dbck :: clk where
  "gpio4_dbck = clk_zero
    \<lparr>clk_ops := Clkops_null, clk_name := ''gpio4_dbck'',
     clk_parent := Some ID_gpio234_dbck, clk_recalc_fn := Some Followparent_recalc,
     clk_clkdm_name := Some ''alwon_l3_slow_clkdm''\<rparr>"

definition rtc_fck :: clk where
  "rtc_fck = clk_zero
    \<lparr>clk_ops := Clkops_null, clk_name := ''rtc_fck'', clk_parent := Some ID_sysclk18_ck,
     clk_recalc_fn := Some Followparent_recalc,
     clk_clkdm_name := Some ''alwon_l3_slow_clkdm''\<rparr>"

definition mmchs1_dbck :: clk where
  "mmchs1_dbck = clk_zero
    \<lparr>clk_ops := Clkops_null, clk_name := ''mmchs1_dbck'',
     clk_parent := Some ID_sysclk18_ck, clk_recalc_fn := Some Followparent_recalc,
     clk_clkdm_name := Some ''alwon_l3_slow_clkdm''\<rparr>"

definition mmchs2_dbck :: clk where
  "mmchs2_dbck = clk_zero
    \<lparr>clk_ops := Clkops_null, clk_name := ''mmchs2_dbck'',
     clk_parent := Some ID_sysclk18_ck, clk_recalc_fn := Some Followparent_recalc,
     clk_clkdm_name := Some ''alwon_l3_slow_clkdm''\<rparr>"

definition mmchs3_dbck :: clk where
  "mmchs3_dbck = clk_zero
    \<lparr>clk_ops := Clkops_null, clk_name := ''mmchs3_dbck'',
     clk_parent := Some ID_sysclk18_ck, clk_recalc_fn := Some Followparent_recalc,
     clk_clkdm_name := Some ''alwon_l3_slow_clkdm''\<rparr>"

definition sync_timer_fck :: clk where
  "sync_timer_fck = clk_zero
    \<lparr>clk_ops := Clkops_null, clk_name := ''sync_timer_fck'',
     clk_parent := Some ID_sysclk18_ck, clk_recalc_fn := Some Followparent_recalc,
     clk_clkdm_name := Some ''alwon_l3_slow_clkdm''\<rparr>"

definition bandgaps_fck :: clk where
  "bandgaps_fck = clk_zero
    \<lparr>clk_ops := Clkops_null, clk_name := ''bandgaps_fck'',
     clk_parent := Some ID_sysclk18_ck, clk_recalc_fn := Some Followparent_recalc,
     clk_clkdm_name := Some ''alwon_l3_slow_clkdm''\<rparr>"

definition arm_oper_fck :: clk where
  "arm_oper_fck = clk_zero
    \<lparr>clk_ops := Clkops_null, clk_name := ''arm_oper_fck'',
     clk_parent := Some ID_sysclk18_ck, clk_recalc_fn := Some Followparent_recalc,
     clk_clkdm_name := Some ''alwon_l3_slow_clkdm''\<rparr>"

definition gpt1_fck :: clk where
  "gpt1_fck = clk_zero
    \<lparr>clk_ops := Clkops_null, clk_name := ''gpt1_fck'',
     clk_recalc_fn := Some Omap2_clksel_recalc,
     clk_init_fn := Some Omap2_init_clksel_parent, clk_clksel_reg := 0xfa1c52e0,
     clk_clksel_mask := 0x38, clk_clksel := Some gpt0to7_fclk_mux_sel,
     clk_clkdm_name := Some ''alwon_l3_slow_clkdm''\<rparr>"

definition gpt2_fck :: clk where
  "gpt2_fck = clk_zero
    \<lparr>clk_ops := Clkops_null, clk_name := ''gpt2_fck'',
     clk_recalc_fn := Some Omap2_clksel_recalc,
     clk_init_fn := Some Omap2_init_clksel_parent, clk_clksel_reg := 0xfa1c52e0,
     clk_clksel_mask := 0x1c0, clk_clksel := Some gpt0to7_fclk_mux_sel,
     clk_clkdm_name := Some ''alwon_l3_slow_clkdm''\<rparr>"

definition gpt3_fck :: clk where
  "gpt3_fck = clk_zero
    \<lparr>clk_ops := Clkops_null, clk_name := ''gpt3_fck'',
     clk_recalc_fn := Some Omap2_clksel_recalc,
     clk_init_fn := Some Omap2_init_clksel_parent, clk_clksel_reg := 0xfa1c52e0,
     clk_clksel_mask := 0xe00, clk_clksel := Some gpt0to7_fclk_mux_sel,
     clk_clkdm_name := Some ''alwon_l3_slow_clkdm''\<rparr>"

definition gpt4_fck :: clk where
  "gpt4_fck = clk_zero
    \<lparr>clk_ops := Clkops_null, clk_name := ''gpt4_fck'',
     clk_recalc_fn := Some Omap2_clksel_recalc,
     clk_init_fn := Some Omap2_init_clksel_parent, clk_clksel_reg := 0xfa1c52e0,
     clk_clksel_mask := 0x70000, clk_clksel := Some gpt0to7_fclk_mux_sel,
     clk_clkdm_name := Some ''alwon_l3_slow_clkdm''\<rparr>"

definition gpt5_fck :: clk where
  "gpt5_fck = clk_zero
    \<lparr>clk_ops := Clkops_null, clk_name := ''gpt5_fck'',
     clk_recalc_fn := Some Omap2_clksel_recalc,
     clk_init_fn := Some Omap2_init_clksel_parent, clk_clksel_reg := 0xfa1c52e0,
     clk_clksel_mask := 0x380000, clk_clksel := Some gpt0to7_fclk_mux_sel,
     clk_clkdm_name := Some ''alwon_l3_slow_clkdm''\<rparr>"

definition gpt6_fck :: clk where
  "gpt6_fck = clk_zero
    \<lparr>clk_ops := Clkops_null, clk_name := ''gpt6_fck'',
     clk_recalc_fn := Some Omap2_clksel_recalc,
     clk_init_fn := Some Omap2_init_clksel_parent, clk_clksel_reg := 0xfa1c52e0,
     clk_clksel_mask := 0x1c00000, clk_clksel := Some gpt0to7_fclk_mux_sel,
     clk_clkdm_name := Some ''alwon_l3_slow_clkdm''\<rparr>"

definition gpt7_fck :: clk where
  "gpt7_fck = clk_zero
    \<lparr>clk_ops := Clkops_null, clk_name := ''gpt7_fck'',
     clk_recalc_fn := Some Omap2_clksel_recalc,
     clk_init_fn := Some Omap2_init_clksel_parent, clk_clksel_reg := 0xfa1c52e0,
     clk_clksel_mask := 0xe000000, clk_clksel := Some gpt0to7_fclk_mux_sel,
     clk_clkdm_name := Some ''alwon_l3_slow_clkdm''\<rparr>"

definition gpt8_fck :: clk where
  "gpt8_fck = clk_zero
    \<lparr>clk_ops := Clkops_null, clk_name := ''gpt8_fck'',
     clk_recalc_fn := Some Omap2_clksel_recalc,
     clk_init_fn := Some Omap2_init_clksel_parent, clk_clksel_reg := 0xfa1c52e0,
     clk_clksel_mask := 7, clk_clksel := Some gpt0to7_fclk_mux_sel,
     clk_clkdm_name := Some ''alwon_l3_slow_clkdm''\<rparr>"

definition mcasp_auxclk_mux0_ck :: clk where
  "mcasp_auxclk_mux0_ck = clk_zero
    \<lparr>clk_ops := Clkops_null, clk_name := ''mcasp_auxclk_mux0_ck'',
     clk_recalc_fn := Some Omap2_clksel_recalc,
     clk_init_fn := Some Omap2_init_clksel_parent, clk_clksel_reg := 0xfa1c52cc,
     clk_clksel_mask := 1, clk_clksel := Some mlb0to1_clk_mux_sel\<rparr>"

definition mcasp4_fck :: clk where
  "mcasp4_fck = clk_zero
    \<lparr>clk_ops := Clkops_null, clk_name := ''mcasp4_fck'',
     clk_recalc_fn := Some Omap2_clksel_recalc,
     clk_init_fn := Some Omap2_init_clksel_parent, clk_clksel_reg := 0xfa1c52d0,
     clk_clksel_mask := 7, clk_clksel := Some mcasp0to6_auxclk_mux_sel,
     clk_clkdm_name := Some ''alwon_l3_slow_clkdm''\<rparr>"

definition mcasp5_fck :: clk where
  "mcasp5_fck = clk_zero
    \<lparr>clk_ops := Clkops_null, clk_name := ''mcasp5_fck'',
     clk_recalc_fn := Some Omap2_clksel_recalc,
     clk_init_fn := Some Omap2_init_clksel_parent, clk_clksel_reg := 0xfa1c52d0,
     clk_clksel_mask := 0x700, clk_clksel := Some mcasp0to6_auxclk_mux_sel,
     clk_clkdm_name := Some ''alwon_l3_slow_clkdm''\<rparr>"

definition mcasp6_fck :: clk where
  "mcasp6_fck = clk_zero
    \<lparr>clk_ops := Clkops_null, clk_name := ''mcasp6_fck'',
     clk_recalc_fn := Some Omap2_clksel_recalc,
     clk_init_fn := Some Omap2_init_clksel_parent, clk_clksel_reg := 0xfa1c52d0,
     clk_clksel_mask := 0x70000, clk_clksel := Some mcasp0to6_auxclk_mux_sel,
     clk_clkdm_name := Some ''alwon_l3_slow_clkdm''\<rparr>"

definition mcasp1_ahx_ck :: clk where
  "mcasp1_ahx_ck = clk_zero
    \<lparr>clk_ops := Clkops_null, clk_name := ''mcasp1_ahx_ck'',
     clk_recalc_fn := Some Omap2_clksel_recalc,
     clk_init_fn := Some Omap2_init_clksel_parent, clk_clksel_reg := 0xfa1c52d4,
     clk_clksel_mask := 7, clk_clksel := Some mcasp0to7_ahclk_mux_sel,
     clk_clkdm_name := Some ''alwon_l3_slow_clkdm''\<rparr>"

definition mcasp1_ahr_ck :: clk where
  "mcasp1_ahr_ck = clk_zero
    \<lparr>clk_ops := Clkops_null, clk_name := ''mcasp1_ahr_ck'',
     clk_recalc_fn := Some Omap2_clksel_recalc,
     clk_init_fn := Some Omap2_init_clksel_parent, clk_clksel_reg := 0xfa1c52d4,
     clk_clksel_mask := 0x38, clk_clksel := Some mcasp0to7_ahclk_mux_sel,
     clk_clkdm_name := Some ''alwon_l3_slow_clkdm''\<rparr>"

definition mcasp2_ahx_ck :: clk where
  "mcasp2_ahx_ck = clk_zero
    \<lparr>clk_ops := Clkops_null, clk_name := ''mcasp2_ahx_ck'',
     clk_recalc_fn := Some Omap2_clksel_recalc,
     clk_init_fn := Some Omap2_init_clksel_parent, clk_clksel_reg := 0xfa1c52d4,
     clk_clksel_mask := 0x1c0, clk_clksel := Some mcasp0to7_ahclk_mux_sel,
     clk_clkdm_name := Some ''alwon_l3_slow_clkdm''\<rparr>"

definition mcasp2_ahr_ck :: clk where
  "mcasp2_ahr_ck = clk_zero
    \<lparr>clk_ops := Clkops_null, clk_name := ''mcasp2_ahr_ck'',
     clk_recalc_fn := Some Omap2_clksel_recalc,
     clk_init_fn := Some Omap2_init_clksel_parent, clk_clksel_reg := 0xfa1c52d4,
     clk_clksel_mask := 0xe00, clk_clksel := Some mcasp0to7_ahclk_mux_sel,
     clk_clkdm_name := Some ''alwon_l3_slow_clkdm''\<rparr>"

definition mcasp3_ahx_ck :: clk where
  "mcasp3_ahx_ck = clk_zero
    \<lparr>clk_ops := Clkops_null, clk_name := ''mcasp3_ahx_ck'',
     clk_recalc_fn := Some Omap2_clksel_recalc,
     clk_init_fn := Some Omap2_init_clksel_parent, clk_clksel_reg := 0xfa1c52d4,
     clk_clksel_mask := 0x70000, clk_clksel := Some mcasp0to7_ahclk_mux_sel,
     clk_clkdm_name := Some ''alwon_l3_slow_clkdm''\<rparr>"

definition mcasp4_ahx_ck :: clk where
  "mcasp4_ahx_ck = clk_zero
    \<lparr>clk_ops := Clkops_null, clk_name := ''mcasp4_ahx_ck'',
     clk_recalc_fn := Some Omap2_clksel_recalc,
     clk_init_fn := Some Omap2_init_clksel_parent, clk_clksel_reg := 0xfa1c52d4,
     clk_clksel_mask := 0x380000, clk_clksel := Some mcasp0to7_ahclk_mux_sel,
     clk_clkdm_name := Some ''alwon_l3_slow_clkdm''\<rparr>"

definition mcasp5_ahx_ck :: clk where
  "mcasp5_ahx_ck = clk_zero
    \<lparr>clk_ops := Clkops_null, clk_name := ''mcasp5_ahx_ck'',
     clk_recalc_fn := Some Omap2_clksel_recalc,
     clk_init_fn := Some Omap2_init_clksel_parent, clk_clksel_reg := 0xfa1c52d4,
     clk_clksel_mask := 0x1c00000, clk_clksel := Some mcasp0to7_ahclk_mux_sel,
     clk_clkdm_name := Some ''alwon_l3_slow_clkdm''\<rparr>"

definition mcasp6_ahx_ck :: clk where
  "mcasp6_ahx_ck = clk_zero
    \<lparr>clk_ops := Clkops_null, clk_name := ''mcasp6_ahx_ck'',
     clk_recalc_fn := Some Omap2_clksel_recalc,
     clk_init_fn := Some Omap2_init_clksel_parent, clk_clksel_reg := 0xfa1c52d4,
     clk_clksel_mask := 0xe000000, clk_clksel := Some mcasp0to7_ahclk_mux_sel,
     clk_clkdm_name := Some ''alwon_l3_slow_clkdm''\<rparr>"

definition cpts_rft_clk_ck :: clk where
  "cpts_rft_clk_ck = clk_zero
    \<lparr>clk_ops := Clkops_null, clk_name := ''cpts_rft_clk_ck'',
     clk_recalc_fn := Some Omap2_clksel_recalc,
     clk_set_rate_fn := Some Ti814x_clksel_set_rate,
     clk_init_fn := Some Omap2_init_clksel_parent, clk_clksel_reg := 0xfa1c52e8,
     clk_clksel_mask := 0xe, clk_clksel := Some cpts0to4_rft_clk_mux_sel,
     clk_clkdm_name := Some ''alwon_l3_slow_clkdm''\<rparr>"

definition cpts_rft_div5_ck :: clk where
  "cpts_rft_div5_ck = clk_zero
    \<lparr>clk_ops := Clkops_null, clk_name := ''cpts_rft_div5_ck'',
     clk_parent := Some ID_cpts_rft_clk_ck,
     clk_recalc_fn := Some Omap_fixed_divisor_recalc, clk_fixed_div := 5,
     clk_clkdm_name := Some ''alwon_l3_slow_clkdm''\<rparr>"

definition cpts_rft_div2_ck :: clk where
  "cpts_rft_div2_ck = clk_zero
    \<lparr>clk_ops := Clkops_null, clk_name := ''cpts_rft_div2_ck'',
     clk_parent := Some ID_cpts_rft_clk_ck,
     clk_recalc_fn := Some Omap_fixed_divisor_recalc, clk_fixed_div := 2,
     clk_clkdm_name := Some ''alwon_l3_slow_clkdm''\<rparr>"

definition ljcb_serdesp_ck :: clk where
  "ljcb_serdesp_ck = clk_zero
    \<lparr>clk_ops := Clkops_null, clk_name := ''ljcb_serdesp_ck'', clk_rate := 100000000,
     clk_flags := 0x60\<rparr>"

definition ljcb_serdesn_ck :: clk where
  "ljcb_serdesn_ck = clk_zero
    \<lparr>clk_ops := Clkops_null, clk_name := ''ljcb_serdesn_ck'', clk_rate := 100000000,
     clk_flags := 0x60\<rparr>"

definition pciess_20m_ck :: clk where
  "pciess_20m_ck = clk_zero
    \<lparr>clk_ops := Clkops_null, clk_name := ''pciess_20m_ck'',
     clk_parent := Some ID_osc0_clkin_ck, clk_recalc_fn := Some Followparent_recalc\<rparr>"

definition pciessp_ck :: clk where
  "pciessp_ck = clk_zero
    \<lparr>clk_ops := Clkops_null, clk_name := ''pciessp_ck'',
     clk_parent := Some ID_ljcb_serdesp_ck, clk_recalc_fn := Some Followparent_recalc\<rparr>"

definition pciessn_ck :: clk where
  "pciessn_ck = clk_zero
    \<lparr>clk_ops := Clkops_null, clk_name := ''pciessn_ck'',
     clk_parent := Some ID_ljcb_serdesn_ck, clk_recalc_fn := Some Followparent_recalc\<rparr>"

definition pciess_50m_ck :: clk where
  "pciess_50m_ck = clk_zero
    \<lparr>clk_ops := Clkops_null, clk_name := ''pciess_50m_ck'', clk_rate := 50000000,
     clk_flags := 0x60\<rparr>"

definition pciess_125m_ck :: clk where
  "pciess_125m_ck = clk_zero
    \<lparr>clk_ops := Clkops_null, clk_name := ''pciess_125m_ck'', clk_rate := 125000000,
     clk_flags := 0x60\<rparr>"

definition satassp_ck :: clk where
  "satassp_ck = clk_zero
    \<lparr>clk_ops := Clkops_null, clk_name := ''satassp_ck'', clk_rate := 100000000,
     clk_flags := 0x60\<rparr>"

definition satassn_ck :: clk where
  "satassn_ck = clk_zero
    \<lparr>clk_ops := Clkops_null, clk_name := ''satassn_ck'', clk_rate := 100000000,
     clk_flags := 0x60\<rparr>"

definition satass_20m_ck :: clk where
  "satass_20m_ck = clk_zero
    \<lparr>clk_ops := Clkops_null, clk_name := ''satass_20m_ck'', clk_rate := 20000000,
     clk_flags := 0x60\<rparr>"

definition satass_50m_ck :: clk where
  "satass_50m_ck = clk_zero
    \<lparr>clk_ops := Clkops_null, clk_name := ''satass_50m_ck'', clk_rate := 50000000,
     clk_flags := 0x60\<rparr>"

definition satass_125m_ck :: clk where
  "satass_125m_ck = clk_zero
    \<lparr>clk_ops := Clkops_null, clk_name := ''satass_125m_ck'', clk_rate := 125000000,
     clk_flags := 0x60\<rparr>"

definition sata1ssp_ck :: clk where
  "sata1ssp_ck = clk_zero
    \<lparr>clk_ops := Clkops_null, clk_name := ''sata1ssp_ck'', clk_rate := 100000000,
     clk_flags := 0x20\<rparr>"

definition sata1ssn_ck :: clk where
  "sata1ssn_ck = clk_zero
    \<lparr>clk_ops := Clkops_null, clk_name := ''sata1ssn_ck'', clk_rate := 100000000,
     clk_flags := 0x20\<rparr>"

definition sata1ss_20m_ck :: clk where
  "sata1ss_20m_ck = clk_zero
    \<lparr>clk_ops := Clkops_null, clk_name := ''sata1ss_20m_ck'', clk_rate := 20000000,
     clk_flags := 0x20\<rparr>"

definition sata1ss_50m_ck :: clk where
  "sata1ss_50m_ck = clk_zero
    \<lparr>clk_ops := Clkops_null, clk_name := ''sata1ss_50m_ck'', clk_rate := 50000000,
     clk_flags := 0x20\<rparr>"

definition sata1ss_125m_ck :: clk where
  "sata1ss_125m_ck = clk_zero
    \<lparr>clk_ops := Clkops_null, clk_name := ''sata1ss_125m_ck'', clk_rate := 125000000,
     clk_flags := 0x20\<rparr>"

definition sata01_50m_mux_out_ck :: clk where
  "sata01_50m_mux_out_ck = clk_zero
    \<lparr>clk_ops := Clkops_null, clk_name := ''sata01_50m_mux_out_ck'',
     clk_recalc_fn := Some Omap2_clksel_recalc,
     clk_init_fn := Some Omap2_init_clksel_parent, clk_clksel_reg := 0xfa1c631c,
     clk_clksel_mask := 0x400, clk_clksel := Some sata01_50m_mux_sel,
     clk_clkdm_name := Some ''alwon_l3_slow_clkdm''\<rparr>"

definition gmac0to1_mux_out_ck :: clk where
  "gmac0to1_mux_out_ck = clk_zero
    \<lparr>clk_ops := Clkops_null, clk_name := ''gmac0to1_mux_out_ck'',
     clk_recalc_fn := Some Omap2_clksel_recalc,
     clk_init_fn := Some Omap2_init_clksel_parent, clk_clksel_reg := 0xfa1c52e8,
     clk_clksel_mask := 1, clk_clksel := Some gmac0to1_mux_sel,
     clk_clkdm_name := Some ''alwon_l3_slow_clkdm''\<rparr>"

definition sata01_125m_mux_out_ck :: clk where
  "sata01_125m_mux_out_ck = clk_zero
    \<lparr>clk_ops := Clkops_null, clk_name := ''sata01_125m_mux_out_ck'',
     clk_recalc_fn := Some Omap2_clksel_recalc,
     clk_init_fn := Some Omap2_init_clksel_parent, clk_clksel_reg := 0xfa1c631c,
     clk_clksel_mask := 0x400, clk_clksel := Some sata01_125m_mux_sel,
     clk_clkdm_name := Some ''alwon_l3_slow_clkdm''\<rparr>"

definition emac_rmii_fck :: clk where
  "emac_rmii_fck = clk_zero
    \<lparr>clk_ops := Clkops_null, clk_name := ''emac_rmii_fck'',
     clk_recalc_fn := Some Omap2_clksel_recalc,
     clk_init_fn := Some Omap2_init_clksel_parent, clk_clksel_reg := 0xfa1c52e8,
     clk_clksel_mask := 1, clk_clksel := Some gmac0to1_mux_sel,
     clk_clkdm_name := Some ''alwon_l3_slow_clkdm''\<rparr>"

definition emac_gmii_fck :: clk where
  "emac_gmii_fck = clk_zero
    \<lparr>clk_ops := Clkops_null, clk_name := ''emac_gmii_fck'',
     clk_parent := Some ID_satass_125m_ck, clk_recalc_fn := Some Followparent_recalc,
     clk_clkdm_name := Some ''alwon_l3_slow_clkdm''\<rparr>"

definition wdt1_fck :: clk where
  "wdt1_fck = clk_zero
    \<lparr>clk_ops := Clkops_null, clk_name := ''wdt1_fck'',
     clk_recalc_fn := Some Omap2_clksel_recalc,
     clk_init_fn := Some Omap2_init_clksel_parent, clk_clksel_reg := 0xfa1c52f4,
     clk_clksel_mask := 1, clk_clksel := Some wdt0to1_fclk_mux_sel,
     clk_clkdm_name := Some ''alwon_l3_slow_clkdm''\<rparr>"

definition wdt2_fck :: clk where
  "wdt2_fck = clk_zero
    \<lparr>clk_ops := Clkops_null, clk_name := ''wdt2_fck'', clk_parent := Some ID_rcosc_32k_ck,
     clk_recalc_fn := Some Followparent_recalc,
     clk_clkdm_name := Some ''alwon_l3_slow_clkdm''\<rparr>"

definition dummy_clk_ck :: clk where
  "dummy_clk_ck = clk_zero
    \<lparr>clk_ops := Clkops_null, clk_name := ''dummy_clk_ck'', clk_flags := 0x20\<rparr>"

definition clkout_prcm_mux_ck :: clk where
  "clkout_prcm_mux_ck = clk_zero
    \<lparr>clk_ops := Clkops_null, clk_name := ''clkout_prcm_mux_ck'',
     clk_recalc_fn := Some Omap2_clksel_recalc,
     clk_init_fn := Some Omap2_init_clksel_parent, clk_clksel_reg := 0xfa180100,
     clk_clksel_mask := 3, clk_clksel := Some clkout0to3_mux_sel,
     clk_clkdm_name := Some ''alwon_l3_slow_clkdm''\<rparr>"

definition clkout_prcm_ck :: clk where
  "clkout_prcm_ck = clk_zero
    \<lparr>clk_ops := Clkops_omap2_dflt, clk_name := ''clkout_prcm_ck'',
     clk_parent := Some ID_clkout_prcm_mux_ck, clk_enable_reg := 0xfa180100,
     clk_recalc_fn := Some Omap2_clksel_recalc, clk_enable_bit := 128,
     clk_clksel_reg := 0xfa180100, clk_clksel_mask := 0x38,
     clk_clksel := Some clkout_1to16_div, clk_clkdm_name := Some ''alwon_l3_slow_clkdm''\<rparr>"

definition sys_clkout1 :: clk where
  "sys_clkout1 = clk_zero
    \<lparr>clk_ops := Clkops_null, clk_name := ''sys_clkout1'',
     clk_recalc_fn := Some Omap2_clksel_recalc,
     clk_init_fn := Some Omap2_init_clksel_parent, clk_clksel_reg := 0xfa1c52e4,
     clk_clksel_mask := 0xf, clk_clksel := Some clkout0to10_mux_sel,
     clk_clkdm_name := Some ''alwon_l3_slow_clkdm''\<rparr>"

definition sys_clkout2 :: clk where
  "sys_clkout2 = clk_zero
    \<lparr>clk_ops := Clkops_null, clk_name := ''sys_clkout2'',
     clk_recalc_fn := Some Omap2_clksel_recalc,
     clk_init_fn := Some Omap2_init_clksel_parent, clk_clksel_reg := 0xfa1c52e4,
     clk_clksel_mask := 0xf0000, clk_clksel := Some clkout0to10_mux_sel,
     clk_clkdm_name := Some ''alwon_l3_slow_clkdm''\<rparr>"

section \<open>The table of clocks\<close>

text \<open>All clocks of the file, in its order, in groups of fifty.\<close>

definition ti814x_clk_objs_0 :: "clk list" where
  "ti814x_clk_objs_0 =
     [rcosc_32k_ck, sys_32k_clkin_ck, tclkin_ck, osc0_clkin_ck, osc1_clkin_ck,
      rtc_divider_ck, osc1_x1_ck, xref0_ck, xref1_ck, xref2_ck, tsi0_dck_ck, tsi1_dck_ck,
      external_ck, atl0_clk_ck, atl1_clk_ck, atl2_clk_ck, atl3_clk_ck, dcan0_fck, dcan1_fck,
      sr1_fck, sr2_fck, sr3_fck, sr4_fck, arm_dpll_clkin_ck, arm_dpll_ck, mpu_ck,
      dsp_dpll_ck, gem_fck, sgx_dpll_ck, sysclk23_ck, sgx_ck, sgx_sys_ck, sgx_mem_ck,
      hdvicp_dpll_ck, sysclk3_ck, ivahd0_ck, l3_dpll_clkin_ck, l3_dpll_ck, sysclk4_ck,
      l3_fast_ick, ivahd0_ick, exp_slot_ick, mmu_ick, gem_ick, tptc0_ick, tptc1_ick,
      tptc2_ick, tptc3_ick, ivahd0_sl2_ick, tpcc_ick]"

definition ti814x_clk_objs_1 :: "clk list" where
  "ti814x_clk_objs_1 =
     [fdif_ick, hdvpss_l3_ick, sysclk5_ck, l3_med_ick, l4_fast_ick, securess_ick, tpgsw_ick,
      sata_ick, sata1_ick, pcie_ck, vcp2_fck, mlb_ick, fdif_fck, dap_ick, ocmc_ram_ick,
      mmchs3_ick, cpsw_ick, gem_trc_fck, mcasp4_ick, mcasp5_ick, mcasp6_ick, hdvpss_l4_ick,
      sysclk6_ck, l3_slow_ick, l4_slow_ick, uart1_ick, uart2_ick, uart3_ick, uart4_ick,
      uart5_ick, uart6_ick, i2c1_ick, i2c2_ick, i2c3_ick, i2c4_ick, mcspi1_ick, mcspi2_ick,
      mcspi3_ick, mcspi4_ick, sdio_ick, gpt1_ick, gpt2_ick, gpt3_ick, gpt4_ick, gpt5_ick,
      gpt6_ick, gpt7_ick, gpt8_ick, gpio234_ick, gpio1_ick]"

definition ti814x_clk_objs_2 :: "clk list" where
  "ti814x_clk_objs_2 =
     [gpio2_ick, gpio3_ick, gpio4_ick, prcm_ick, smartcard1_ick, smartcard2_ick, mcasp1_ick,
      mcasp2_ick, mcasp3_ick, mcbsp_ick, gpmc_fck, hdmi_ick, mlbp_ick, wdt1_ick, wdt2_ick,
      sync_timer_ick, pata_ick, mailbox_ick, spinbox_ick, sr1_ick, sr2_ick, sr3_ick, sr4_ick,
      usbotg_ick, mmu_cfg_ick, p1500_ick, elm_ick, elm_fck, mmchs1_ick, mmchs2_ick, atl_ick,
      fdif_enb_ck, rtc_c32k_ick, dcan0_ick, dcan1_ick, iss_dpll_ck, iss_ick, isp_ick,
      tppss_tso_ick, iss_dpll_d2_ck, ducati_ick, hdvpss_dpll_ck, hdvpss_proc_fck,
      hdvpss_proc_d2_fck, dvi_ch1_ck, dvi_ch2_ck, dvi_ch3_ck, dvi_ch4_ck, dvoi1_ck, dvoi2_ck]"

definition ti814x_clk_objs_3 :: "clk list" where
  "ti814x_clk_objs_3 =
     [usb_dpll_clkin_ck, usb_dpll_ck, usb_phy0_rclk_ick, usb_phy1_rclk_ick, usb_dpll_div5_ck,
      sysclk10_ck, mcspi1_fck, mcspi2_fck, mcspi3_fck, mcspi4_fck, i2c02_ck, i2c13_ck,
      i2c1_fck, i2c2_fck, i2c3_fck, i2c4_fck, uart1_fck, uart2_fck, uart3_fck,
      hdmi_cec_dcc_fck, sysclk8_ck, mmchs1_fck, mmchs2_fck, mmchs3_fck, uart4_fck, uart5_fck,
      uart6_fck, securess_fck, tppss_fck, csi2_phy_fck, ddr_dpll_clkin_ck, ddr_dpll_ck,
      ddr0_phy_fck, ddr1_phy_fck, ddr0_half_fck, ddr1_half_fck, ddr0_phy_d2_fck,
      ddr0_emif_fck, dmm_phy_fck, ddr1_phy_d2_fck, ddr1_emif_fck, video0_dpll_clkin_ck,
      video0_dpll_ck, video1_dpll_clkin_ck, video1_dpll_ck, hdmi_dpll_clkin_ck, hdmi_dpll_ck,
      video_m_pclk_ck, hdmi_phy_tclk_ck, hdmi_dpll_muxout_ck]"

definition ti814x_clk_objs_4 :: "clk list" where
  "ti814x_clk_objs_4 =
     [video012_dpll_muxout_ck, sysclk16_d1mux_ck, sysclk16_b3mux_ck, sysclk14_c1mux_ck,
      sysclk16_ck, tppss_stc1_fck, hd_venc_g_ck, hd_venc_d_ck, hd_venc_a_ck, hd_dac_ck,
      hdmi_phy_gclk_ck, sd_venc_ck, sysclk14_ck, tppss_stc0_fck, audio_dpll_clk2_ck,
      audio_dpll_clkin_ck, audio_dpll_ck, audio_dpll_clk1_ck, audio_prcm_clkin_ck,
      sysclk18_ck, rtc_c32k_fck, sysclk19_ck, sysclk20_ck, sysclk21_ck, sysclk22_ck,
      audio_prcm1_out_ck, mcbsp_fck, mcasp1_fck, mcasp2_fck, mcasp3_fck, hdmi_i2s_ck,
      hdmi_i2s_fck, tppss_tso_fck, atl_fck, gpio234_dbck, gpio1_dbck, gpio2_dbck, gpio3_dbck,
      gpio4_dbck, rtc_fck, mmchs1_dbck, mmchs2_dbck, mmchs3_dbck, sync_timer_fck,
      bandgaps_fck, arm_oper_fck, gpt1_fck, gpt2_fck, gpt3_fck, gpt4_fck]"

definition ti814x_clk_objs_5 :: "clk list" where
  "ti814x_clk_objs_5 =
     [gpt5_fck, gpt6_fck, gpt7_fck, gpt8_fck, mcasp_auxclk_mux0_ck, mcasp4_fck, mcasp5_fck,
      mcasp6_fck, mcasp1_ahx_ck, mcasp1_ahr_ck, mcasp2_ahx_ck, mcasp2_ahr_ck, mcasp3_ahx_ck,
      mcasp4_ahx_ck, mcasp5_ahx_ck, mcasp6_ahx_ck, cpts_rft_clk_ck, cpts_rft_div5_ck,
      cpts_rft_div2_ck, ljcb_serdesp_ck, ljcb_serdesn_ck, pciess_20m_ck, pciessp_ck,
      pciessn_ck, pciess_50m_ck, pciess_125m_ck, satassp_ck, satassn_ck, satass_20m_ck,
      satass_50m_ck, satass_125m_ck, sata1ssp_ck, sata1ssn_ck, sata1ss_20m_ck,
      sata1ss_50m_ck, sata1ss_125m_ck, sata01_50m_mux_out_ck, gmac0to1_mux_out_ck,
      sata01_125m_mux_out_ck, emac_rmii_fck, emac_gmii_fck, wdt1_fck, wdt2_fck, dummy_clk_ck,
      clkout_prcm_mux_ck, clkout_prcm_ck, sys_clkout1, sys_clkout2]"

definition ti814x_clk_objs :: "clk list" where
  "ti814x_clk_objs = ti814x_clk_objs_0 @ ti814x_clk_objs_1 @ ti814x_clk_objs_2 @ ti814x_clk_objs_3 @ ti814x_clk_objs_4 @ ti814x_clk_objs_5"

text \<open>
  \<^verbatim>\<open>ti814x_clks\<close>: the clocks in the order of registration, with the answer of
  \<^verbatim>\<open>c->cpu & CK_TI814X\<close>.
\<close>

definition ti814x_clks :: "(clk_id \<times> bool) list" where
  "ti814x_clks =
     [(0, True), (1, True), (2, True), (3, True), (4, True), (5, True), (6, True), (7, True),
      (8, True), (9, True), (10, True), (11, True), (12, True), (13, True), (14, True),
      (15, True), (16, True), (17, True), (18, True), (19, True), (20, True), (21, True),
      (22, True), (23, True), (24, True), (25, True), (26, True), (27, True), (28, True),
      (29, True), (30, True), (31, True), (32, True), (33, True), (34, True), (35, True),
      (36, True), (37, True), (38, True), (39, True), (40, True), (41, True), (42, True),
      (43, True), (44, True), (45, True), (46, True), (47, True), (48, True), (49, True),
      (50, True), (51, True), (52, True), (53, True), (54, True), (55, True), (56, True),
      (57, True), (58, False), (59, True), (60, True), (61, True), (62, True), (63, True),
      (64, True), (65, True), (66, True), (67, True), (68, True), (69, True), (70, True),
      (71, True), (72, True), (73, True), (74, True), (75, True), (76, True), (77, True),
      (78, True), (79, True), (80, True), (81, True), (82, True), (83, True), (84, True),
      (85, True), (86, True), (87, True), (88, True), (89, True), (90, True), (91, True),
      (92, True), (93, True), (94, True), (95, True), (96, True), (97, True), (98, True),
      (99, True), (100, True), (101, True), (102, True), (103, True), (104, True),
      (105, True), (106, True), (107, True), (108, True), (109, True), (110, True),
      (111, True), (112, True), (113, True), (114, True), (115, True), (116, True),
      (117, True), (118, True), (119, True), (120, True), (121, True), (122, True),
      (123, True), (124, True), (125, True), (126, True), (127, True), (128, True),
      (129, True), (130, True), (131, True), (132, True), (133, True), (134, True),
      (135, True), (136, True), (137, True), (138, True), (139, True), (140, True),
      (141, True), (142, True), (143, True), (144, True), (145, True), (146, True),
      (147, True), (148, True), (149, True), (150, True), (151, True), (152, True),
      (153, True), (154, True), (155, True), (156, True), (157, True), (158, True),
      (159, True), (160, True), (161, True), (162, True), (163, True), (164, True),
      (165, True), (166, True), (167, True), (168, True), (169, True), (170, True),
      (171, True), (172, True), (173, True), (174, True), (175, True), (176, True),
      (177, True), (178, True), (179, True), (180, True), (181, True), (182, True),
      (183, True), (184, True), (185, True), (186, True), (187, True), (188, True),
      (189, True), (190, True), (191, True), (192, True), (193, True), (194, True),
      (195, True), (196, True), (197, True), (198, True), (199, True), (200, True),
      (201, True), (202, True), (203, True), (204, True), (205, True), (206, True),
      (207, True), (208, False), (209, False), (210, True), (211, True), (212, True),
      (213, True), (214, True), (215, True), (216, True), (217, True), (218, True),
      (219, True), (220, True), (221, True), (222, True), (223, True), (224, True),
      (225, True), (226, True), (227, True), (228, True), (229, True), (230, True),
      (231, True), (232, True), (233, True), (234, True), (235, True), (236, True),
      (237, True), (238, True), (239, True), (240, True), (241, True), (242, True),
      (243, True), (244, True), (245, True), (246, True), (247, True), (248, True),
      (249, True), (250, True), (251, True), (252, True), (253, True), (254, True),
      (255, True), (256, True), (257, True), (258, True), (259, True), (260, True),
      (261, True), (262, True), (263, True), (264, True), (265, True), (266, True),
      (267, False), (268, False), (269, True), (270, True), (272, True), (273, True),
      (271, True), (274, True), (275, True), (276, True), (277, True), (278, True),
      (279, True), (280, True), (281, False), (282, False), (283, False), (284, False),
      (285, False), (286, False), (288, False), (287, False), (289, True), (290, True),
      (291, True), (292, True), (293, False), (294, True), (295, True), (296, True),
      (297, True)]"

section \<open>Initialisation\<close>

text \<open>
  On a DM814x \<^verbatim>\<open>cpu_mask\<close> is \<^verbatim>\<open>RATE_IN_TI814X\<close>. The divisor of the USB
  DPLL output depends on the revision; \<open>es1_0\<close> is the test of
  \<^verbatim>\<open>omap_rev()\<close> for the first one.
\<close>

abbreviation (input) RATE_IN_TI814X :: u8 where "RATE_IN_TI814X \<equiv> 0x40"

definition update_fixed_divisors :: "'a kstate_scheme \<Rightarrow> 'a kstate_scheme" where
  "update_fixed_divisors s =
     clk_upd ID_usb_dpll_div5_ck (\<lambda>k. k\<lparr>clk_fixed_div := (if es1_0 s then 5 else 1)\<rparr>) s"

definition ti814x_clk_init :: "'a kstate_scheme \<Rightarrow> (int \<times> 'a kstate_scheme) option" where
  "ti814x_clk_init s =
     clk_init_table ti814x_clks (update_fixed_divisors (s\<lparr>cpu_mask := RATE_IN_TI814X\<rparr>))"

section \<open>Lemmas\<close>

lemmas clksel_defs =
  arm_dpll_mux_sel_def sysclk23_div_def sysclk3_div_def osc_l3dpll_clk_mux_sel_def
  sysclk6_div_def sysclk10_div_def sysclk8_div_def uart456_mux_sel_def secureSS_mux_sel_def
  osc_video0_dpll_mux_sel_def osc_video1_dpll_mux_sel_def osc_hdmi_dpll_mux_sel_def
  video_dpll_clk_mux_sel_def audio_dpll_prcm_mux_sel_def sysclk16_d1_div_def
  sysclk16_b3_div_def sysclk14_c1_div_def sysclk16_clk_mux_sel_def hdvpss_clk_mux_sel_def
  hd_venc_a_mux_sel_def sysclk14_ck_mux_sel_def video_dpll_xref_ck_mux_sel_def
  tppss_tso_dclk_mux_sel_def osc_audio_dpll_mux_sel_def sysclk18_a_div_def
  rtc_clkin32_mux_sel_def sysclk18_mux_sel_def sysclk19_b_div_def sysclk20_c_div_def
  sysclk21_d_div_def sysclk22_e_div_def audio_prcm_mux_sel_def mcbsp_clks_mux_sel_def
  hdmi_i2s_mclk_mux_sel_def atlp_clk_mux_sel_def gpt0to7_fclk_mux_sel_def
  mlb0to1_clk_mux_sel_def mcasp0to6_auxclk_mux_sel_def mcasp0to7_ahclk_mux_sel_def
  cpts0to4_rft_clk_mux_sel_def sata01_50m_mux_sel_def gmac0to1_mux_sel_def
  gmac0to1_385_mux_sel_def rmii_mux_sel_def sata01_125m_mux_sel_def gmii_mux_sel_def
  wdt0to1_fclk_mux_sel_def clkout0to3_mux_sel_def clkout0to3_385_mux_sel_def
  clkout_1to16_div_def clkout0to10_mux_sel_def clkout0to10_385_mux_sel_def

lemmas dpll_defs = ti814x_dplls_def dpll_zero_def
  arm_dpll_dd_def dsp_dpll_dd_def sgx_dpll_dd_def hdvicp_dpll_dd_def l3_dpll_dd_def
  iss_dpll_dd_def hdvpss_dpll_dd_def usb_dpll_dd_def ddr_dpll_dd_def video0_dpll_dd_def
  video1_dpll_dd_def hdmi_dpll_dd_def audio_dpll_dd_def

lemma clksel_parents:
  "map cs_parent arm_dpll_mux_sel = [3, 5]"
  "map cs_parent sysclk23_div = [28]"
  "map cs_parent sysclk3_div = [33]"
  "map cs_parent osc_l3dpll_clk_mux_sel = [3, 4]"
  "map cs_parent sysclk6_div = [38]"
  "map cs_parent sysclk10_div = [154]"
  "map cs_parent sysclk8_div = [154]"
  "map cs_parent uart456_mux_sel = [170, 155, 72]"
  "map cs_parent secureSS_mux_sel = [139, 154]"
  "map cs_parent osc_video0_dpll_mux_sel = [3, 4]"
  "map cs_parent osc_video1_dpll_mux_sel = [3, 4]"
  "map cs_parent osc_hdmi_dpll_mux_sel = [3, 4]"
  "map cs_parent video_dpll_clk_mux_sel = [196, 197]"
  "map cs_parent audio_dpll_prcm_mux_sel = [192, 199, 194]"
  "map cs_parent sysclk16_d1_div = [192]"
  "map cs_parent sysclk16_b3_div = [199]"
  "map cs_parent sysclk14_c1_div = [194]"
  "map cs_parent sysclk16_clk_mux_sel = [201, 202]"
  "map cs_parent hdvpss_clk_mux_sel = [194, 199]"
  "map cs_parent hd_venc_a_mux_sel = [199, 194, 192]"
  "map cs_parent sysclk14_ck_mux_sel = [202, 191, 203]"
  "map cs_parent video_dpll_xref_ck_mux_sel = [212, 7, 8, 9]"
  "map cs_parent tppss_tso_dclk_mux_sel = [139, 135, 10, 11]"
  "map cs_parent osc_audio_dpll_mux_sel = [3, 4]"
  "map cs_parent sysclk18_a_div = [5]"
  "map cs_parent rtc_clkin32_mux_sel = [5, 1]"
  "map cs_parent sysclk18_mux_sel = [218, 217]"
  "map cs_parent sysclk19_b_div = [214]"
  "map cs_parent sysclk20_c_div = [216]"
  "map cs_parent sysclk21_d_div = [200]"
  "map cs_parent sysclk22_e_div = [3]"
  "map cs_parent audio_prcm_mux_sel = [222, 223, 224]"
  "map cs_parent mcbsp_clks_mux_sel = [225, 7, 8, 9, 6]"
  "map cs_parent hdmi_i2s_mclk_mux_sel = [230, 7, 8, 9, 6]"
  "map cs_parent atlp_clk_mux_sel = [221, 216, 200]"
  "map cs_parent gpt0to7_fclk_mux_sel = [219, 7, 8, 9, 3, 6, 2]"
  "map cs_parent mlb0to1_clk_mux_sel = [61, 112]"
  "map cs_parent mcasp0to6_auxclk_mux_sel = [254, 216, 200, 7, 8, 9, 6]"
  "map cs_parent mcasp0to7_ahclk_mux_sel = [7, 8, 9, 6, 13, 14, 15, 16]"
  "map cs_parent cpts0to4_rft_clk_mux_sel = [192, 194, 216, 199, 37]"
  "map cs_parent sata01_50m_mux_sel = [279, 284]"
  "map cs_parent gmac0to1_mux_sel = [279, 12]"
  "map cs_parent gmac0to1_385_mux_sel = [279, 284]"
  "map cs_parent rmii_mux_sel = [287, 267]"
  "map cs_parent sata01_125m_mux_sel = [280, 285]"
  "map cs_parent gmii_mux_sel = [288, 268]"
  "map cs_parent wdt0to1_fclk_mux_sel = [5, 0]"
  "map cs_parent clkout0to3_mux_sel = [26, 33, 192, 5]"
  "map cs_parent clkout0to3_385_mux_sel = [293, 33, 192, 5]"
  "map cs_parent clkout_1to16_div = [294]"
  "map cs_parent clkout0to10_mux_sel = [295, 280, 275, 143, 139, 37, 3, 4, 25, 28, 0]"
  "map cs_parent clkout0to10_385_mux_sel = [295, 280, 275, 143, 139, 37, 3, 4, 25, 293, 0]"
  by (simp_all add: clksel_defs)

lemma dpll_inputs:
  "clk_bypass (ti814x_dplls ! 0) = 23" "clk_ref (ti814x_dplls ! 0) = 23"
  "clk_bypass (ti814x_dplls ! Suc 0) = 3" "clk_ref (ti814x_dplls ! Suc 0) = 3"
  "clk_bypass (ti814x_dplls ! 2) = 3" "clk_ref (ti814x_dplls ! 2) = 3"
  "clk_bypass (ti814x_dplls ! 3) = 3" "clk_ref (ti814x_dplls ! 3) = 3"
  "clk_bypass (ti814x_dplls ! 4) = 36" "clk_ref (ti814x_dplls ! 4) = 36"
  "clk_bypass (ti814x_dplls ! 5) = 3" "clk_ref (ti814x_dplls ! 5) = 3"
  "clk_bypass (ti814x_dplls ! 6) = 3" "clk_ref (ti814x_dplls ! 6) = 3"
  "clk_bypass (ti814x_dplls ! 7) = 150" "clk_ref (ti814x_dplls ! 7) = 150"
  "clk_bypass (ti814x_dplls ! 8) = 180" "clk_ref (ti814x_dplls ! 8) = 180"
  "clk_bypass (ti814x_dplls ! 9) = 191" "clk_ref (ti814x_dplls ! 9) = 191"
  "clk_bypass (ti814x_dplls ! 10) = 193" "clk_ref (ti814x_dplls ! 10) = 193"
  "clk_bypass (ti814x_dplls ! 11) = 195" "clk_ref (ti814x_dplls ! 11) = 195"
  "clk_bypass (ti814x_dplls ! 12) = 215" "clk_ref (ti814x_dplls ! 12) = 215"
  by (simp_all add: dpll_defs)

lemmas clk_defs_0 = ti814x_clk_objs_0_def clk_zero_def
  rcosc_32k_ck_def sys_32k_clkin_ck_def tclkin_ck_def osc0_clkin_ck_def osc1_clkin_ck_def
  rtc_divider_ck_def osc1_x1_ck_def xref0_ck_def xref1_ck_def xref2_ck_def tsi0_dck_ck_def
  tsi1_dck_ck_def external_ck_def atl0_clk_ck_def atl1_clk_ck_def atl2_clk_ck_def
  atl3_clk_ck_def dcan0_fck_def dcan1_fck_def sr1_fck_def sr2_fck_def sr3_fck_def sr4_fck_def
  arm_dpll_clkin_ck_def arm_dpll_ck_def mpu_ck_def dsp_dpll_ck_def gem_fck_def sgx_dpll_ck_def
  sysclk23_ck_def sgx_ck_def sgx_sys_ck_def sgx_mem_ck_def hdvicp_dpll_ck_def sysclk3_ck_def
  ivahd0_ck_def l3_dpll_clkin_ck_def l3_dpll_ck_def sysclk4_ck_def l3_fast_ick_def
  ivahd0_ick_def exp_slot_ick_def mmu_ick_def gem_ick_def tptc0_ick_def tptc1_ick_def
  tptc2_ick_def tptc3_ick_def ivahd0_sl2_ick_def tpcc_ick_def

lemmas clk_defs_1 = ti814x_clk_objs_1_def clk_zero_def
  fdif_ick_def hdvpss_l3_ick_def sysclk5_ck_def l3_med_ick_def l4_fast_ick_def
  securess_ick_def tpgsw_ick_def sata_ick_def sata1_ick_def pcie_ck_def vcp2_fck_def
  mlb_ick_def fdif_fck_def dap_ick_def ocmc_ram_ick_def mmchs3_ick_def cpsw_ick_def
  gem_trc_fck_def mcasp4_ick_def mcasp5_ick_def mcasp6_ick_def hdvpss_l4_ick_def
  sysclk6_ck_def l3_slow_ick_def l4_slow_ick_def uart1_ick_def uart2_ick_def uart3_ick_def
  uart4_ick_def uart5_ick_def uart6_ick_def i2c1_ick_def i2c2_ick_def i2c3_ick_def
  i2c4_ick_def mcspi1_ick_def mcspi2_ick_def mcspi3_ick_def mcspi4_ick_def sdio_ick_def
  gpt1_ick_def gpt2_ick_def gpt3_ick_def gpt4_ick_def gpt5_ick_def gpt6_ick_def gpt7_ick_def
  gpt8_ick_def gpio234_ick_def gpio1_ick_def

lemmas clk_defs_2 = ti814x_clk_objs_2_def clk_zero_def
  gpio2_ick_def gpio3_ick_def gpio4_ick_def prcm_ick_def smartcard1_ick_def smartcard2_ick_def
  mcasp1_ick_def mcasp2_ick_def mcasp3_ick_def mcbsp_ick_def gpmc_fck_def hdmi_ick_def
  mlbp_ick_def wdt1_ick_def wdt2_ick_def sync_timer_ick_def pata_ick_def mailbox_ick_def
  spinbox_ick_def sr1_ick_def sr2_ick_def sr3_ick_def sr4_ick_def usbotg_ick_def
  mmu_cfg_ick_def p1500_ick_def elm_ick_def elm_fck_def mmchs1_ick_def mmchs2_ick_def
  atl_ick_def fdif_enb_ck_def rtc_c32k_ick_def dcan0_ick_def dcan1_ick_def iss_dpll_ck_def
  iss_ick_def isp_ick_def tppss_tso_ick_def iss_dpll_d2_ck_def ducati_ick_def
  hdvpss_dpll_ck_def hdvpss_proc_fck_def hdvpss_proc_d2_fck_def dvi_ch1_ck_def dvi_ch2_ck_def
  dvi_ch3_ck_def dvi_ch4_ck_def dvoi1_ck_def dvoi2_ck_def

lemmas clk_defs_3 = ti814x_clk_objs_3_def clk_zero_def
  usb_dpll_clkin_ck_def usb_dpll_ck_def usb_phy0_rclk_ick_def usb_phy1_rclk_ick_def
  usb_dpll_div5_ck_def sysclk10_ck_def mcspi1_fck_def mcspi2_fck_def mcspi3_fck_def
  mcspi4_fck_def i2c02_ck_def i2c13_ck_def i2c1_fck_def i2c2_fck_def i2c3_fck_def i2c4_fck_def
  uart1_fck_def uart2_fck_def uart3_fck_def hdmi_cec_dcc_fck_def sysclk8_ck_def mmchs1_fck_def
  mmchs2_fck_def mmchs3_fck_def uart4_fck_def uart5_fck_def uart6_fck_def securess_fck_def
  tppss_fck_def csi2_phy_fck_def ddr_dpll_clkin_ck_def ddr_dpll_ck_def ddr0_phy_fck_def
  ddr1_phy_fck_def ddr0_half_fck_def ddr1_half_fck_def ddr0_phy_d2_fck_def ddr0_emif_fck_def
  dmm_phy_fck_def ddr1_phy_d2_fck_def ddr1_emif_fck_def video0_dpll_clkin_ck_def
  video0_dpll_ck_def video1_dpll_clkin_ck_def video1_dpll_ck_def hdmi_dpll_clkin_ck_def
  hdmi_dpll_ck_def video_m_pclk_ck_def hdmi_phy_tclk_ck_def hdmi_dpll_muxout_ck_def

lemmas clk_defs_4 = ti814x_clk_objs_4_def clk_zero_def
  video012_dpll_muxout_ck_def sysclk16_d1mux_ck_def sysclk16_b3mux_ck_def
  sysclk14_c1mux_ck_def sysclk16_ck_def tppss_stc1_fck_def hd_venc_g_ck_def hd_venc_d_ck_def
  hd_venc_a_ck_def hd_dac_ck_def hdmi_phy_gclk_ck_def sd_venc_ck_def sysclk14_ck_def
  tppss_stc0_fck_def audio_dpll_clk2_ck_def audio_dpll_clkin_ck_def audio_dpll_ck_def
  audio_dpll_clk1_ck_def audio_prcm_clkin_ck_def sysclk18_ck_def rtc_c32k_fck_def
  sysclk19_ck_def sysclk20_ck_def sysclk21_ck_def sysclk22_ck_def audio_prcm1_out_ck_def
  mcbsp_fck_def mcasp1_fck_def mcasp2_fck_def mcasp3_fck_def hdmi_i2s_ck_def hdmi_i2s_fck_def
  tppss_tso_fck_def atl_fck_def gpio234_dbck_def gpio1_dbck_def gpio2_dbck_def gpio3_dbck_def
  gpio4_dbck_def rtc_fck_def mmchs1_dbck_def mmchs2_dbck_def mmchs3_dbck_def
  sync_timer_fck_def bandgaps_fck_def arm_oper_fck_def gpt1_fck_def gpt2_fck_def gpt3_fck_def
  gpt4_fck_def

lemmas clk_defs_5 = ti814x_clk_objs_5_def clk_zero_def
  gpt5_fck_def gpt6_fck_def gpt7_fck_def gpt8_fck_def mcasp_auxclk_mux0_ck_def mcasp4_fck_def
  mcasp5_fck_def mcasp6_fck_def mcasp1_ahx_ck_def mcasp1_ahr_ck_def mcasp2_ahx_ck_def
  mcasp2_ahr_ck_def mcasp3_ahx_ck_def mcasp4_ahx_ck_def mcasp5_ahx_ck_def mcasp6_ahx_ck_def
  cpts_rft_clk_ck_def cpts_rft_div5_ck_def cpts_rft_div2_ck_def ljcb_serdesp_ck_def
  ljcb_serdesn_ck_def pciess_20m_ck_def pciessp_ck_def pciessn_ck_def pciess_50m_ck_def
  pciess_125m_ck_def satassp_ck_def satassn_ck_def satass_20m_ck_def satass_50m_ck_def
  satass_125m_ck_def sata1ssp_ck_def sata1ssn_ck_def sata1ss_20m_ck_def sata1ss_50m_ck_def
  sata1ss_125m_ck_def sata01_50m_mux_out_ck_def gmac0to1_mux_out_ck_def
  sata01_125m_mux_out_ck_def emac_rmii_fck_def emac_gmii_fck_def wdt1_fck_def wdt2_fck_def
  dummy_clk_ck_def clkout_prcm_mux_ck_def clkout_prcm_ck_def sys_clkout1_def sys_clkout2_def

end
