(* ===== verification/Clock_Refs.thy ===== *)
theory Clock_Refs
  imports Omap2_Clock
begin

text \<open>
  Reference counting in the clock tree. The use count of every registered clock is the
  number of references drivers hold on it plus the number of its children that are in use;
  \<^verbatim>\<open>omap2_clk_enable\<close> and \<^verbatim>\<open>omap2_clk_disable\<close> of
  \<^verbatim>\<open>mach-omap2/clock.c\<close> keep this, on the error path too. The interface
  \<^verbatim>\<open>struct clk_functions\<close> that \<^verbatim>\<open>plat-omap/clock.c\<close> calls is a
  locale, which the OMAP2 functions interpret.
\<close>

section \<open>Specification\<close>

text \<open>The power domains of the clocks' domains have their four counters.\<close>

definition clk_domains_ok :: "'a kstate_scheme \<Rightarrow> bool" where
  "clk_domains_ok s \<longleftrightarrow> (\<forall>c \<in> set (clocks s). \<forall>d p. clk_clkdm (clks s c) = Some d \<longrightarrow> clkdm_pwrdm (clkdms s d) = Some p
     \<longrightarrow> pwrdm_wf (pwrdms s p))"

definition clk_ops_ok :: "'a kstate_scheme \<Rightarrow> bool" where
  "clk_ops_ok s \<longleftrightarrow> (\<forall>c \<in> set (clocks s). clk_ops (clks s c) = Clkops_ti814x_dpll \<longrightarrow> clk_dpll_data (clks s c) \<noteq> None)"

definition enable_ok :: "'a kstate_scheme \<Rightarrow> bool" where
  "enable_ok s \<longleftrightarrow> tree_wf s \<and> clk_domains_ok s \<and> clk_ops_ok s"

text \<open>
  The use count of a clock is the number of references drivers hold on it (\<open>h\<close>) plus the
  number of its children that are in the set \<open>A\<close> of active clocks.
\<close>

definition refs :: "(clk_id \<Rightarrow> nat) \<Rightarrow> clk_id set \<Rightarrow> 'a kstate_scheme \<Rightarrow> bool" where
  "refs h A s \<longleftrightarrow> A \<subseteq> set (clocks s)
     \<and> (\<forall>y \<in> set (clocks s). usecount y s = int (h y) + int (card {x \<in> A. clk_parent (clks s x) = Some y}))"

definition active_upto :: "clk_id \<Rightarrow> clk_id set \<Rightarrow> 'a kstate_scheme \<Rightarrow> bool" where
  "active_upto c A s \<longleftrightarrow> (\<forall>x \<in> set (clocks s). x \<le> c \<longrightarrow> (x \<in> A \<longleftrightarrow> 0 < usecount x s))"

text \<open>Nothing above \<open>c\<close> changes.\<close>

definition above_same :: "clk_id \<Rightarrow> 'a kstate_scheme \<Rightarrow> clk_id set \<Rightarrow> 'a kstate_scheme \<Rightarrow> clk_id set \<Rightarrow> bool" where
  "above_same c s A t B \<longleftrightarrow> (\<forall>x > c. clk_usecount (clks t x) = clk_usecount (clks s x) \<and> (x \<in> B \<longleftrightarrow> x \<in> A))"

abbreviation disable_refs :: "clk_id \<Rightarrow> 'a kstate_scheme \<Rightarrow> (clk_id \<Rightarrow> nat) \<Rightarrow> clk_id set \<Rightarrow> bool" where
  "disable_refs c s h A \<equiv> enable_ok s \<longrightarrow> c \<in> set (clocks s) \<longrightarrow> refs h A s \<longrightarrow> active_upto c A s \<longrightarrow> 0 < h c \<longrightarrow>
     (\<exists>t B. omap2_clk_disable c s = Some t \<and> same_tree s t \<and> refs (h(c := h c - 1)) B t \<and> active_upto c B t \<and> above_same c s A t B
        \<and> (\<forall>x. usecount x t \<le> usecount x s))"

abbreviation in_use :: "'a kstate_scheme \<Rightarrow> clk_id set" where
  "in_use s \<equiv> {x \<in> set (clocks s). 0 < usecount x s}"

definition refs_ok :: "(clk_id \<Rightarrow> nat) \<Rightarrow> 'a kstate_scheme \<Rightarrow> bool" where
  "refs_ok h s \<longleftrightarrow> refs h (in_use s) s"

text \<open>One call of a driver, with the references the drivers hold.\<close>

inductive clk_step :: "'a kstate_scheme \<times> (clk_id \<Rightarrow> nat) \<Rightarrow> 'a kstate_scheme \<times> (clk_id \<Rightarrow> nat) \<Rightarrow> bool" where
  enable: "c \<in> set (clocks s) \<Longrightarrow> \<forall>x \<in> set (clocks s). usecount x s < 127 \<Longrightarrow> clk_enable (Some c) s = Some (0, t)
    \<Longrightarrow> clk_step (s, h) (t, h(c := Suc (h c)))"
| enable_fails: "c \<in> set (clocks s) \<Longrightarrow> \<forall>x \<in> set (clocks s). usecount x s < 127 \<Longrightarrow> clk_enable (Some c) s = Some (r, t) \<Longrightarrow> r \<noteq> 0
    \<Longrightarrow> clk_step (s, h) (t, h)"
| disable: "c \<in> set (clocks s) \<Longrightarrow> 0 < h c \<Longrightarrow> clk_disable (Some c) s = Some t \<Longrightarrow> clk_step (s, h) (t, h(c := h c - 1))"

section \<open>Lemmas\<close>

lemma same_tree_enable_ok:
  assumes "same_tree s t" "enable_ok s"
  shows "enable_ok t"
proof -
  have "\<forall>d. clkdm_pwrdm (clkdms t d) = clkdm_pwrdm (clkdms s d)" "\<forall>p. pwrdm_wf (pwrdms s p) \<longrightarrow> pwrdm_wf (pwrdms t p)"
    using assms(1) by (simp_all add: same_tree_def)
  then show ?thesis
    using assms by (auto simp: enable_ok_def same_tree_wf clk_domains_ok_def clk_ops_ok_def same_tree_fields [OF assms(1)])
qed

lemma refs_quiet: "quiet s t \<Longrightarrow> refs h A t = refs h A s"
  by (auto simp: refs_def quiet_def same_tree_fields)

lemma active_quiet: "quiet s t \<Longrightarrow> active_upto c A t = active_upto c A s"
  by (auto simp: active_upto_def quiet_def same_tree_fields)

lemma refs_inc: "refs h A s \<Longrightarrow> usecount c s < 127 \<Longrightarrow> refs (h(c := Suc (h c))) A (usecount_inc c s)"
  by (auto simp: refs_def same_tree_fields [OF same_tree_usecount(1)] sint_u8_inc)

lemma refs_pos: "refs h A s \<Longrightarrow> c \<in> set (clocks s) \<Longrightarrow> 0 < h c \<Longrightarrow> 0 < usecount c s"
  by (simp add: refs_def)

lemma refs_dec: "refs h A s \<Longrightarrow> c \<in> set (clocks s) \<Longrightarrow> 0 < h c \<Longrightarrow> refs (h(c := h c - 1)) A (usecount_dec c s)"
  using refs_pos [of h A s c]
  by (auto simp: refs_def same_tree_fields [OF same_tree_usecount(2)] sint_u8_dec)

lemma refs_edge:
  assumes "c \<notin> A" "c \<in> set (clocks s)" "clk_parent (clks s c) = Some p"
  shows "refs h (insert c A) s = refs (h(p := Suc (h p))) A s"
proof -
  have "card {x \<in> insert c A. clk_parent (clks s x) = Some y} = card {x \<in> A. clk_parent (clks s x) = Some y} + (if y = p then 1 else 0)"
    if "A \<subseteq> set (clocks s)" for y
  proof -
    have "finite A" using that finite_subset by blast
    moreover have "{x \<in> insert c A. clk_parent (clks s x) = Some y}
        = (if y = p then insert c {x \<in> A. clk_parent (clks s x) = Some y} else {x \<in> A. clk_parent (clks s x) = Some y})"
      using assms(3) by auto
    ultimately show ?thesis using assms(1) by simp
  qed
  then show ?thesis using assms(2) by (auto simp: refs_def)
qed

lemma refs_root:
  assumes "c \<in> set (clocks s)" "clk_parent (clks s c) = None"
  shows "refs h (insert c A) s = refs h A s"
proof -
  have "{x \<in> insert c A. clk_parent (clks s x) = Some y} = {x \<in> A. clk_parent (clks s x) = Some y}" for y using assms(2) by auto
  then show ?thesis using assms(1) by (simp add: refs_def)
qed

lemma clkdm_of_quiet:
  assumes "clk_domains_ok s" "c \<in> set (clocks s)"
  obtains t u where "clkdm_enable_of c s = Some (0, t)" "quiet s t" "clkdm_disable_of c s = Some u" "quiet s u"
proof (cases "clk_clkdm (clks s c)")
  case None
  then show thesis using that by (simp add: clkdm_enable_of_def clkdm_disable_of_def)
next
  case (Some d)
  then have "\<forall>p. clkdm_pwrdm (clkdms s d) = Some p \<longrightarrow> pwrdm_wf (pwrdms s p)" using assms by (auto simp: clk_domains_ok_def)
  note wf = this
  obtain t where t: "omap2_clkdm_clk_enable (Some d) s = Some (0, t)" "pm_step s t" using pm_step_clkdm_enable [OF wf] .
  obtain u where u: "omap2_clkdm_clk_disable (Some d) s = Some (0, u)" "pm_step s u" using pm_step_clkdm_disable [OF wf] .
  show thesis
    using that [of t u] t u Some by (simp add: clkdm_enable_of_def clkdm_disable_of_def pm_step_quiet)
qed

lemma gate_off:
  assumes "enable_ok s" "c \<in> set (clocks s)"
  obtains s1 s2 where "ops_disable (clk_ops (clks s c)) c s = Some s1" "clkdm_disable_of c s1 = Some s2" "quiet s s2"
proof -
  obtain s1 where s1: "ops_disable (clk_ops (clks s c)) c s = Some s1" "quiet s s1"
    using ops_disable_quiet [of "clk_ops (clks s c)" s c] assms by (auto simp: enable_ok_def clk_ops_ok_def)
  have "enable_ok s1" "c \<in> set (clocks s1)"
    using same_tree_enable_ok [OF _ assms(1)] s1(2) assms(2) by (auto simp: quiet_def same_tree_fields)
  then obtain s2 where "clkdm_disable_of c s1 = Some s2" "quiet s1 s2" using clkdm_of_quiet [of s1 c] by (metis enable_ok_def)
  then show thesis using that s1 quiet_trans by blast
qed

text \<open>Extending the active set past \<open>p\<close> up to \<open>c\<close>.\<close>

lemma active_extend:
  assumes "active_upto p B t" "above_same p s A t B" "same_tree s t"
    and "\<forall>x \<in> set (clocks s). p < x \<longrightarrow> x \<le> c \<longrightarrow> (x \<in> A \<longleftrightarrow> 0 < usecount x s)"
  shows "active_upto c B t"
  using assms unfolding active_upto_def above_same_def
  by (metis not_le_imp_less same_tree_fields(8))

lemma refs_children_zero:
  assumes "refs h A s" "c \<in> set (clocks s)" "usecount c s = int (h c)" "x \<in> A"
  shows "clk_parent (clks s x) \<noteq> Some c"
proof -
  have "card {x \<in> A. clk_parent (clks s x) = Some c} = 0" "finite A"
    using assms(1-3) by (auto simp: refs_def intro: finite_subset)
  then show ?thesis using assms(4) by auto
qed

text \<open>
  Releasing the parent of a clock: the edge of the clock becomes a reference on the parent
  that the disable gives back.
\<close>

lemma clk_disable_parent_step:
  fixes s :: "'a kstate_scheme"
  assumes IH: "\<And>p (s :: 'a kstate_scheme) h A. p < c \<Longrightarrow> disable_refs p s h A"
    and "enable_ok s" "c \<in> set (clocks s)" "refs h A s" "c \<in> A"
    and low: "\<forall>x \<in> set (clocks s). x < c \<longrightarrow> (x \<in> A \<longleftrightarrow> 0 < usecount x s)"
  shows "\<exists>t B. clk_disable_parent c s = Some t \<and> same_tree s t \<and> refs h B t \<and> c \<notin> B
    \<and> clk_usecount (clks t c) = clk_usecount (clks s c) \<and> (\<forall>x \<in> set (clocks s). x < c \<longrightarrow> (x \<in> B \<longleftrightarrow> 0 < usecount x t))
    \<and> above_same c s A t B \<and> (\<forall>x. usecount x t \<le> usecount x s)"
proof (cases "clk_parent (clks s c)")
  case None
  then have "refs h (A - {c}) s" using refs_root [of c s h "A - {c}"] assms(3-5) by (simp add: insert_absorb)
  moreover have "above_same c s A s (A - {c})" by (auto simp: above_same_def)
  moreover have "clk_disable_parent c s = Some s" using None by (simp add: clk_disable_parent_def)
  ultimately show ?thesis using low by (intro exI [of _ s] exI [of _ "A - {c}"]) auto
next
  case (Some p)
  have p: "p < c" "p \<in> set (clocks s)" using Some assms(2,3) by (auto simp: enable_ok_def tree_wf_def clk_wf_def)
  let ?h = "h(p := Suc (h p))"
  have r: "refs ?h (A - {c}) s" using refs_edge [of c "A - {c}" s p h] assms(3-5) Some by (simp add: insert_absorb)
  have "active_upto p (A - {c}) s" using low p(1) by (auto simp: active_upto_def)
  then obtain t B where t: "omap2_clk_disable p s = Some t" "same_tree s t" "refs (?h(p := ?h p - 1)) B t"
      "active_upto p B t" "above_same p s (A - {c}) t B" "\<forall>x. usecount x t \<le> usecount x s"
    using IH [OF p(1), of s ?h "A - {c}"] assms(2) p(2) r by auto
  have "clk_disable_parent c s = Some t" using Some t(1) by (simp add: clk_disable_parent_def)
  moreover have "?h(p := ?h p - 1) = h" by auto
  moreover from this have "refs h B t" using t(3) by metis
  moreover have "c \<notin> B" "clk_usecount (clks t c) = clk_usecount (clks s c)" "above_same c s A t B"
    using t(5) p(1) by (auto simp: above_same_def)
  moreover have "x \<in> B \<longleftrightarrow> 0 < usecount x t" if "x \<in> set (clocks s)" "x < c" for x
    using t(4,5) low that same_tree_fields(8) [OF t(2)] unfolding active_upto_def above_same_def
    by (cases "x \<le> p") auto
  ultimately show ?thesis using t(2,6) by blast
qed

lemma omap2_clk_disable_refs_aux: "disable_refs c s h A"
proof (induction c arbitrary: s h A rule: less_induct)
  case (less c)
  let ?s = "usecount_dec c s" and ?h = "h(c := h c - 1)"
  show ?case
  proof (intro impI)
    assume P: "enable_ok s" "c \<in> set (clocks s)" "refs h A s" "active_upto c A s" "0 < h c"
    have pos: "0 < usecount c s" using refs_pos P by blast
    have dec: "usecount c ?s = usecount c s - 1" using sint_u8_dec [OF pos] by simp
    have r: "refs ?h A ?s" using refs_dec P(2,3,5) by blast
    have e: "enable_ok ?s" using same_tree_enable_ok [OF same_tree_usecount(2) P(1)] .
    show "\<exists>t B. omap2_clk_disable c s = Some t \<and> same_tree s t \<and> refs ?h B t \<and> active_upto c B t \<and> above_same c s A t B
        \<and> (\<forall>x. usecount x t \<le> usecount x s)"
    proof (cases "1 < usecount c s")
      case True
      then have "omap2_clk_disable c s = Some ?s" using dec by (subst omap2_clk_disable.simps) simp
      moreover have "active_upto c A ?s" using P(4) dec True pos by (auto simp: active_upto_def)
      moreover have "above_same c s A ?s A" by (simp add: above_same_def)
      moreover have "\<forall>x. usecount x ?s \<le> usecount x s" using dec by simp
      ultimately show ?thesis using r same_tree_usecount(2) by blast
    next
      case False
      then have one: "usecount c s = 1" using pos by simp
      have "c \<in> set (clocks ?s)" using P(2) by simp
      from gate_off [OF e this]
      obtain s1 s2 where s1: "ops_disable (clk_ops (clks s c)) c ?s = Some s1" "clkdm_disable_of c s1 = Some s2" "quiet ?s s2"
        unfolding same_tree_fields(2) [OF same_tree_usecount(2)] .
      have st: "same_tree s s2" using s1(3) same_tree_trans [OF same_tree_usecount(2)] by (auto simp: quiet_def)
      have cl2: "clocks s2 = clocks s" using same_tree_fields(8) [OF st] .
      have cnt: "clk_usecount (clks s2 x) = (if x = c then clk_usecount (clks s c) - 1 else clk_usecount (clks s x))" for x
        using s1(3) by (simp add: quiet_def)
      have c0: "usecount c s2 = 0" using dec one s1(3) by (simp add: quiet_def)
      have cA: "c \<in> A" using P(2,4) pos by (auto simp: active_upto_def)
      have r2: "refs ?h A s2" using r refs_quiet [OF s1(3)] by simp
      have run: "omap2_clk_disable c s = clk_disable_parent c s2"
        using s1(1,2) one dec by (subst omap2_clk_disable.simps) (simp add: clk_disable_parent_def)
      have low: "\<forall>x \<in> set (clocks s2). x < c \<longrightarrow> (x \<in> A \<longleftrightarrow> 0 < usecount x s2)"
        using P(4) cl2 by (auto simp: active_upto_def cnt)
      obtain t B where t: "clk_disable_parent c s2 = Some t" "same_tree s2 t" "refs ?h B t" "c \<notin> B"
          "clk_usecount (clks t c) = clk_usecount (clks s2 c)" "\<forall>x \<in> set (clocks s2). x < c \<longrightarrow> (x \<in> B \<longleftrightarrow> 0 < usecount x t)"
          "above_same c s2 A t B" "\<forall>x. usecount x t \<le> usecount x s2"
        using clk_disable_parent_step [OF less.IH same_tree_enable_ok [OF st P(1)] _ r2 cA low] P(2) cl2 by auto
      have "active_upto c B t"
        using t(4,5,6) c0 cl2 same_tree_fields(8) [OF t(2)] by (auto simp: active_upto_def order_le_less)
      moreover have "above_same c s A t B" using t(7) by (simp add: above_same_def cnt)
      moreover have "usecount x t \<le> usecount x s" for x
        using spec [OF t(8), of x] c0 one by (simp add: cnt split: if_splits)
      ultimately show ?thesis using run t(1,3) same_tree_trans [OF st t(2)] by metis
    qed
  qed
qed

text \<open>The error path: the parent's reference is given back and the count of \<open>c\<close> returns to 0.\<close>

lemma oce_err2_refs:
  assumes "enable_ok s" "c \<in> set (clocks s)" "refs h A s" "active_upto c A s" "usecount c s = 1" "h c = 1"
  shows "\<exists>t B. oce_err2 c ret s = Some (ret, t) \<and> same_tree s t \<and> refs (h(c := 0)) B t
    \<and> active_upto c B t \<and> above_same c s A t B \<and> (\<forall>x. usecount x t \<le> usecount x s)"
proof -
  have cA: "c \<in> A" and low: "\<forall>x \<in> set (clocks s). x < c \<longrightarrow> (x \<in> A \<longleftrightarrow> 0 < usecount x s)"
    using assms(2,4,5) by (simp_all add: active_upto_def)
  obtain u B where u: "clk_disable_parent c s = Some u" "same_tree s u" "refs h B u" "c \<notin> B"
      "clk_usecount (clks u c) = clk_usecount (clks s c)" "\<forall>x \<in> set (clocks s). x < c \<longrightarrow> (x \<in> B \<longleftrightarrow> 0 < usecount x u)"
      "above_same c s A u B" "\<forall>x. usecount x u \<le> usecount x s"
    using clk_disable_parent_step [OF omap2_clk_disable_refs_aux assms(1-3) cA low] by blast
  let ?t = "usecount_dec c u"
  have cl: "clocks u = clocks s" using same_tree_fields(8) [OF u(2)] .
  have r: "refs (h(c := 0)) B ?t" using refs_dec [OF u(3), of c] assms(2,6) cl by simp
  have z: "usecount c ?t = 0" using u(5) assms(5) sint_u8_dec [of "clk_usecount (clks u c)"] by simp
  then have "\<forall>x. usecount x ?t \<le> usecount x s" using u(8) assms(5) by simp
  moreover have "active_upto c B ?t" using z u(4,6) cl by (auto simp: active_upto_def order_le_less)
  moreover have "above_same c s A ?t B" using u(7) by (simp add: above_same_def)
  moreover have "oce_err2 c ret s = Some (ret, ?t)" using u(1) by (simp add: oce_err2_def oce_err1_def)
  ultimately show ?thesis using r same_tree_trans [OF u(2) same_tree_usecount(2)] by blast
qed

lemma clk_enable_self_refs:
  assumes "enable_ok s" "c \<in> set (clocks s)" "refs h A s" "active_upto c A s" "usecount c s = 1" "h c = 1"
  shows "\<exists>r t B. clk_enable_self c s = Some (r, t) \<and> same_tree s t \<and> (r = 0 \<and> refs h B t \<or> r \<noteq> 0 \<and> refs (h(c := 0)) B t)
    \<and> active_upto c B t \<and> above_same c s A t B \<and> (\<forall>x. usecount x t \<le> usecount x s)"
proof -
  obtain s1 where s1: "clkdm_enable_of c s = Some (0, s1)" "quiet s s1"
    using clkdm_of_quiet [of s c] assms(1,2) by (auto simp: enable_ok_def)
  obtain r s2 where s2: "ops_enable (clk_ops (clks s1 c)) c s1 = (r, s2)" by (cases "ops_enable (clk_ops (clks s1 c)) c s1")
  have q: "quiet s s2" using quiet_trans [OF s1(2) ops_enable_quiet [of s1 "clk_ops (clks s1 c)" c]] s2 by simp
  show ?thesis
  proof (cases "r = 0")
    case True
    then have "clk_enable_self c s = Some (0, s2)" using s1(1) s2 by (simp add: clk_enable_self_def)
    moreover have "above_same c s A s2 A" using q by (simp add: above_same_def quiet_def)
    moreover have "same_tree s s2" "\<forall>x. usecount x s2 \<le> usecount x s" using q by (simp_all add: quiet_def)
    ultimately show ?thesis using refs_quiet [OF q] active_quiet [OF q] assms(3,4)
      by blast
  next
    case False
    have ok2: "enable_ok s2" "c \<in> set (clocks s2)"
      using same_tree_enable_ok [OF _ assms(1)] q assms(2) by (auto simp: quiet_def same_tree_fields)
    then obtain s3 where s3: "clkdm_disable_of c s2 = Some s3" "quiet s2 s3" using clkdm_of_quiet [of s2 c] by (auto simp: enable_ok_def)
    have q3: "quiet s s3" using quiet_trans [OF q s3(2)] .
    have "enable_ok s3" "c \<in> set (clocks s3)" "usecount c s3 = 1"
      using same_tree_enable_ok [OF _ assms(1)] q3 assms(2,5) by (auto simp: quiet_def same_tree_fields)
    moreover have "refs h A s3" "active_upto c A s3" using refs_quiet [OF q3] active_quiet [OF q3] assms(3,4) by simp_all
    ultimately obtain t B where t: "oce_err2 c r s3 = Some (r, t)" "same_tree s3 t" "refs (h(c := 0)) B t" "active_upto c B t" "above_same c s3 A t B"
        "\<forall>x. usecount x t \<le> usecount x s3"
      using oce_err2_refs [of s3 c h A r] assms(6) by blast
    have "clk_enable_self c s = Some (r, t)" using s1(1) s2 s3(1) t(1) False by (simp add: clk_enable_self_def oce_err3_def)
    moreover have "same_tree s t" using same_tree_trans [OF _ t(2)] q3 by (simp add: quiet_def)
    moreover have "above_same c s A t B" "\<forall>x. usecount x t \<le> usecount x s" using t(5,6) q3 by (simp_all add: above_same_def quiet_def)
    ultimately show ?thesis using t(3,4) False by blast
  qed
qed

lemma enable_finish:
  assumes "enable_ok s" "c \<in> set (clocks s)" "usecount c s = 0" "h c = 0"
    and s1: "same_tree (usecount_inc c s) s1" "refs (h(c := Suc (h c))) (insert c B1) s1"
      "\<forall>x \<in> set (clocks s). x < c \<longrightarrow> (x \<in> B1 \<longleftrightarrow> 0 < usecount x s1)"
      "clk_usecount (clks s1 c) = clk_usecount (clks (usecount_inc c s) c)" "above_same c (usecount_inc c s) A s1 B1"
      "\<forall>x. usecount x s1 \<le> usecount x s + 1"
  shows "\<exists>r t B. clk_enable_self c s1 = Some (r, t) \<and> same_tree s t
    \<and> (r = 0 \<and> refs (h(c := Suc (h c))) B t \<or> r \<noteq> 0 \<and> refs h B t)
    \<and> active_upto c B t \<and> above_same c s A t B \<and> (\<forall>x. usecount x t \<le> usecount x s + 1)"
proof -
  let ?h = "h(c := Suc (h c))"
  have u1: "usecount c s1 = 1" using s1(4) assms(3) sint_u8_inc [of "clk_usecount (clks s c)"] by simp
  have st: "same_tree s s1" using same_tree_trans [OF same_tree_usecount(1) s1(1)] .
  have ok: "enable_ok s1" "c \<in> set (clocks s1)" using same_tree_enable_ok [OF st assms(1)] assms(2) same_tree_fields(8) [OF st] by auto
  have "active_upto c (insert c B1) s1"
    using s1(3) u1 same_tree_fields(8) [OF st] by (auto simp: active_upto_def order_le_less)
  from clk_enable_self_refs [OF ok s1(2) this u1] assms(4)
  obtain r t B where t: "clk_enable_self c s1 = Some (r, t)" "same_tree s1 t" "r = 0 \<and> refs ?h B t \<or> r \<noteq> 0 \<and> refs (?h(c := 0)) B t"
      "active_upto c B t" "above_same c s1 (insert c B1) t B" "\<forall>x. usecount x t \<le> usecount x s1" by auto
  have "above_same c s A t B" using t(5) s1(5) by (auto simp: above_same_def)
  moreover have "?h(c := 0) = h" using assms(4) by auto
  moreover from this have "r = 0 \<and> refs ?h B t \<or> r \<noteq> 0 \<and> refs h B t" using t(3) by metis
  moreover have "\<forall>x. usecount x t \<le> usecount x s + 1" using s1(6) t(6) by (meson order_trans)
  ultimately show ?thesis using t(1,4) same_tree_trans [OF st t(2)] by blast
qed

lemma omap2_clk_enable_refs_aux:
  assumes "enable_ok s" "c \<in> set (clocks s)" "refs h A s" "active_upto c A s" "\<forall>x \<in> set (clocks s). x \<le> c \<longrightarrow> usecount x s < 127"
  shows "\<exists>r t B. omap2_clk_enable c s = Some (r, t) \<and> same_tree s t \<and> (r = 0 \<and> refs (h(c := Suc (h c))) B t \<or> r \<noteq> 0 \<and> refs h B t)
    \<and> active_upto c B t \<and> above_same c s A t B \<and> (\<forall>x. usecount x t \<le> usecount x s + 1)"
  using assms
proof (induction c arbitrary: s h A rule: less_induct)
  case (less c)
  let ?s = "usecount_inc c s" and ?h = "h(c := Suc (h c))"
  have lt: "usecount c s < 127" using less.prems(2,5) by simp
  have inc: "usecount c ?s = usecount c s + 1" using sint_u8_inc [OF lt] by simp
  have r: "refs ?h A ?s" using refs_inc [OF less.prems(3) lt] .
  have e: "enable_ok ?s" using same_tree_enable_ok [OF same_tree_usecount(1) less.prems(1)] .
  have nn: "0 \<le> usecount c s" using less.prems(2,3) by (simp add: refs_def)
  show ?case
  proof (cases "0 < usecount c s")
    case True
    then have "omap2_clk_enable c s = Some (0, ?s)" using inc by (subst omap2_clk_enable.simps) simp
    moreover have "active_upto c A ?s" using less.prems(4) inc True by (auto simp: active_upto_def)
    moreover have "above_same c s A ?s A" by (simp add: above_same_def)
    moreover have "\<forall>x. usecount x ?s \<le> usecount x s + 1" using inc by simp
    ultimately show ?thesis using r same_tree_usecount(1) by blast
  next
    case False
    then have zero: "usecount c s = 0" using nn by simp
    have hc: "h c = 0" using less.prems(2,3) zero by (simp add: refs_def)
    have cA: "c \<notin> A" using less.prems(2,4) zero by (simp add: active_upto_def)
    have par: "clk_parent (clks ?s c) = clk_parent (clks s c)" using same_tree_fields(3) [OF same_tree_usecount(1)] .
    note finish = enable_finish [where h = h and A = A, OF less.prems(1,2) zero hc]
    show ?thesis
    proof (cases "clk_parent (clks s c)")
      case None
      then have "omap2_clk_enable c s = clk_enable_self c ?s" using inc zero by (subst omap2_clk_enable.simps) simp
      moreover have "refs ?h (insert c A) ?s" using refs_root [of c ?s ?h A] par None r less.prems(2) by simp
      moreover have "\<forall>x \<in> set (clocks s). x < c \<longrightarrow> (x \<in> A \<longleftrightarrow> 0 < usecount x ?s)" using less.prems(4) by (simp add: active_upto_def)
      moreover have "above_same c ?s A ?s A" "\<forall>x. usecount x ?s \<le> usecount x s + 1" using inc by (simp_all add: above_same_def)
      ultimately show ?thesis using finish [OF same_tree_refl _ _ refl, of A] by metis
    next
      case (Some p)
      have p: "p < c" "p \<in> set (clocks s)" using Some less.prems(1,2) by (auto simp: enable_ok_def tree_wf_def clk_wf_def)
      have "active_upto p A ?s" "\<forall>x \<in> set (clocks ?s). x \<le> p \<longrightarrow> usecount x ?s < 127" "p \<in> set (clocks ?s)"
        using less.prems(4,5) p by (auto simp: active_upto_def)
      from less.IH [OF p(1) e this(3) r this(1,2)]
      obtain r1 s1 B1 where s1: "omap2_clk_enable p ?s = Some (r1, s1)" "same_tree ?s s1"
          "r1 = 0 \<and> refs (?h(p := Suc (?h p))) B1 s1 \<or> r1 \<noteq> 0 \<and> refs ?h B1 s1" "active_upto p B1 s1" "above_same p ?s A s1 B1"
          "\<forall>x. usecount x s1 \<le> usecount x ?s + 1" by blast
      have cl: "clocks s1 = clocks s" using same_tree_fields(8) [OF s1(2)] by simp
      have cB: "c \<notin> B1" "clk_usecount (clks s1 c) = clk_usecount (clks ?s c)" using s1(5) p(1) cA by (auto simp: above_same_def)
      have low: "\<forall>x \<in> set (clocks s). x < c \<longrightarrow> (x \<in> B1 \<longleftrightarrow> 0 < usecount x s1)"
        using s1(4,5) less.prems(4) cl unfolding active_upto_def above_same_def by (metis less_imp_le not_le usecount_inc_simps(1) nat_less_le)
      have ab: "above_same c ?s A s1 B1" using s1(5) p(1) by (simp add: above_same_def)
      have up: "usecount x s1 \<le> usecount x s + 1" for x
        using spec [OF s1(6), of x] cB(2) inc by (cases "x = c") simp_all
      show ?thesis
      proof (cases "r1 = 0")
        case True
        then have "omap2_clk_enable c s = clk_enable_self c s1" using s1(1) Some inc zero by (subst omap2_clk_enable.simps) simp
        moreover have "refs ?h (insert c B1) s1"
          using refs_edge [of c B1 s1 p ?h] cB(1) s1(3) True less.prems(2) cl Some par same_tree_fields(3) [OF s1(2), of c] by simp
        ultimately show ?thesis using finish [OF s1(2) _ low cB(2) ab] up by metis
      next
        case False
        let ?t = "usecount_dec c s1"
        have "omap2_clk_enable c s = Some (r1, ?t)"
          using s1(1) Some inc zero False by (subst omap2_clk_enable.simps) (simp add: oce_err1_def)
        moreover have "refs (?h(c := ?h c - 1)) B1 ?t" using refs_dec [of ?h B1 s1 c] s1(3) False less.prems(2) cl by simp
        moreover have "?h(c := ?h c - 1) = h" by auto
        moreover from calculation have "refs h B1 ?t" by metis
        moreover have "usecount c ?t = 0" using cB(2) inc zero sint_u8_dec [of "clk_usecount (clks s1 c)"] by simp
        then have "active_upto c B1 ?t" using low cl cB(1) by (auto simp: active_upto_def order_le_less)
        moreover have "above_same c s A ?t B1" using ab by (simp add: above_same_def)
        moreover have "\<forall>x. usecount x ?t \<le> usecount x s + 1" using up \<open>usecount c ?t = 0\<close> zero by simp
        moreover have "same_tree s ?t" by (meson same_tree_trans same_tree_usecount s1(2))
        ultimately show ?thesis using False by blast
      qed
    qed
  qed
qed

lemma refs_ok_active: "refs h B t \<Longrightarrow> \<forall>x \<in> set (clocks t). x \<in> B \<longleftrightarrow> 0 < usecount x t \<Longrightarrow> refs_ok h t"
proof -
  assume a: "refs h B t" "\<forall>x \<in> set (clocks t). x \<in> B \<longleftrightarrow> 0 < usecount x t"
  then have "B = in_use t" by (auto simp: refs_def)
  then show ?thesis using a(1) by (simp add: refs_ok_def)
qed

text \<open>From the active set up to \<open>c\<close> to the whole tree.\<close>

lemma refs_ok_above:
  assumes "refs h B t" "active_upto c B t" "above_same c s (in_use s) t B" "same_tree s t"
  shows "refs_ok h t"
proof (rule refs_ok_active [OF assms(1)], rule ballI)
  fix x assume x: "x \<in> set (clocks t)"
  show "x \<in> B \<longleftrightarrow> 0 < usecount x t"
    using assms(2,3) x same_tree_fields(8) [OF assms(4)] by (cases "x \<le> c") (auto simp: active_upto_def above_same_def)
qed

lemma omap2_clk_enable_refs:
  assumes "enable_ok s" "refs_ok h s" "c \<in> set (clocks s)" "\<forall>x \<in> set (clocks s). usecount x s < 127"
  obtains r t where "omap2_clk_enable c s = Some (r, t)" "same_tree s t"
    "r = 0 \<and> refs_ok (h(c := Suc (h c))) t \<or> r \<noteq> 0 \<and> refs_ok h t" "\<forall>x. usecount x t \<le> usecount x s + 1"
proof -
  have "active_upto c (in_use s) s" "\<forall>x \<in> set (clocks s). x \<le> c \<longrightarrow> usecount x s < 127" "refs h (in_use s) s"
    using assms(2,4) by (auto simp: active_upto_def refs_ok_def)
  from omap2_clk_enable_refs_aux [OF assms(1,3) this(3,1,2)]
  obtain r t B where t: "omap2_clk_enable c s = Some (r, t)" "same_tree s t"
      "r = 0 \<and> refs (h(c := Suc (h c))) B t \<or> r \<noteq> 0 \<and> refs h B t" "active_upto c B t" "above_same c s (in_use s) t B"
      "\<forall>x. usecount x t \<le> usecount x s + 1" by blast
  have "r = 0 \<and> refs_ok (h(c := Suc (h c))) t \<or> r \<noteq> 0 \<and> refs_ok h t" using refs_ok_above [OF _ t(4,5,2)] t(3) by blast
  then show thesis using that t(1,2,6) by blast
qed

lemma omap2_clk_disable_refs:
  assumes "enable_ok s" "refs_ok h s" "c \<in> set (clocks s)" "0 < h c"
  obtains t where "omap2_clk_disable c s = Some t" "same_tree s t" "refs_ok (h(c := h c - 1)) t"
proof -
  have "active_upto c (in_use s) s" "refs h (in_use s) s"
    using assms(2) by (auto simp: active_upto_def refs_ok_def)
  then obtain t B where t: "omap2_clk_disable c s = Some t" "same_tree s t" "refs (h(c := h c - 1)) B t" "active_upto c B t"
      "above_same c s (in_use s) t B"
    using omap2_clk_disable_refs_aux [where c = c and s = s and h = h and A = "in_use s"] assms(1,3,4) by blast
  show thesis using that [OF t(1,2) refs_ok_above [OF t(3-5,2)]] .
qed

lemma clk_disable_refs:
  assumes "enable_ok s" "refs_ok h s" "c \<in> set (clocks s)" "0 < h c"
  obtains t where "clk_disable (Some c) s = Some t" "same_tree s t" "refs_ok (h(c := h c - 1)) t"
proof -
  have "usecount c s \<noteq> 0" using refs_pos [of h "in_use s" s c] assms by (simp add: refs_ok_def)
  moreover obtain t where t: "omap2_clk_disable c s = Some t" "same_tree s t" "refs_ok (h(c := h c - 1)) t"
    using omap2_clk_disable_refs [OF assms] .
  ultimately have "clk_disable (Some c) s = Some t" by (simp add: clk_disable_def)
  then show thesis using that t(2,3) by blast
qed

lemma clk_step_refs:
  assumes "clk_step sh th" "enable_ok (fst sh)" "refs_ok (snd sh) (fst sh)"
  shows "same_tree (fst sh) (fst th) \<and> enable_ok (fst th) \<and> refs_ok (snd th) (fst th)"
  using assms
proof (cases rule: clk_step.cases)
  case (enable c s t h)
  then show ?thesis using omap2_clk_enable_refs [of s h c] assms same_tree_enable_ok
    by (metis (no_types, lifting) clk_enable_def fst_conv snd_conv option.inject option.simps(5) prod.inject)
next
  case (enable_fails c s r t h)
  then show ?thesis using omap2_clk_enable_refs [of s h c] assms same_tree_enable_ok
    by (metis (no_types, lifting) clk_enable_def fst_conv snd_conv option.inject option.simps(5) prod.inject)
next
  case (disable c s h t)
  then show ?thesis using clk_disable_refs [of s h c] assms same_tree_enable_ok
    by (metis (no_types, lifting) fst_conv snd_conv option.inject)
qed

lemma clk_steps_refs:
  assumes "clk_step\<^sup>*\<^sup>* sh th" "enable_ok (fst sh)" "refs_ok (snd sh) (fst sh)"
  shows "same_tree (fst sh) (fst th) \<and> enable_ok (fst th) \<and> refs_ok (snd th) (fst th)"
  using assms
proof (induction rule: rtranclp_induct)
  case (step th uh)
  then show ?case using clk_step_refs [of th uh] same_tree_trans by blast
qed simp

text \<open>In a tree with consistent counts, a clock in use has its parent in use.\<close>

lemma refs_ok_parent:
  assumes "tree_wf s" "refs_ok h s" "c \<in> set (clocks s)" "0 < usecount c s" "clk_parent (clks s c) = Some p"
  shows "0 < usecount p s"
proof -
  have p: "p \<in> set (clocks s)" using assms(1,3,5) by (auto simp: tree_wf_def clk_wf_def)
  let ?K = "{x \<in> in_use s. clk_parent (clks s x) = Some p}"
  have "c \<in> ?K" using assms by simp
  then have "0 < card ?K" by (auto simp: card_gt_0_iff)
  then show ?thesis using assms(2) p by (simp add: refs_ok_def refs_def)
qed

text \<open>The references determine the counts.\<close>

lemma refs_ok_unique:
  assumes "tree_wf s" "same_tree s t" "refs_ok h s" "refs_ok h t" "x \<in> set (clocks s)"
  shows "usecount x t = usecount x s"
  using assms(5)
proof (induction "Max (set (clocks s)) - x" arbitrary: x rule: less_induct)
  case less
  have "y \<in> in_use t \<and> clk_parent (clks t y) = Some x \<longleftrightarrow> y \<in> in_use s \<and> clk_parent (clks s y) = Some x" for y
  proof (cases "y \<in> set (clocks s) \<and> clk_parent (clks s y) = Some x")
    case True
    then have "x < y" using assms(1) by (auto simp: tree_wf_def clk_wf_def)
    moreover have "y \<le> Max (set (clocks s))" using True by simp
    ultimately have "Max (set (clocks s)) - y < Max (set (clocks s)) - x" by linarith
    then have "usecount y t = usecount y s" using less.hyps [of y] True by simp
    then show ?thesis using True by (simp add: same_tree_fields [OF assms(2)])
  qed (auto simp: same_tree_fields [OF assms(2)])
  then have eq: "{y \<in> in_use t. clk_parent (clks t y) = Some x} = {y \<in> in_use s. clk_parent (clks s y) = Some x}"
    by (intro Collect_cong)
  have "x \<in> set (clocks t)" using less.prems same_tree_fields(8) [OF assms(2)] by simp
  then have "usecount x t = int (h x) + int (card {y \<in> in_use t. clk_parent (clks t y) = Some x})"
    using assms(4) unfolding refs_ok_def refs_def by blast
  moreover have "usecount x s = int (h x) + int (card {y \<in> in_use s. clk_parent (clks s y) = Some x})"
    using assms(3) less.prems unfolding refs_ok_def refs_def by blast
  ultimately show ?case unfolding eq by simp
qed

text \<open>
  The contract behind the driver interface: what \<^verbatim>\<open>arch_clock->clk_enable\<close> and
  \<^verbatim>\<open>arch_clock->clk_disable\<close> promise about the references \<open>held\<close> on the
  \<open>known\<close> clocks, as long as there is \<open>room\<close> in the counters.
\<close>

locale clk_functions =
  fixes enable :: "clk_id \<Rightarrow> 's \<Rightarrow> (int \<times> 's) option"
    and disable :: "clk_id \<Rightarrow> 's \<Rightarrow> 's option"
    and known :: "'s \<Rightarrow> clk_id set"
    and held :: "(clk_id \<Rightarrow> nat) \<Rightarrow> 's \<Rightarrow> bool"
    and room :: "'s \<Rightarrow> bool"
    and counts :: "'s \<Rightarrow> clk_id \<Rightarrow> int"
    and same :: "'s \<Rightarrow> 's \<Rightarrow> bool"
  assumes enable_held: "held h s \<Longrightarrow> c \<in> known s \<Longrightarrow> room s \<Longrightarrow>
      \<exists>r t. enable c s = Some (r, t) \<and> same s t \<and> (r = 0 \<and> held (h(c := Suc (h c))) t \<or> r \<noteq> 0 \<and> held h t)"
    and disable_held: "held h s \<Longrightarrow> c \<in> known s \<Longrightarrow> 0 < h c \<Longrightarrow>
      \<exists>t. disable c s = Some t \<and> same s t \<and> held (h(c := h c - 1)) t"
    and same_known: "same s t \<Longrightarrow> known t = known s"
    and same_trans: "same s t \<Longrightarrow> same t u \<Longrightarrow> same s u"
    and counts_held: "same s t \<Longrightarrow> held h s \<Longrightarrow> held h t \<Longrightarrow> x \<in> known s \<Longrightarrow> counts t x = counts s x"
begin

lemma enable_failed:
  assumes "held h s" "c \<in> known s" "room s" "enable c s = Some (r, t)" "r \<noteq> 0" "x \<in> known s"
  shows "counts t x = counts s x"
  using enable_held [OF assms(1-3)] counts_held [of s t h x] assms by auto

lemma enable_then_disable:
  assumes "held h s" "c \<in> known s" "room s" "enable c s = Some (0, t)"
  shows "\<exists>u. disable c t = Some u \<and> held h u \<and> (\<forall>x \<in> known s. counts u x = counts s x)"
proof -
  have t: "same s t" "held (h(c := Suc (h c))) t" using enable_held [OF assms(1-3)] assms(4) by auto
  then obtain u where u: "disable c t = Some u" "same t u" "held (h(c := Suc (h c), c := Suc (h c) - 1)) u"
    using disable_held [of "h(c := Suc (h c))" t c] assms(2) same_known by auto
  then show ?thesis using same_trans [OF t(1) u(2)] counts_held assms(1) by auto
qed

end

interpretation omap2: clk_functions omap2_clk_enable omap2_clk_disable "\<lambda>s. set (clocks s)"
  "\<lambda>h s. enable_ok s \<and> refs_ok h s" "\<lambda>s. \<forall>x \<in> set (clocks s). usecount x s < 127" "\<lambda>s x. usecount x s" same_tree
proof (unfold_locales, goal_cases)
  case (1 h s c)
  then show ?case using omap2_clk_enable_refs [of s h c] same_tree_enable_ok by metis
next
  case (2 h s c)
  then show ?case using omap2_clk_disable_refs [of s h c] same_tree_enable_ok by metis
next
  case (3 s t)
  then show ?case by (simp add: same_tree_fields)
next
  case (4 s t u)
  then show ?case by (rule same_tree_trans)
next
  case (5 s t h x)
  then show ?case using refs_ok_unique by (metis enable_ok_def)
qed

section \<open>Properties\<close>




text \<open>
  C14: the recursions of clk_enable and clk_disable over the parents end on every registered
  clock of a well-formed tree, as long as no signed 8-bit use count is at its maximum.
\<close>

theorem clk_calls_return:
  assumes "enable_ok s" "refs_ok h s" "c \<in> set (clocks s)"
  shows "((\<forall>x \<in> set (clocks s). usecount x s < 127) \<longrightarrow> (\<exists>r t. clk_enable (Some c) s = Some (r, t)))
    \<and> (0 < h c \<longrightarrow> (\<exists>t. clk_disable (Some c) s = Some t))"
  using omap2_clk_enable_refs [OF assms] clk_disable_refs [OF assms] by (metis clk_enable_def option.simps(5))

end
