(* ===== verification/Clock_Boot.thy ===== *)
theory Clock_Boot
  imports Clock_Data Clock_Refs
begin

unbundle bit_operations_syntax

text \<open>
  Booting the DM814x clock tree: what \<^verbatim>\<open>ti814x_clk_init\<close> of
  \<^verbatim>\<open>clock814x_data.c\<close> leaves when it runs over the static clock data, whatever the
  selector and DPLL registers hold. The data is checked entry by entry
  (\<open>clk_entry_ok\<close>: every clock's possible parents precede it and are registered on a
  DM814x whenever it is); the invariants of \<^verbatim>\<open>Clock_Tree\<close> then give the shape and
  the rates of the whole tree.
\<close>

section \<open>Specification\<close>

abbreviation (input) ID_ocmc_ram_ick :: clk_id where "ID_ocmc_ram_ick \<equiv> 64"

text \<open>The entries of the clock data that \<^verbatim>\<open>CK_DM385\<close> alone registers.\<close>

definition dm385_only :: "clk_id list" where
  "dm385_only = [58, 208, 209, 267, 268, 281, 282, 283, 284, 285, 286, 287, 288, 293]"

text \<open>What the rate propagation needs of a data entry.\<close>

definition clk_entry_ok :: "clk_id \<Rightarrow> clk \<Rightarrow> bool" where
  "clk_entry_ok c k \<longleftrightarrow>
     clk_children k = [] \<and> \<not> clk_node k \<and> clk_usecount k = 0 \<and> clk_clkdm k = None
     \<and> (clk_ops k = Clkops_ti814x_dpll \<longrightarrow> clk_dpll_data k \<noteq> None)
     \<and> (clk_flags k AND ENABLE_ON_INIT \<noteq> 0 \<longrightarrow> c = ID_ocmc_ram_ick)
     \<and> list_all (\<lambda>p. p < c \<and> (p \<in> set dm385_only \<longrightarrow> c \<in> set dm385_only)) (parent_candidates k (\<lambda>d. ti814x_dplls ! d))
     \<and> (clk_recalc_fn k = Some Followparent_recalc \<or> clk_recalc_fn k = Some Omap_fixed_divisor_recalc \<longrightarrow> clk_parent k \<noteq> None)
     \<and> (clk_recalc_fn k = Some Ti814x_dpll_dco_recalc \<longrightarrow> clk_dpll_data k \<noteq> None)
     \<and> (case clk_dpll_data k of None \<Rightarrow> True
        | Some d \<Rightarrow> clk_parent k \<noteq> None \<and> clk_ref (ti814x_dplls ! d) = clk_bypass (ti814x_dplls ! d)
           \<and> list_all (\<lambda>p. p = clk_ref (ti814x_dplls ! d)) (parent_candidates k (\<lambda>d. ti814x_dplls ! d)))"

fun entries_ok :: "clk_id \<Rightarrow> clk list \<Rightarrow> bool" where
  "entries_ok c [] = True"
| "entries_ok c (k # ks) = (clk_entry_ok c k \<and> entries_ok (Suc c) ks)"

text \<open>The initial value of each clock, by number.\<close>

definition ti814x_clk :: "clk_id \<Rightarrow> clk" where
  "ti814x_clk x = (if x < length ti814x_clk_objs then ti814x_clk_objs ! x else clk_zero)"

text \<open>The clocks before \<^verbatim>\<open>ti814x_clk_init\<close> runs.\<close>

definition clocks_static :: "'a kstate_scheme \<Rightarrow> bool" where
  "clocks_static s \<longleftrightarrow> clks s = ti814x_clk \<and> dplls s = (\<lambda>d. ti814x_dplls ! d) \<and> clocks s = [] \<and> root_clks s = []"

definition dm814x_clks :: "clk_id set" where
  "dm814x_clks = {x. x < 298 \<and> x \<notin> set dm385_only}"

abbreviation ti814x_candidates :: "clk_id \<Rightarrow> clk_id list" where
  "ti814x_candidates x \<equiv> parent_candidates (ti814x_clk x) (\<lambda>d. ti814x_dplls ! d)"

text \<open>The state in which the registration starts.\<close>

definition ti814x_start :: "'a kstate_scheme \<Rightarrow> 'a kstate_scheme" where
  "ti814x_start s = update_fixed_divisors (s\<lparr>cpu_mask := RATE_IN_TI814X\<rparr>)"

text \<open>The state in which \<^verbatim>\<open>recalculate_root_clocks\<close> is called.\<close>

definition ti814x_registered :: "'a kstate_scheme \<Rightarrow> 'a kstate_scheme" where
  "ti814x_registered s = clk_register_table ti814x_clks (ti814x_start s)"

text \<open>A DM814x out of reset with its clock data: every register reads 0.\<close>

definition dm814x_clk_reset :: kstate where
  "dm814x_clk_reset =
     \<lparr>regs = (\<lambda>_. 0), now = 0, hw = (\<lambda>_ r. r), prm_base = 0xfa180000, cm_base = 0xfa180000,
      pwrdms = (\<lambda>i. powerdomains_ti81xx ! i), clkdms = (\<lambda>i. clockdomains_omap2 ! i),
      pwrdm_list = [], clkdm_list = [], clks = ti814x_clk, dplls = (\<lambda>d. ti814x_dplls ! d),
      clocks = [], root_clks = [], cpu_mask = 0, es1_0 = False\<rparr>"

text \<open>What the operations on selectable clocks need of a data entry.\<close>

definition sel_entry_ok :: "clk \<Rightarrow> bool" where
  "sel_entry_ok k \<longleftrightarrow> (case clk_clksel k of None \<Rightarrow> True
     | Some tab \<Rightarrow> clk_dpll_data k = None
        \<and> list_all (\<lambda>cs. cs_rates cs \<noteq> [] \<and> distinct (map cr_val (cs_rates cs))
          \<and> list_all (\<lambda>r. cr_flags r AND ucast RATE_IN_TI814X \<noteq> 0 \<and> cr_div r \<noteq> 0
                       \<and> (clk_clksel_mask k = 0 \<or> field_fits (clk_clksel_mask k) (cr_val r))) (cs_rates cs)) tab
        \<and> list_all (\<lambda>cs. list_all (\<lambda>cs'. cs_parent cs = cs_parent cs'
              \<or> list_all (\<lambda>r. cr_val r \<notin> cr_val ` set (cs_rates cs')) (cs_rates cs)) tab) tab)"

abbreviation sel_chunk_ok :: "clk list \<Rightarrow> bool" where
  "sel_chunk_ok ks \<equiv> list_all (\<lambda>k. clk_name k = ''sysclk14_c1mux_ck'' \<or> sel_entry_ok k) ks"

text \<open>The tree of a DM814x: well-formed, over its own clocks, with the tables of the data.\<close>

definition dm814x_tree :: "'a kstate_scheme \<Rightarrow> bool" where
  "dm814x_tree s \<longleftrightarrow> tree_wf s \<and> set (clocks s) = dm814x_clks \<and> cpu_mask s = RATE_IN_TI814X
     \<and> (\<forall>x. clk_clksel (clks s x) = clk_clksel (ti814x_clk x) \<and> clk_clksel_mask (clks s x) = clk_clksel_mask (ti814x_clk x)
          \<and> clk_dpll_data (clks s x) = clk_dpll_data (ti814x_clk x))"

text \<open>
  The boot sequence of \<^verbatim>\<open>omap2_init_common_infrastructure\<close> on a TI814x: the
  power and clock domains, then the clocks. What it does about \<^verbatim>\<open>hwmod\<close> is not
  modelled.
\<close>

definition dm814x_boot :: "'a kstate_scheme \<Rightarrow> (int \<times> 'a kstate_scheme) option" where
  "dm814x_boot s = do { t \<leftarrow> domains_boot s; ti814x_clk_init t }"

text \<open>What registration keeps of the domains, and that a clock's domain is a registered one.\<close>

definition pm_same :: "'a kstate_scheme \<Rightarrow> 'a kstate_scheme \<Rightarrow> bool" where
  "pm_same s t \<longleftrightarrow> clkdm_list t = clkdm_list s \<and> clkdms t = clkdms s \<and> pwrdms t = pwrdms s"

definition clkdm_known :: "'a kstate_scheme \<Rightarrow> bool" where
  "clkdm_known s \<longleftrightarrow> (\<forall>x d. clk_clkdm (clks s x) = Some d \<longrightarrow> d \<in> set (clkdm_list s))"

abbreviation on_init :: "'a kstate_scheme \<Rightarrow> clk_id \<Rightarrow> bool" where
  "on_init s c \<equiv> clk_flags (clks s c) AND ENABLE_ON_INIT \<noteq> 0"

definition domains_wf :: "'a kstate_scheme \<Rightarrow> bool" where
  "domains_wf s \<longleftrightarrow> (\<forall>d \<in> set (clkdm_list s). \<forall>p. clkdm_pwrdm (clkdms s d) = Some p \<longrightarrow> pwrdm_wf (pwrdms s p))"

section \<open>Lemmas\<close>

lemma entries_ok_0: "entries_ok 0 ti814x_clk_objs_0"
  by (simp add: clk_defs_0 clk_entry_ok_def parent_candidates_def dm385_only_def clksel_parents dpll_inputs)

lemma entries_ok_1: "entries_ok 50 ti814x_clk_objs_1"
  by (simp add: clk_defs_1 clk_entry_ok_def parent_candidates_def dm385_only_def clksel_parents dpll_inputs)

lemma entries_ok_2: "entries_ok 100 ti814x_clk_objs_2"
  by (simp add: clk_defs_2 clk_entry_ok_def parent_candidates_def dm385_only_def clksel_parents dpll_inputs)

lemma entries_ok_3: "entries_ok 150 ti814x_clk_objs_3"
  by (simp add: clk_defs_3 clk_entry_ok_def parent_candidates_def dm385_only_def clksel_parents dpll_inputs)

lemma entries_ok_4: "entries_ok 200 ti814x_clk_objs_4"
  by (simp add: clk_defs_4 clk_entry_ok_def parent_candidates_def dm385_only_def clksel_parents dpll_inputs)

lemma entries_ok_5: "entries_ok 250 ti814x_clk_objs_5"
  by (simp add: clk_defs_5 clk_entry_ok_def parent_candidates_def dm385_only_def clksel_parents dpll_inputs)

lemma registered_clks:
  "map fst (filter snd ti814x_clks) =
     [0, 1] @ [2..<58] @ [59..<208] @ [210..<267] @ [269, 270, 272, 273, 271] @ [274..<281] @ [289..<293] @ [294..<298]"
  by (simp add: ti814x_clks_def upt_rec_numeral)

lemma entries_ok_append: "entries_ok c (xs @ ys) = (entries_ok c xs \<and> entries_ok (c + length xs) ys)"
  by (induction xs arbitrary: c) auto

lemma entries_ok_nth: "entries_ok c ks \<Longrightarrow> i < length ks \<Longrightarrow> clk_entry_ok (c + i) (ks ! i)"
proof (induction ks arbitrary: c i)
  case (Cons k ks)
  then show ?case by (cases i) (use Cons.IH [of "Suc c"] in auto)
qed simp

lemma length_objs:
  "length ti814x_clk_objs_0 = 50" "length ti814x_clk_objs_1 = 50" "length ti814x_clk_objs_2 = 50"
  "length ti814x_clk_objs_3 = 50" "length ti814x_clk_objs_4 = 50" "length ti814x_clk_objs_5 = 48"
  by (simp_all add: ti814x_clk_objs_0_def ti814x_clk_objs_1_def ti814x_clk_objs_2_def ti814x_clk_objs_3_def
      ti814x_clk_objs_4_def ti814x_clk_objs_5_def)

lemma length_clk_objs [simp]: "length ti814x_clk_objs = 298"
  by (simp add: ti814x_clk_objs_def length_objs)

lemma entries_ok_all: "entries_ok 0 ti814x_clk_objs"
  using entries_ok_0 entries_ok_1 entries_ok_2 entries_ok_3 entries_ok_4 entries_ok_5
  by (simp add: ti814x_clk_objs_def entries_ok_append length_objs)

lemma ti814x_clk_entry: "x < 298 \<Longrightarrow> clk_entry_ok x (ti814x_clk x)"
  using entries_ok_nth [OF entries_ok_all, of x] by (simp add: ti814x_clk_def)

lemma ti814x_clk_zero: "\<not> x < 298 \<Longrightarrow> ti814x_clk x = clk_zero"
  by (simp add: ti814x_clk_def)

lemma ti814x_clk_fresh [simp]: "clk_children (ti814x_clk x) = []" "\<not> clk_node (ti814x_clk x)"
  using ti814x_clk_entry [of x] ti814x_clk_zero [of x]
  by (cases "x < 298"; auto simp: clk_entry_ok_def clk_zero_def)+

lemma dm814x_intervals:
  assumes "x < 298"
  shows "(x = 0 \<or> x = 1 \<or> 2 \<le> x \<and> x < 58 \<or> 59 \<le> x \<and> x < 208 \<or> 210 \<le> x \<and> x < 267
    \<or> x = 269 \<or> x = 270 \<or> x = 272 \<or> x = 273 \<or> x = 271 \<or> 274 \<le> x \<and> x < 281 \<or> 289 \<le> x \<and> x < 293
    \<or> 294 \<le> x \<and> x < 298) = (x \<notin> set dm385_only)" (is "?P x")
proof -
  have "list_all ?P [0..<298]"
    by (simp add: dm385_only_def upt_rec_numeral upt_rec [of 0 298] upt_rec [of "Suc 0" 298] numeral_2_eq_2 [symmetric])
  then have "\<forall>x \<in> {0..<298}. ?P x" unfolding list_all_iff set_upt .
  from bspec [OF this, of x] show ?thesis using assms by simp
qed

lemma registered_set: "{c. (c, True) \<in> set ti814x_clks} = dm814x_clks"
proof -
  have "{c. (c, True) \<in> set ti814x_clks} = set (map fst (filter snd ti814x_clks))" by force
  moreover have "x \<in> set (map fst (filter snd ti814x_clks)) \<longleftrightarrow> x \<in> dm814x_clks" for x
  proof (cases "x < 298")
    case True
    from dm814x_intervals [OF this] show ?thesis using True unfolding registered_clks set_append set_upt
      by (simp add: dm814x_clks_def) blast
  qed (unfold registered_clks set_append set_upt, simp add: dm814x_clks_def)
  ultimately show ?thesis by blast
qed

lemma dm814x_entry: "x \<in> dm814x_clks \<Longrightarrow> clk_entry_ok x (ti814x_clk x)"
  by (simp add: dm814x_clks_def ti814x_clk_entry)

lemma entry_parent:
  assumes "x \<in> dm814x_clks" "p \<in> set (ti814x_candidates x)"
  shows "p < x \<and> p \<in> dm814x_clks"
proof -
  have "p < x" "p \<in> set dm385_only \<longrightarrow> x \<in> set dm385_only"
    using dm814x_entry [OF assms(1)] assms(2) unfolding clk_entry_ok_def list_all_iff by blast+
  then show ?thesis using assms(1) by (simp add: dm814x_clks_def)
qed

lemma entry_dpll:
  assumes "x \<in> dm814x_clks" "clk_dpll_data (ti814x_clk x) = Some d"
  shows "clk_parent (ti814x_clk x) \<noteq> None" "clk_bypass (ti814x_dplls ! d) = clk_ref (ti814x_dplls ! d)"
    "p \<in> set (ti814x_candidates x) \<Longrightarrow> p = clk_ref (ti814x_dplls ! d)"
  using dm814x_entry [OF assms(1)] assms(2) by (auto simp: clk_entry_ok_def list_all_iff)

lemma entry_recalc:
  assumes "x \<in> dm814x_clks"
  shows "clk_recalc_fn (ti814x_clk x) = Some Followparent_recalc \<or> clk_recalc_fn (ti814x_clk x) = Some Omap_fixed_divisor_recalc
      \<Longrightarrow> clk_parent (ti814x_clk x) \<noteq> None"
    "clk_recalc_fn (ti814x_clk x) = Some Ti814x_dpll_dco_recalc \<Longrightarrow> clk_dpll_data (ti814x_clk x) \<noteq> None"
  using dm814x_entry [OF assms] by (simp_all add: clk_entry_ok_def)

lemma preinit_id: "\<forall>x. clk_children (clks s x) = [] \<Longrightarrow> fold (\<lambda>(c, _). clk_preinit c) table s = s"
proof (induction table)
  case (Cons e table)
  have "clk_preinit c s = s" for c
    using Cons.prems by (simp add: clk_preinit_def clk_upd_def fun_upd_idem)
  then show ?case using Cons by (cases e) simp
qed simp

lemma ffs_masks:
  "ffs 1 = 0" "ffs 7 = 0" "ffs 0xf = 0" "ffs 0xe = 1" "ffs 0x18 = 3" "ffs 0x38 = 3" "ffs 0x1c0 = 6" "ffs 0x300 = 8"
  "ffs 0x400 = 10" "ffs 0x700 = 8" "ffs 0xe00 = 9" "ffs 0x10000 = 16" "ffs 0x20000 = 17" "ffs 0x40000 = 18"
  "ffs 0x30000 = 16" "ffs 0xc0000 = 18" "ffs 0x70000 = 16" "ffs 0x380000 = 19" "ffs 0x1c00000 = 22" "ffs 0xe000000 = 25"
  "ffs 0x1000000 = 24" "ffs 0xf0000 = 16"
  by (simp_all add: ffs_nonzero upt_rec_numeral upt_rec [of 0 32] upt_rec [of "Suc 0" 32] numeral_2_eq_2 [symmetric])

lemmas rate_table_defs = rate_ti814x_def
  div_1_0_rates_def div_1_1_rates_def div_1_2_rates_def div_1_3_rates_def div_1_4_rates_def div_1_5_rates_def
  div_1_6_rates_def div_1_7_rates_def div_1_8_rates_def div_1_9_rates_def div_1_10_rates_def
  div8_rates_def div5_prcmckout_rates_def div2_sysclk6_rates_def div4_b3c1_rates_def

lemma sel_chunk_0: "sel_chunk_ok ti814x_clk_objs_0"
  by (simp add: clk_defs_0 sel_entry_ok_def clksel_defs rate_table_defs field_fits_def ffs_masks)

lemma sel_chunk_1: "sel_chunk_ok ti814x_clk_objs_1"
  by (simp add: clk_defs_1 sel_entry_ok_def clksel_defs rate_table_defs field_fits_def ffs_masks)

lemma sel_chunk_2: "sel_chunk_ok ti814x_clk_objs_2"
  by (simp add: clk_defs_2 sel_entry_ok_def clksel_defs rate_table_defs field_fits_def ffs_masks)

lemma sel_chunk_3: "sel_chunk_ok ti814x_clk_objs_3"
  by (simp add: clk_defs_3 sel_entry_ok_def clksel_defs rate_table_defs field_fits_def ffs_masks)

lemma sel_chunk_4: "sel_chunk_ok ti814x_clk_objs_4"
  by (simp add: clk_defs_4 sel_entry_ok_def clksel_defs rate_table_defs field_fits_def ffs_masks)

lemma sel_chunk_5: "sel_chunk_ok ti814x_clk_objs_5"
  by (simp add: clk_defs_5 sel_entry_ok_def clksel_defs rate_table_defs field_fits_def ffs_masks)


lemma sel_chunk_all: "sel_chunk_ok ti814x_clk_objs"
  using sel_chunk_0 sel_chunk_1 sel_chunk_2 sel_chunk_3 sel_chunk_4 sel_chunk_5
  by (simp add: ti814x_clk_objs_def)

lemma sel_entry: "x < 298 \<Longrightarrow> clk_name (ti814x_clk x) \<noteq> ''sysclk14_c1mux_ck'' \<Longrightarrow> sel_entry_ok (ti814x_clk x)"
  using sel_chunk_all by (auto simp: ti814x_clk_def list_all_length)

lemma sel_entry_clksel:
  assumes "dm814x_tree s" "x \<in> dm814x_clks" "clk_name (ti814x_clk x) \<noteq> ''sysclk14_c1mux_ck''"
    "clk_clksel (ti814x_clk x) = Some tab" "clk_clksel_mask (ti814x_clk x) \<noteq> 0"
  shows "clksel_ok x s" "clksel_unique x s" "clk_dpll_data (clks s x) = None"
    "\<And>cs. cs \<in> set tab \<Longrightarrow> \<exists>r \<in> set (cs_rates cs). rate_valid s r"
proof -
  have e: "sel_entry_ok (ti814x_clk x)" using sel_entry assms(2,3) by (simp add: dm814x_clks_def)
  have d: "clk_clksel (clks s x) = Some tab" "clk_clksel_mask (clks s x) = clk_clksel_mask (ti814x_clk x)"
     "clk_dpll_data (clks s x) = clk_dpll_data (ti814x_clk x)" "cpu_mask s = RATE_IN_TI814X"
    using assms(1,4) by (simp_all add: dm814x_tree_def)
  have valid: "rate_valid s r" if "cs \<in> set tab" "r \<in> set (cs_rates cs)" for cs r
    using e that assms(4) d(4) by (auto simp: sel_entry_ok_def list_all_iff rate_valid_def)
  have filt: "filter (rate_valid s) (cs_rates cs) = cs_rates cs" if "cs \<in> set tab" for cs
    using valid [OF that] by simp
  show "clksel_ok x s"
    using e assms(4,5) filt by (auto simp: clksel_ok_def table_ok_def sel_entry_ok_def list_all_iff d)
  show "clksel_unique x s"
    using e assms(4) by (simp add: clksel_unique_def valid_vals_def d filt sel_entry_ok_def list_all_iff) blast
  show "clk_dpll_data (clks s x) = None" using e assms(4) by (simp add: sel_entry_ok_def d)
  show "\<exists>r \<in> set (cs_rates cs). rate_valid s r" if "cs \<in> set tab" for cs
  proof -
    have "cs_rates cs \<noteq> []" using e assms(4) that by (simp add: sel_entry_ok_def list_all_iff)
    then show ?thesis using valid [OF that] by (meson hd_in_set)
  qed
qed

lemma boot_inv_dm814x:
  assumes "boot_inv s0 t" "set (clocks t) = dm814x_clks"
    and cand: "\<And>x. parent_candidates (clks s0 x) (dplls s0) = ti814x_candidates x"
    and par: "\<And>x. clk_parent (clks s0 x) = clk_parent (ti814x_clk x)"
    and dat: "\<And>x. clk_dpll_data (clks s0 x) = clk_dpll_data (ti814x_clk x)"
    and rec: "\<And>x. clk_recalc_fn (clks s0 x) = clk_recalc_fn (ti814x_clk x)"
    and dd: "dplls s0 = (\<lambda>d. ti814x_dplls ! d)"
  shows "tree_wf t"
proof -
  have stat: "same_static s0 t" using assms(1) by (simp add: boot_inv_def)
  have c: "p \<in> set (ti814x_candidates x)" if "clk_parent (clks t x) = Some p" for x p
    using assms(1) that unfolding boot_inv_def cand by blast
  have n: "clk_parent (clks t x) \<noteq> None" if "clk_parent (ti814x_clk x) \<noteq> None" for x
    using assms(1) that unfolding boot_inv_def par by blast
  have refs: "clk_parent (clks t x) = Some y" if x: "x \<in> dm814x_clks" and y: "y \<in> dpll_refs t x" for x y
  proof -
    have "dpll_refs t x = (case clk_dpll_data (ti814x_clk x) of None \<Rightarrow> {}
        | Some d \<Rightarrow> {clk_bypass (ti814x_dplls ! d), clk_ref (ti814x_dplls ! d)})"
      unfolding dpll_refs_def same_static_fields [OF stat] dat dd ..
    then obtain d where d: "clk_dpll_data (ti814x_clk x) = Some d"
        "y = clk_bypass (ti814x_dplls ! d) \<or> y = clk_ref (ti814x_dplls ! d)"
      using y by (auto split: option.splits)
    note e = entry_dpll [OF x d(1)]
    obtain q where q: "clk_parent (clks t x) = Some q" using n [OF e(1)] by blast
    have "q = clk_ref (ti814x_dplls ! d)" using c [OF q] by (rule e(3))
    then show ?thesis using q e(2) d(2) by simp
  qed
  have "clk_wf t x" if x: "x \<in> dm814x_clks" for x
    unfolding clk_wf_def assms(2) same_static_fields [OF stat] rec dat
    using entry_parent [OF x] c entry_recalc [OF x] n refs [OF x] by auto
  then show ?thesis using assms(1,2) by (simp add: tree_wf_def boot_inv_def)
qed

lemma ti814x_start_fields:
  assumes "clocks_static s"
  shows "clk_children (clks (ti814x_start s) x) = []" "\<not> clk_node (clks (ti814x_start s) x)"
    "clk_parent (clks (ti814x_start s) x) = clk_parent (ti814x_clk x)" "clk_clksel (clks (ti814x_start s) x) = clk_clksel (ti814x_clk x)"
    "clk_dpll_data (clks (ti814x_start s) x) = clk_dpll_data (ti814x_clk x)"
    "clk_recalc_fn (clks (ti814x_start s) x) = clk_recalc_fn (ti814x_clk x)"
    "clk_clksel_mask (clks (ti814x_start s) x) = clk_clksel_mask (ti814x_clk x)"
    "clk_usecount (clks (ti814x_start s) x) = clk_usecount (ti814x_clk x)"
    "clocks (ti814x_start s) = []" "root_clks (ti814x_start s) = []" "dplls (ti814x_start s) = (\<lambda>d. ti814x_dplls ! d)"
    "cpu_mask (ti814x_start s) = RATE_IN_TI814X"
  using assms by (simp_all add: ti814x_start_def update_fixed_divisors_def clk_upd_def clocks_static_def)

lemma ti814x_registered_boot:
  assumes "clocks_static s"
  shows "boot_inv (ti814x_start s) (ti814x_registered s)" "set (clocks (ti814x_registered s)) = dm814x_clks"
proof -
  note f = ti814x_start_fields [OF assms]
  have "clk_links (ti814x_start s)" by (simp add: clk_links_def child_def f)
  then have "boot_inv (ti814x_start s) (ti814x_start s)" by (simp add: boot_inv_def parent_candidates_def)
  then show "boot_inv (ti814x_start s) (ti814x_registered s)" "set (clocks (ti814x_registered s)) = dm814x_clks"
    using boot_inv_register_list [of "ti814x_start s" "ti814x_start s" ti814x_clks] preinit_id [of "ti814x_start s" ti814x_clks]
    by (simp_all add: ti814x_registered_def clk_register_table_def f registered_set)
qed

lemma ti814x_registered_tree:
  assumes "clocks_static s"
  shows "dm814x_tree (ti814x_registered s)"
proof -
  note f = ti814x_start_fields [OF assms] and b = ti814x_registered_boot [OF assms]
  have cand: "parent_candidates (clks (ti814x_start s) x) (dplls (ti814x_start s)) = ti814x_candidates x" for x
    by (simp add: parent_candidates_def f)
  have stat: "same_static (ti814x_start s) (ti814x_registered s)" using b(1) by (simp add: boot_inv_def)
  show ?thesis
    using same_static_fields [OF stat] stat boot_inv_dm814x [OF b cand f(3,5,6,11)] b(2)
    by (simp add: dm814x_tree_def f same_static_def)
qed

lemma ti814x_registered_usecount:
  assumes "clocks_static s"
  shows "clk_usecount (clks (ti814x_registered s) x) = clk_usecount (ti814x_clk x)"
proof -
  have "clk_static (clks (ti814x_registered s) x) = clk_static (clks (ti814x_start s) x)"
    using ti814x_registered_boot [OF assms] by (simp add: boot_inv_def same_static_def)
  then have "clk_usecount (clk_static (clks (ti814x_registered s) x)) = clk_usecount (clk_static (clks (ti814x_start s) x))" by simp
  then show ?thesis by (simp add: clk_static_def ti814x_start_fields [OF assms])
qed

lemma ti814x_clk_init_eq:
  "recalculate_root_clocks (ti814x_registered s) = Some t
   \<Longrightarrow> ti814x_clk_init s = map_option (\<lambda>u. (0, u)) (clk_enable_init_clocks t)"
  by (cases "clk_enable_init_clocks t") (simp_all add: ti814x_clk_init_def clk_init_table_def ti814x_registered_def ti814x_start_def)

lemma clocks_static_reset [simp]: "clocks_static dm814x_clk_reset"
  by (simp add: clocks_static_def dm814x_clk_reset_def)

lemma clksel_candidate:
  "clk_clksel k = Some tab \<Longrightarrow> p \<in> cs_parent ` set tab \<Longrightarrow> p \<in> set (parent_candidates k dd)"
  by (simp add: parent_candidates_def)

lemma pm_same_clk_upd [simp]: "pm_same s (clk_upd c f s)"
  by (simp add: pm_same_def clk_upd_def)

lemma pm_same_trans: "pm_same s t \<Longrightarrow> pm_same t u \<Longrightarrow> pm_same s u"
  by (simp add: pm_same_def)

lemma pm_same_reparent: "pm_same s (clk_reparent c p s)" "clk_clkdm (clks (clk_reparent c p s) x) = clk_clkdm (clks s x)"
  by (auto simp: pm_same_def clk_reparent_def clk_unlink_def clk_upd_def Let_def split: option.splits)

lemma pm_same_init: "pm_same s (run_init f c s) \<and> (\<forall>x. clk_clkdm (clks (run_init f c s) x) = clk_clkdm (clks s x))"
  by (rule run_init_cases [of f c s]) (simp_all add: pm_same_reparent, simp_all add: pm_same_def)

lemma pm_same_link: "pm_same s (clk_link c s)" "clk_clkdm (clks (clk_link c s) x) = clk_clkdm (clks s x)"
  by (auto simp: pm_same_def clk_link_def clk_upd_def Let_def split: option.splits)

lemma pm_same_register:
  "pm_same s (snd (clk_register cc s)) \<and> (\<forall>x. clk_clkdm (clks (snd (clk_register cc s)) x) = clk_clkdm (clks s x))"
proof (cases cc)
  case (Some c)
  show ?thesis
  proof (cases "clk_node (clks s c) \<or> clk_init_fn (clks s c) = None")
    case True
    then show ?thesis
      using Some pm_same_link(1) [of s c] pm_same_link(2) [of c s] by (auto simp: clk_register_def clk_register_link pm_same_def)
  next
    case False
    then obtain f where f: "clk_init_fn (clks s c) = Some f" by blast
    show ?thesis
      using Some False f pm_same_trans [OF pm_same_link(1) [of s c]] pm_same_init [of "clk_link c s" f c]
      by (simp add: clk_register_link pm_same_link)
  qed
qed (simp add: clk_register_def pm_same_def)

lemma clkdm_known_init_clkdm: "clkdm_known s \<Longrightarrow> clkdm_known (omap2_init_clk_clkdm c s) \<and> pm_same s (omap2_init_clk_clkdm c s)"
proof -
  assume k: "clkdm_known s"
  have "d \<in> set (clkdm_list s)" if "clkdm_lookup (Some n) s = Some d" for n d
    using that find_SomeD by (fastforce simp: clkdm_lookup_def)
  then show ?thesis using k
    by (auto simp: omap2_init_clk_clkdm_def clkdm_known_def split: option.splits) (auto simp: clk_upd_def pm_same_def)
qed

lemma register_list_known:
  "clkdm_known s \<Longrightarrow> clkdm_known (register_list table s) \<and> pm_same s (register_list table s)"
proof (induction table s rule: register_list.induct)
  case (2 c on_chip cs s)
  let ?u = "snd (clk_register (Some c) s)"
  have "clkdm_known ?u" "pm_same s ?u" using 2(2) pm_same_register [of s "Some c"] by (auto simp: clkdm_known_def pm_same_def)
  then have "clkdm_known (omap2_init_clk_clkdm c ?u)" "pm_same s (omap2_init_clk_clkdm c ?u)"
    using clkdm_known_init_clkdm pm_same_trans by blast+
  then show ?case using 2 pm_same_trans by (cases on_chip) auto
qed (simp add: pm_same_def)

lemma register_list_distinct:
  "distinct (clocks s) \<Longrightarrow> \<forall>x. clk_node (clks s x) \<longleftrightarrow> x \<in> set (clocks s) \<Longrightarrow> distinct (clocks (register_list table s))"
proof (induction table s rule: register_list.induct)
  case (2 c on_chip cs s)
  let ?u = "snd (clk_register (Some c) s)"
  have "distinct (clocks ?u) \<and> (\<forall>x. clk_node (clks ?u x) \<longleftrightarrow> x \<in> set (clocks ?u))"
  proof (cases "clk_node (clks s c)")
    case True
    then show ?thesis using 2(2,3) by (simp add: clk_register_def)
  next
    case False
    then have "c \<notin> set (clocks s)" using 2(3) by simp
    then show ?thesis
      using 2(2,3) False by (cases "clk_init_fn (clks s c)") (auto simp: clk_register_link clk_link_fields)
  qed
  then show ?case using 2 by (cases on_chip) auto
qed simp

lemma same_tree_flags: "same_tree s t \<Longrightarrow> clk_flags (clks t x) = clk_flags (clks s x)"
  by (simp add: same_tree_def clk_core_fields(10) [of "clks t x" "clks s x"])

lemma enable_init_list_refs:
  assumes "enable_ok s" "refs_ok h s" "set cs \<subseteq> set (clocks s)"
    "\<forall>x \<in> set (clocks s). usecount x s + int (length (filter (on_init s) cs)) \<le> 127"
  shows "\<exists>t h'. enable_init_list cs s = Some t \<and> same_tree s t \<and> refs_ok h' t
    \<and> (\<forall>c. h' c \<le> h c + length (filter (\<lambda>x. x = c \<and> on_init s x) cs))"
  using assms
proof (induction cs arbitrary: s h)
  case Nil
  then show ?case by auto
next
  case (Cons c cs)
  show ?case
  proof (cases "on_init s c")
    case False
    have "\<forall>x \<in> set (clocks s). usecount x s + int (length (filter (on_init s) cs)) \<le> 127" using Cons.prems(4) False by simp
    from Cons.IH [OF Cons.prems(1,2) _ this] Cons.prems(3) obtain t h' where
      "enable_init_list cs s = Some t" "same_tree s t" "refs_ok h' t" "\<forall>c. h' c \<le> h c + length (filter (\<lambda>x. x = c \<and> on_init s x) cs)" by auto
    then show ?thesis using False by (intro exI [of _ t] exI [of _ h']) simp
  next
    case True
    have lt: "\<forall>x \<in> set (clocks s). usecount x s < 127" using Cons.prems(4) True by force
    have c: "c \<in> set (clocks s)" using Cons.prems(3) by simp
    from omap2_clk_enable_refs [OF Cons.prems(1,2) c lt]
    obtain r u where u: "omap2_clk_enable c s = Some (r, u)" "same_tree s u"
        "r = 0 \<and> refs_ok (h(c := Suc (h c))) u \<or> r \<noteq> 0 \<and> refs_ok h u" "\<forall>x. usecount x u \<le> usecount x s + 1" .
    define g where "g = (if r = 0 then h(c := Suc (h c)) else h)"
    have g: "refs_ok g u" "g x \<le> (if x = c then Suc (h c) else h x)" for x using u(3) by (auto simp: g_def)
    note eq = same_tree_flags [OF u(2)] same_tree_fields(8) [OF u(2)]
    have "usecount x u + int (length (filter (on_init u) cs)) \<le> 127" if "x \<in> set (clocks u)" for x
      using bspec [OF Cons.prems(4), of x] spec [OF u(4), of x] that True by (simp add: eq)
    then obtain t h' where t: "enable_init_list cs u = Some t" "same_tree u t" "refs_ok h' t"
        "\<forall>c. h' c \<le> g c + length (filter (\<lambda>x. x = c \<and> on_init u x) cs)"
      using Cons.IH [OF same_tree_enable_ok [OF u(2) Cons.prems(1)] g(1)] Cons.prems(3) eq by auto
    have "h' x \<le> h x + length (filter (\<lambda>y. y = x \<and> on_init s y) (c # cs))" for x
      using spec [OF t(4), of x] g(2) [of x] True unfolding eq by (cases "x = c") simp_all
    then show ?thesis using True u(1) t(1,3) same_tree_trans [OF u(2) t(2)]
      by (intro exI [of _ t] exI [of _ h']) (simp add: clk_enable_def)
  qed
qed

lemma enable_ok_with_rates [simp]: "enable_ok (with_rates s r) = enable_ok s"
  by (simp add: enable_ok_def clk_domains_ok_def clk_ops_ok_def) (simp add: with_rates_def)

lemma refs_ok_with_rates [simp]: "refs_ok h (with_rates s r) = refs_ok h s"
  by (simp add: refs_ok_def refs_def)

lemma filter_eq_distinct: "distinct xs \<Longrightarrow> length (filter (\<lambda>x. x = c \<and> P x) xs) \<le> 1"
  by (induction xs) (auto simp: filter_empty_conv)

lemma ti814x_clk_unused [simp]: "clk_usecount (ti814x_clk x) = 0" "clk_clkdm (ti814x_clk x) = None"
  using ti814x_clk_entry [of x] ti814x_clk_zero [of x] by (cases "x < 298"; auto simp: clk_entry_ok_def clk_zero_def)+

lemma ti814x_start_domains:
  assumes "clocks_static s"
  shows "pm_same s (ti814x_start s)" "clkdm_known (ti814x_start s)"
    "clk_ops (clks (ti814x_start s) x) = clk_ops (ti814x_clk x)" "clk_flags (clks (ti814x_start s) x) = clk_flags (ti814x_clk x)"
  using assms by (simp_all add: ti814x_start_def update_fixed_divisors_def clk_upd_def clocks_static_def pm_same_def clkdm_known_def)

lemma ti814x_registered_domains:
  assumes "clocks_static s"
  shows "pm_same s (ti814x_registered s)" "clkdm_known (ti814x_registered s)" "distinct (clocks (ti814x_registered s))"
    "clk_ops (clks (ti814x_registered s) x) = clk_ops (ti814x_clk x)" "clk_flags (clks (ti814x_registered s) x) = clk_flags (ti814x_clk x)"
proof -
  note f = ti814x_start_fields [OF assms] and d = ti814x_start_domains [OF assms]
  have eq: "ti814x_registered s = register_list ti814x_clks (ti814x_start s)"
    using preinit_id [of "ti814x_start s" ti814x_clks] by (simp add: ti814x_registered_def clk_register_table_def f)
  show "pm_same s (ti814x_registered s)" "clkdm_known (ti814x_registered s)" "distinct (clocks (ti814x_registered s))"
    using register_list_known [OF d(2), of ti814x_clks] pm_same_trans [OF d(1)] register_list_distinct [of "ti814x_start s" ti814x_clks]
    by (simp_all add: eq f)
  have "clk_static (clks (ti814x_registered s) x) = clk_static (clks (ti814x_start s) x)"
    using ti814x_registered_boot [OF assms] by (simp add: boot_inv_def same_static_def)
  then have "clk_ops (clk_static (clks (ti814x_registered s) x)) = clk_ops (clk_static (clks (ti814x_start s) x))"
    "clk_flags (clk_static (clks (ti814x_registered s) x)) = clk_flags (clk_static (clks (ti814x_start s) x))" by simp_all
  then show "clk_ops (clks (ti814x_registered s) x) = clk_ops (ti814x_clk x)"
    "clk_flags (clks (ti814x_registered s) x) = clk_flags (ti814x_clk x)"
    by (simp_all add: clk_static_def d)
qed

lemma ti814x_registered_refs:
  assumes "clocks_static s" "domains_wf s"
  shows "enable_ok (ti814x_registered s)" "refs_ok (\<lambda>_. 0) (ti814x_registered s)"
proof -
  note t = ti814x_registered_tree [OF assms(1), unfolded dm814x_tree_def] and d = ti814x_registered_domains [OF assms(1)]
  have "clk_domains_ok (ti814x_registered s)"
    using assms(2) d(1,2) by (auto simp: clk_domains_ok_def domains_wf_def pm_same_def clkdm_known_def)
  moreover have "clk_ops_ok (ti814x_registered s)"
    using t d(4) dm814x_entry by (auto simp: clk_ops_ok_def clk_entry_ok_def)
  ultimately show "enable_ok (ti814x_registered s)" using t by (simp add: enable_ok_def)
  show "refs_ok (\<lambda>_. 0) (ti814x_registered s)"
    by (simp add: refs_ok_def refs_def ti814x_registered_usecount [OF assms(1)])
qed

lemma same_tree_dm814x: "same_tree s t \<Longrightarrow> dm814x_tree t = dm814x_tree s"
proof -
  assume st: "same_tree s t"
  have "clk_clksel (clks t x) = clk_clksel (clks s x)" "clk_clksel_mask (clks t x) = clk_clksel_mask (clks s x)" for x
    using st clk_core_fields(11,12) [of "clks t x" "clks s x"] by (simp_all add: same_tree_def)
  moreover have "cpu_mask t = cpu_mask s" using st by (simp add: same_tree_def)
  ultimately show ?thesis by (simp add: dm814x_tree_def same_tree_wf [OF st] same_tree_fields [OF st])
qed

lemma ti814x_clk_init_refs:
  assumes "clocks_static s" "domains_wf s"
  obtains t h where "ti814x_clk_init s = Some (0, t)" "dm814x_tree t" "enable_ok t" "refs_ok h t"
    "\<forall>c. h c \<le> (if c = ID_ocmc_ram_ick then 1 else 0)"
proof -
  let ?s = "ti814x_registered s"
  note tr = ti814x_registered_tree [OF assms(1)] and d = ti814x_registered_domains [OF assms(1)]
    and e = ti814x_registered_refs [OF assms]
  obtain r where r: "recalculate_root_clocks ?s = Some (with_rates ?s r)"
    using tr recalculate_root_clocks_wf [of ?s] by (auto simp: dm814x_tree_def)
  have oi: "on_init ?s x \<Longrightarrow> x \<in> set (clocks ?s) \<Longrightarrow> x = ID_ocmc_ram_ick" for x
    using tr dm814x_entry [of x] d(5) [of x] by (auto simp: dm814x_tree_def clk_entry_ok_def)
  have len: "length (filter (\<lambda>x. x = c \<and> on_init ?s x) (clocks ?s)) \<le> (if c = ID_ocmc_ram_ick then 1 else 0)" for c
    using filter_eq_distinct [OF d(3), of c "on_init ?s"] oi by (auto simp: filter_empty_conv)
  have "filter (on_init ?s) (clocks ?s) = filter (\<lambda>x. x = ID_ocmc_ram_ick \<and> on_init ?s x) (clocks ?s)"
    using oi by (intro filter_cong) auto
  then have "length (filter (on_init ?s) (clocks ?s)) \<le> 1" using len [of ID_ocmc_ram_ick] by simp
  moreover have "usecount x ?s = 0" for x by (simp add: ti814x_registered_usecount [OF assms(1)])
  ultimately obtain t h where t: "enable_init_list (clocks ?s) (with_rates ?s r) = Some t" "same_tree (with_rates ?s r) t"
      "refs_ok h t" "\<forall>c. h c \<le> 0 + length (filter (\<lambda>x. x = c \<and> on_init ?s x) (clocks ?s))"
    using enable_init_list_refs [of "with_rates ?s r" "\<lambda>_. 0" "clocks ?s"] e by auto
  have "dm814x_tree (with_rates ?s r)" using tr by (simp add: dm814x_tree_def)
  then have "dm814x_tree t" "enable_ok t" using same_tree_dm814x [OF t(2)] same_tree_enable_ok [OF t(2)] e by simp_all
  then show ?thesis using that [of t h] t len order_trans by (simp add: ti814x_clk_init_eq [OF r] clk_enable_init_clocks_def) blast
qed

section \<open>Properties\<close>

text \<open>
  C1: whatever the selector and DPLL registers hold at boot, registering the clock table of
  a DM814x links exactly its 284 clocks into a tree without cycles whose child lists and
  parent pointers agree, the rate propagation from the root clocks ends, and after it every
  clock runs at the rate its recalculation function computes from its parent.
\<close>

theorem ti814x_clk_init_coherent:
  assumes "clocks_static s"
  shows "set (clocks (ti814x_registered s)) = dm814x_clks \<and> tree_wf (ti814x_registered s)
    \<and> (\<exists>r. ti814x_clk_init s = map_option (\<lambda>t. (0, t)) (clk_enable_init_clocks (with_rates (ti814x_registered s) r))
         \<and> (\<forall>x \<in> dm814x_clks. coherent (with_rates (ti814x_registered s) r) x))"
proof -
  have "set (clocks (ti814x_registered s)) = dm814x_clks" "tree_wf (ti814x_registered s)"
    using ti814x_registered_tree [OF assms] by (simp_all add: dm814x_tree_def)
  then show ?thesis using recalculate_root_clocks_wf [of "ti814x_registered s"]
    by (auto simp: ti814x_clk_init_eq)
qed

theorem ti814x_clk_init_coherent_witness:
  "set (clocks (ti814x_registered dm814x_clk_reset)) = dm814x_clks
    \<and> (\<exists>r. ti814x_clk_init dm814x_clk_reset
             = map_option (\<lambda>t. (0, t)) (clk_enable_init_clocks (with_rates (ti814x_registered dm814x_clk_reset) r))
         \<and> (\<forall>x \<in> dm814x_clks. coherent (with_rates (ti814x_registered dm814x_clk_reset) r) x))"
  using ti814x_clk_init_coherent [OF clocks_static_reset] by blast






end
