(* ===== verification/Clock_Instances.thy ===== *)
theory Clock_Instances
  imports Clock_Boot
begin

unbundle bit_operations_syntax

text \<open>
  Small concrete clock trees on which the properties of \<^verbatim>\<open>Clock_Refs\<close>,
  \<^verbatim>\<open>Clksel\<close> and \<^verbatim>\<open>Clock_Rates\<close> are evaluated.
\<close>

section \<open>Specification\<close>

text \<open>An oscillator and a DPLL below it that supports no mode, so that enabling it fails.\<close>

definition stuck_dpll :: kstate where
  "stuck_dpll = dm814x_clk_reset\<lparr>
     clks := (\<lambda>_. clk_zero)(
       2 := clk_zero\<lparr>clk_node := True, clk_children := [3], clk_rate := 20000000\<rparr>,
       3 := clk_zero\<lparr>clk_node := True, clk_parent := Some 2, clk_ops := Clkops_ti814x_dpll, clk_dpll_data := Some 0\<rparr>),
     dplls := (\<lambda>_. dpll_zero\<lparr>clk_bypass := 2, clk_ref := 2\<rparr>), clocks := [3, 2], root_clks := [2]\<rparr>"

text \<open>A 20 MHz oscillator with a divider of eight below it, whose rate is recalculated by \<open>f\<close>.\<close>

definition osc_div8 :: "recalc_fn \<Rightarrow> kstate" where
  "osc_div8 f = dm814x_clk_reset\<lparr>
     clks := (\<lambda>_. clk_zero)(
       2 := clk_zero\<lparr>clk_node := True, clk_children := [3], clk_rate := 20000000\<rparr>,
       3 := sysclk22_ck\<lparr>clk_node := True, clk_parent := Some 2, clk_recalc_fn := Some f,
              clk_clksel := Some [\<lparr>cs_parent = 2, cs_rates = div8_rates\<rparr>]\<rparr>),
     clocks := [3, 2], root_clks := [2], cpu_mask := RATE_IN_TI814X\<rparr>"

section \<open>Lemmas\<close>

lemma clk_zero_simps [simp]:
  "\<not> clk_node clk_zero" "clk_ops clk_zero = Clkops_null" "clk_parent clk_zero = None" "clk_children clk_zero = []"
  "clk_recalc_fn clk_zero = None" "clk_usecount clk_zero = 0" "clk_flags clk_zero = 0" "clk_clksel clk_zero = None"
  "clk_dpll_data clk_zero = None" "clk_clkdm clk_zero = None"
  by (simp_all add: clk_zero_def)

lemma stuck_clks [simp]:
  "clks stuck_dpll = (\<lambda>_. clk_zero)(
       2 := clk_zero\<lparr>clk_node := True, clk_children := [3], clk_rate := 20000000\<rparr>,
       3 := clk_zero\<lparr>clk_node := True, clk_parent := Some 2, clk_ops := Clkops_ti814x_dpll, clk_dpll_data := Some 0\<rparr>)"
  "dplls stuck_dpll = (\<lambda>_. dpll_zero\<lparr>clk_bypass := 2, clk_ref := 2\<rparr>)" "clocks stuck_dpll = [3, 2]" "root_clks stuck_dpll = [2]"
  by (simp_all add: stuck_dpll_def)

lemma stuck_ok: "enable_ok stuck_dpll" "refs_ok (\<lambda>_. 0) stuck_dpll"
proof -
  have "clk_links stuck_dpll" by (auto simp: clk_links_def child_def split: if_splits)
  then show "enable_ok stuck_dpll"
    by (auto simp: enable_ok_def tree_wf_def clk_wf_def clk_domains_ok_def clk_ops_ok_def dpll_refs_def dpll_zero_def)
  show "refs_ok (\<lambda>_. 0) stuck_dpll" by (auto simp: refs_ok_def refs_def)
qed

lemma osc_div8_simps [simp]:
  "clks (osc_div8 f) = (\<lambda>_. clk_zero)(
       2 := clk_zero\<lparr>clk_node := True, clk_children := [3], clk_rate := 20000000\<rparr>,
       3 := sysclk22_ck\<lparr>clk_node := True, clk_parent := Some 2, clk_recalc_fn := Some f,
              clk_clksel := Some [\<lparr>cs_parent = 2, cs_rates = div8_rates\<rparr>]\<rparr>)"
  "clocks (osc_div8 f) = [3, 2]" "root_clks (osc_div8 f) = [2]" "cpu_mask (osc_div8 f) = RATE_IN_TI814X"
  by (simp_all add: osc_div8_def)

lemma sysclk22_data [simp]:
  "clk_clksel_mask sysclk22_ck = 7" "clk_children sysclk22_ck = []" "clk_set_rate_fn sysclk22_ck = Some Omap2_clksel_set_rate"
  "clk_dpll_data sysclk22_ck = None"
  by (simp_all add: sysclk22_ck_def)

lemma osc_div8_rates: "rate_valid (osc_div8 f) r = (cr_flags r AND ucast RATE_IN_TI814X \<noteq> 0)"
  by (simp add: rate_valid_def)

lemma osc_div8_wf: "f = Followparent_recalc \<or> f = Omap2_clksel_recalc \<Longrightarrow> tree_wf (osc_div8 f)" "clksel_ok 3 (osc_div8 f)"
proof -
  have "clk_links (osc_div8 f)" by (auto simp: clk_links_def child_def split: if_splits)
  then show "tree_wf (osc_div8 f)" if "f = Followparent_recalc \<or> f = Omap2_clksel_recalc"
    using that by (auto simp: tree_wf_def clk_wf_def dpll_refs_def)
  show "clksel_ok 3 (osc_div8 f)"
    by (simp add: clksel_ok_def table_ok_def div8_rates_def osc_div8_rates rate_ti814x_def field_fits_def ffs_masks)
qed

lemma osc_div8_clksel: "get_clksel_by_parent 3 (Some 2) (osc_div8 f) = Some \<lparr>cs_parent = 2, cs_rates = div8_rates\<rparr>"
  by (simp add: get_clksel_by_parent_def)

lemma osc_div8_set: "\<exists>t. omap2_clksel_set_rate 3 5000000 (osc_div8 f) = Some (0, t)"
  by (simp add: omap2_clksel_set_rate_def omap2_clksel_round_rate_div_def osc_div8_clksel div8_rates_def
      osc_div8_rates rate_ti814x_def divisor_to_clksel_def write_clksel_reg_def udiv_def Let_def raw_writel_def)

lemma osc_div8_run:
  assumes "f = Followparent_recalc \<or> f = Omap2_clksel_recalc"
  obtains t where "clk_set_rate 0 (Some 3) 5000000 (osc_div8 f) = Some (0, t)"
proof -
  obtain u where "omap2_clksel_set_rate 3 5000000 (osc_div8 f) = Some (0, u)" using osc_div8_set by blast
  note run = clk_set_rate_clksel [OF osc_div8_wf(1) [OF assms] _ osc_div8_wf(2) _ _ _ this, of 2 0]
  show thesis by (rule run) (simp_all add: that)
qed

section \<open>Properties\<close>




theorem clk_calls_return_witness: "\<exists>r t. clk_enable (Some 3) stuck_dpll = Some (r, t)"
  using clk_calls_return [OF stuck_ok, of 3] by simp

theorem omap2_clksel_set_rate_reads_back_witness:
  "\<exists>t. omap2_clksel_set_rate 3 5000000 (osc_div8 Omap2_clksel_recalc) = Some (0, t)
     \<and> omap2_clksel_recalc 3 t = Some 5000000"
proof -
  obtain t where t: "omap2_clksel_set_rate 3 5000000 (osc_div8 Omap2_clksel_recalc) = Some (0, t)" using osc_div8_set by blast
  from omap2_clksel_set_rate_reads_back [OF t _ osc_div8_wf(2)] t show ?thesis by auto
qed

theorem omap2_clksel_round_rate_best_witness:
  "omap2_clksel_round_rate 3 9000000 (osc_div8 Omap2_clksel_recalc)
     = Max {v \<in> achievable 3 2 (osc_div8 Omap2_clksel_recalc) \<lparr>cs_parent = 2, cs_rates = div8_rates\<rparr>. v \<le> 9000000}"
proof -
  have "\<exists>v \<in> achievable 3 2 (osc_div8 Omap2_clksel_recalc) \<lparr>cs_parent = 2, cs_rates = div8_rates\<rparr>. v \<le> 9000000"
    by (auto simp: achievable_def div8_rates_def osc_div8_rates rate_ti814x_def udiv_def intro!: exI [of _ "rate_ti814x 8 7"])
  moreover have "sorted_wrt (\<le>) (map cr_div (filter (rate_valid (osc_div8 Omap2_clksel_recalc)) div8_rates))"
    by (simp add: div8_rates_def osc_div8_rates rate_ti814x_def)
  ultimately show ?thesis
    using omap2_clksel_round_rate_best [OF _ _ _ osc_div8_clksel osc_div8_wf(2), of Omap2_clksel_recalc 9000000] by simp
qed


theorem clk_set_rate_followparent_witness:
  "\<exists>t. clk_set_rate 0 (Some 3) 5000000 (osc_div8 Followparent_recalc) = Some (0, t) \<and> rate_of 3 t = 20000000
     \<and> omap2_clksel_recalc 3 t = Some 5000000"
proof -
  obtain t where t: "clk_set_rate 0 (Some 3) 5000000 (osc_div8 Followparent_recalc) = Some (0, t)" using osc_div8_run by blast
  from clk_set_rate_followparent [OF osc_div8_wf(1) _ osc_div8_wf(2) _ _ _ _ t, of 2] t show ?thesis by auto
qed

end
