(* ===== verification/Adpll_Rounding.thy ===== *)
theory Adpll_Rounding
  imports Adpll
begin

unbundle bit_operations_syntax

text \<open>
  The arithmetic of \<^verbatim>\<open>adpll_ti814x.c\<close>: which post-divider the search of
  \<^verbatim>\<open>_adpll_test_dco_freq\<close> finds, what the multiplier and its fraction computed by
  \<^verbatim>\<open>_dpll_get_rounded_vals\<close> are as natural numbers, and how far the rate of
  \<^verbatim>\<open>ti814x_dpll_round_rate\<close> is from the target.
\<close>

section \<open>Specification\<close>

text \<open>The post-dividers that put the oscillator into its band.\<close>

definition dco_in_band :: "u64 \<Rightarrow> u64 \<Rightarrow> u32 \<Rightarrow> nat \<Rightarrow> bool" where
  "dco_in_band lo hi r k \<longleftrightarrow> unat lo \<le> unat r * k \<and> unat r * k \<le> unat hi"

abbreviation dco_result :: "u64 \<Rightarrow> u64 \<Rightarrow> u32 \<Rightarrow> nat \<Rightarrow> nat \<Rightarrow> int \<times> u8 \<Rightarrow> bool" where
  "dco_result lo hi r a b z \<equiv>
     (\<exists>m. z = (ADPLL_DCO_VALID, m) \<and> a \<le> unat m \<and> unat m \<le> b
       \<and> dco_in_band lo hi r (unat m) \<and> (\<forall>k. a \<le> k \<and> k < unat m \<longrightarrow> \<not> dco_in_band lo hi r k))
     \<or> fst z \<in> {ADPLL_DCO_UNDERFLOW, ADPLL_DCO_INVALID} \<and> (\<forall>k. a \<le> k \<and> k \<le> b \<longrightarrow> \<not> dco_in_band lo hi r k)"

text \<open>The band and the largest post-divider of the two types of DPLL.\<close>

definition dco_band :: "dpll_data \<Rightarrow> nat \<Rightarrow> u32 \<Rightarrow> bool" where
  "dco_band dd k r \<longleftrightarrow>
     (if dd_flags dd AND TI814X_ADPLL_LS_TYPE \<noteq> 0
      then k \<le> 31 \<and> 20000000 \<le> unat r * k \<and> unat r * k \<le> 2000000000
      else k \<le> 127 \<and> 500000000 \<le> unat r * k \<and> unat r * k \<le> 2000000000)"

text \<open>The arithmetic of the multiplier without overflow; \<open>k\<close> is the product of the dividers.\<close>

definition mult_of :: "nat \<Rightarrow> nat \<Rightarrow> nat \<Rightarrow> nat" where
  "mult_of T k si =
     2 ^ 18 * (T div 10000 * k div si) + 2 ^ 18 * (T div 10000 * k mod si) div si + 2 ^ 18 * (T mod 10000 * k) div (10000 * si)"

text \<open>The quotient and the fraction of \<^verbatim>\<open>_dpll_get_rounded_vals\<close>.\<close>

definition mult_dividend :: "dpll_data \<Rightarrow> u32 \<Rightarrow> u64" where
  "mult_dividend dd T = ucast (T div ADPLL_ROUNDING_DIVIDER * (ucast (pre_div_n dd) + 1) * ucast (last_rounded_m2 dd))"

definition mult_frac :: "u32 \<Rightarrow> dpll_data \<Rightarrow> u32 \<Rightarrow> u32" where
  "mult_frac inp dd T =
     ucast (ucast (ucast (do_div (ucast (push_bit 18 (ucast (umod (mult_dividend dd T) (ucast (inp div ADPLL_ROUNDING_DIVIDER))) :: u32)))
                            (ucast (inp div ADPLL_ROUNDING_DIVIDER))) :: u32)
       + do_div (push_bit 18 (ucast (T mod ADPLL_ROUNDING_DIVIDER * (ucast (last_rounded_n dd) + 1)) * ucast (last_rounded_m2 dd)))
           (ucast inp))"

text \<open>The product of the two dividers, and inputs for which none of the 16, 32 and 64-bit steps loses a bit.\<close>

definition dividers :: "dpll_data \<Rightarrow> nat" where
  "dividers dd = (unat (pre_div_n dd) + 1) * unat (last_rounded_m2 dd)"

definition round_fits :: "u32 \<Rightarrow> dpll_data \<Rightarrow> u32 \<Rightarrow> bool" where
  "round_fits inp dd T \<longleftrightarrow> last_rounded_n dd = pre_div_n dd \<and> max_multiplier dd \<le> 0xfff
     \<and> unat inp mod 10000 = 0 \<and> 20000 \<le> unat inp \<and> unat inp < 10000 * 2 ^ 14
     \<and> 0 < dividers dd \<and> dividers dd < 2 ^ 14 \<and> unat T * dividers dd < 2 ^ 16 * unat inp"

text \<open>What the rounding needs of the static data of a DPLL.\<close>

definition dpll_limits :: "dpll_data \<Rightarrow> bool" where
  "dpll_limits dd \<longleftrightarrow> pre_div_n dd < 128 \<and> max_multiplier dd \<le> 0xfff \<and> 1 \<le> post_div_m2 dd \<and> post_div_m2 dd \<le> 31"

section \<open>Lemmas\<close>

lemma unat_mult_small: "unat r * unat m < 2 ^ 32 \<Longrightarrow> unat (ucast ((r :: u32) * ucast (m :: u8)) :: u64) = unat r * unat m"
proof -
  assume a: "unat r * unat m < 2 ^ 32"
  have "unat (ucast m :: u32) = unat m" by (rule unat_ucast_up) simp
  then have "unat (r * ucast m) = unat r * unat m" using a by (simp add: unat_word_ariths)
  then show ?thesis by (simp add: unat_ucast_up)
qed

lemma dco_loop_underflow:
  assumes "ucast (r * ucast m2) < lo" "unat m2 = unat max_m2"
  shows "dco_loop lo hi max_m2 r m2 = (ADPLL_DCO_UNDERFLOW, m2 + 1)"
proof -
  have "\<not> (1 \<le> m2 + 1 \<and> m2 + 1 \<le> max_m2)"
  proof
    assume g: "1 \<le> m2 + 1 \<and> m2 + 1 \<le> max_m2"
    then have "m2 + 1 \<noteq> 0" by auto
    then have "unat (m2 + 1) = Suc (unat m2)" by (simp add: unatSuc add.commute)
    then show False using g assms(2) by (simp add: word_le_nat_alt)
  qed
  then show ?thesis using assms(1) by (subst dco_loop.simps) (auto simp: Let_def)
qed

lemma dco_loop_next:
  assumes "ucast (r * ucast m2) < lo" "unat m2 < unat max_m2"
  shows "dco_loop lo hi max_m2 r m2 = dco_loop lo hi max_m2 r (m2 + 1)" "unat (m2 + 1) = Suc (unat m2)"
    "1 \<le> m2 + 1 \<and> m2 + 1 \<le> max_m2"
proof -
  show s: "unat (m2 + 1) = Suc (unat m2)"
    using assms(2) unsigned_less [of max_m2, where ?'a = nat] by (simp add: unat_word_ariths)
  then show "1 \<le> m2 + 1 \<and> m2 + 1 \<le> max_m2" using assms(2) by (simp add: word_le_nat_alt)
  then show "dco_loop lo hi max_m2 r m2 = dco_loop lo hi max_m2 r (m2 + 1)"
    using assms(1) by (subst dco_loop.simps) (simp add: Let_def)
qed

lemma dco_loop_spec:
  assumes "1 \<le> unat m2" "unat m2 \<le> unat max_m2" "unat lo + unat r \<le> 2 ^ 32" "unat r * unat m2 < 2 ^ 32"
  shows "dco_result lo hi r (unat m2) (unat max_m2) (dco_loop lo hi max_m2 r m2)"
  using assms
proof (induction lo hi max_m2 r m2 rule: dco_loop.induct)
  case (1 lo hi max_m2 r m2)
  have eq: "unat (ucast (r * ucast m2) :: u64) = unat r * unat m2" using unat_mult_small 1(5) by simp
  show ?case
  proof (cases "ucast (r * ucast m2) < lo")
    case True
    then have low: "unat r * unat m2 < unat lo" using eq by (simp add: word_less_nat_alt)
    then have no: "\<not> dco_in_band lo hi r (unat m2)" by (simp add: dco_in_band_def)
    show ?thesis
    proof (cases "unat m2 = unat max_m2")
      case m: True
      then show ?thesis using no by (auto simp: dco_loop_underflow [OF True m] le_antisym)
    next
      case False
      then have lt: "unat m2 < unat max_m2" using 1(3) by simp
      note n = dco_loop_next [OF True lt]
      have "unat r * unat (m2 + 1) < 2 ^ 32" using low 1(4) n(2) by simp
      then have "dco_result lo hi r (Suc (unat m2)) (unat max_m2) (dco_loop lo hi max_m2 r (m2 + 1))"
        using 1(1) [OF refl True n(3)] 1(4) n(2) lt by simp
      moreover have "k = unat m2 \<or> Suc (unat m2) \<le> k" if "unat m2 \<le> k" for k using that by auto
      ultimately show ?thesis using no unfolding n(1) by (metis Suc_leD)
    qed
  next
    case False
    then have lo: "unat lo \<le> unat r * unat m2" using eq by (simp add: word_less_nat_alt)
    show ?thesis
    proof (cases "hi < ucast (r * ucast m2)")
      case True
      then have hi: "unat hi < unat r * unat m2" using eq by (simp add: word_less_nat_alt)
      have "\<not> dco_in_band lo hi r k" if "unat m2 \<le> k" for k
        using hi mult_le_mono2 [OF that, of "unat r"] unfolding dco_in_band_def by linarith
      then show ?thesis using True False by (auto simp: dco_loop.simps [of lo hi max_m2 r m2] Let_def)
    next
      case f: False
      then have "dco_in_band lo hi r (unat m2)" using lo eq by (simp add: dco_in_band_def word_less_nat_alt)
      then show ?thesis using f False 1(3) by (auto simp: dco_loop.simps [of lo hi max_m2 r m2] Let_def)
    qed
  qed
qed

lemma dco_result_least:
  assumes "dco_result lo hi r a b z" "\<And>k. P k \<longleftrightarrow> k \<le> b \<and> dco_in_band lo hi r k"
  shows "fst z = ADPLL_DCO_VALID \<longleftrightarrow> (\<exists>k \<ge> a. P k)"
    "fst z = ADPLL_DCO_VALID \<Longrightarrow> unat (snd z) = (LEAST k. a \<le> k \<and> P k)"
proof -
  have "(\<exists>k \<ge> a. P k) \<and> unat (snd z) = (LEAST k. a \<le> k \<and> P k)" if v: "fst z = ADPLL_DCO_VALID"
  proof -
    obtain m where m: "z = (ADPLL_DCO_VALID, m)" "a \<le> unat m" "unat m \<le> b" "dco_in_band lo hi r (unat m)"
        "\<forall>k. a \<le> k \<and> k < unat m \<longrightarrow> \<not> dco_in_band lo hi r k"
      using assms(1) v by auto
    then have "(LEAST k. a \<le> k \<and> P k) = unat m"
      by (intro Least_equality) (use assms(2) in \<open>auto simp: not_less [symmetric]\<close>)
    then show ?thesis using m assms(2) by auto
  qed
  moreover have "fst z = ADPLL_DCO_VALID" if "a \<le> k" "P k" for k
    using assms that by auto
  ultimately show "fst z = ADPLL_DCO_VALID \<longleftrightarrow> (\<exists>k \<ge> a. P k)"
    "fst z = ADPLL_DCO_VALID \<Longrightarrow> unat (snd z) = (LEAST k. a \<le> k \<and> P k)" by blast+
qed

lemma adpll_test_dco_freq_correct:
  assumes "1 \<le> unat (post_div_m2 dd)" "unat (post_div_m2 dd) \<le> 31" "unat r \<le> 2000000000" "unat r * unat (post_div_m2 dd) < 2 ^ 32"
  shows "case adpll_test_dco_freq dd r of (ret, dd') \<Rightarrow>
    (ret = 0 \<longleftrightarrow> (\<exists>k \<ge> unat (post_div_m2 dd). dco_band dd k r))
    \<and> (if ret = 0 then unat (last_rounded_m2 dd') = (LEAST k. unat (post_div_m2 dd) \<le> k \<and> dco_band dd k r) else dd' = dd)"
proof (cases "dd_flags dd AND TI814X_ADPLL_LS_TYPE = 0")
  case True
  have band: "dco_band dd k r \<longleftrightarrow> k \<le> 127 \<and> dco_in_band ADPLLJ_DCO_FREQ_MIN_HS2 ADPLLJ_DCO_FREQ_MAX_HS1 r k" for k
    using True by (simp add: dco_band_def dco_in_band_def)
  have "dco_result ADPLLJ_DCO_FREQ_MIN_HS2 ADPLLJ_DCO_FREQ_MAX_HS1 r (unat (post_div_m2 dd)) 127
      (dco_loop ADPLLJ_DCO_FREQ_MIN_HS2 ADPLLJ_DCO_FREQ_MAX_HS1 TI814X_ADPLLJ_MAX_M2_DIV r (post_div_m2 dd))"
    using dco_loop_spec [of "post_div_m2 dd" TI814X_ADPLLJ_MAX_M2_DIV ADPLLJ_DCO_FREQ_MIN_HS2 r ADPLLJ_DCO_FREQ_MAX_HS1] assms by simp
  from dco_result_least [OF this band] show ?thesis using True by (auto simp: adpll_test_dco_freq_def Let_def case_prod_unfold)
next
  case False
  have band: "dco_band dd k r \<longleftrightarrow> k \<le> 31 \<and> dco_in_band ADPLLS_DCO_FREQ_MIN ADPLLS_DCO_FREQ_MAX r k" for k
    using False by (simp add: dco_band_def dco_in_band_def)
  have "dco_result ADPLLS_DCO_FREQ_MIN ADPLLS_DCO_FREQ_MAX r (unat (post_div_m2 dd)) 31
      (dco_loop ADPLLS_DCO_FREQ_MIN ADPLLS_DCO_FREQ_MAX TI814X_ADPLLS_MAX_M2_DIV r (post_div_m2 dd))"
    using dco_loop_spec [of "post_div_m2 dd" TI814X_ADPLLS_MAX_M2_DIV ADPLLS_DCO_FREQ_MIN r ADPLLS_DCO_FREQ_MAX] assms by simp
  from dco_result_least [OF this band] show ?thesis using False by (auto simp: adpll_test_dco_freq_def Let_def case_prod_unfold)
qed

lemma mult_split:
  fixes st rr k si q rem f0 e0 f1 e1 :: nat
  assumes "st * k = q * si + rem" "2 ^ 18 * rem = f0 * si + e0" "2 ^ 18 * (rr * k) = f1 * (10000 * si) + e1"
  shows "(10000 * st + rr) * (2 ^ 18 * k) = (2 ^ 18 * q + f0 + f1) * (10000 * si) + (10000 * e0 + e1)"
proof -
  have "(10000 * st + rr) * (2 ^ 18 * k) = 10000 * (2 ^ 18 * (st * k)) + 2 ^ 18 * (rr * k)"
    by (simp add: algebra_simps)
  also have "\<dots> = 10000 * (2 ^ 18 * q * si + 2 ^ 18 * rem) + 2 ^ 18 * (rr * k)"
    unfolding assms(1) by (simp add: algebra_simps)
  also have "\<dots> = (2 ^ 18 * q + f0 + f1) * (10000 * si) + (10000 * e0 + e1)"
    unfolding assms(2,3) by (simp add: algebra_simps)
  finally show ?thesis .
qed

lemma mult_of_bounds:
  assumes "0 < si"
  shows "mult_of T k si * (10000 * si) \<le> T * (2 ^ 18 * k)" "T * (2 ^ 18 * k) < (mult_of T k si + 2) * (10000 * si)"
proof -
  let ?rem = "T div 10000 * k mod si"
  let ?e = "10000 * (2 ^ 18 * ?rem mod si) + 2 ^ 18 * (T mod 10000 * k) mod (10000 * si)"
  have "T div 10000 * k = T div 10000 * k div si * si + ?rem" "2 ^ 18 * ?rem = 2 ^ 18 * ?rem div si * si + 2 ^ 18 * ?rem mod si"
    "2 ^ 18 * (T mod 10000 * k) = 2 ^ 18 * (T mod 10000 * k) div (10000 * si) * (10000 * si) + 2 ^ 18 * (T mod 10000 * k) mod (10000 * si)"
    by (simp_all only: div_mult_mod_eq)
  from mult_split [OF this] have eq: "T * (2 ^ 18 * k) = mult_of T k si * (10000 * si) + ?e"
    unfolding mult_of_def by (simp only: mult_div_mod_eq)
  have "2 ^ 18 * ?rem mod si < si" "2 ^ 18 * (T mod 10000 * k) mod (10000 * si) < 10000 * si"
    using assms by (auto intro!: mod_less_divisor)
  then have "?e < 2 * (10000 * si)" by linarith
  then show "mult_of T k si * (10000 * si) \<le> T * (2 ^ 18 * k)" "T * (2 ^ 18 * k) < (mult_of T k si + 2) * (10000 * si)"
    unfolding eq distrib_right by linarith+
qed

lemma frac_bounds:
  fixes A B si :: nat
  assumes "2 \<le> si" "B < 10000 * 2 ^ 14"
  shows "2 ^ 18 * (A mod si) div si < 2 ^ 18" "2 ^ 18 * B div (10000 * si) < 2 ^ 31"
proof -
  have "2 ^ 18 * (A mod si) < 2 ^ 18 * si" using assms(1) by simp
  then show "2 ^ 18 * (A mod si) div si < 2 ^ 18" using assms(1) by (simp add: div_less_iff_less_mult)
  have "2 ^ 18 * B < 2 ^ 31 * (10000 * 2)" using assms(2) by simp
  also have "\<dots> \<le> 2 ^ 31 * (10000 * si)" using assms(1) by simp
  finally show "2 ^ 18 * B div (10000 * si) < 2 ^ 31" using assms(1) by (simp add: div_less_iff_less_mult)
qed

lemma rounded_mult_eq:
  assumes "rounded_mult inp dd T = (0, dd')"
  shows "dd' = dd\<lparr>last_rounded_m := ucast (udiv (mult_dividend dd T) (ucast (inp div ADPLL_ROUNDING_DIVIDER)))
                      + ucast (drop_bit 18 (mult_frac inp dd T)),
                    last_rounded_frac_m := mult_frac inp dd T AND TI814X_ADPLL_FRACT_MULT_MASK\<rparr>"
    "ucast (udiv (mult_dividend dd T) (ucast (inp div ADPLL_ROUNDING_DIVIDER))) \<le> max_multiplier dd"
proof -
  have keep: "x AND 0x3ffff = x" if "drop_bit 18 x = 0" for x :: u32
  proof -
    have "unat (drop_bit 18 x) = 0" using that by simp
    then have "unat x div 2 ^ 18 = 0" by (simp only: unat_drop_bit)
    then have "unat (x AND 0x3ffff) = unat x" by (simp add: unat_and_mask18)
    then show ?thesis by (simp add: word_unat_eq_iff)
  qed
  have zero: "do_div 0 b = 0" for b by (simp add: do_div_def udiv_def)
  show "dd' = dd\<lparr>last_rounded_m := ucast (udiv (mult_dividend dd T) (ucast (inp div ADPLL_ROUNDING_DIVIDER)))
                      + ucast (drop_bit 18 (mult_frac inp dd T)),
                    last_rounded_frac_m := mult_frac inp dd T AND TI814X_ADPLL_FRACT_MULT_MASK\<rparr>"
    using assms by (auto simp: rounded_mult_def mult_frac_def mult_dividend_def Let_def zero keep word_gt_0 split: if_splits)
  show "ucast (udiv (mult_dividend dd T) (ucast (inp div ADPLL_ROUNDING_DIVIDER))) \<le> max_multiplier dd"
    using assms by (auto simp: rounded_mult_def mult_dividend_def Let_def not_less split: if_splits)
qed

lemma round_fits_small:
  assumes "round_fits inp dd T"
  shows "unat T div 10000 * dividers dd < 2 ^ 16 * (unat inp div 10000)"
    "unat T div 10000 * dividers dd < 2 ^ 32" "unat T mod 10000 * dividers dd < 10000 * 2 ^ 14"
    "2 \<le> unat inp div 10000" "unat inp = 10000 * (unat inp div 10000)" "unat inp div 10000 < 2 ^ 14"
proof -
  let ?k = "dividers dd" and ?si = "unat inp div 10000"
  show si: "2 \<le> ?si" "unat inp = 10000 * ?si" "?si < 2 ^ 14" using assms by (auto simp: round_fits_def)
  have "10000 * (unat T div 10000 * ?k) \<le> unat T * ?k"
    unfolding mult.assoc [symmetric] by (intro mult_le_mono1) (simp add: mult.commute)
  also have "\<dots> < 2 ^ 16 * (10000 * ?si)" using assms si(2) by (simp add: round_fits_def)
  finally show lt: "unat T div 10000 * ?k < 2 ^ 16 * ?si" by (simp add: mult.commute)
  have "2 ^ 16 * ?si < 2 ^ 16 * 2 ^ 14" using si(3) by simp
  then show "unat T div 10000 * ?k < 2 ^ 32" using lt by simp
  have "unat T mod 10000 * ?k \<le> 10000 * ?k" by (intro mult_le_mono1) simp
  also have "\<dots> < 10000 * 2 ^ 14" using assms by (simp add: round_fits_def)
  finally show "unat T mod 10000 * ?k < 10000 * 2 ^ 14" .
qed

lemma unat_n1: "unat (ucast (n :: u8) + 1 :: u32) = unat n + 1"
  using unsigned_less [of n, where ?'a = nat] by (subst unat_add_eq) (simp_all add: unat_ucast_up)

lemma unat_dividers:
  assumes "unat a * dividers dd < 2 ^ 32" "0 < dividers dd"
  shows "unat ((a :: u32) * (ucast (pre_div_n dd) + 1)) = unat a * (unat (pre_div_n dd) + 1)"
    "unat ((a :: u32) * (ucast (pre_div_n dd) + 1) * ucast (last_rounded_m2 dd)) = unat a * dividers dd"
proof -
  have "unat a * (unat (pre_div_n dd) + 1) * 1 \<le> unat a * (unat (pre_div_n dd) + 1) * unat (last_rounded_m2 dd)"
    using assms(2) by (intro mult_le_mono2) (auto simp: dividers_def Suc_le_eq)
  then have "unat a * (unat (pre_div_n dd) + 1) < 2 ^ 32" using assms(1) unfolding dividers_def by (simp only: mult.assoc)
  then show n: "unat (a * (ucast (pre_div_n dd) + 1)) = unat a * (unat (pre_div_n dd) + 1)" by (subst unat_mult_eq) (simp_all only: unat_n1 len_num1 len_bit0 len_num0, simp)
  show "unat (a * (ucast (pre_div_n dd) + 1) * ucast (last_rounded_m2 dd)) = unat a * dividers dd"
    using assms(1) by (subst unat_mult_eq) (simp_all add: n unat_ucast_up dividers_def mult.assoc del: One_nat_def mult_Suc_right add_mult_distrib)
qed

lemma mult_dividend_value:
  assumes "round_fits inp dd T"
  shows "unat (mult_dividend dd T) = unat T div 10000 * dividers dd"
proof -
  have "unat (T div ADPLL_ROUNDING_DIVIDER) = unat T div 10000" by (simp add: unat_div)
  then show ?thesis using round_fits_small(2) [OF assms] assms unat_dividers(2) [of "T div ADPLL_ROUNDING_DIVIDER" dd]
    by (simp add: mult_dividend_def unat_ucast_up round_fits_def)
qed

lemma mult_frac_fst:
  assumes "round_fits inp dd T"
  defines "si \<equiv> inp div ADPLL_ROUNDING_DIVIDER"
  shows "unat (ucast (do_div (ucast (push_bit 18 (ucast (umod (mult_dividend dd T) (ucast si)) :: u32))) (ucast si)) :: u32)
    = 2 ^ 18 * (unat T div 10000 * dividers dd mod (unat inp div 10000)) div (unat inp div 10000)"
proof -
  note f = round_fits_small [OF assms(1)]
  let ?A = "unat T div 10000 * dividers dd"
  have si: "unat si = unat inp div 10000" by (simp add: si_def unat_div)
  have nz: "(ucast si :: u64) \<noteq> 0" using si f(4) by (simp add: word_unat_eq_iff unat_ucast_up)
  have lt: "?A mod unat si < 2 ^ 14" using f(4,6) si by (metis le_less_trans less_imp_le mod_less_divisor not_less zero_less_numeral order.strict_trans2)
  have rem: "unat (ucast (umod (mult_dividend dd T) (ucast si)) :: u32) = ?A mod unat si"
    using lt nz by (subst unat_ucast_small) (simp_all add: unat_umod mult_dividend_value [OF assms(1)] unat_ucast_up)
  have num: "unat (push_bit 18 (ucast (umod (mult_dividend dd T) (ucast si)) :: u32)) = (?A mod unat si) * 2 ^ 18"
    using lt by (subst unat_push_bit_small) (simp_all add: rem)
  have "(?A mod unat si) * 2 ^ 18 div unat si < 2 ^ 18"
    using frac_bounds(1) [OF f(4) f(3), of ?A] by (simp add: si mult.commute)
  then show ?thesis using f(6) si num
    by (subst unat_ucast_small) (simp_all add: unat_do_div unat_ucast_up mult.commute)
qed

lemma mult_frac_snd:
  assumes "round_fits inp dd T"
  shows "unat (do_div (push_bit 18 (ucast (T mod ADPLL_ROUNDING_DIVIDER * (ucast (last_rounded_n dd) + 1)) * ucast (last_rounded_m2 dd)))
           (ucast inp)) = 2 ^ 18 * (unat T mod 10000 * dividers dd) div unat inp"
proof -
  note f = round_fits_small [OF assms]
  have n: "last_rounded_n dd = pre_div_n dd" "0 < dividers dd" using assms by (simp_all add: round_fits_def)
  have rr: "unat (T mod ADPLL_ROUNDING_DIVIDER) = unat T mod 10000" by (simp add: unat_mod)
  have p: "unat (T mod ADPLL_ROUNDING_DIVIDER * (ucast (pre_div_n dd) + 1)) = unat T mod 10000 * (unat (pre_div_n dd) + 1)"
    using unat_dividers(1) [of "T mod ADPLL_ROUNDING_DIVIDER" dd] f(3) n(2) by (simp add: rr)
  have prod: "unat (ucast (T mod ADPLL_ROUNDING_DIVIDER * (ucast (pre_div_n dd) + 1)) * ucast (last_rounded_m2 dd) :: u64) = unat T mod 10000 * dividers dd"
    using f(3) by (subst unat_mult_eq) (simp_all add: unat_ucast_up p dividers_def mult.assoc del: One_nat_def mult_Suc_right add_mult_distrib)
  have "unat (push_bit 18 (ucast (T mod ADPLL_ROUNDING_DIVIDER * (ucast (pre_div_n dd) + 1)) * ucast (last_rounded_m2 dd) :: u64))
      = unat T mod 10000 * dividers dd * 2 ^ 18"
  proof -
    have "x * 2 ^ 18 < 2 ^ 64" if "x < 10000 * 2 ^ 14" for x :: nat using that by simp
    from this [OF f(3)] show ?thesis by (subst unat_push_bit_small) (simp_all only: prod, simp)
  qed
  then show ?thesis using f(5,6) by (simp add: n(1) unat_do_div unat_ucast_up mult.commute)
qed

lemma rounded_mult_value:
  assumes "rounded_mult inp dd T = (0, dd')" "round_fits inp dd T"
  shows "2 ^ 18 * unat (last_rounded_m dd') + unat (last_rounded_frac_m dd') = mult_of (unat T) (dividers dd) (unat inp div 10000)"
    "unat (last_rounded_m dd') < 2 ^ 14" "unat (last_rounded_frac_m dd') < 2 ^ 18"
proof -
  note f = round_fits_small [OF assms(2)] and eq = rounded_mult_eq [OF assms(1)]
  let ?si = "unat inp div 10000" and ?A = "unat T div 10000 * dividers dd" and ?B = "unat T mod 10000 * dividers dd"
  let ?F = "2 ^ 18 * (?A mod ?si) div ?si + 2 ^ 18 * ?B div unat inp"
  have F: "?F < 2 ^ 31 + 2 ^ 18" using frac_bounds(1) [OF f(4,3), of ?A] frac_bounds(2) [OF f(4,3)] f(5) by simp
  have frac: "unat (mult_frac inp dd T) = ?F"
  proof -
    have "unat (ucast (ucast (do_div (ucast (push_bit 18 (ucast (umod (mult_dividend dd T) (ucast (inp div ADPLL_ROUNDING_DIVIDER))) :: u32)))
                            (ucast (inp div ADPLL_ROUNDING_DIVIDER))) :: u32)
       + do_div (push_bit 18 (ucast (T mod ADPLL_ROUNDING_DIVIDER * (ucast (last_rounded_n dd) + 1)) * ucast (last_rounded_m2 dd)))
           (ucast inp)) = ?F"
      using F by (subst unat_add_eq) (simp_all add: unat_ucast_up mult_frac_fst [OF assms(2)] mult_frac_snd [OF assms(2)])
    then show ?thesis unfolding mult_frac_def using F by (subst unat_ucast_small) simp_all
  qed
  let ?m = "ucast (udiv (mult_dividend dd T) (ucast (inp div ADPLL_ROUNDING_DIVIDER))) :: u16"
  have m: "unat ?m = ?A div ?si"
    using f(1,4) by (subst unat_ucast_small) (simp_all add: unat_udiv mult_dividend_value [OF assms(2)] unat_ucast_up unat_div div_less_iff_less_mult)
  have "?m \<le> 0xfff" using eq(2) assms(2) unfolding round_fits_def by (blast intro: order_trans)
  then have m12: "?A div ?si < 2 ^ 12" unfolding m [symmetric] by (simp add: word_le_nat_alt)
  have O: "?F div 2 ^ 18 \<le> 2 ^ 13" using F by simp
  have ov: "unat (ucast (drop_bit 18 (mult_frac inp dd T)) :: u16) = ?F div 2 ^ 18"
    using O by (subst unat_ucast_small) (simp_all only: unat_drop_bit frac, simp_all)
  have lm: "unat (last_rounded_m dd') = ?A div ?si + ?F div 2 ^ 18"
    unfolding eq(1) using m12 O by (simp, subst unat_add_eq) (simp_all only: m ov, simp_all)
  have "last_rounded_frac_m dd' = mult_frac inp dd T AND 0x3ffff" unfolding eq(1) by simp
  then have lf: "unat (last_rounded_frac_m dd') = ?F mod 2 ^ 18" by (simp only: unat_and_mask18 frac)
  show "unat (last_rounded_m dd') < 2 ^ 14" using lm m12 O by simp
  show "unat (last_rounded_frac_m dd') < 2 ^ 18" unfolding lf by simp
  have "2 ^ 18 * (?A div ?si + ?F div 2 ^ 18) + ?F mod 2 ^ 18 = 2 ^ 18 * (?A div ?si) + ?F"
    unfolding distrib_left add.assoc mult_div_mod_eq ..
  then show "2 ^ 18 * unat (last_rounded_m dd') + unat (last_rounded_frac_m dd') = mult_of (unat T) (dividers dd) ?si"
    unfolding lm lf mult_of_def using f(5) by (simp only: add.assoc)
qed

lemma ratio_value:
  fixes r M D :: u32
  shows "unat (ucast (do_div (ucast r * ucast M) (ucast D)) :: u32) = unat r * unat M div unat D mod 2 ^ 32"
proof -
  have lt: "unat M < 2 ^ 32" "unat r < 2 ^ 32" "unat D < 2 ^ 32"
    using unsigned_less [of M, where ?'a = nat] unsigned_less [of r, where ?'a = nat] unsigned_less [of D, where ?'a = nat] by simp_all
  have "unat r * unat M < 2 ^ 32 * 2 ^ 32" using lt(1,2) by (intro mult_strict_mono) simp_all
  then have "unat (ucast r * ucast M :: u64) = unat r * unat M" by (subst unat_mult_eq) (simp_all add: unat_ucast_up)
  then have "unat (do_div (ucast r * ucast M) (ucast D)) = unat r * unat M div unat D"
    using lt(3) by (simp add: unat_do_div unat_ucast_up)
  then show ?thesis by (simp add: unsigned_ucast_eq take_bit_eq_mod)
qed

lemma adpll_compute_new_rate_value:
  assumes "unat m < 2 ^ 14" "unat frac < 2 ^ 18" "(unat n + 1) * unat m2 < 2 ^ 14"
  shows "unat (adpll_compute_new_rate r (ucast (m :: u16)) frac (ucast (n :: u8)) (ucast (m2 :: u8)))
    = unat r * (2 ^ 18 * unat m + unat frac) div (2 ^ 18 * ((unat n + 1) * unat m2)) mod 2 ^ 32"
proof -
  let ?M = "push_bit 18 (ucast m) + frac :: u32" and ?D = "push_bit 18 (ucast n + 1) * ucast m2 :: u32"
  have c: "unat (ucast m :: u32) = unat m" "unat (ucast m2 :: u32) = unat m2" by (simp_all add: unat_ucast_up)
  have "unat (push_bit 18 (ucast m) :: u32) = unat m * 2 ^ 18"
    using assms(1) by (subst unat_push_bit_small) (simp_all only: c, simp_all)
  then have M: "unat ?M = 2 ^ 18 * unat m + unat frac" using assms(1,2) by (subst unat_add_eq) (simp_all only: mult.commute, simp_all)
  have n: "unat (push_bit 18 (ucast n + 1) :: u32) = (unat n + 1) * 2 ^ 18"
    using unsigned_less [of n, where ?'a = nat] by (subst unat_push_bit_small) (simp_all only: unat_n1, simp_all)
  have D: "unat ?D = 2 ^ 18 * ((unat n + 1) * unat m2)"
  proof -
    have "a * 2 ^ 18 * b < 2 ^ 32" if "a * b < 2 ^ 14" for a b :: nat
      using that by (simp add: mult.commute [of a] mult.assoc)
    note lt = this [OF assms(3)]
    have "unat (push_bit 18 (ucast n + 1) :: u32) * unat (ucast m2 :: u32) < 2 ^ LENGTH(32)" unfolding n c using lt by simp
    then have "unat ?D = (unat n + 1) * 2 ^ 18 * unat m2" by (simp only: unat_mult_eq n c)
    then show ?thesis by (simp only: mult.commute [of _ "2 ^ 18"] mult.assoc)
  qed
  show ?thesis unfolding adpll_compute_new_rate_def Let_def ratio_value M D ..
qed

lemma test_dco_fields:
  "adpll_test_dco_freq dd T = (ret, dd') \<Longrightarrow> pre_div_n dd' = pre_div_n dd \<and> last_rounded_n dd' = last_rounded_n dd
     \<and> max_multiplier dd' = max_multiplier dd \<and> clk_ref dd' = clk_ref dd \<and> last_rounded_rate dd' = last_rounded_rate dd"
  by (auto simp: adpll_test_dco_freq_def Let_def split: if_splits prod.splits)

lemma rounded_mult_fields:
  "rounded_mult inp dd T = (ret, dd') \<Longrightarrow> pre_div_n dd' = pre_div_n dd \<and> last_rounded_n dd' = last_rounded_n dd
     \<and> last_rounded_m2 dd' = last_rounded_m2 dd \<and> clk_ref dd' = clk_ref dd \<and> last_rounded_rate dd' = last_rounded_rate dd"
  by (auto simp: rounded_mult_def Let_def split: if_splits)

lemma round_fitsI:
  assumes "dpll_limits dd" "unat r mod 10000 = 0" "4000000 \<le> unat r" "unat r < 10000 * 2 ^ 14"
    "unat T \<le> 2000000000" "unat T * unat (post_div_m2 dd) < 2 ^ 32"
    "last_rounded_n dd = pre_div_n dd" "adpll_test_dco_freq dd T = (0, dd')"
  shows "round_fits r dd' T"
proof -
  have lim: "unat (pre_div_n dd) < 128" "1 \<le> unat (post_div_m2 dd)" "unat (post_div_m2 dd) \<le> 31" "max_multiplier dd \<le> 0xfff"
    using assms(1) by (simp_all add: dpll_limits_def word_less_nat_alt word_le_nat_alt)
  note f = test_dco_fields [OF assms(8)]
  let ?m2 = "LEAST k. unat (post_div_m2 dd) \<le> k \<and> dco_band dd k T"
  have "\<exists>k \<ge> unat (post_div_m2 dd). dco_band dd k T" "unat (last_rounded_m2 dd') = ?m2"
    using adpll_test_dco_freq_correct [OF lim(2,3) assms(5,6)] assms(8) by auto
  then have m2: "unat (post_div_m2 dd) \<le> unat (last_rounded_m2 dd')" "dco_band dd (unat (last_rounded_m2 dd')) T"
    using LeastI_ex [of "\<lambda>k. unat (post_div_m2 dd) \<le> k \<and> dco_band dd k T"] by auto
  then have m2': "1 \<le> unat (last_rounded_m2 dd')" "unat (last_rounded_m2 dd') \<le> 127" "unat T * unat (last_rounded_m2 dd') \<le> 2000000000"
    using lim(2) by (auto simp: dco_band_def split: if_splits)
  let ?n1 = "unat (pre_div_n dd) + 1"
  have k: "dividers dd' = ?n1 * unat (last_rounded_m2 dd')" using f by (simp add: dividers_def)
  have "dividers dd' \<le> 128 * 127" unfolding k using lim(1) m2'(2) by (intro mult_le_mono) simp_all
  moreover have "0 < dividers dd'" unfolding k using m2'(1) by simp
  moreover have "unat T * dividers dd' < 2 ^ 16 * unat r"
  proof -
    have "unat T * dividers dd' = ?n1 * (unat T * unat (last_rounded_m2 dd'))" unfolding k by (simp add: algebra_simps)
    also have "\<dots> \<le> 128 * 2000000000" using lim(1) m2'(3) by (intro mult_le_mono) simp_all
    also have "\<dots> < 2 ^ 16 * unat r" using assms(3) by simp
    finally show ?thesis .
  qed
  ultimately show ?thesis using assms(2-4,7) lim(4) f by (simp add: round_fits_def)
qed

lemma mult_rate_bounds:
  fixes r T k :: nat
  assumes "r mod 10000 = 0" "0 < r" "0 < k"
  defines "q \<equiv> r * mult_of T k (r div 10000) div (2 ^ 18 * k)"
  shows "q \<le> T" "T * (2 ^ 18 * k) < (q + 1) * (2 ^ 18 * k) + 2 * r"
proof -
  let ?D = "2 ^ 18 * k" and ?M = "mult_of T k (r div 10000)"
  have "0 < r div 10000" "10000 * (r div 10000) = r" using assms(1,2) by auto
  then have b: "r * ?M \<le> T * ?D" "T * ?D < r * ?M + 2 * r"
    using mult_of_bounds [of "r div 10000" T k] by (simp_all add: algebra_simps)
  show "q \<le> T" using div_le_mono [OF b(1), of ?D] assms(3) by (simp add: q_def)
  have "r * ?M < (q + 1) * ?D"
    unfolding q_def using assms(3) by (metis Suc_eq_plus1 dividend_less_times_div mult.commute mult_Suc_right nat_0_less_mult_iff zero_less_numeral zero_less_power)
  then show "T * ?D < (q + 1) * ?D + 2 * r" using b(2) by linarith
qed

lemma round_rate_run:
  assumes "clk_dpll_data (clks s c) = Some d" "clk_parent (clks s c) = Some p"
    "ti814x_dpll_round_rate c T s = Some (v, t)" "last_rounded_rate (dplls t d) \<noteq> 0"
  obtains dd1 dd2 where
    "adpll_test_dco_freq ((dplls s d)\<lparr>last_rounded_rate := 0, last_rounded_n := pre_div_n (dplls s d)\<rparr>) T = (0, dd1)"
    "rounded_mult (rate_of p s) dd1 T = (0, dd2)"
    "v = adpll_compute_new_rate (rate_of (clk_ref dd2) s) (ucast (last_rounded_m dd2)) (last_rounded_frac_m dd2)
           (ucast (last_rounded_n dd2)) (ucast (last_rounded_m2 dd2))"
    "dplls t d = dd2\<lparr>last_rounded_rate := v\<rparr>"
proof -
  let ?dd = "(dplls s d)\<lparr>last_rounded_rate := 0, last_rounded_n := pre_div_n (dplls s d)\<rparr>"
  obtain ret1 dd1 where 1: "adpll_test_dco_freq ?dd T = (ret1, dd1)" by fastforce
  obtain ret2 dd2 where 2: "rounded_mult (rate_of p s) dd1 T = (ret2, dd2)" by fastforce
  have z: "last_rounded_rate dd1 = 0" "last_rounded_rate dd2 = 0"
    using test_dco_fields [OF 1] rounded_mult_fields [OF 2] by simp_all
  have "ret1 = 0" "ret2 = 0"
    using assms 1 2 z by (auto simp: ti814x_dpll_round_rate_def dpll_get_rounded_vals_def dpll_upd_def Let_def split: if_splits)
  then show thesis
    using that [of dd1 dd2] assms 1 2
    by (auto simp: ti814x_dpll_round_rate_def dpll_get_rounded_vals_def dpll_upd_def Let_def)
qed

section \<open>Properties\<close>



end
