(* ===== verification/Adpll_Program.thy ===== *)
theory Adpll_Program
  imports Adpll Omap2_Clock
begin

unbundle bit_operations_syntax

text \<open>
  Programming a DPLL (\<^verbatim>\<open>ti814x_dpll_program\<close>): the registers it writes, what they
  read afterwards, the rate the DPLL then reports, and the bounded waits for its status.
\<close>

section \<open>Specification\<close>

text \<open>
  The registers and fields of a DPLL do not overlap: its registers are distinct, the fields
  that share a register are disjoint, and the mode bits of the control register are
  different bits.
\<close>

definition dpll_layout :: "dpll_data \<Rightarrow> bool" where
  "dpll_layout dd \<longleftrightarrow>
     distinct [mult_div1_reg dd, frac_mult_reg dd, div_m2n_reg dd, control_reg dd, load_mn_reg dd, load_m2n2_reg dd]
     \<and> frac_mult_mask dd AND sddiv_mask dd = 0 \<and> div_m2_mask dd AND div_n_mask dd = 0
     \<and> (sddiv_mask dd \<noteq> 0 \<longrightarrow> (\<forall>x :: u8. field_fits (sddiv_mask dd) (ucast x)))
     \<and> dco_mask dd = 0
     \<and> BIT (bypass_bit dd) AND BIT (stby_ret_bit dd) = 0
     \<and> (\<forall>b \<in> {TI814X_ADPLL_TINITZ_SHIFT, TI814X_ADPLL_CLKOUTLDOEN_SHIFT, TI814X_ADPLL_CLKDCOLDOEN_SHIFT}.
          BIT b AND BIT (bypass_bit dd) = 0 \<and> BIT b AND BIT (stby_ret_bit dd) = 0)"

definition dpll_regs :: "dpll_data \<Rightarrow> u32 set" where
  "dpll_regs dd = {mult_div1_reg dd, frac_mult_reg dd, div_m2n_reg dd, control_reg dd}"

text \<open>
  The status field of the DPLL \<open>d\<close> shows \<open>st\<close> within the time the driver allows for it, from
  every state of its registers in which the bits \<open>bits\<close> of its control register are clear.
\<close>

definition dpll_responds :: "dpll_id \<Rightarrow> u32 \<Rightarrow> u32 \<Rightarrow> 'a kstate_scheme \<Rightarrow> bool" where
  "dpll_responds d bits st s \<longleftrightarrow>
     (\<forall>r n. r (control_reg (dplls s d)) AND bits = 0
        \<longrightarrow> (\<exists>k < MAX_DPLL_WAIT_TRIES. dpll_status_is d st (delays k (s\<lparr>regs := r, now := n\<rparr>))))"

section \<open>Lemmas\<close>

lemma raw_readl_delay1: "hw_keeps A s \<Longrightarrow> a \<in> A \<Longrightarrow> raw_readl a (delay1 s) = raw_readl a s"
  using raw_readl_delays [of A s a 1] by simp

lemma raw_readl_reg [mmio_simps]:
  "raw_readl a (reg_set bits b s) = (if b = a then raw_readl a s OR bits else raw_readl a s)"
  "raw_readl a (reg_clear bits b s) = (if b = a then raw_readl a s AND NOT bits else raw_readl a s)"
  "raw_readl a (write_field m x b s) = (if b = a then field_set m x (raw_readl a s) else raw_readl a s)"
  by (simp_all add: reg_set_def reg_clear_def write_field_def mmio_simps)

lemma hw_reg [frame_simps]:
  "hw (reg_set bits b s) = hw s" "hw (reg_clear bits b s) = hw s" "hw (write_field m x b s) = hw s" "hw (write_m2n dd m2 n s) = hw s"
  "hw (pulse_reg bits b s) = hw s"
  by (simp_all add: reg_set_def reg_clear_def write_field_def write_m2n_def pulse_reg_def frame_simps)

lemma hw_dpll [frame_simps]:
  "hw (snd (ti814x_wait_dpll_status d st u)) = hw u" "hw (snd (ti814x_dpll_bypass d u)) = hw u"
  "hw (dpll_write_config r dd m f n m2 dco s) = hw s"
  by (simp_all add: ti814x_wait_dpll_status_def ti814x_dpll_bypass_def dpll_write_config_def Let_def case_prod_unfold
      omap_test_timeout_delays frame_simps)

lemma hw_keeps_dpll [frame_simps]:
  "hw_keeps A (reg_set bits b s) = hw_keeps A s" "hw_keeps A (reg_clear bits b s) = hw_keeps A s"
  "hw_keeps A (write_field m x b s) = hw_keeps A s" "hw_keeps A (write_m2n dd y z s) = hw_keeps A s"
  "hw_keeps A (pulse_reg bits b s) = hw_keeps A s" "hw_keeps A (delay1 s) = hw_keeps A s"
  "hw_keeps A (dpll_write_config r dd m' f n m2 dco s) = hw_keeps A s"
  "hw_keeps A (snd (ti814x_wait_dpll_status d st u)) = hw_keeps A u" "hw_keeps A (snd (ti814x_dpll_bypass d u)) = hw_keeps A u"
  by (simp_all add: hw_keeps_def frame_simps)

lemma raw_readl_wait: "hw_keeps A s \<Longrightarrow> a \<in> A \<Longrightarrow> raw_readl a (snd (ti814x_wait_dpll_status d st s)) = raw_readl a s"
  by (simp add: ti814x_wait_dpll_status_def Let_def case_prod_unfold omap_test_timeout_delays raw_readl_delays)

lemma raw_readl_pulse:
  "hw_keeps A s \<Longrightarrow> a \<in> A \<Longrightarrow> b \<noteq> a \<Longrightarrow> raw_readl a (pulse_reg bits b s) = raw_readl a s"
  by (simp add: pulse_reg_def mmio_simps raw_readl_delay1 [of A] frame_simps)

lemma raw_readl_m2n [mmio_simps]:
  "raw_readl a (write_m2n dd m2 n s) =
     (if div_m2n_reg dd = a
      then ((raw_readl a s AND NOT (div_m2_mask dd OR div_n_mask dd)) OR push_bit (ffs (div_m2_mask dd)) m2) OR push_bit (ffs (div_n_mask dd)) n
      else raw_readl a s)"
  by (simp add: write_m2n_def mmio_simps)

text \<open>The two divider fields of one register are two field writes.\<close>

lemma m2n_fields:
  assumes "field_fits a x" "field_fits b y" "a AND b = 0"
  shows "field_get a (((v AND NOT (a OR b)) OR push_bit (ffs a) x) OR push_bit (ffs b) y) = x"
    "field_get b (((v AND NOT (a OR b)) OR push_bit (ffs a) x) OR push_bit (ffs b) y) = y"
proof -
  have eq: "((v AND NOT (a OR b)) OR push_bit (ffs a) x) OR push_bit (ffs b) y = field_set b y (field_set a x v)"
    using assms by (auto simp: field_set_def field_fits_def bit_eq_iff bit_simps)
  have "b AND a = 0" using assms(3) by (simp add: and.commute)
  then show "field_get a (((v AND NOT (a OR b)) OR push_bit (ffs a) x) OR push_bit (ffs b) y) = x"
    "field_get b (((v AND NOT (a OR b)) OR push_bit (ffs a) x) OR push_bit (ffs b) y) = y"
    unfolding eq using assms by (simp_all add: field_get_set field_get_set_other)
qed

lemma field_set_0 [simp]: "field_set 0 x v = v"
  by (intro bit_eqI) (simp add: field_set_def ffs_0 bit_simps)

lemma field_fits_0 [simp]: "field_fits m 0"
  by (simp add: field_fits_def)

lemma dpll_write_config_reads:
  assumes "dpll_layout dd" "hw_keeps (dpll_regs dd) s"
    and fits: "field_fits (mult_mask dd) (ucast m)" "field_fits (frac_mult_mask dd) f" "field_fits (div_n_mask dd) (ucast n)" "field_fits (div_m2_mask dd) (ucast m2)"
    and t: "t = dpll_write_config r dd m f n m2 dco s"
  shows "field_get (mult_mask dd) (raw_readl (mult_div1_reg dd) t) = ucast m"
    "field_get (frac_mult_mask dd) (raw_readl (frac_mult_reg dd) t) = f"
    "field_get (div_n_mask dd) (raw_readl (div_m2n_reg dd) t) = ucast n"
    "field_get (div_m2_mask dd) (raw_readl (div_m2n_reg dd) t) = ucast m2"
    "raw_readl (control_reg dd) t = raw_readl (control_reg dd) s OR BIT TI814X_ADPLL_CLKOUTLDOEN_SHIFT OR BIT TI814X_ADPLL_CLKDCOLDOEN_SHIFT"
proof -
  have l: "distinct [mult_div1_reg dd, frac_mult_reg dd, div_m2n_reg dd, control_reg dd, load_mn_reg dd, load_m2n2_reg dd]"
    "frac_mult_mask dd AND sddiv_mask dd = 0" "div_m2_mask dd AND div_n_mask dd = 0"
    "sddiv_mask dd \<noteq> 0 \<longrightarrow> (\<forall>x :: u8. field_fits (sddiv_mask dd) (ucast x))" "dco_mask dd = 0"
    using assms(1) by (simp_all add: dpll_layout_def)
  have mem: "mult_div1_reg dd \<in> dpll_regs dd" "frac_mult_reg dd \<in> dpll_regs dd" "div_m2n_reg dd \<in> dpll_regs dd" "control_reg dd \<in> dpll_regs dd"
    by (simp_all add: dpll_regs_def)
  note rw = t dpll_write_config_def Let_def mmio_simps raw_readl_pulse [of "dpll_regs dd"] frame_simps assms(2) mem
  show "field_get (mult_mask dd) (raw_readl (mult_div1_reg dd) t) = ucast m"
    using l fits by (auto simp: rw field_get_set)
  show "field_get (frac_mult_mask dd) (raw_readl (frac_mult_reg dd) t) = f"
    using l fits by (auto simp: rw field_get_set field_get_set_other and.commute split: option.splits)
  note mn = m2n_fields [OF fits(4,3) l(3), simplified]
  show "field_get (div_n_mask dd) (raw_readl (div_m2n_reg dd) t) = ucast n"
    using l by (auto simp: rw mn)
  show "field_get (div_m2_mask dd) (raw_readl (div_m2n_reg dd) t) = ucast m2"
    using l by (auto simp: rw mn)
  show "raw_readl (control_reg dd) t = raw_readl (control_reg dd) s OR BIT TI814X_ADPLL_CLKOUTLDOEN_SHIFT OR BIT TI814X_ADPLL_CLKDCOLDOEN_SHIFT"
    using l by (auto simp: rw or.assoc)
qed

lemma dpll_ops_more [frame_simps]:
  "world.more (raw_writel v a w) = world.more w" "world.more (delay1 w) = world.more w" "world.more (delays k w) = world.more w"
  "world.more (reg_set bits b w) = world.more w" "world.more (reg_clear bits b w) = world.more w"
  "world.more (write_field m x b w) = world.more w" "world.more (write_m2n dd y z w) = world.more w"
  "world.more (pulse_reg bits b w) = world.more w" "world.more (dpll_write_config r dd m' f n m2 dco w) = world.more w"
proof -
  have d: "world.more (delays k w) = world.more w" for k and w :: "'a world_scheme"
    by (induction k arbitrary: w) (simp_all add: delay1_def)
  show "world.more (raw_writel v a w) = world.more w" "world.more (delay1 w) = world.more w" "world.more (delays k w) = world.more w"
  "world.more (reg_set bits b w) = world.more w" "world.more (reg_clear bits b w) = world.more w"
  "world.more (write_field m x b w) = world.more w" "world.more (write_m2n dd y z w) = world.more w"
  "world.more (pulse_reg bits b w) = world.more w" "world.more (dpll_write_config r dd m' f n m2 dco w) = world.more w"
    by (simp_all add: raw_writel_def delay1_def d reg_set_def reg_clear_def write_field_def write_m2n_def pulse_reg_def
        dpll_write_config_def Let_def)
qed

lemma more_kstate_fields:
  assumes "world.more t = world.more (s :: 'a kstate_scheme)"
  shows "clks t = clks s" "dplls t = dplls s"
  using assms by (cases s; cases t; simp)+

text \<open>What bypassing leaves of the four registers: only the bypass bit is set.\<close>

lemma dpll_bypass_reads:
  assumes "hw_keeps (dpll_regs (dplls s d)) s" "a \<in> dpll_regs (dplls s d)" "ti814x_dpll_bypass d s = (0, t)"
  shows "raw_readl a t = (if a = control_reg (dplls s d) then raw_readl a s OR BIT (bypass_bit (dplls s d)) else raw_readl a s)"
    "world.more t = world.more s" "hw_keeps (dpll_regs (dplls s d)) t"
proof -
  let ?u = "reg_set (BIT (bypass_bit (dplls s d))) (control_reg (dplls s d)) s"
  have t: "t = snd (ti814x_wait_dpll_status d ST_ADPLL_BYPASSED ?u)"
    using assms(3) by (auto simp: ti814x_dpll_bypass_def split: if_splits dest: arg_cong [where f = snd])
  show "raw_readl a t = (if a = control_reg (dplls s d) then raw_readl a s OR BIT (bypass_bit (dplls s d)) else raw_readl a s)"
    unfolding t using assms(1,2) by (subst raw_readl_wait [of "dpll_regs (dplls s d)"]) (auto simp: frame_simps mmio_simps)
  show "world.more t = world.more s"
    by (simp add: t ti814x_wait_dpll_status_def Let_def case_prod_unfold omap_test_timeout_delays frame_simps)
  show "hw_keeps (dpll_regs (dplls s d)) t" using assms(1) by (simp add: t frame_simps)
qed

text \<open>The rate that a DPLL with the four registers as programmed reports.\<close>

lemma get_dpll_rate_programmed:
  assumes "clk_dpll_data (clks t c) = Some d"
    "field_get (mult_mask (dplls t d)) (raw_readl (mult_div1_reg (dplls t d)) t) = m"
    "field_get (frac_mult_mask (dplls t d)) (raw_readl (frac_mult_reg (dplls t d)) t) = f"
    "field_get (div_n_mask (dplls t d)) (raw_readl (div_m2n_reg (dplls t d)) t) = n"
    "field_get (div_m2_mask (dplls t d)) (raw_readl (div_m2n_reg (dplls t d)) t) = m2"
    "raw_readl (control_reg (dplls t d)) t AND BIT (bypass_bit (dplls t d)) = 0"
    "raw_readl (control_reg (dplls t d)) t AND BIT (stby_ret_bit (dplls t d)) = 0"
  shows "ti814x_get_dpll_rate c t = adpll_compute_new_rate (rate_of (clk_ref (dplls t d)) t) m f n m2"
  using assms by (simp add: ti814x_get_dpll_rate_def adpll_compute_new_rate_def dpll_ratio_def)

text \<open>Leaving the configuration sequence and waiting for the lock.\<close>

lemma release_reads:
  assumes keep: "hw_keeps (dpll_regs (dplls v d)) v"
    and t: "t = snd (ti814x_wait_dpll_status d ST_ADPLL_LOCKED
             (if eb then snd (ti814x_rel_dpll_bypass d (ti814x_dpll_end_config_sequence d v)) else v))"
  shows "world.more t = world.more v"
    "a \<in> dpll_regs (dplls v d) \<Longrightarrow> raw_readl a t = (if a = control_reg (dplls v d) \<and> eb
      then (raw_readl a v OR BIT TI814X_ADPLL_TINITZ_SHIFT) AND NOT (BIT (bypass_bit (dplls v d))) else raw_readl a v)"
proof -
  let ?e = "ti814x_dpll_end_config_sequence d v"
  let ?w = "if eb then snd (ti814x_rel_dpll_bypass d ?e) else v"
  have e: "dplls ?e = dplls v" "hw_keeps (dpll_regs (dplls v d)) ?e"
    using more_kstate_fields(2) [of ?e v] keep by (simp_all add: ti814x_dpll_end_config_sequence_def frame_simps)
  have w: "world.more ?w = world.more v" "hw_keeps (dpll_regs (dplls v d)) ?w"
    using keep e by (simp_all add: ti814x_rel_dpll_bypass_def ti814x_dpll_end_config_sequence_def frame_simps)
  show "world.more t = world.more v"
    using w(1) by (simp add: t ti814x_wait_dpll_status_def Let_def case_prod_unfold omap_test_timeout_delays frame_simps)
  assume a: "a \<in> dpll_regs (dplls v d)"
  have "raw_readl a ?e = (if a = control_reg (dplls v d) then raw_readl a v OR BIT TI814X_ADPLL_TINITZ_SHIFT else raw_readl a v)"
    using a keep unfolding ti814x_dpll_end_config_sequence_def
    by (subst raw_readl_delay1 [of "dpll_regs (dplls v d)"]) (auto simp: frame_simps mmio_simps)
  then have "raw_readl a ?w = (if a = control_reg (dplls v d) \<and> eb
      then (raw_readl a v OR BIT TI814X_ADPLL_TINITZ_SHIFT) AND NOT (BIT (bypass_bit (dplls v d))) else raw_readl a v)"
    by (auto simp: ti814x_rel_dpll_bypass_def mmio_simps e(1))
  then show "raw_readl a t = (if a = control_reg (dplls v d) \<and> eb
      then (raw_readl a v OR BIT TI814X_ADPLL_TINITZ_SHIFT) AND NOT (BIT (bypass_bit (dplls v d))) else raw_readl a v)"
    unfolding t using raw_readl_wait [OF w(2) a] by simp
qed

lemma config_reads:
  assumes lay: "dpll_layout (dplls u d)" and keep: "hw_keeps (dpll_regs (dplls u d)) u"
    and fits: "field_fits (mult_mask (dplls u d)) (ucast m)" "field_fits (frac_mult_mask (dplls u d)) f"
      "field_fits (div_n_mask (dplls u d)) (ucast n)" "field_fits (div_m2_mask (dplls u d)) (ucast m2)"
    and ctrl: "raw_readl (control_reg (dplls u d)) u AND BIT (stby_ret_bit (dplls u d)) = 0"
      "\<not> eb \<Longrightarrow> raw_readl (control_reg (dplls u d)) u AND BIT (bypass_bit (dplls u d)) = 0"
    and dat: "clk_dpll_data (clks u c) = Some d"
    and v: "v = dpll_write_config r (dplls u d) m f n m2 dco u"
    and t: "t = snd (ti814x_wait_dpll_status d ST_ADPLL_LOCKED
             (if eb then snd (ti814x_rel_dpll_bypass d (ti814x_dpll_end_config_sequence d v)) else v))"
  shows "ti814x_get_dpll_rate c t = adpll_compute_new_rate (rate_of (clk_ref (dplls u d)) u) (ucast m) f (ucast n) (ucast m2)"
proof -
  let ?dd = "dplls u d"
  have vm: "world.more v = world.more u" "hw_keeps (dpll_regs ?dd) v" using keep by (simp_all add: v frame_simps)
  note vk = more_kstate_fields [OF vm(1)]
  have keepv: "hw_keeps (dpll_regs (dplls v d)) v" using vm(2) vk by simp
  note rr = release_reads [OF keepv t]
  have tk: "clks t = clks u" "dplls t = dplls u" using more_kstate_fields [OF rr(1)] vk by simp_all
  note cr = dpll_write_config_reads [OF lay keep fits v]
  have regs: "mult_div1_reg ?dd \<in> dpll_regs (dplls v d)" "frac_mult_reg ?dd \<in> dpll_regs (dplls v d)"
    "div_m2n_reg ?dd \<in> dpll_regs (dplls v d)" "control_reg ?dd \<in> dpll_regs (dplls v d)"
    by (simp_all add: dpll_regs_def vk)
  have d: "mult_div1_reg ?dd \<noteq> control_reg ?dd" "frac_mult_reg ?dd \<noteq> control_reg ?dd" "div_m2n_reg ?dd \<noteq> control_reg ?dd"
    using lay by (auto simp: dpll_layout_def)
  have same: "raw_readl (mult_div1_reg ?dd) t = raw_readl (mult_div1_reg ?dd) v" "raw_readl (frac_mult_reg ?dd) t = raw_readl (frac_mult_reg ?dd) v"
    "raw_readl (div_m2n_reg ?dd) t = raw_readl (div_m2n_reg ?dd) v"
    using rr(2) [OF regs(1)] rr(2) [OF regs(2)] rr(2) [OF regs(3)] d vk by simp_all
  have bits: "BIT b AND BIT (bypass_bit ?dd) = 0" "BIT b AND BIT (stby_ret_bit ?dd) = 0"
    if "b \<in> {TI814X_ADPLL_TINITZ_SHIFT, TI814X_ADPLL_CLKOUTLDOEN_SHIFT, TI814X_ADPLL_CLKDCOLDOEN_SHIFT}" for b
    using lay that unfolding dpll_layout_def by blast+
  have cv: "raw_readl (control_reg ?dd) v AND BIT (stby_ret_bit ?dd) = 0"
      "\<not> eb \<Longrightarrow> raw_readl (control_reg ?dd) v AND BIT (bypass_bit ?dd) = 0"
    unfolding cr(5) ctrl_bits(1) using ctrl bits by simp_all
  have c: "raw_readl (control_reg ?dd) t AND BIT (bypass_bit ?dd) = 0" "raw_readl (control_reg ?dd) t AND BIT (stby_ret_bit ?dd) = 0"
  proof -
    have e: "raw_readl (control_reg ?dd) t = (if eb then (raw_readl (control_reg ?dd) v OR BIT TI814X_ADPLL_TINITZ_SHIFT) AND NOT (BIT (bypass_bit ?dd))
        else raw_readl (control_reg ?dd) v)" using rr(2) [OF regs(4)] vk(2) by simp
    have "(raw_readl (control_reg ?dd) v OR BIT TI814X_ADPLL_TINITZ_SHIFT) AND BIT (stby_ret_bit ?dd) = 0"
      unfolding ctrl_bits(1) using cv(1) bits(2) by blast
    from ctrl_bits(3) [OF this] show "raw_readl (control_reg ?dd) t AND BIT (stby_ret_bit ?dd) = 0" unfolding e using cv(1) by (cases eb) auto
    show "raw_readl (control_reg ?dd) t AND BIT (bypass_bit ?dd) = 0" unfolding e using cv(2) by (cases eb) (auto simp: ctrl_bits(2))
  qed
  show ?thesis
    using get_dpll_rate_programmed [of t c d] dat cr(1-4) same c tk by simp
qed

lemma ti814x_wait_dpll_status_iff:
  "fst (ti814x_wait_dpll_status d st s) = 0 \<longleftrightarrow> (\<exists>k < MAX_DPLL_WAIT_TRIES. dpll_status_is d st (delays k s))"
    "fst (ti814x_wait_dpll_status d st s) = 0 \<Longrightarrow> dpll_status_is d st (snd (ti814x_wait_dpll_status d st s))"
proof -
  let ?t = "omap_test_timeout (dpll_status_is d st) MAX_DPLL_WAIT_TRIES s"
  have eq: "fst (ti814x_wait_dpll_status d st s) = 0 \<longleftrightarrow> fst ?t < MAX_DPLL_WAIT_TRIES"
    using omap_test_timeout_le [of "dpll_status_is d st" MAX_DPLL_WAIT_TRIES s]
    by (auto simp: ti814x_wait_dpll_status_def Let_def case_prod_unfold)
  show st: "dpll_status_is d st (snd (ti814x_wait_dpll_status d st s))" if "fst (ti814x_wait_dpll_status d st s) = 0"
    using omap_test_timeout_hit [of "dpll_status_is d st" MAX_DPLL_WAIT_TRIES s] that eq
    by (simp add: ti814x_wait_dpll_status_def Let_def case_prod_unfold)
  show "fst (ti814x_wait_dpll_status d st s) = 0 \<longleftrightarrow> (\<exists>k < MAX_DPLL_WAIT_TRIES. dpll_status_is d st (delays k s))"
  proof
    assume "fst (ti814x_wait_dpll_status d st s) = 0"
    then have "fst ?t < MAX_DPLL_WAIT_TRIES" "dpll_status_is d st (snd ?t)"
      using eq omap_test_timeout_hit [of "dpll_status_is d st" MAX_DPLL_WAIT_TRIES s] by blast+
    then show "\<exists>k < MAX_DPLL_WAIT_TRIES. dpll_status_is d st (delays k s)" by (auto simp: omap_test_timeout_delays)
  next
    assume "\<exists>k < MAX_DPLL_WAIT_TRIES. dpll_status_is d st (delays k s)"
    then show "fst (ti814x_wait_dpll_status d st s) = 0"
      using eq omap_test_timeout_in_time [of "dpll_status_is d st" _ s MAX_DPLL_WAIT_TRIES] le_less_trans by blast
  qed
qed

lemma delays_upd: "delays k s = s\<lparr>regs := regs (delays k s), now := now (delays k s)\<rparr>"
proof (induction k arbitrary: s)
  case (Suc k)
  show ?case using Suc [of "delay1 s"] by (simp add: delay1_def)
qed simp

lemma dpll_respondsD:
  assumes "dpll_responds d bits st s" "world.more u = world.more s" "hw u = hw s" "raw_readl (control_reg (dplls s d)) u AND bits = 0"
  shows "fst (ti814x_wait_dpll_status d st u) = 0"
proof -
  have "u = s\<lparr>regs := regs u, now := now u\<rparr>" using assms(2,3) by (cases u; cases s) simp
  then show ?thesis using assms(1,4) unfolding ti814x_wait_dpll_status_iff dpll_responds_def raw_readl_def by metis
qed

lemma wait_more [frame_simps]:
  "world.more (snd (ti814x_wait_dpll_status d st s)) = world.more s" "world.more (snd (ti814x_wait_dpll_ret_ack d v s)) = world.more s"
  "hw (snd (ti814x_wait_dpll_ret_ack d v s)) = hw s"
  by (simp_all add: ti814x_wait_dpll_status_def ti814x_wait_dpll_ret_ack_def Let_def case_prod_unfold omap_test_timeout_delays frame_simps)

section \<open>Properties\<close>


text \<open>
  C31: waiting for a DPLL status ends within 100000 microseconds and returns 0 exactly when
  the status is shown at one of the polled instants.
\<close>

theorem ti814x_wait_dpll_status_bounded:
  "(fst (ti814x_wait_dpll_status d st s) = 0 \<longleftrightarrow> (\<exists>k < MAX_DPLL_WAIT_TRIES. dpll_status_is d st (delays k s)))
   \<and> (\<exists>k \<le> MAX_DPLL_WAIT_TRIES. snd (ti814x_wait_dpll_status d st s) = delays k s)"
  using ti814x_wait_dpll_status_iff(1) [of d st s] omap_test_timeout_le [of "dpll_status_is d st" MAX_DPLL_WAIT_TRIES s]
    omap_test_timeout_delays [of "dpll_status_is d st" MAX_DPLL_WAIT_TRIES s]
  by (auto simp: ti814x_wait_dpll_status_def Let_def case_prod_unfold)


end
