(* ===== verification/Adpll_Instances.thy ===== *)
theory Adpll_Instances
  imports Clock_Boot Adpll_Rounding Adpll_Program
begin

unbundle bit_operations_syntax

text \<open>
  The thirteen DPLLs of the DM814x clock data: they satisfy what the lemmas on rounding and
  programming need, the DCO range is never programmed, and the DCO rate of the USB clocks
  is lost. A small concrete DPLL on which those properties are evaluated.
\<close>

section \<open>Specification\<close>

text \<open>
  The DSP DPLL below its 20 MHz oscillator, both as the clock data has them, with a status
  register that follows the bypass bit of the control register after one instant.
\<close>

definition adpll_hw :: "u32 \<Rightarrow> u32 \<Rightarrow> nat \<Rightarrow> (u32 \<Rightarrow> u32) \<Rightarrow> u32 \<Rightarrow> u32" where
  "adpll_hw ctrl st n r = r(st := (if r ctrl AND 0x800000 = 0 then ST_ADPLL_LOCKED else ST_ADPLL_BYPASSED))"

definition dsp_dpll :: kstate where
  "dsp_dpll = dm814x_clk_reset\<lparr>hw := adpll_hw 0xfa1c5084 0xfa1c50a4,
     clks := (\<lambda>_. clk_zero)(ID_osc0_clkin_ck := osc0_clkin_ck, ID_dsp_dpll_ck := dsp_dpll_ck)\<rparr>"

section \<open>Lemmas\<close>

lemma field_fits_top: "field_fits 0xff000000 (ucast (x :: u8))"
proof -
  have f: "ffs 0xff000000 = 24"
    by (simp add: ffs_nonzero upt_rec_numeral upt_rec [of 0 32] upt_rec [of "Suc 0" 32] numeral_2_eq_2 [symmetric])
  have m: "(0xff000000 :: u32) = push_bit 24 (mask 8)" by (simp add: mask_eq_exp_minus_1)
  have "push_bit 24 (ucast x) AND NOT (push_bit 24 (mask 8)) = (0 :: u32)" "drop_bit 24 (push_bit 24 (ucast x)) = (ucast x :: u32)"
    by (rule bit_eqI, force simp: bit_simps dest: bit_imp_le_length)+
  then show ?thesis unfolding field_fits_def f m [symmetric] by simp
qed

lemmas dpll_data_defs = dpll_zero_def arm_dpll_dd_def dsp_dpll_dd_def sgx_dpll_dd_def hdvicp_dpll_dd_def l3_dpll_dd_def iss_dpll_dd_def
  hdvpss_dpll_dd_def usb_dpll_dd_def ddr_dpll_dd_def video0_dpll_dd_def video1_dpll_dd_def hdmi_dpll_dd_def audio_dpll_dd_def

lemma ti814x_dplls_ok: "list_all (\<lambda>dd. dpll_layout dd \<and> dpll_limits dd) ti814x_dplls"
  unfolding ti814x_dplls_def by (simp add: dpll_layout_def dpll_limits_def field_fits_top dpll_data_defs BIT_def)

lemma dsp_dpll_simps [simp]:
  "clk_dpll_data (clks dsp_dpll 26) = Some 1" "clk_parent (clks dsp_dpll 26) = Some 3" "dplls dsp_dpll (Suc 0) = dsp_dpll_dd"
  "rate_of 3 dsp_dpll = 20000000" "rate_of 26 dsp_dpll = 0" "regs dsp_dpll = (\<lambda>_. 0)" "hw dsp_dpll = adpll_hw 0xfa1c5084 0xfa1c50a4"
  by (simp_all add: dsp_dpll_def dm814x_clk_reset_def ti814x_dplls_def osc0_clkin_ck_def dsp_dpll_ck_def clk_zero_def)

lemma dsp_dd_ok: "dpll_layout dsp_dpll_dd" "dpll_limits dsp_dpll_dd"
  using ti814x_dplls_ok by (simp_all add: ti814x_dplls_def)

lemma dsp_ffs: "ffs 0x701 = 0" "ffs 0xfff = 0" "ffs 0xff = 0" "ffs 0x7f0000 = 16" "ffs 0x3ffff = 0"
  by (simp_all add: ffs_nonzero upt_rec_numeral upt_rec [of 0 32] upt_rec [of "Suc 0" 32] numeral_2_eq_2 [symmetric])

lemma dsp_dpll_hw: "dpll_responds 1 (BIT (bypass_bit dsp_dpll_dd)) ST_ADPLL_LOCKED dsp_dpll"
  "hw_keeps (dpll_regs dsp_dpll_dd) dsp_dpll"
proof -
  show "hw_keeps (dpll_regs dsp_dpll_dd) dsp_dpll"
    by (auto simp: hw_keeps_def dpll_regs_def dsp_dpll_dd_def adpll_hw_def)
  have "dpll_status_is 1 ST_ADPLL_LOCKED (delays 1 (dsp_dpll\<lparr>regs := r, now := n\<rparr>))" if "r 0xfa1c5084 AND 0x800000 = 0" for r n
    using that by (simp add: dpll_status_is_def delay1_def dsp_dpll_dd_def adpll_hw_def dsp_ffs raw_readl_def)
  then show "dpll_responds 1 (BIT (bypass_bit dsp_dpll_dd)) ST_ADPLL_LOCKED dsp_dpll"
    unfolding dpll_responds_def by (intro allI impI exI [of _ 1]) (simp add: dsp_dpll_dd_def BIT_def)
qed

section \<open>Properties\<close>


text \<open>
  C33: no DPLL description of the DM814x sets dco_mask, so the oscillator range chosen by
  the rounding never reaches the control register: what ti814x_dpll_program writes does not
  depend on it.
\<close>

theorem dpll_dco_not_programmed:
  "list_all (\<lambda>dd. dpll_write_config r dd m f n m2 dco s = dpll_write_config r dd m f n m2 dco' s) ti814x_dplls"
proof -
  have "list_all (\<lambda>dd. dco_mask dd = 0) ti814x_dplls" by (simp add: ti814x_dplls_def dpll_data_defs)
  then show ?thesis by (rule list.pred_mono_strong) (simp add: dpll_write_config_def write_field_def Let_def)
qed

text \<open>
  C34: on a DM814x later than ES1.0 the recalculated rate of the two USB PHY reference
  clocks is always 0, because ti814x_dpll_dco_recalc masks the post-divider, which is in
  bits 16 to 22, into an 8-bit variable before shifting it down.
\<close>

theorem usb_dco_rate_zero:
  assumes "k = usb_phy0_rclk_ick \<or> k = usb_phy1_rclk_ick" "clk_dpll_data (clks s c) = clk_dpll_data k"
    "div_m2_mask (dplls s 7) = div_m2_mask (ti814x_dplls ! 7)" "\<not> es1_0 s"
  shows "map_option (\<lambda>f. run_recalc f c s) (clk_recalc_fn k) = Some (Some 0)"
proof -
  have "clk_dpll_data (clks s c) = Some 7" "clk_recalc_fn k = Some Ti814x_dpll_dco_recalc"
    using assms(1,2) by (auto simp: usb_phy0_rclk_ick_def usb_phy1_rclk_ick_def)
  moreover have "div_m2_mask (dplls s 7) = 0x7f0000" using assms(3) by (simp add: ti814x_dplls_def usb_dpll_dd_def)
  moreover have "(ucast (raw_readl a s AND 0x7f0000) :: u8) = 0" for a
  proof -
    have "(ucast (0x7f0000 :: u32) :: u8) = 0" by simp
    then show ?thesis by (simp only: unsigned_and_eq and_zero_eq)
  qed
  ultimately show ?thesis using assms(4) by (simp add: ti814x_dpll_dco_recalc_def Let_def)
qed

theorem usb_dco_rate_zero_witness:
  "ti814x_dpll_dco_recalc 5 (dm814x_clk_reset\<lparr>clks := \<lambda>_. usb_phy0_rclk_ick\<rparr>) = Some 0"
  using usb_dco_rate_zero [of usb_phy0_rclk_ick "dm814x_clk_reset\<lparr>clks := \<lambda>_. usb_phy0_rclk_ick\<rparr>" 5]
  by (simp add: dm814x_clk_reset_def usb_phy0_rclk_ick_def)





end
