(* ===== verification/Clkdev.thy ===== *)
theory Clkdev
  imports Clock_Boot
begin

text \<open>
  The lookup of clocks by device and connection name (\<^verbatim>\<open>arch/arm/common/clkdev.c\<close>) and
  the names of the clocks of the DM814x (\<^verbatim>\<open>ti814x_clks\<close> of \<^verbatim>\<open>clock814x_data.c\<close>).
  The lookup is shown to return the first of the most specific entries, and every clock of
  the table to be found by the names it is registered with.
\<close>

section \<open>Lookup\<close>

record clk_lookup =
  lk_dev_id :: "string option"
  lk_con_id :: "string option"
  lk_clk :: clk_id

text \<open>The value of \<^verbatim>\<open>match\<close> for an entry, or \<^term>\<open>None\<close> where the code continues with the next one.\<close>

definition clk_match :: "string option \<Rightarrow> string option \<Rightarrow> clk_lookup \<Rightarrow> nat option" where
  "clk_match dev_id con_id p =
     (if lk_dev_id p \<noteq> None \<and> (dev_id = None \<or> lk_dev_id p \<noteq> dev_id) then None
      else
        let match = (if lk_dev_id p \<noteq> None then 2 else 0) in
        if lk_con_id p \<noteq> None \<and> (con_id = None \<or> lk_con_id p \<noteq> con_id) then None
        else Some (if lk_con_id p \<noteq> None then match + 1 else match))"

fun clk_find_loop :: "string option \<Rightarrow> string option \<Rightarrow> clk_lookup list \<Rightarrow> clk_id option \<Rightarrow> nat \<Rightarrow> clk_id option" where
  "clk_find_loop dev_id con_id [] clk best = clk"
| "clk_find_loop dev_id con_id (p # ps) clk best =
     (case clk_match dev_id con_id p of
        None \<Rightarrow> clk_find_loop dev_id con_id ps clk best
      | Some match \<Rightarrow>
          if match > best
          then (if match \<noteq> 3 then clk_find_loop dev_id con_id ps (Some (lk_clk p)) match else Some (lk_clk p))
          else clk_find_loop dev_id con_id ps clk best)"

definition clk_find :: "string option \<Rightarrow> string option \<Rightarrow> clk_lookup list \<Rightarrow> clk_id option" where
  "clk_find dev_id con_id lks = clk_find_loop dev_id con_id lks None 0"

text \<open>On OMAP \<^verbatim>\<open>__clk_get\<close> is 1 and \<^verbatim>\<open>__clk_put\<close> does nothing.\<close>

definition clk_get_sys :: "string option \<Rightarrow> string option \<Rightarrow> clk_lookup list \<Rightarrow> int + clk_id" where
  "clk_get_sys dev_id con_id lks = (case clk_find dev_id con_id lks of None \<Rightarrow> Inl (- ENOENT) | Some clk \<Rightarrow> Inr clk)"

text \<open>\<open>dev\<close> is the name of the device, if there is one.\<close>

definition clk_get :: "string option \<Rightarrow> string option \<Rightarrow> clk_lookup list \<Rightarrow> int + clk_id" where
  "clk_get dev con_id lks = clk_get_sys dev con_id lks"

definition clkdev_add :: "clk_lookup \<Rightarrow> clk_lookup list \<Rightarrow> clk_lookup list" where
  "clkdev_add cl lks = lks @ [cl]"

fun clkdev_add_table :: "clk_lookup list \<Rightarrow> clk_lookup list \<Rightarrow> clk_lookup list" where
  "clkdev_add_table [] lks = lks"
| "clkdev_add_table (cl # cls) lks = clkdev_add_table cls (clkdev_add cl lks)"

abbreviation (input) MAX_DEV_ID :: nat where "MAX_DEV_ID \<equiv> 20"
abbreviation (input) MAX_CON_ID :: nat where "MAX_CON_ID \<equiv> 16"

text \<open>
  \<open>dev\<close> is what \<^verbatim>\<open>dev_fmt\<close> and its arguments print. The names are cut to what fits
  their arrays with the terminating zero. \<open>kz\<close> is whether the allocation succeeds.
\<close>

definition clkdev_alloc :: "bool \<Rightarrow> clk_id \<Rightarrow> string option \<Rightarrow> string option \<Rightarrow> clk_lookup option" where
  "clkdev_alloc kz clk con_id dev =
     (if \<not> kz then None
      else Some \<lparr>lk_dev_id = map_option (take (MAX_DEV_ID - 1)) dev, lk_con_id = map_option (take (MAX_CON_ID - 1)) con_id, lk_clk = clk\<rparr>)"

definition clk_add_alias ::
  "bool \<Rightarrow> string option \<Rightarrow> string option \<Rightarrow> string option \<Rightarrow> string option \<Rightarrow> clk_lookup list \<Rightarrow> int \<times> clk_lookup list" where
  "clk_add_alias kz alias alias_dev_name con dev lks =
     (case clk_get dev con lks of
        Inl e \<Rightarrow> (e, lks)
      | Inr r \<Rightarrow>
          (case clkdev_alloc kz r alias alias_dev_name of
             None \<Rightarrow> (- ENODEV, lks)
           | Some l \<Rightarrow> (0, clkdev_add l lks)))"

text \<open>\<open>i\<close> is the position of the entry in the list.\<close>

definition clkdev_drop :: "nat \<Rightarrow> clk_lookup list \<Rightarrow> clk_lookup list" where
  "clkdev_drop i lks = take i lks @ drop (Suc i) lks"

section \<open>The names of the DM814x clocks\<close>

abbreviation (input) lk :: "string option \<Rightarrow> string option \<Rightarrow> clk_id \<Rightarrow> clk_lookup" where
  "lk dev con clk \<equiv> \<lparr>lk_dev_id = dev, lk_con_id = con, lk_clk = clk\<rparr>"

text \<open>The table, with the test of the chip flag for a DM814x.\<close>

definition ti814x_lookups_0 :: "(clk_lookup \<times> bool) list" where
  "ti814x_lookups_0 =
     [(lk None (Some ''rcosc_32k_ck'') 0, True), (lk None (Some ''sys_32k_clkin_ck'') 1, True),
      (lk None (Some ''tclkin_ck'') 2, True), (lk None (Some ''osc0_clkin_ck'') 3, True),
      (lk None (Some ''osc1_clkin_ck'') 4, True), (lk None (Some ''rtc_divider_ck'') 5, True),
      (lk None (Some ''osc1_x1_ck'') 6, True), (lk None (Some ''xref0_ck'') 7, True),
      (lk None (Some ''xref1_ck'') 8, True), (lk None (Some ''xref2_ck'') 9, True),
      (lk None (Some ''tsi0_dck_ck'') 10, True), (lk None (Some ''tsi1_dck_ck'') 11, True),
      (lk None (Some ''external_ck'') 12, True), (lk None (Some ''atl0_clk_ck'') 13, True),
      (lk None (Some ''atl1_clk_ck'') 14, True), (lk None (Some ''atl2_clk_ck'') 15, True),
      (lk None (Some ''atl3_clk_ck'') 16, True), (lk None (Some ''dcan0_fck'') 17, True),
      (lk None (Some ''dcan1_fck'') 18, True), (lk None (Some ''sr1_fck'') 19, True),
      (lk None (Some ''sr2_fck'') 20, True), (lk None (Some ''sr3_fck'') 21, True),
      (lk None (Some ''sr4_fck'') 22, True), (lk None (Some ''arm_dpll_clkin_ck'') 23, True),
      (lk None (Some ''arm_dpll_ck'') 24, True), (lk None (Some ''mpu_ck'') 25, True),
      (lk None (Some ''dsp_dpll_ck'') 26, True), (lk None (Some ''gem_fck'') 27, True),
      (lk None (Some ''sgx_dpll_ck'') 28, True), (lk None (Some ''sysclk23_ck'') 29, True),
      (lk None (Some ''sgx_ck'') 30, True), (lk None (Some ''sgx_sys_ck'') 31, True),
      (lk None (Some ''sgx_mem_ck'') 32, True), (lk None (Some ''hdvicp_dpll_ck'') 33, True),
      (lk None (Some ''sysclk3_ck'') 34, True), (lk None (Some ''ivahd0_ck'') 35, True),
      (lk None (Some ''l3_dpll_clkin_ck'') 36, True), (lk None (Some ''l3_dpll_ck'') 37, True),
      (lk None (Some ''sysclk4_ck'') 38, True), (lk None (Some ''l3_fast_ick'') 39, True),
      (lk None (Some ''ivahd0_ick'') 40, True), (lk None (Some ''exp_slot_ick'') 41, True),
      (lk None (Some ''mmu_ick'') 42, True), (lk None (Some ''gem_ick'') 43, True),
      (lk None (Some ''tptc0_ick'') 44, True), (lk None (Some ''tptc1_ick'') 45, True),
      (lk None (Some ''tptc2_ick'') 46, True), (lk None (Some ''tptc3_ick'') 47, True),
      (lk None (Some ''ivahd0_sl2_ick'') 48, True), (lk None (Some ''tpcc_ick'') 49, True)]"

definition ti814x_lookups_1 :: "(clk_lookup \<times> bool) list" where
  "ti814x_lookups_1 =
     [(lk None (Some ''fdif_ick'') 50, True), (lk None (Some ''hdvpss_l3_ick'') 51, True),
      (lk None (Some ''sysclk5_ck'') 52, True), (lk None (Some ''l3_med_ick'') 53, True),
      (lk None (Some ''l4_fast_ick'') 54, True), (lk None (Some ''securess_ick'') 55, True),
      (lk None (Some ''tpgsw_ick'') 56, True), (lk (Some ''ahci.0'') None 57, True),
      (lk (Some ''ahci.1'') None 58, False), (lk None (Some ''pcie_ck'') 59, True),
      (lk None (Some ''vcp2_fck'') 60, True), (lk None (Some ''mlb_ick'') 61, True),
      (lk None (Some ''fdif_fck'') 62, True), (lk None (Some ''dap_ick'') 63, True),
      (lk None (Some ''ocmc_ram_ick'') 64, True),
      (lk (Some ''mmci-omap-hs.2'') (Some ''ick'') 65, True), (lk (Some ''cpsw.0'') None 66, True),
      (lk None (Some ''gem_trc_fck'') 67, True), (lk None (Some ''mcasp4_ick'') 68, True),
      (lk None (Some ''mcasp5_ick'') 69, True), (lk None (Some ''mcasp6_ick'') 70, True),
      (lk None (Some ''hdvpss_l4_ick'') 71, True), (lk None (Some ''sysclk6_ck'') 72, True),
      (lk None (Some ''l3_slow_ick'') 73, True), (lk None (Some ''l4_slow_ick'') 74, True),
      (lk None (Some ''uart1_ick'') 75, True), (lk None (Some ''uart2_ick'') 76, True),
      (lk None (Some ''uart3_ick'') 77, True), (lk None (Some ''uart4_ick'') 78, True),
      (lk None (Some ''uart5_ick'') 79, True), (lk None (Some ''uart6_ick'') 80, True),
      (lk (Some ''omap_i2c.1'') (Some ''ick'') 81, True),
      (lk (Some ''omap_i2c.2'') (Some ''ick'') 82, True),
      (lk (Some ''omap_i2c.3'') (Some ''ick'') 83, True),
      (lk (Some ''omap_i2c.4'') (Some ''ick'') 84, True),
      (lk (Some ''omap2_mcspi.1'') (Some ''ick'') 85, True),
      (lk (Some ''omap2_mcspi.2'') (Some ''ick'') 86, True),
      (lk (Some ''omap2_mcspi.3'') (Some ''ick'') 87, True),
      (lk (Some ''omap2_mcspi.4'') (Some ''ick'') 88, True), (lk None (Some ''sdio_ick'') 89, True),
      (lk None (Some ''gpt1_ick'') 90, True), (lk None (Some ''gpt2_ick'') 91, True),
      (lk None (Some ''gpt3_ick'') 92, True), (lk None (Some ''gpt4_ick'') 93, True),
      (lk None (Some ''gpt5_ick'') 94, True), (lk None (Some ''gpt6_ick'') 95, True),
      (lk None (Some ''gpt7_ick'') 96, True), (lk None (Some ''gpt8_ick'') 97, True),
      (lk None (Some ''gpio234_ick'') 98, True), (lk None (Some ''gpio1_ick'') 99, True)]"

definition ti814x_lookups_2 :: "(clk_lookup \<times> bool) list" where
  "ti814x_lookups_2 =
     [(lk None (Some ''gpio2_ick'') 100, True), (lk None (Some ''gpio3_ick'') 101, True),
      (lk None (Some ''gpio4_ick'') 102, True), (lk None (Some ''prcm_ick'') 103, True),
      (lk None (Some ''smartcard1_ick'') 104, True), (lk None (Some ''smartcard2_ick'') 105, True),
      (lk None (Some ''mcasp1_ick'') 106, True), (lk None (Some ''mcasp2_ick'') 107, True),
      (lk None (Some ''mcasp3_ick'') 108, True), (lk None (Some ''mcbsp_ick'') 109, True),
      (lk None (Some ''gpmc_fck'') 110, True), (lk None (Some ''hdmi_ick'') 111, True),
      (lk None (Some ''mlbp_ick'') 112, True),
      (lk (Some ''omap_wdt'') (Some ''wdt1_ick'') 113, True),
      (lk (Some ''omap_wdt'') (Some ''wdt2_ick'') 114, True),
      (lk None (Some ''sync_timer_ick'') 115, True), (lk None (Some ''pata_ick'') 116, True),
      (lk None (Some ''mailbox_ick'') 117, True), (lk None (Some ''spinbox_ick'') 118, True),
      (lk None (Some ''sr1_ick'') 119, True), (lk None (Some ''sr2_ick'') 120, True),
      (lk None (Some ''sr3_ick'') 121, True), (lk None (Some ''sr4_ick'') 122, True),
      (lk (Some ''ti81xx-usbss'') (Some ''usb_ick'') 123, True),
      (lk None (Some ''mmu_cfg_ick'') 124, True), (lk None (Some ''p1500_ick'') 125, True),
      (lk None (Some ''elm_ick'') 126, True), (lk None (Some ''elm_fck'') 127, True),
      (lk (Some ''mmci-omap-hs.0'') (Some ''ick'') 128, True),
      (lk (Some ''mmci-omap-hs.1'') (Some ''ick'') 129, True),
      (lk None (Some ''atl_ick'') 130, True), (lk None (Some ''fdif_enb_ck'') 131, True),
      (lk None (Some ''rtc_c32k_ick'') 132, True), (lk None (Some ''dcan0_ick'') 133, True),
      (lk None (Some ''dcan1_ick'') 134, True), (lk None (Some ''iss_dpll_ck'') 135, True),
      (lk None (Some ''iss_ick'') 136, True), (lk None (Some ''isp_ick'') 137, True),
      (lk None (Some ''tppss_tso_ick'') 138, True), (lk None (Some ''iss_dpll_d2_ck'') 139, True),
      (lk None (Some ''ducati_ick'') 140, True), (lk None (Some ''hdvpss_dpll_ck'') 141, True),
      (lk None (Some ''hdvpss_proc_fck'') 142, True),
      (lk None (Some ''hdvpss_proc_d2_fck'') 143, True), (lk None (Some ''dvi_ch1_ck'') 144, True),
      (lk None (Some ''dvi_ch2_ck'') 145, True), (lk None (Some ''dvi_ch3_ck'') 146, True),
      (lk None (Some ''dvi_ch4_ck'') 147, True), (lk None (Some ''dvoi1_ck'') 148, True),
      (lk None (Some ''dvoi2_ck'') 149, True)]"

definition ti814x_lookups_3 :: "(clk_lookup \<times> bool) list" where
  "ti814x_lookups_3 =
     [(lk None (Some ''usb_dpll_clkin_ck'') 150, True), (lk None (Some ''usb_dpll_ck'') 151, True),
      (lk None (Some ''usb_phy0_rclk_ick'') 152, True),
      (lk None (Some ''usb_phy1_rclk_ick'') 153, True),
      (lk None (Some ''usb_dpll_div5_ck'') 154, True), (lk None (Some ''sysclk10_ck'') 155, True),
      (lk (Some ''omap2_mcspi.1'') (Some ''fck'') 156, True),
      (lk (Some ''omap2_mcspi.2'') (Some ''fck'') 157, True),
      (lk (Some ''omap2_mcspi.3'') (Some ''fck'') 158, True),
      (lk (Some ''omap2_mcspi.4'') (Some ''fck'') 159, True),
      (lk None (Some ''i2c02_ck'') 160, True), (lk None (Some ''i2c13_ck'') 161, True),
      (lk (Some ''omap_i2c.1'') (Some ''fck'') 162, True),
      (lk (Some ''omap_i2c.2'') (Some ''fck'') 163, True), (lk None (Some ''i2c3_fck'') 164, True),
      (lk (Some ''omap_i2c.4'') (Some ''fck'') 165, True), (lk None (Some ''uart1_fck'') 166, True),
      (lk None (Some ''uart2_fck'') 167, True), (lk None (Some ''uart3_fck'') 168, True),
      (lk None (Some ''hdmi_cec_dcc_fck'') 169, True), (lk None (Some ''sysclk8_ck'') 170, True),
      (lk (Some ''mmci-omap-hs.0'') (Some ''fck'') 171, True),
      (lk (Some ''mmci-omap-hs.1'') (Some ''fck'') 172, True),
      (lk (Some ''mmci-omap-hs.2'') (Some ''fck'') 173, True),
      (lk None (Some ''uart4_fck'') 174, True), (lk None (Some ''uart5_fck'') 175, True),
      (lk None (Some ''uart6_fck'') 176, True), (lk None (Some ''securess_fck'') 177, True),
      (lk None (Some ''tppss_fck'') 178, True), (lk None (Some ''csi2_phy_fck'') 179, True),
      (lk None (Some ''ddr_dpll_clkin_ck'') 180, True), (lk None (Some ''ddr_dpll_ck'') 181, True),
      (lk None (Some ''ddr0_phy_fck'') 182, True), (lk None (Some ''ddr1_phy_fck'') 183, True),
      (lk None (Some ''ddr0_half_fck'') 184, True), (lk None (Some ''ddr1_half_fck'') 185, True),
      (lk None (Some ''ddr0_phy_d2_fck'') 186, True), (lk None (Some ''ddr0_emif_fck'') 187, True),
      (lk None (Some ''dmm_phy_fck'') 188, True), (lk None (Some ''ddr1_phy_d2_fck'') 189, True),
      (lk None (Some ''ddr1_emif_fck'') 190, True),
      (lk None (Some ''video0_dpll_clkin_ck'') 191, True),
      (lk None (Some ''video0_dpll_ck'') 192, True),
      (lk None (Some ''video1_dpll_clkin_ck'') 193, True),
      (lk None (Some ''video1_dpll_ck'') 194, True),
      (lk None (Some ''hdmi_dpll_clkin_ck'') 195, True),
      (lk None (Some ''hdmi_dpll_ck'') 196, True), (lk None (Some ''video_m_pclk_ck'') 197, True),
      (lk None (Some ''hdmi_phy_tclk_ck'') 198, True),
      (lk None (Some ''hdmi_dpll_muxout_ck'') 199, True)]"

definition ti814x_lookups_4 :: "(clk_lookup \<times> bool) list" where
  "ti814x_lookups_4 =
     [(lk None (Some ''video012_dpll_muxout_ck'') 200, True),
      (lk None (Some ''sysclk16_d1mux_ck'') 201, True),
      (lk None (Some ''sysclk16_b3mux_ck'') 202, True),
      (lk None (Some ''sysclk14_c1mux_ck'') 203, True), (lk None (Some ''sysclk16_ck'') 204, True),
      (lk None (Some ''tppss_stc1_fck'') 205, True), (lk None (Some ''hd_venc_g_ck'') 206, True),
      (lk None (Some ''hd_venc_d_ck'') 207, True), (lk None (Some ''hd_venc_a_ck'') 208, False),
      (lk None (Some ''hd_dac_ck'') 209, False), (lk None (Some ''hdmi_phy_gclk_ck'') 210, True),
      (lk None (Some ''sd_venc_ck'') 211, True), (lk None (Some ''sysclk14_ck'') 212, True),
      (lk None (Some ''tppss_stc0_fck'') 213, True),
      (lk None (Some ''audio_dpll_clk2_ck'') 214, True),
      (lk None (Some ''audio_dpll_clkin_ck'') 215, True),
      (lk None (Some ''audio_dpll_ck'') 216, True),
      (lk None (Some ''audio_dpll_clk1_ck'') 217, True),
      (lk None (Some ''audio_prcm_clkin_ck'') 218, True),
      (lk None (Some ''sysclk18_ck'') 219, True), (lk None (Some ''rtc_c32k_fck'') 220, True),
      (lk None (Some ''sysclk19_ck'') 221, True), (lk None (Some ''sysclk20_ck'') 222, True),
      (lk None (Some ''sysclk21_ck'') 223, True), (lk None (Some ''sysclk22_ck'') 224, True),
      (lk None (Some ''audio_prcm1_out_ck'') 225, True), (lk None (Some ''mcbsp_fck'') 226, True),
      (lk (Some ''davinci-mcasp.0'') None 227, True),
      (lk (Some ''davinci-mcasp.1'') None 228, True),
      (lk (Some ''davinci-mcasp.2'') None 229, True), (lk None (Some ''hdmi_i2s_ck'') 230, True),
      (lk (Some ''hdmi-dai'') None 231, True), (lk None (Some ''tppss_tso_fck'') 232, True),
      (lk None (Some ''atl_fck'') 233, True), (lk None (Some ''gpio234_dbck'') 234, True),
      (lk None (Some ''gpio1_dbck'') 235, True), (lk None (Some ''gpio2_dbck'') 236, True),
      (lk None (Some ''gpio3_dbck'') 237, True), (lk None (Some ''gpio4_dbck'') 238, True),
      (lk None (Some ''rtc_fck'') 239, True),
      (lk (Some ''mmci-omap-hs.0'') (Some ''mmchs1_dbck'') 240, True),
      (lk (Some ''mmci-omap-hs.1'') (Some ''mmchs2_dbck'') 241, True),
      (lk (Some ''mmci-omap-hs.2'') (Some ''mmchs3_dbck'') 242, True),
      (lk None (Some ''sync_timer_fck'') 243, True), (lk None (Some ''bandgaps_fck'') 244, True),
      (lk None (Some ''arm_oper_fck'') 245, True), (lk None (Some ''gpt1_fck'') 246, True),
      (lk None (Some ''gpt2_fck'') 247, True), (lk None (Some ''gpt3_fck'') 248, True),
      (lk None (Some ''gpt4_fck'') 249, True)]"

definition ti814x_lookups_5 :: "(clk_lookup \<times> bool) list" where
  "ti814x_lookups_5 =
     [(lk None (Some ''gpt5_fck'') 250, True), (lk None (Some ''gpt6_fck'') 251, True),
      (lk None (Some ''gpt7_fck'') 252, True), (lk None (Some ''gpt8_fck'') 253, True),
      (lk None (Some ''mcasp_auxclk_mux0_ck'') 254, True),
      (lk (Some ''davinci-mcasp.3'') None 255, True),
      (lk (Some ''davinci-mcasp.4'') None 256, True),
      (lk (Some ''davinci-mcasp.5'') None 257, True), (lk None (Some ''mcasp1_ahx_ck'') 258, True),
      (lk None (Some ''mcasp1_ahr_ck'') 259, True), (lk None (Some ''mcasp2_ahx_ck'') 260, True),
      (lk None (Some ''mcasp2_ahr_ck'') 261, True), (lk None (Some ''mcasp3_ahx_ck'') 262, True),
      (lk None (Some ''mcasp4_ahx_ck'') 263, True), (lk None (Some ''mcasp5_ahx_ck'') 264, True),
      (lk None (Some ''mcasp6_ahx_ck'') 265, True), (lk None (Some ''cpts_rft_clk_ck'') 266, True),
      (lk None (Some ''cpts_rft_div5_ck'') 267, False),
      (lk None (Some ''cpts_rft_div2_ck'') 268, False),
      (lk None (Some ''ljcb_serdesp_ck'') 269, True),
      (lk None (Some ''ljcb_serdesn_ck'') 270, True), (lk None (Some ''pciessp_ck'') 272, True),
      (lk None (Some ''pciessn_ck'') 273, True), (lk None (Some ''pciess_20m_ck'') 271, True),
      (lk None (Some ''pciess_50m_ck'') 274, True), (lk None (Some ''pciess_125m_ck'') 275, True),
      (lk None (Some ''satassp_ck'') 276, True), (lk None (Some ''satassn_ck'') 277, True),
      (lk None (Some ''satass_20m_ck'') 278, True), (lk None (Some ''satass_50m_ck'') 279, True),
      (lk None (Some ''satass_125m_ck'') 280, True), (lk None (Some ''sata1ssp_ck'') 281, False),
      (lk None (Some ''sata1ssn_ck'') 282, False), (lk None (Some ''sata1ss_20m_ck'') 283, False),
      (lk None (Some ''sata1ss_50m_ck'') 284, False),
      (lk None (Some ''sata1ss_125m_ck'') 285, False),
      (lk None (Some ''sata01_50m_mux_out_ck'') 286, False),
      (lk None (Some ''sata01_125m_mux_out_ck'') 288, False),
      (lk None (Some ''gmac0to1_mux_out_ck'') 287, False),
      (lk None (Some ''emac_rmii_fck'') 289, True), (lk None (Some ''emac_gmii_fck'') 290, True),
      (lk (Some ''omap_wdt'') (Some ''wdt1_fck'') 291, True),
      (lk (Some ''omap_wdt'') (Some ''wdt2_fck'') 292, True),
      (lk None (Some ''dummy_clk_ck'') 293, False),
      (lk None (Some ''clkout_prcm_mux_ck'') 294, True),
      (lk None (Some ''clkout_prcm_ck'') 295, True), (lk None (Some ''sys_clkout1'') 296, True),
      (lk None (Some ''sys_clkout2'') 297, True)]"

definition ti814x_lookups :: "(clk_lookup \<times> bool) list" where
  "ti814x_lookups = ti814x_lookups_0 @ ti814x_lookups_1 @ ti814x_lookups_2 @ ti814x_lookups_3 @ ti814x_lookups_4 @ ti814x_lookups_5"

text \<open>What the loop of \<^verbatim>\<open>ti814x_clk_init\<close> adds to the list of lookups.\<close>

fun clkdev_init :: "(clk_lookup \<times> bool) list \<Rightarrow> clk_lookup list \<Rightarrow> clk_lookup list" where
  "clkdev_init [] lks = lks"
| "clkdev_init ((cl, on_chip) # table) lks = clkdev_init table (if on_chip then clkdev_add cl lks else lks)"

section \<open>Specification\<close>

text \<open>How well an entry matches, 0 when it does not.\<close>

definition clk_score :: "string option \<Rightarrow> string option \<Rightarrow> clk_lookup \<Rightarrow> nat" where
  "clk_score dev con p = (case clk_match dev con p of None \<Rightarrow> 0 | Some m \<Rightarrow> m)"

text \<open>An entry with the highest positive score, and the first of them.\<close>

definition clk_best :: "string option \<Rightarrow> string option \<Rightarrow> clk_lookup list \<Rightarrow> nat \<Rightarrow> bool" where
  "clk_best dev con lks i \<longleftrightarrow> i < length lks \<and> 0 < clk_score dev con (lks ! i)
     \<and> (\<forall>j < length lks. clk_score dev con (lks ! j) \<le> clk_score dev con (lks ! i))
     \<and> (\<forall>j < i. clk_score dev con (lks ! j) < clk_score dev con (lks ! i))"

definition lk_key :: "clk_lookup \<Rightarrow> string option \<times> string option" where
  "lk_key p = (lk_dev_id p, lk_con_id p)"

definition ti814x_clkdev :: "clk_lookup list" where
  "ti814x_clkdev = clkdev_init ti814x_lookups []"

text \<open>Two running sums over the names of an entry, which tell the entries of the table apart.\<close>

fun checksum :: "string \<Rightarrow> int \<Rightarrow> int \<Rightarrow> int \<times> int" where
  "checksum [] a b = (a, b)"
| "checksum (c # cs) a b = checksum cs (a + of_char c) (b + (a + of_char c))"

definition key_sum :: "string option \<times> string option \<Rightarrow> int \<times> int" where
  "key_sum k = (case k of (d, c) \<Rightarrow> checksum ((case d of None \<Rightarrow> [] | Some x \<Rightarrow> x) @ (case c of None \<Rightarrow> [] | Some x \<Rightarrow> x)) 0 0)"

section \<open>Lemmas\<close>

lemma clk_score_le: "clk_score dev con p \<le> 3"
  by (simp add: clk_score_def clk_match_def Let_def)

lemma clk_find_loop_unfold:
  "clk_find_loop dev con (p # ps) clk best =
     (if clk_score dev con p > best
      then (if clk_score dev con p \<noteq> 3 then clk_find_loop dev con ps (Some (lk_clk p)) (clk_score dev con p) else Some (lk_clk p))
      else clk_find_loop dev con ps clk best)"
  by (simp add: clk_score_def split: option.splits)

lemma clk_find_loop_spec:
  "(\<forall>p \<in> set ps. clk_score dev con p \<le> best) \<and> clk_find_loop dev con ps clk best = clk
   \<or> (\<exists>i < length ps. clk_find_loop dev con ps clk best = Some (lk_clk (ps ! i)) \<and> best < clk_score dev con (ps ! i)
        \<and> (\<forall>j < length ps. clk_score dev con (ps ! j) \<le> clk_score dev con (ps ! i)) \<and> (\<forall>j < i. clk_score dev con (ps ! j) < clk_score dev con (ps ! i)))"
proof (induction ps arbitrary: clk best)
  case (Cons p ps)
  consider (low) "clk_score dev con p \<le> best" | (top) "clk_score dev con p > best" "clk_score dev con p = 3" | (up) "clk_score dev con p > best" "clk_score dev con p \<noteq> 3"
    by linarith
  then show ?case
  proof cases
    case low
    then have f: "clk_find_loop dev con (p # ps) clk best = clk_find_loop dev con ps clk best" by (simp add: clk_find_loop_unfold del: clk_find_loop.simps)
    show ?thesis using Cons.IH [of best clk]
    proof (elim disjE exE conjE)
      fix i assume "i < length ps" "clk_find_loop dev con ps clk best = Some (lk_clk (ps ! i))" "best < clk_score dev con (ps ! i)"
        "\<forall>j < length ps. clk_score dev con (ps ! j) \<le> clk_score dev con (ps ! i)" "\<forall>j < i. clk_score dev con (ps ! j) < clk_score dev con (ps ! i)"
      then show ?thesis unfolding f using low by (intro disjI2 exI [of _ "Suc i"]) (auto simp: less_Suc_eq_0_disj)
    qed (use low f in auto)
  next
    case top
    then have f: "clk_find_loop dev con (p # ps) clk best = Some (lk_clk p)" by (simp add: clk_find_loop_unfold del: clk_find_loop.simps)
    show ?thesis unfolding f using top clk_score_le by (intro disjI2 exI [of _ 0]) simp
  next
    case up
    let ?m = "clk_score dev con p"
    have f: "clk_find_loop dev con (p # ps) clk best = clk_find_loop dev con ps (Some (lk_clk p)) ?m" using up by (simp add: clk_find_loop_unfold del: clk_find_loop.simps)
    show ?thesis using Cons.IH [of ?m "Some (lk_clk p)"]
    proof (elim disjE exE conjE)
      assume "\<forall>q \<in> set ps. clk_score dev con q \<le> ?m" "clk_find_loop dev con ps (Some (lk_clk p)) ?m = Some (lk_clk p)"
      then show ?thesis unfolding f using up by (intro disjI2 exI [of _ 0]) (auto simp: less_Suc_eq_0_disj)
    next
      fix i assume "i < length ps" "clk_find_loop dev con ps (Some (lk_clk p)) ?m = Some (lk_clk (ps ! i))" "?m < clk_score dev con (ps ! i)"
        "\<forall>j < length ps. clk_score dev con (ps ! j) \<le> clk_score dev con (ps ! i)" "\<forall>j < i. clk_score dev con (ps ! j) < clk_score dev con (ps ! i)"
      then show ?thesis unfolding f using up by (intro disjI2 exI [of _ "Suc i"]) (auto simp: less_Suc_eq_0_disj)
    qed
  qed
qed simp

lemma clk_best_unique: "clk_best dev con lks i \<Longrightarrow> clk_best dev con lks j \<Longrightarrow> i = j"
  unfolding clk_best_def by (metis linorder_neqE_nat not_less)

lemma clk_find_bestI:
  assumes "clk_best dev con lks i"
  shows "clk_find dev con lks = Some (lk_clk (lks ! i))"
proof -
  have "0 < clk_score dev con (lks ! i)" "lks ! i \<in> set lks" using assms by (auto simp: clk_best_def)
  then show ?thesis using clk_find_loop_spec [of lks dev con 0 None] clk_best_unique [OF assms] by (fastforce simp: clk_find_def clk_best_def)
qed

lemma clk_score_own:
  assumes "lk_key p \<noteq> (None, None)" "lk_key q \<noteq> lk_key p"
  shows "clk_score (lk_dev_id p) (lk_con_id p) q < clk_score (lk_dev_id p) (lk_con_id p) p"
  using assms by (cases "lk_dev_id p"; cases "lk_con_id p"; cases "lk_dev_id q"; cases "lk_con_id q") (auto simp: lk_key_def clk_score_def clk_match_def)

lemma clk_find_own:
  assumes "distinct (map lk_key lks)" "p \<in> set lks" "lk_key p \<noteq> (None, None)"
  shows "clk_find (lk_dev_id p) (lk_con_id p) lks = Some (lk_clk p)"
proof -
  obtain i where i: "i < length lks" "p = lks ! i" using assms(2) by (auto simp: in_set_conv_nth)
  have less: "clk_score (lk_dev_id p) (lk_con_id p) (lks ! j) < clk_score (lk_dev_id p) (lk_con_id p) p" if "j < length lks" "j \<noteq> i" for j
    using clk_score_own [OF assms(3), of "lks ! j"] assms(1) i that by (auto simp: distinct_conv_nth)
  have "0 < clk_score (lk_dev_id p) (lk_con_id p) p" using assms(3) by (auto simp: lk_key_def clk_score_def clk_match_def Let_def)
  then have "clk_best (lk_dev_id p) (lk_con_id p) lks i" unfolding clk_best_def using less i by (metis less_irrefl_nat less_imp_le_nat order_refl less_trans)
  from clk_find_bestI [OF this] show ?thesis using i by simp
qed

lemma ti814x_lookups_ids: "map (\<lambda>(l, b). (lk_clk l, b)) ti814x_lookups = ti814x_clks"
  by code_simp

lemma key_sums_0: "map (\<lambda>(p, _). key_sum (lk_dev_id p, lk_con_id p)) ti814x_lookups_0 =
     [(1142, 7633), (1579, 13332), (946, 4789), (1298, 8992), (1299, 9002), (1468, 11112), (939, 5236),
      (786, 3656), (787, 3660), (788, 3664), (1086, 6533), (1087, 6541), (1168, 7128), (1079, 6400),
      (1080, 6408), (1081, 6416), (1082, 6424), (857, 4262), (858, 4267), (681, 2725), (682, 2730),
      (683, 2735), (684, 2740), (1768, 15950), (1144, 6882), (639, 2272), (1151, 6952), (716, 2863),
      (1162, 7069), (1067, 6744), (639, 2275), (1085, 6047), (1053, 5887), (1462, 11019), (1017, 5829),
      (873, 4474), (1607, 13335), (983, 5233), (1018, 5833), (1090, 6318), (978, 5456), (1284, 8429),
      (741, 3002), (719, 2872), (897, 4586), (898, 4591), (899, 4596), (900, 4601), (1346, 10207),
      (832, 3801)]"
  by (simp add: ti814x_lookups_0_def key_sum_def)

lemma key_sums_1: "map (\<lambda>(p, _). key_sum (lk_dev_id p, lk_con_id p)) ti814x_lookups_1 =
     [(815, 3656), (1324, 9493), (1019, 5837), (970, 5168), (1091, 6328), (1283, 8418), (971, 4946),
      (499, 1953), (500, 1954), (718, 2897), (782, 3550), (721, 2901), (812, 3647), (715, 2842), (1239, 8087),
      (1567, 14474), (539, 2111), (1140, 6866), (990, 5494), (991, 5499), (992, 5504), (1325, 9498),
      (1020, 5841), (1113, 6490), (1114, 6500), (899, 4568), (900, 4573), (901, 4578), (902, 4583),
      (903, 4588), (904, 4593), (1184, 8623), (1185, 8627), (1186, 8631), (1187, 8635), (1520, 13231),
      (1521, 13235), (1522, 13239), (1523, 13243), (837, 3805), (786, 3549), (787, 3554), (788, 3559),
      (789, 3564), (790, 3569), (791, 3574), (792, 3579), (793, 3584), (990, 6002), (886, 4469)]"
  by (simp add: ti814x_lookups_1_def key_sum_def)

lemma key_sums_2: "map (\<lambda>(p, _). key_sum (lk_dev_id p, lk_con_id p)) ti814x_lookups_2 =
     [(887, 4474), (888, 4479), (889, 4484), (840, 3833), (1416, 10915), (1417, 10920), (987, 5479),
      (988, 5484), (989, 5489), (939, 4709), (826, 3748), (824, 3711), (833, 3776), (1649, 14311),
      (1650, 14316), (1491, 11365), (828, 3756), (1154, 6930), (1177, 7162), (684, 2734), (685, 2739),
      (686, 2744), (687, 2749), (1907, 18498), (1140, 6922), (716, 3299), (724, 2900), (721, 2891),
      (1565, 14466), (1566, 14470), (727, 2915), (1114, 6686), (1137, 7473), (860, 4271), (861, 4276),
      (1159, 7034), (741, 3000), (738, 2985), (1413, 10086), (1404, 10878), (1040, 5745), (1488, 11283),
      (1598, 12954), (1843, 18054), (971, 5467), (972, 5471), (973, 5475), (974, 5479), (784, 3603),
      (785, 3607)]"
  by (simp add: ti814x_lookups_2_def key_sum_def)

lemma key_sums_3: "map (\<lambda>(p, _). key_sum (lk_dev_id p, lk_con_id p)) ti814x_lookups_3 =
     [(1778, 16141), (1154, 7013), (1739, 15787), (1740, 15797), (1625, 14170), (1063, 6727), (1517, 13222),
      (1518, 13226), (1519, 13230), (1520, 13234), (653, 2814), (655, 2823), (1181, 8614), (1182, 8618),
      (708, 3030), (1184, 8626), (896, 4559), (897, 4564), (898, 4569), (1608, 13725), (1022, 5849),
      (1562, 14457), (1563, 14461), (1564, 14465), (899, 4574), (900, 4579), (901, 4584), (1280, 8409),
      (973, 4980), (1204, 7717), (1762, 15852), (1138, 6820), (1197, 7636), (1198, 7645), (1271, 8749),
      (1272, 8759), (1442, 11533), (1277, 8791), (1153, 6935), (1443, 11545), (1278, 8801), (2031, 21210),
      (1407, 10564), (2032, 21225), (1408, 10573), (1866, 17733), (1242, 8077), (1561, 12600), (1676, 14280),
      (2027, 20086)]"
  by (simp add: ti814x_lookups_3_def key_sum_def)

lemma key_sums_4: "map (\<lambda>(p, _). key_sum (lk_dev_id p, lk_con_id p)) ti814x_lookups_4 =
     [(2291, 26527), (1659, 15076), (1659, 15074), (1656, 15048), (1069, 6751), (1447, 11256), (1226, 8009),
      (1223, 7997), (1220, 7985), (896, 4472), (1663, 14189), (1039, 5778), (1067, 6743), (1446, 11251),
      (1813, 17609), (1978, 19836), (1354, 9508), (1812, 17605), (1984, 19927), (1071, 6759), (1134, 7464),
      (1072, 6763), (1064, 6732), (1065, 6736), (1066, 6740), (1848, 17630), (936, 4700), (1405, 11935),
      (1406, 11936), (1407, 11937), (1084, 6560), (765, 3490), (1410, 10077), (724, 2906), (1083, 7060),
      (979, 5423), (980, 5429), (981, 5435), (982, 5441), (732, 2980), (2338, 30463), (2340, 30481),
      (2342, 30499), (1488, 11356), (1235, 7984), (1256, 8202), (783, 3540), (784, 3545), (785, 3550),
      (786, 3555)]"
  by (simp add: ti814x_lookups_4_def key_sum_def)

lemma key_sums_5: "map (\<lambda>(p, _). key_sum (lk_dev_id p, lk_con_id p)) ti814x_lookups_5 =
     [(787, 3560), (788, 3565), (789, 3570), (790, 3575), (2065, 22037), (1408, 11938), (1409, 11939),
      (1410, 11940), (1298, 9059), (1292, 9035), (1299, 9067), (1293, 9043), (1300, 9075), (1301, 9083),
      (1302, 9091), (1303, 9099), (1579, 12789), (1641, 14323), (1638, 14311), (1565, 12502), (1563, 12494),
      (1060, 5861), (1058, 5853), (1250, 8995), (1253, 9013), (1304, 10105), (1068, 5933), (1066, 5925),
      (1258, 9091), (1261, 9109), (1312, 10209), (1117, 6701), (1115, 6693), (1307, 10006), (1310, 10024),
      (1361, 11173), (2008, 21122), (2059, 22497), (1913, 18645), (1337, 9354), (1326, 9266), (1646, 14302),
      (1647, 14307), (1266, 8343), (1929, 18390), (1488, 11258), (1153, 7222), (1154, 7223)]"
  by (simp add: ti814x_lookups_5_def key_sum_def)

lemma key_sums_distinct: "distinct (map (\<lambda>(p, _). key_sum (lk_dev_id p, lk_con_id p)) ti814x_lookups)"
  unfolding ti814x_lookups_def map_append key_sums_0 key_sums_1 key_sums_2 key_sums_3 key_sums_4 key_sums_5 append.simps by simp

lemma clkdev_init_eq: "clkdev_init table lks = lks @ map fst (filter snd table)"
  by (induction table lks rule: clkdev_init.induct) (auto simp: clkdev_add_def)

lemmas ti814x_lookup_defs = ti814x_lookups_0_def ti814x_lookups_1_def ti814x_lookups_2_def ti814x_lookups_3_def ti814x_lookups_4_def ti814x_lookups_5_def

lemma ti814x_keys_proper: "list_all (\<lambda>(p, _). lk_key p \<noteq> (None, None)) ti814x_lookups"
  unfolding ti814x_lookups_def list_all_append by (simp add: ti814x_lookup_defs lk_key_def)

lemma ti814x_keys_distinct: "distinct (map lk_key ti814x_clkdev)"
proof -
  have "distinct (map key_sum (map (lk_key \<circ> fst) ti814x_lookups))"
    using key_sums_distinct by (simp add: lk_key_def comp_def case_prod_unfold)
  then have "distinct (map (lk_key \<circ> fst) ti814x_lookups)" unfolding distinct_map [of key_sum] by blast
  then have "distinct (map (lk_key \<circ> fst) (filter snd ti814x_lookups))" by (rule distinct_map_filter)
  then show ?thesis by (simp add: ti814x_clkdev_def clkdev_init_eq)
qed

lemma ti814x_clkdev_iff: "p \<in> set ti814x_clkdev \<longleftrightarrow> (p, True) \<in> set ti814x_lookups"
  by (force simp: ti814x_clkdev_def clkdev_init_eq)

lemma ti814x_clk_find:
  assumes "(p, True) \<in> set ti814x_lookups"
  shows "clk_find (lk_dev_id p) (lk_con_id p) ti814x_clkdev = Some (lk_clk p)"
proof -
  have "lk_key p \<noteq> (None, None)" using ti814x_keys_proper assms by (auto simp: list_all_iff)
  then show ?thesis using clk_find_own [OF ti814x_keys_distinct] assms ti814x_clkdev_iff by blast
qed

lemma clk_get_mailbox: "clk_get_sys None (Some ''mailbox_ick'') ti814x_clkdev = Inr 117"
proof -
  have "(lk None (Some ''mailbox_ick'') 117, True) \<in> set ti814x_lookups"
    unfolding ti814x_lookups_def set_append ti814x_lookups_2_def by simp
  from ti814x_clk_find [OF this] show ?thesis by (simp add: clk_get_sys_def)
qed

text \<open>The functional clock of the third I2C controller is not found by the name its driver asks for.\<close>

lemma clk_get_i2c3: "clk_get (Some ''omap_i2c.3'') (Some ''fck'') ti814x_clkdev = Inl (- ENOENT)"
proof -
  have "list_all (\<lambda>(p, _). clk_match (Some ''omap_i2c.3'') (Some ''fck'') p = None) ti814x_lookups"
    unfolding ti814x_lookups_def list_all_append by (simp add: ti814x_lookup_defs clk_match_def)
  then have "\<forall>p \<in> set ti814x_clkdev. clk_score (Some ''omap_i2c.3'') (Some ''fck'') p = 0"
    by (fastforce simp: ti814x_clkdev_iff list_all_iff clk_score_def)
  then have "clk_find (Some ''omap_i2c.3'') (Some ''fck'') ti814x_clkdev = None"
    using clk_find_loop_spec [of ti814x_clkdev "Some ''omap_i2c.3''" "Some ''fck''" 0 None] by (force simp: clk_find_def)
  then show ?thesis by (simp add: clk_get_def clk_get_sys_def)
qed

lemma clk_add_alias_found:
  assumes "clk_get dev con lks = Inr c" "length alias < MAX_CON_ID" "\<And>d. adev = Some d \<Longrightarrow> length d < MAX_DEV_ID" "clk_find adev (Some alias) lks = None"
  shows "\<exists>lks'. clk_add_alias True (Some alias) adev con dev lks = (0, lks') \<and> clk_get adev (Some alias) lks' = Inr c"
proof -
  let ?l = "\<lparr>lk_dev_id = adev, lk_con_id = Some alias, lk_clk = c\<rparr>"
  have "clkdev_alloc True c (Some alias) adev = Some ?l" using assms(2,3) by (cases adev) (simp_all add: clkdev_alloc_def)
  then have a: "clk_add_alias True (Some alias) adev con dev lks = (0, lks @ [?l])" using assms(1) by (simp add: clk_add_alias_def clkdev_add_def)
  have z: "clk_score adev (Some alias) p = 0" if "p \<in> set lks" for p
    using clk_find_loop_spec [of lks adev "Some alias" 0 None] assms(4) that by (auto simp: clk_find_def)
  have "0 < clk_score adev (Some alias) ?l" by (cases adev) (simp_all add: clk_score_def clk_match_def)
  then have "clk_best adev (Some alias) (lks @ [?l]) (length lks)" using z by (auto simp: clk_best_def nth_append less_Suc_eq)
  from clk_find_bestI [OF this] show ?thesis using a by (simp add: clk_get_def clk_get_sys_def)
qed

section \<open>Properties\<close>

theorem clk_find_most_specific:
  "case clk_find dev con lks of
     None \<Rightarrow> list_all (\<lambda>p. clk_score dev con p = 0) lks
   | Some c \<Rightarrow> \<exists>i. clk_best dev con lks i \<and> c = lk_clk (lks ! i)"
  using clk_find_loop_spec [of lks dev con 0 None] by (auto simp: clk_find_def clk_best_def list_all_iff split: option.splits)

theorem ti814x_clk_get_finds:
  assumes "(p, True) \<in> set ti814x_lookups"
  shows "clk_get (lk_dev_id p) (lk_con_id p) (clkdev_init ti814x_lookups []) = Inr (lk_clk p) \<and> lk_clk p \<in> dm814x_clks"
proof -
  have "(lk_clk p, True) \<in> set ti814x_clks" unfolding ti814x_lookups_ids [symmetric] using assms by force
  then show ?thesis using ti814x_clk_find [OF assms] by (simp add: clk_get_def clk_get_sys_def ti814x_clkdev_def flip: registered_set)
qed

theorem ti814x_clk_get_finds_witness:
  "clk_get (Some ''omap_i2c.1'') (Some ''fck'') (clkdev_init ti814x_lookups []) = Inr 162"
proof -
  have "(lk (Some ''omap_i2c.1'') (Some ''fck'') 162, True) \<in> set ti814x_lookups"
    unfolding ti814x_lookups_def set_append ti814x_lookups_3_def by simp
  from ti814x_clk_get_finds [OF this] show ?thesis by simp
qed

end
