(* ===== verification/Kfifo.thy ===== *)
theory Kfifo
  imports Kernel_Prelude
begin

unbundle bit_operations_syntax

text \<open>
  The generic ring buffer of the kernel (\<^verbatim>\<open>kernel/kfifo.c\<close>, with the macros of
  \<^verbatim>\<open>include/linux/kfifo.h\<close>). The buffer is a list of bytes and the two indices run
  freely through the 32-bit integers; an access outside the buffer leaves the model as
  \<^term>\<open>None\<close>. The lemmas show that the ring is a bounded queue of bytes, across the
  wrap-around of both the buffer and the indices, and that records written with their
  length are read back one by one.
\<close>

section \<open>The ring\<close>

record kfifo =
  kf_in :: u32
  kf_out :: u32
  kf_mask :: u32
  kf_esize :: u32
  kf_data :: "u8 list"

text \<open>\<^verbatim>\<open>memcpy\<close> into and out of a buffer; outside of it the behaviour is undefined.\<close>

definition mem_write :: "nat \<Rightarrow> u8 list \<Rightarrow> u8 list \<Rightarrow> u8 list option" where
  "mem_write off src d =
     (if off + length src \<le> length d then Some (take off d @ src @ drop (off + length src) d) else None)"

definition mem_read :: "nat \<Rightarrow> nat \<Rightarrow> u8 list \<Rightarrow> u8 list option" where
  "mem_read off n d = (if off + n \<le> length d then Some (take n (drop off d)) else None)"

definition kfifo_unused :: "kfifo \<Rightarrow> u32" where
  "kfifo_unused f = (kf_mask f + 1) - (kf_in f - kf_out f)"

definition is_power_of_2 :: "u32 \<Rightarrow> bool" where
  "is_power_of_2 n \<longleftrightarrow> n \<noteq> 0 \<and> n AND (n - 1) = 0"

text \<open>
  \<^verbatim>\<open>fls\<close> is 32 less the count of leading zeros. \<^verbatim>\<open>1UL << (fls_long(n) - 1)\<close>
  shifts by a negative distance for 0, and an ARM shift by such a register value gives 0.
\<close>

definition fls :: "u32 \<Rightarrow> nat" where
  "fls n = 32 - length (takeWhile (\<lambda>i. \<not> bit n i) (rev [0..<32]))"

definition rounddown_pow_of_two :: "u32 \<Rightarrow> u32" where
  "rounddown_pow_of_two n = (if fls n = 0 then 0 else push_bit (fls n - 1) 1)"

text \<open>\<open>kmalloc n\<close> is the result of the allocation of \<open>n\<close> bytes, with their contents.\<close>

definition kfifo_alloc :: "(u32 \<Rightarrow> u8 list option) \<Rightarrow> kfifo \<Rightarrow> u32 \<Rightarrow> u32 \<Rightarrow> int \<times> kfifo" where
  "kfifo_alloc kmalloc f sz esize =
     (let sz = (if is_power_of_2 sz then sz else rounddown_pow_of_two sz);
          f = f\<lparr>kf_in := 0, kf_out := 0, kf_esize := esize\<rparr>
      in if sz < 2 then (- EINVAL, f\<lparr>kf_data := [], kf_mask := 0\<rparr>)
         else (case kmalloc (sz * esize) of
                 None \<Rightarrow> (- ENOMEM, f\<lparr>kf_data := [], kf_mask := 0\<rparr>)
               | Some d \<Rightarrow> (0, f\<lparr>kf_data := d, kf_mask := sz - 1\<rparr>)))"

definition kfifo_free :: "kfifo \<Rightarrow> kfifo" where
  "kfifo_free f = f\<lparr>kf_in := 0, kf_out := 0, kf_esize := 0, kf_data := [], kf_mask := 0\<rparr>"

definition kfifo_init :: "kfifo \<Rightarrow> u8 list \<Rightarrow> u32 \<Rightarrow> u32 \<Rightarrow> int \<times> kfifo" where
  "kfifo_init f buffer sz esize =
     (let sz = udiv sz esize;
          sz = (if is_power_of_2 sz then sz else rounddown_pow_of_two sz);
          f = f\<lparr>kf_in := 0, kf_out := 0, kf_esize := esize, kf_data := buffer\<rparr>
      in if sz < 2 then (- EINVAL, f\<lparr>kf_mask := 0\<rparr>) else (0, f\<lparr>kf_mask := sz - 1\<rparr>))"

text \<open>
  What the copying functions start with: offset and length in bytes and the part of the
  length before the end of the buffer.
\<close>

definition kfifo_span :: "kfifo \<Rightarrow> u32 \<Rightarrow> u32 \<Rightarrow> u32 \<times> u32 \<times> u32" where
  "kfifo_span f len off =
     (let sz = kf_mask f + 1; esize = kf_esize f;
          off = off AND kf_mask f;
          (off, sz, len) = (if esize \<noteq> 1 then (off * esize, sz * esize, len * esize) else (off, sz, len))
      in (off, len, min len (sz - off)))"

definition kfifo_copy_in :: "kfifo \<Rightarrow> u8 list \<Rightarrow> u32 \<Rightarrow> u32 \<Rightarrow> kfifo option" where
  "kfifo_copy_in f src len off =
     (case kfifo_span f len off of (off, len, l) \<Rightarrow> do {
        a \<leftarrow> mem_read 0 (unat l) src;
        d \<leftarrow> mem_write (unat off) a (kf_data f);
        b \<leftarrow> mem_read (unat l) (unat (len - l)) src;
        d \<leftarrow> mem_write 0 b d;
        Some (f\<lparr>kf_data := d\<rparr>)
      })"

definition kfifo_in :: "kfifo \<Rightarrow> u8 list \<Rightarrow> u32 \<Rightarrow> (u32 \<times> kfifo) option" where
  "kfifo_in f buf len =
     (let l = kfifo_unused f; len = (if len > l then l else len)
      in do {
        f \<leftarrow> kfifo_copy_in f buf len (kf_in f);
        Some (len, f\<lparr>kf_in := kf_in f + len\<rparr>)
      })"

text \<open>The bytes copied to the destination are the result.\<close>

definition kfifo_copy_out :: "kfifo \<Rightarrow> u32 \<Rightarrow> u32 \<Rightarrow> u8 list option" where
  "kfifo_copy_out f len off =
     (case kfifo_span f len off of (off, len, l) \<Rightarrow> do {
        a \<leftarrow> mem_read (unat off) (unat l) (kf_data f);
        b \<leftarrow> mem_read 0 (unat (len - l)) (kf_data f);
        Some (a @ b)
      })"

definition kfifo_out_peek :: "kfifo \<Rightarrow> u32 \<Rightarrow> (u32 \<times> u8 list) option" where
  "kfifo_out_peek f len =
     (let l = kf_in f - kf_out f; len = (if len > l then l else len)
      in do {
        bs \<leftarrow> kfifo_copy_out f len (kf_out f);
        Some (len, bs)
      })"

definition kfifo_out :: "kfifo \<Rightarrow> u32 \<Rightarrow> (u32 \<times> u8 list \<times> kfifo) option" where
  "kfifo_out f len = do {
     (len, bs) \<leftarrow> kfifo_out_peek f len;
     Some (len, bs, f\<lparr>kf_out := kf_out f + len\<rparr>)
   }"

subsection \<open>The macros of the header\<close>

text \<open>\<open>buf\<close> is the array inside the structure, which a ring with a separate buffer does not have.\<close>

definition INIT_KFIFO :: "u8 list option \<Rightarrow> u32 \<Rightarrow> kfifo" where
  "INIT_KFIFO buf esize =
     \<lparr>kf_in = 0, kf_out = 0, kf_mask = (case buf of None \<Rightarrow> 0 | Some d \<Rightarrow> word_of_nat (length d div unat esize) - 1),
      kf_esize = esize, kf_data = (case buf of None \<Rightarrow> [] | Some d \<Rightarrow> d)\<rparr>"

definition kfifo_initialized :: "kfifo \<Rightarrow> bool" where
  "kfifo_initialized f \<longleftrightarrow> kf_mask f \<noteq> 0"

definition kfifo_size :: "kfifo \<Rightarrow> u32" where
  "kfifo_size f = kf_mask f + 1"

definition kfifo_reset :: "kfifo \<Rightarrow> kfifo" where
  "kfifo_reset f = f\<lparr>kf_in := 0, kf_out := 0\<rparr>"

definition kfifo_reset_out :: "kfifo \<Rightarrow> kfifo" where
  "kfifo_reset_out f = f\<lparr>kf_out := kf_in f\<rparr>"

definition kfifo_len :: "kfifo \<Rightarrow> u32" where
  "kfifo_len f = kf_in f - kf_out f"

definition kfifo_is_empty :: "kfifo \<Rightarrow> bool" where
  "kfifo_is_empty f \<longleftrightarrow> kf_in f = kf_out f"

definition kfifo_is_full :: "kfifo \<Rightarrow> bool" where
  "kfifo_is_full f \<longleftrightarrow> kfifo_len f > kf_mask f"

section \<open>Records\<close>

definition kfifo_max_r :: "u32 \<Rightarrow> u32 \<Rightarrow> u32" where
  "kfifo_max_r len recsize =
     (let max = push_bit (unat (push_bit 3 recsize)) 1 - 1 in if len > max then max else len)"

definition kfifo_avail :: "u32 \<Rightarrow> kfifo \<Rightarrow> u32" where
  "kfifo_avail recsize f =
     (let avail = kfifo_size f - kfifo_len f
      in if recsize \<noteq> 0 then (if avail \<le> recsize then 0 else kfifo_max_r (avail - recsize) recsize)
         else avail)"

text \<open>\<^verbatim>\<open>__KFIFO_PEEK\<close> and \<^verbatim>\<open>__KFIFO_POKE\<close>: one byte of the ring.\<close>

definition kfifo_byte :: "kfifo \<Rightarrow> u32 \<Rightarrow> u8 option" where
  "kfifo_byte f i = map_option hd (mem_read (unat (i AND kf_mask f)) 1 (kf_data f))"

definition kfifo_set_byte :: "kfifo \<Rightarrow> u32 \<Rightarrow> u8 \<Rightarrow> kfifo option" where
  "kfifo_set_byte f i b = map_option (\<lambda>d. f\<lparr>kf_data := d\<rparr>) (mem_write (unat (i AND kf_mask f)) [b] (kf_data f))"

definition kfifo_peek_n :: "kfifo \<Rightarrow> u32 \<Rightarrow> u32 option" where
  "kfifo_peek_n f recsize = do {
     l \<leftarrow> kfifo_byte f (kf_out f);
     if recsize - 1 \<noteq> 0
     then do {
       h \<leftarrow> kfifo_byte f (kf_out f + 1);
       Some (ucast l OR push_bit 8 (ucast h))
     }
     else Some (ucast l)
   }"

definition kfifo_poke_n :: "kfifo \<Rightarrow> u32 \<Rightarrow> u32 \<Rightarrow> kfifo option" where
  "kfifo_poke_n f n recsize = do {
     f \<leftarrow> kfifo_set_byte f (kf_in f) (ucast n);
     if recsize > 1 then kfifo_set_byte f (kf_in f + 1) (ucast (drop_bit 8 n)) else Some f
   }"

definition kfifo_len_r :: "kfifo \<Rightarrow> u32 \<Rightarrow> u32 option" where
  "kfifo_len_r f recsize = kfifo_peek_n f recsize"

definition kfifo_in_r :: "kfifo \<Rightarrow> u8 list \<Rightarrow> u32 \<Rightarrow> u32 \<Rightarrow> (u32 \<times> kfifo) option" where
  "kfifo_in_r f buf len recsize =
     (if len + recsize > kfifo_unused f then Some (0, f)
      else do {
        f \<leftarrow> kfifo_poke_n f len recsize;
        f \<leftarrow> kfifo_copy_in f buf len (kf_in f + recsize);
        Some (len, f\<lparr>kf_in := kf_in f + (len + recsize)\<rparr>)
      })"

text \<open>The second result is \<^verbatim>\<open>*n\<close>, the length of the record.\<close>

definition kfifo_out_copy_r :: "kfifo \<Rightarrow> u32 \<Rightarrow> u32 \<Rightarrow> (u32 \<times> u32 \<times> u8 list) option" where
  "kfifo_out_copy_r f len recsize = do {
     n \<leftarrow> kfifo_peek_n f recsize;
     let len = (if len > n then n else len) in do {
       bs \<leftarrow> kfifo_copy_out f len (kf_out f + recsize);
       Some (len, n, bs)
     }
   }"

definition kfifo_out_peek_r :: "kfifo \<Rightarrow> u32 \<Rightarrow> u32 \<Rightarrow> (u32 \<times> u8 list) option" where
  "kfifo_out_peek_r f len recsize =
     (if kf_in f = kf_out f then Some (0, [])
      else do {
        (len, _, bs) \<leftarrow> kfifo_out_copy_r f len recsize;
        Some (len, bs)
      })"

definition kfifo_out_r :: "kfifo \<Rightarrow> u32 \<Rightarrow> u32 \<Rightarrow> (u32 \<times> u8 list \<times> kfifo) option" where
  "kfifo_out_r f len recsize =
     (if kf_in f = kf_out f then Some (0, [], f)
      else do {
        (len, n, bs) \<leftarrow> kfifo_out_copy_r f len recsize;
        Some (len, bs, f\<lparr>kf_out := kf_out f + (n + recsize)\<rparr>)
      })"

definition kfifo_skip_r :: "kfifo \<Rightarrow> u32 \<Rightarrow> kfifo option" where
  "kfifo_skip_r f recsize = do {
     n \<leftarrow> kfifo_peek_n f recsize;
     Some (f\<lparr>kf_out := kf_out f + (n + recsize)\<rparr>)
   }"

definition kfifo_dma_in_finish_r :: "kfifo \<Rightarrow> u32 \<Rightarrow> u32 \<Rightarrow> kfifo option" where
  "kfifo_dma_in_finish_r f len recsize =
     (let len = kfifo_max_r len recsize in do {
        f \<leftarrow> kfifo_poke_n f len recsize;
        Some (f\<lparr>kf_in := kf_in f + (len + recsize)\<rparr>)
      })"

definition kfifo_dma_out_finish_r :: "kfifo \<Rightarrow> u32 \<Rightarrow> kfifo option" where
  "kfifo_dma_out_finish_r f recsize = do {
     len \<leftarrow> kfifo_peek_n f recsize;
     Some (f\<lparr>kf_out := kf_out f + (len + recsize)\<rparr>)
   }"

section \<open>Single elements\<close>

text \<open>
  The macros for one element; \<open>val\<close> is its bytes, as many as an element has, and \<open>recsize\<close> the
  width of the length fields of a ring of records, or 0. What is read is the second result;
  \<open>vsize\<close> is the size of the variable that a record is read into.
\<close>

definition kfifo_put :: "u32 \<Rightarrow> kfifo \<Rightarrow> u8 list \<Rightarrow> (u32 \<times> kfifo) option" where
  "kfifo_put recsize f val =
     (if recsize \<noteq> 0 then kfifo_in_r f val (word_of_nat (length val)) recsize
      else if kfifo_is_full f then Some (0, f)
      else do {
        d \<leftarrow> mem_write (unat (kf_in f AND kf_mask f) * unat (kf_esize f)) val (kf_data f);
        Some (1, f\<lparr>kf_data := d, kf_in := kf_in f + 1\<rparr>)
      })"

definition kfifo_peek :: "u32 \<Rightarrow> u32 \<Rightarrow> kfifo \<Rightarrow> (u32 \<times> u8 list) option" where
  "kfifo_peek recsize vsize f =
     (if recsize \<noteq> 0 then kfifo_out_peek_r f vsize recsize
      else if kfifo_is_empty f then Some (0, [])
      else do {
        v \<leftarrow> mem_read (unat (kf_out f AND kf_mask f) * unat (kf_esize f)) (unat (kf_esize f)) (kf_data f);
        Some (1, v)
      })"

definition kfifo_get :: "u32 \<Rightarrow> u32 \<Rightarrow> kfifo \<Rightarrow> (u32 \<times> u8 list \<times> kfifo) option" where
  "kfifo_get recsize vsize f =
     (if recsize \<noteq> 0 then kfifo_out_r f vsize recsize
      else if kfifo_is_empty f then Some (0, [], f)
      else do {
        v \<leftarrow> mem_read (unat (kf_out f AND kf_mask f) * unat (kf_esize f)) (unat (kf_esize f)) (kf_data f);
        Some (1, v, f\<lparr>kf_out := kf_out f + 1\<rparr>)
      })"

definition kfifo_skip :: "u32 \<Rightarrow> kfifo \<Rightarrow> kfifo option" where
  "kfifo_skip recsize f = (if recsize \<noteq> 0 then kfifo_skip_r f recsize else Some (f\<lparr>kf_out := kf_out f + 1\<rparr>))"

definition kfifo_peek_len :: "u32 \<Rightarrow> kfifo \<Rightarrow> u32 option" where
  "kfifo_peek_len recsize f = (if recsize = 0 then Some (kfifo_len f * kf_esize f) else kfifo_len_r f recsize)"

definition kfifo_dma_in_finish :: "u32 \<Rightarrow> kfifo \<Rightarrow> u32 \<Rightarrow> kfifo option" where
  "kfifo_dma_in_finish recsize f len =
     (if recsize \<noteq> 0 then kfifo_dma_in_finish_r f len recsize else Some (f\<lparr>kf_in := kf_in f + udiv len (kf_esize f)\<rparr>))"

definition kfifo_dma_out_finish :: "u32 \<Rightarrow> kfifo \<Rightarrow> u32 \<Rightarrow> kfifo option" where
  "kfifo_dma_out_finish recsize f len =
     (if recsize \<noteq> 0 then kfifo_dma_out_finish_r f recsize else Some (f\<lparr>kf_out := kf_out f + udiv len (kf_esize f)\<rparr>))"

section \<open>User space\<close>

text \<open>
  \<open>cfu i n\<close> is \<^verbatim>\<open>copy_from_user\<close> for \<open>n\<close> bytes from the offset \<open>i\<close> of the user buffer:
  the number of bytes not copied and what is put into the destination.
  \<open>ctu i bs\<close> is \<^verbatim>\<open>copy_to_user\<close> of the bytes \<open>bs\<close>: the number of bytes not copied.
\<close>

definition DIV_ROUND_UP :: "u32 \<Rightarrow> u32 \<Rightarrow> u32" where
  "DIV_ROUND_UP n d = udiv (n + d - 1) d"

definition kfifo_copy_from_user ::
  "(u32 \<Rightarrow> u32 \<Rightarrow> u32 \<times> u8 list) \<Rightarrow> kfifo \<Rightarrow> u32 \<Rightarrow> u32 \<Rightarrow> (u32 \<times> u32 \<times> kfifo) option" where
  "kfifo_copy_from_user cfu f len off =
     (case kfifo_span f len off of (off, len, l) \<Rightarrow>
        let esize = kf_esize f; (ret, a) = cfu 0 l in do {
          d \<leftarrow> mem_write (unat off) a (kf_data f);
          if ret \<noteq> 0
          then let ret = DIV_ROUND_UP (ret + len - l) esize in Some (ret, len - ret, f\<lparr>kf_data := d\<rparr>)
          else let (ret, b) = cfu l (len - l) in do {
            d \<leftarrow> mem_write 0 b d;
            let ret = (if ret \<noteq> 0 then DIV_ROUND_UP ret esize else ret) in
            Some (ret, len - ret, f\<lparr>kf_data := d\<rparr>)
          }
        })"

text \<open>The results are the error, \<^verbatim>\<open>*copied\<close> and the ring.\<close>

definition kfifo_from_user ::
  "(u32 \<Rightarrow> u32 \<Rightarrow> u32 \<times> u8 list) \<Rightarrow> kfifo \<Rightarrow> u32 \<Rightarrow> (int \<times> u32 \<times> kfifo) option" where
  "kfifo_from_user cfu f len =
     (let len = (if kf_esize f \<noteq> 1 then udiv len (kf_esize f) else len);
          l = kfifo_unused f; len = (if len > l then l else len)
      in do {
        (ret, copied, f) \<leftarrow> kfifo_copy_from_user cfu f len (kf_in f);
        let (len, err) = (if ret \<noteq> 0 then (len - ret, - EFAULT) else (len, 0)) in
        Some (err, copied, f\<lparr>kf_in := kf_in f + len\<rparr>)
      })"

definition kfifo_copy_to_user ::
  "(u32 \<Rightarrow> u8 list \<Rightarrow> u32) \<Rightarrow> kfifo \<Rightarrow> u32 \<Rightarrow> u32 \<Rightarrow> (u32 \<times> u32) option" where
  "kfifo_copy_to_user ctu f len off =
     (case kfifo_span f len off of (off, len, l) \<Rightarrow>
        let esize = kf_esize f in do {
          a \<leftarrow> mem_read (unat off) (unat l) (kf_data f);
          let ret = ctu 0 a in
          if ret \<noteq> 0
          then let ret = DIV_ROUND_UP (ret + len - l) esize in Some (ret, len - ret)
          else do {
            b \<leftarrow> mem_read 0 (unat (len - l)) (kf_data f);
            let ret = ctu l b; ret = (if ret \<noteq> 0 then DIV_ROUND_UP ret esize else ret) in
            Some (ret, len - ret)
          }
        })"

definition kfifo_to_user :: "(u32 \<Rightarrow> u8 list \<Rightarrow> u32) \<Rightarrow> kfifo \<Rightarrow> u32 \<Rightarrow> (int \<times> u32 \<times> kfifo) option" where
  "kfifo_to_user ctu f len =
     (let len = (if kf_esize f \<noteq> 1 then udiv len (kf_esize f) else len);
          l = kf_in f - kf_out f; len = (if len > l then l else len)
      in do {
        (ret, copied) \<leftarrow> kfifo_copy_to_user ctu f len (kf_out f);
        let (len, err) = (if ret \<noteq> 0 then (len - ret, - EFAULT) else (len, 0)) in
        Some (err, copied, f\<lparr>kf_out := kf_out f + len\<rparr>)
      })"

definition kfifo_from_user_r ::
  "(u32 \<Rightarrow> u32 \<Rightarrow> u32 \<times> u8 list) \<Rightarrow> kfifo \<Rightarrow> u32 \<Rightarrow> u32 \<Rightarrow> (int \<times> u32 \<times> kfifo) option" where
  "kfifo_from_user_r cfu f len recsize =
     (let len = kfifo_max_r len recsize in
      if len + recsize > kfifo_unused f then Some (0, 0, f)
      else do {
        f \<leftarrow> kfifo_poke_n f len recsize;
        (ret, copied, f) \<leftarrow> kfifo_copy_from_user cfu f len (kf_in f + recsize);
        if ret \<noteq> 0 then Some (- EFAULT, 0, f)
        else Some (0, copied, f\<lparr>kf_in := kf_in f + (len + recsize)\<rparr>)
      })"

definition kfifo_to_user_r ::
  "(u32 \<Rightarrow> u8 list \<Rightarrow> u32) \<Rightarrow> kfifo \<Rightarrow> u32 \<Rightarrow> u32 \<Rightarrow> (int \<times> u32 \<times> kfifo) option" where
  "kfifo_to_user_r ctu f len recsize =
     (if kf_in f = kf_out f then Some (0, 0, f)
      else do {
        n \<leftarrow> kfifo_peek_n f recsize;
        let len = (if len > n then n else len) in do {
          (ret, copied) \<leftarrow> kfifo_copy_to_user ctu f len (kf_out f + recsize);
          if ret \<noteq> 0 then Some (- EFAULT, 0, f)
          else Some (0, copied, f\<lparr>kf_out := kf_out f + (n + recsize)\<rparr>)
        }
      })"

section \<open>Specification\<close>

text \<open>
  The abstract view of the ring: \<open>n\<close> bytes from the offset \<open>a\<close>, and the buffer after the bytes
  \<open>src\<close> are written from an offset, both around the end of the buffer.
\<close>

definition ring :: "'a list \<Rightarrow> nat \<Rightarrow> nat \<Rightarrow> 'a list" where
  "ring d a n = map (\<lambda>i. d ! ((a + i) mod length d)) [0..<n]"

definition ring_put :: "nat \<Rightarrow> 'a list \<Rightarrow> 'a list \<Rightarrow> 'a list" where
  "ring_put off src d =
     map (\<lambda>j. let i = (j + length d - off) mod length d in if i < length src then src ! i else d ! j) [0..<length d]"

text \<open>
  A usable ring: its size is a power of two of at least 2 elements, the buffer has room for
  them, its length in bytes is a 32-bit number, and the indices are at most the size apart.
\<close>

abbreviation kf_cap :: "kfifo \<Rightarrow> nat" where "kf_cap f \<equiv> unat (kf_mask f) + 1"

definition kfifo_inv :: "kfifo \<Rightarrow> bool" where
  "kfifo_inv f \<longleftrightarrow> (\<exists>k \<in> {1..31}. kf_mask f = mask k) \<and> 0 < kf_esize f
     \<and> kf_cap f * unat (kf_esize f) < 2 ^ 32 \<and> length (kf_data f) = kf_cap f * unat (kf_esize f)
     \<and> unat (kfifo_len f) \<le> kf_cap f"

text \<open>The bytes in the ring, oldest first.\<close>

definition kf_bytes :: "kfifo \<Rightarrow> u8 list" where
  "kf_bytes f = ring (kf_data f) (unat (kf_out f AND kf_mask f) * unat (kf_esize f)) (unat (kfifo_len f) * unat (kf_esize f))"

abbreviation kf_e :: "kfifo \<Rightarrow> nat" where "kf_e f \<equiv> unat (kf_esize f)"

text \<open>The header of a record of \<open>n\<close> bytes, and the records in the ring.\<close>

definition rec_head :: "u32 \<Rightarrow> nat \<Rightarrow> u8 list" where
  "rec_head recsize n = (if recsize = 1 then [word_of_nat n] else [word_of_nat n, word_of_nat (n div 256)])"

definition rec_bytes :: "u32 \<Rightarrow> u8 list list \<Rightarrow> u8 list" where
  "rec_bytes recsize rs = concat (map (\<lambda>r. rec_head recsize (length r) @ r) rs)"

definition rec_fits :: "u32 \<Rightarrow> u8 list \<Rightarrow> bool" where
  "rec_fits recsize r \<longleftrightarrow> length r < 2 ^ (8 * unat recsize)"

definition holds_records :: "u32 \<Rightarrow> u8 list list \<Rightarrow> kfifo \<Rightarrow> bool" where
  "holds_records recsize rs f \<longleftrightarrow> kfifo_inv f \<and> kf_esize f = 1 \<and> list_all (rec_fits recsize) rs \<and> kf_bytes f = rec_bytes recsize rs"

definition kfifo_put_bytes :: "kfifo \<Rightarrow> u8 list \<Rightarrow> kfifo option" where
  "kfifo_put_bytes f bs = map_option snd (kfifo_in f bs (word_of_nat (length bs)))"

definition kfifo_get_bytes :: "kfifo \<Rightarrow> nat \<Rightarrow> (u8 list \<times> kfifo) option" where
  "kfifo_get_bytes f n = map_option snd (kfifo_out f (word_of_nat n))"

definition byte_kfifo :: "kfifo \<Rightarrow> bool" where
  "byte_kfifo f \<longleftrightarrow> kfifo_inv f \<and> kf_esize f = 1"

text \<open>A ring of four bytes whose indices have wrapped around, and a ring with one record of one byte.\<close>

definition wrapped_fifo :: kfifo where
  "wrapped_fifo = \<lparr>kf_in = 1, kf_out = 0xfffffffe, kf_mask = 3, kf_esize = 1, kf_data = [10, 11, 12, 13]\<rparr>"

definition record_fifo :: kfifo where
  "record_fifo = \<lparr>kf_in = 2, kf_out = 0, kf_mask = 7, kf_esize = 1, kf_data = [1, 5, 0, 0, 0, 0, 0, 0]\<rparr>"

definition big_fifo :: kfifo where
  "big_fifo = \<lparr>kf_in = 0, kf_out = 0, kf_mask = 511, kf_esize = 1, kf_data = replicate 512 0\<rparr>"

definition word_fifo :: kfifo where
  "word_fifo = \<lparr>kf_in = 0, kf_out = 0, kf_mask = 3, kf_esize = 4, kf_data = replicate 16 0\<rparr>"

section \<open>Lemmas\<close>

lemma length_ring [simp]: "length (ring d a n) = n" "length (ring_put off src d) = length d"
  by (simp_all add: ring_def ring_put_def)

lemma ring_put_nth:
  assumes "off < length d" "i < length d"
  shows "ring_put off src d ! ((off + i) mod length d) = (if i < length src then src ! i else d ! ((off + i) mod length d))"
proof -
  have "((off + i) mod length d + length d - off) mod length d = i"
  proof (cases "off + i < length d")
    case False
    then have "(off + i) mod length d = off + i - length d" using assms by (simp add: mod_if)
    then show ?thesis using assms False by simp
  qed (use assms in simp)
  moreover have "(off + i) mod length d < length d" using assms(1) by (intro mod_less_divisor) auto
  ultimately show ?thesis by (simp add: ring_put_def Let_def)
qed

lemma ring_put_elem: "off < length d \<Longrightarrow> j < length d \<Longrightarrow> ring_put off src d ! j =
    (let i = (if off \<le> j then j - off else j + length d - off) in if i < length src then src ! i else d ! j)"
proof -
  assume a: "off < length d" "j < length d"
  have "(j + length d - off) mod length d = (if off \<le> j then j - off else j + length d - off)"
  proof (cases "off \<le> j")
    case True
    then have "j + length d - off = (j - off) + length d" by simp
    then show ?thesis using True a by (simp only: mod_add_self2 if_True) simp
  qed (use a in simp)
  then show ?thesis using a by (simp add: ring_put_def Let_def)
qed

lemma two_writes:
  assumes "off < length d" "length src \<le> length d" "l = min (length src) (length d - off)"
  shows "mem_write off (take l src) d \<bind> mem_write 0 (drop l src) = Some (ring_put off src d)"
proof (cases "length src \<le> length d - off")
  case True
  then have "take off d @ src @ drop (off + length src) d = ring_put off src d"
    using assms(1) by (intro nth_equalityI) (auto simp: ring_put_elem nth_append Let_def not_le not_less)
  then show ?thesis using True assms by (simp add: mem_write_def)
next
  case False
  let ?l = "length d - off"
  have "drop ?l src @ drop (length src - ?l) (take off d @ take ?l src) = ring_put off src d"
    using assms(1,2) False
    by (intro nth_equalityI) (auto simp: ring_put_elem nth_append Let_def not_le not_less min_def intro!: arg_cong [where f = "(!) src"])
  then show ?thesis using False assms by (simp add: mem_write_def min_def)
qed

lemma ring_split:
  assumes "off < length d" "n \<le> length d" "l = min n (length d - off)"
  shows "take l (drop off d) @ take (n - l) d = ring d off n"
proof (rule nth_equalityI)
  fix i assume "i < length (take l (drop off d) @ take (n - l) d)"
  then have i: "i < n" "length (take l (drop off d)) = l" using assms by auto
  have "(off + i) mod length d = (if i < l then off + i else i - l)"
    using i(1) assms by (cases "off + i < length d") (auto simp: mod_if min_def)
  then show "(take l (drop off d) @ take (n - l) d) ! i = ring d off n ! i"
    using i assms by (auto simp: ring_def nth_append)
qed (use assms in auto)

lemma two_reads:
  assumes "off < length d" "n \<le> length d" "l = min n (length d - off)"
  shows "(do { a \<leftarrow> mem_read off l d; b \<leftarrow> mem_read 0 (n - l) d; Some (a @ b) }) = Some (ring d off n)"
proof -
  have "off + l \<le> length d" "n - l \<le> length d" using assms by auto
  then show ?thesis using ring_split [OF assms] by (simp add: mem_read_def)
qed

lemma ring_append:
  assumes "a < length d" "n + length src \<le> length d"
  shows "ring (ring_put ((a + n) mod length d) src d) a (n + length src) = ring d a n @ src"
proof (rule nth_equalityI)
  fix i assume "i < length (ring (ring_put ((a + n) mod length d) src d) a (n + length src))"
  then have i: "i < n + length src" by simp
  let ?L = "length d" and ?o = "(a + n) mod length d"
  have o: "?o < ?L" using assms(1) by (intro mod_less_divisor) auto
  let ?k = "if i < n then ?L - n + i else i - n"
  have k: "?k < ?L" using i assms by auto
  have "(?o + ?k) mod ?L = (a + i) mod ?L"
    using i assms by (auto simp: mod_simps) (metis add.assoc le_add_diff_inverse2 le_add_diff_inverse mod_add_self2 add.commute add_leD1)
  with ring_put_nth [OF o k, of src] show "ring (ring_put ?o src d) a (n + length src) ! i = (ring d a n @ src) ! i"
    using i assms by (auto simp: ring_def nth_append split: if_splits)
qed simp

lemma take_ring: "k \<le> n \<Longrightarrow> take k (ring d a n) = ring d a k"
  by (simp add: ring_def take_map)

lemma drop_ring: "k \<le> n \<Longrightarrow> drop k (ring d a n) = ring d ((a + k) mod length d) (n - k)"
  by (intro nth_equalityI) (auto simp: ring_def mod_simps add.assoc less_diff_conv2)

lemma kfifo_invD:
  assumes "kfifo_inv f"
  obtains k where "1 \<le> k" "k \<le> 31" "kf_mask f = mask k" "kf_cap f = 2 ^ k"
proof -
  obtain k where k: "1 \<le> k" "k \<le> 31" "kf_mask f = mask k" using assms by (auto simp: kfifo_inv_def)
  have "int (unat (mask k :: u32)) = mask k" using k(2) by (simp add: uint_mask_eq min_def)
  then have "int (kf_cap f) = int (2 ^ k)" using k(3) by (simp add: mask_eq_exp_minus_1)
  then have "kf_cap f = 2 ^ k" unfolding of_nat_eq_iff .
  with k that show thesis by blast
qed

lemma unat_and_ring_mask: "kfifo_inv f \<Longrightarrow> unat (x AND kf_mask f) = unat x mod kf_cap f"
proof -
  assume i: "kfifo_inv f"
  from kfifo_invD [OF i] obtain k where k: "k \<le> 31" "kf_mask f = mask k" "kf_cap f = 2 ^ k" by blast
  have "unat (x AND mask k) = take_bit k (unat x)" unfolding take_bit_eq_mask [symmetric] unsigned_take_bit_eq ..
  then show ?thesis unfolding k(3) unfolding k(2) by (simp add: take_bit_eq_mod)
qed

lemma kfifo_cap_word: "kfifo_inv f \<Longrightarrow> unat (kf_mask f + 1) = kf_cap f" "kfifo_inv f \<Longrightarrow> 2 \<le> kf_cap f" "kfifo_inv f \<Longrightarrow> kf_cap f dvd 2 ^ 32"
proof -
  assume i: "kfifo_inv f"
  from kfifo_invD [OF i] obtain k where k: "1 \<le> k" "k \<le> 31" "kf_cap f = 2 ^ k" by blast
  have "(2::nat) ^ k \<le> 2 ^ 31" using k(2) by (intro power_increasing) auto
  then have "kf_cap f < 2 ^ 32" using k(3) by simp
  then show "unat (kf_mask f + 1) = kf_cap f" by (simp add: unat_add_eq)
  have "(2::nat) ^ 1 \<le> 2 ^ k" using k(1) by (intro power_increasing) auto
  then show "2 \<le> kf_cap f" using k(3) by simp
  show "kf_cap f dvd 2 ^ 32" unfolding k(3) using k(2) by (intro le_imp_power_dvd) simp
qed

lemma unat_index:
  assumes "kfifo_inv f"
  shows "unat (x + y AND kf_mask f) = (unat (x AND kf_mask f) + unat y) mod kf_cap f"
proof -
  have "unat (x + y) = (unat x + unat y) mod 2 ^ 32" by (simp add: unat_word_ariths)
  then show ?thesis using unat_and_ring_mask [OF assms] kfifo_cap_word(3) [OF assms] by (simp add: mod_mod_cancel mod_simps)
qed

lemma kfifo_unused_eq: "kfifo_inv f \<Longrightarrow> unat (kfifo_unused f) = kf_cap f - unat (kfifo_len f)"
proof -
  assume i: "kfifo_inv f"
  then have "kfifo_len f \<le> kf_mask f + 1" using kfifo_cap_word(1) [OF i] by (simp add: kfifo_inv_def word_le_nat_alt)
  then show ?thesis using kfifo_cap_word(1) [OF i] by (simp add: kfifo_unused_def kfifo_len_def unat_sub)
qed

lemma kfifo_span_eq:
  assumes i: "kfifo_inv f" and len: "unat len \<le> kf_cap f" and sp: "kfifo_span f len off = (ob, n, l)"
  defines "e \<equiv> unat (kf_esize f)"
  shows "unat ob = unat (off AND kf_mask f) * e" "unat n = unat len * e" "unat l = min (unat len * e) (length (kf_data f) - unat ob)"
    "unat (n - l) = unat len * e - unat l" "unat ob < length (kf_data f)" "unat len * e \<le> length (kf_data f)"
proof -
  have d: "length (kf_data f) = kf_cap f * e" "kf_cap f * e < 2 ^ 32" "0 < e"
    using i by (simp_all add: kfifo_inv_def e_def word_less_nat_alt)
  have o: "unat (off AND kf_mask f) < kf_cap f" using unat_and_ring_mask [OF i] by simp
  have oe: "unat (off AND kf_mask f) * e < kf_cap f * e" using mult_less_mono1 [OF o d(3)] by simp
  have le: "unat len * e \<le> kf_cap f * e" by (rule mult_le_mono1 [OF len])
  have p: "(if kf_esize f \<noteq> 1 then x * kf_esize f else x) = x * kf_esize f" for x by simp
  have eqs: "ob = (off AND kf_mask f) * kf_esize f" "n = len * kf_esize f" "l = min n ((kf_mask f + 1) * kf_esize f - ob)"
    using sp by (auto simp: kfifo_span_def Let_def split: if_splits)
  show ob: "unat ob = unat (off AND kf_mask f) * e" unfolding eqs(1) using oe d(2) by (subst unat_mult_eq) (simp_all add: e_def)
  show n: "unat n = unat len * e" unfolding eqs(2) using le d(2) by (subst unat_mult_eq) (simp_all add: e_def)
  have sz: "unat ((kf_mask f + 1) * kf_esize f) = kf_cap f * e"
    using d(2) kfifo_cap_word(1) [OF i] by (subst unat_mult_eq) (simp_all add: e_def)
  have "unat ((kf_mask f + 1) * kf_esize f - ob) = kf_cap f * e - unat ob"
    using oe sz ob by (subst unat_sub) (simp_all add: word_le_nat_alt)
  then show l: "unat l = min (unat len * e) (length (kf_data f) - unat ob)"
    unfolding eqs(3) using n d(1) by (simp add: min_def word_le_nat_alt)
  have "l \<le> n" by (simp add: eqs(3))
  then show "unat (n - l) = unat len * e - unat l" using n by (simp add: unat_sub)
  show "unat ob < length (kf_data f)" "unat len * e \<le> length (kf_data f)" using ob oe le d(1) by simp_all
qed

lemma kfifo_copy_in_eq:
  assumes i: "kfifo_inv f" and len: "unat len \<le> kf_cap f" and src: "unat len * kf_e f \<le> length src"
  shows "kfifo_copy_in f src len off
    = Some (f\<lparr>kf_data := ring_put (unat (off AND kf_mask f) * kf_e f) (take (unat len * kf_e f) src) (kf_data f)\<rparr>)"
proof -
  obtain ob n l where sp: "kfifo_span f len off = (ob, n, l)" by (metis prod_cases3)
  note e = kfifo_span_eq [OF i len sp]
  let ?s = "take (unat len * kf_e f) src"
  have ls: "length ?s = unat len * kf_e f" "unat l \<le> unat len * kf_e f" using src e(3) by simp_all
  have r: "mem_read 0 (unat l) src = Some (take (unat l) ?s)" "mem_read (unat l) (unat (n - l)) src = Some (drop (unat l) ?s)"
    unfolding e(4) using ls src by (simp_all add: mem_read_def min_absorb1 drop_take)
  have w: "mem_write (unat ob) (take (unat l) ?s) (kf_data f) \<bind> mem_write 0 (drop (unat l) ?s) = Some (ring_put (unat ob) ?s (kf_data f))"
    using two_writes [of "unat ob" "kf_data f" ?s "unat l"] e(3,5,6) ls(1) by simp
  from this show ?thesis unfolding kfifo_copy_in_def sp prod.case e(1) [symmetric] using r
    by (cases "mem_write (unat ob) (take (unat l) ?s) (kf_data f)") simp_all
qed

lemma kfifo_copy_out_eq:
  assumes i: "kfifo_inv f" and len: "unat len \<le> kf_cap f"
  shows "kfifo_copy_out f len off = Some (ring (kf_data f) (unat (off AND kf_mask f) * kf_e f) (unat len * kf_e f))"
proof -
  obtain ob n l where sp: "kfifo_span f len off = (ob, n, l)" by (metis prod_cases3)
  note e = kfifo_span_eq [OF i len sp]
  show ?thesis unfolding kfifo_copy_out_def sp prod.case e(4) e(1) [symmetric]
    using two_reads [of "unat ob" "kf_data f" "unat len * kf_e f" "unat l"] e(3,5,6) by simp
qed

text \<open>Moving the write index by \<open>n\<close> elements after a write at it, and the read index.\<close>

lemma ring_offsets:
  assumes "kfifo_inv f"
  shows "(unat (x AND kf_mask f) * kf_e f + unat y * kf_e f) mod length (kf_data f) = unat (x + y AND kf_mask f) * kf_e f"
    "unat (x AND kf_mask f) * kf_e f < length (kf_data f)"
proof -
  have d: "length (kf_data f) = kf_cap f * kf_e f" "0 < kf_e f" using assms by (simp_all add: kfifo_inv_def word_less_nat_alt)
  show "(unat (x AND kf_mask f) * kf_e f + unat y * kf_e f) mod length (kf_data f) = unat (x + y AND kf_mask f) * kf_e f"
    unfolding unat_index [OF assms] d(1) add_mult_distrib [symmetric] by (rule mult_mod_left [symmetric])
  have "unat (x AND kf_mask f) < kf_cap f" unfolding unat_and_ring_mask [OF assms] by simp
  then show "unat (x AND kf_mask f) * kf_e f < length (kf_data f)" unfolding d(1) using d(2) by (rule mult_less_mono1)
qed

lemma kf_write_bytes:
  assumes i: "kfifo_inv f" and n: "unat (kfifo_len f) + unat n \<le> kf_cap f" and bs: "length bs = unat n * kf_e f"
  defines "f' \<equiv> f\<lparr>kf_data := ring_put (unat (kf_in f AND kf_mask f) * kf_e f) bs (kf_data f), kf_in := kf_in f + n\<rparr>"
  shows "kfifo_inv f' \<and> kf_bytes f' = kf_bytes f @ bs"
proof -
  have c: "kf_cap f < 2 ^ 32" using kfifo_cap_word(1) [OF i] unsigned_less [of "kf_mask f + 1", where ?'a = nat] by simp
  have len: "unat (kfifo_len f') = unat (kfifo_len f) + unat n"
  proof -
    have "kfifo_len f' = kfifo_len f + n" by (simp add: f'_def kfifo_len_def)
    then show ?thesis using n c by (simp add: unat_add_eq)
  qed
  have inv: "kfifo_inv f'" using i n len by (simp add: kfifo_inv_def f'_def)
  let ?a = "unat (kf_out f AND kf_mask f) * kf_e f" and ?n = "unat (kfifo_len f) * kf_e f"
  have o: "(?a + ?n) mod length (kf_data f) = unat (kf_in f AND kf_mask f) * kf_e f"
    unfolding ring_offsets(1) [OF i] by (simp add: kfifo_len_def)
  have "(unat (kfifo_len f) + unat n) * kf_e f \<le> length (kf_data f)"
    using mult_le_mono1 [OF n, of "kf_e f"] i unfolding kfifo_inv_def by simp
  then have le: "?n + length bs \<le> length (kf_data f)" unfolding bs by (simp only: add_mult_distrib)
  have "kf_bytes f' = ring (ring_put ((?a + ?n) mod length (kf_data f)) bs (kf_data f)) ?a (?n + length bs)"
    unfolding kf_bytes_def len o bs by (simp add: f'_def add_mult_distrib)
  also have "\<dots> = kf_bytes f @ bs" unfolding kf_bytes_def by (rule ring_append [OF ring_offsets(2) [OF i] le])
  finally show ?thesis using inv by simp
qed

lemma kf_read_bytes:
  assumes i: "kfifo_inv f" and n: "unat n \<le> unat (kfifo_len f)"
  shows "kfifo_inv (f\<lparr>kf_out := kf_out f + n\<rparr>) \<and> kf_bytes (f\<lparr>kf_out := kf_out f + n\<rparr>) = drop (unat n * kf_e f) (kf_bytes f)
    \<and> ring (kf_data f) (unat (kf_out f AND kf_mask f) * kf_e f) (unat n * kf_e f) = take (unat n * kf_e f) (kf_bytes f)"
proof -
  let ?g = "f\<lparr>kf_out := kf_out f + n\<rparr>"
  have len: "unat (kfifo_len ?g) = unat (kfifo_len f) - unat n"
    using n by (simp add: kfifo_len_def diff_diff_eq [symmetric] unat_sub word_le_nat_alt)
  have le: "unat n * kf_e f \<le> unat (kfifo_len f) * kf_e f" using n by simp
  have "kf_bytes ?g = drop (unat n * kf_e f) (kf_bytes f)"
    unfolding kf_bytes_def drop_ring [OF le] ring_offsets(1) [OF i] len by (simp add: diff_mult_distrib)
  moreover have "unat (kfifo_len f) - unat n \<le> kf_cap f" using i unfolding kfifo_inv_def by linarith
  ultimately show ?thesis using i len le by (simp add: kfifo_inv_def kf_bytes_def take_ring)
qed

text \<open>The bounded queue of bytes that the ring implements.\<close>

lemma kfifo_in_spec:
  assumes i: "kfifo_inv f" and buf: "min (unat len) (unat (kfifo_unused f)) * kf_e f \<le> length buf"
  defines "n \<equiv> min len (kfifo_unused f)"
  shows "\<exists>f'. kfifo_in f buf len = Some (n, f') \<and> kfifo_inv f' \<and> kf_bytes f' = kf_bytes f @ take (unat n * kf_e f) buf
     \<and> kf_mask f' = kf_mask f \<and> kf_esize f' = kf_esize f \<and> kf_out f' = kf_out f"
proof -
  have u: "unat (kfifo_unused f) = kf_cap f - unat (kfifo_len f)" "unat (kfifo_len f) \<le> kf_cap f"
    using kfifo_unused_eq [OF i] i by (simp_all add: kfifo_inv_def)
  have n: "unat n = min (unat len) (unat (kfifo_unused f))" by (simp add: n_def min_def word_le_nat_alt)
  have "kfifo_copy_in f buf n (kf_in f) = Some (f\<lparr>kf_data := ring_put (unat (kf_in f AND kf_mask f) * kf_e f) (take (unat n * kf_e f) buf) (kf_data f)\<rparr>)"
    using buf n u by (intro kfifo_copy_in_eq [OF i]) simp_all
  moreover have "(if len > kfifo_unused f then kfifo_unused f else len) = n" by (auto simp: n_def min_def)
  ultimately have "kfifo_in f buf len = Some (n, f\<lparr>kf_data := ring_put (unat (kf_in f AND kf_mask f) * kf_e f) (take (unat n * kf_e f) buf) (kf_data f),
      kf_in := kf_in f + n\<rparr>)" by (simp add: kfifo_in_def Let_def)
  moreover have "length (take (unat n * kf_e f) buf) = unat n * kf_e f" "unat (kfifo_len f) + unat n \<le> kf_cap f" using buf n u by simp_all
  ultimately show ?thesis using kf_write_bytes [OF i, of n "take (unat n * kf_e f) buf"] by auto
qed

lemma kfifo_out_spec:
  fixes len :: u32
  assumes i: "kfifo_inv f"
  defines "n \<equiv> min len (kfifo_len f)"
  shows "\<exists>f'. kfifo_out f len = Some (n, take (unat n * kf_e f) (kf_bytes f), f') \<and> kfifo_inv f' \<and> kf_bytes f' = drop (unat n * kf_e f) (kf_bytes f)
     \<and> kf_mask f' = kf_mask f \<and> kf_esize f' = kf_esize f \<and> kf_in f' = kf_in f"
proof -
  have n: "unat n \<le> unat (kfifo_len f)" by (simp add: n_def min_def word_le_nat_alt)
  then have "unat n \<le> kf_cap f" using i by (simp add: kfifo_inv_def)
  moreover have "(if len > kf_in f - kf_out f then kf_in f - kf_out f else len) = n" by (auto simp: n_def min_def kfifo_len_def)
  ultimately have "kfifo_out f len = Some (n, take (unat n * kf_e f) (kf_bytes f), f\<lparr>kf_out := kf_out f + n\<rparr>)"
    using kf_read_bytes [OF i n] by (simp add: kfifo_out_def kfifo_out_peek_def Let_def kfifo_copy_out_eq [OF i])
  then show ?thesis using kf_read_bytes [OF i n] by simp
qed

lemma ring_put_append:
  assumes o: "w < length d" and le: "length xs + length ys \<le> length d"
  shows "ring_put ((w + length xs) mod length d) ys (ring_put w xs d) = ring_put w (xs @ ys) d"
proof (rule nth_equalityI)
  let ?L = "length d" and ?o = "(w + length xs) mod length d"
  fix j assume "j < length (ring_put ?o ys (ring_put w xs d))"
  then have j: "j < ?L" by simp
  define i where "i = (j + ?L - w) mod ?L"
  have L: "0 < ?L" using o by (rule order.strict_trans1 [OF le0])
  have i: "i < ?L" unfolding i_def using L by simp
  have "(w + i) mod ?L = (w + (j + ?L - w)) mod ?L" by (simp add: i_def mod_add_right_eq)
  also have "\<dots> = j" using j o by simp
  finally have ij: "(w + i) mod ?L = j" .
  let ?k = "if i < length xs then ?L - length xs + i else i - length xs"
  have k: "?k < ?L" using i le by auto
  have "(?o + ?k) mod ?L = (w + length xs + ?k) mod ?L" by (simp add: mod_add_left_eq)
  also have "\<dots> = j"
  proof (cases "i < length xs")
    case True
    then have "w + length xs + ?k = (w + i) + ?L" using le by simp
    then show ?thesis using ij by (simp only: mod_add_self2)
  next
    case False
    then have "w + length xs + ?k = w + i" by simp
    then show ?thesis using ij by simp
  qed
  finally have kj: "(?o + ?k) mod ?L = j" .
  have o': "?o < ?L" using L by simp
  have "ring_put ?o ys (ring_put w xs d) ! j = (if ?k < length ys then ys ! ?k else ring_put w xs d ! j)"
    using ring_put_nth [of ?o "ring_put w xs d" ?k ys] o' k kj by simp
  moreover have "ring_put w xs d ! j = (if i < length xs then xs ! i else d ! j)" "ring_put w (xs @ ys) d ! j = (if i < length (xs @ ys) then (xs @ ys) ! i else d ! j)"
    using ring_put_nth [OF o i] ij by simp_all
  ultimately show "ring_put ?o ys (ring_put w xs d) ! j = ring_put w (xs @ ys) d ! j"
    using le i by (auto simp: nth_append)
qed simp

lemma kfifo_set_byte_eq:
  assumes "kfifo_inv f" "kf_esize f = 1"
  shows "kfifo_set_byte f i b = Some (f\<lparr>kf_data := ring_put (unat (i AND kf_mask f)) [b] (kf_data f)\<rparr>)"
proof -
  let ?o = "unat (i AND kf_mask f)" and ?d = "kf_data f"
  have o: "?o < length ?d" using ring_offsets(2) [OF assms(1), of i] assms(2) by simp
  then have "mem_write ?o [b] ?d = Some (ring_put ?o [b] ?d)"
    using two_writes [of ?o ?d "[b]" 1] by (cases "mem_write ?o [b] ?d") (auto simp: mem_write_def)
  then show ?thesis by (simp add: kfifo_set_byte_def)
qed

lemma kfifo_byte_eq:
  assumes "kfifo_inv f" "kf_esize f = 1" "unat j < unat (kfifo_len f)"
  shows "kfifo_byte f (kf_out f + j) = Some (kf_bytes f ! unat j)"
proof -
  have o: "unat (kf_out f + j AND kf_mask f) = (unat (kf_out f AND kf_mask f) + unat j) mod length (kf_data f)"
    "unat (kf_out f + j AND kf_mask f) < length (kf_data f)"
    using ring_offsets(1) [OF assms(1), of "kf_out f" j] ring_offsets(2) [OF assms(1), of "kf_out f + j"] assms(2) by simp_all
  then have "kfifo_byte f (kf_out f + j) = Some (kf_data f ! unat (kf_out f + j AND kf_mask f))"
    by (simp add: kfifo_byte_def mem_read_def take_Suc_conv_app_nth hd_drop_conv_nth)
  then show ?thesis using o(1) assms(2,3) by (simp add: kf_bytes_def ring_def)
qed

lemma kfifo_poke_n_eq:
  assumes "kfifo_inv f" "kf_esize f = 1" "recsize = 1 \<or> recsize = 2"
  shows "kfifo_poke_n f n recsize = Some (f\<lparr>kf_data := ring_put (unat (kf_in f AND kf_mask f)) (rec_head recsize (unat n)) (kf_data f)\<rparr>)"
proof -
  let ?o = "unat (kf_in f AND kf_mask f)"
  let ?f1 = "f\<lparr>kf_data := ring_put ?o [ucast n] (kf_data f)\<rparr>"
  have f1: "kfifo_inv ?f1" "kf_esize ?f1 = 1" using assms(1,2) by (simp_all add: kfifo_inv_def kfifo_len_def)
  have h: "word_of_nat (unat n) = (ucast n :: u8)" "word_of_nat (unat n div 256) = (ucast (drop_bit 8 n) :: u8)"
    using of_nat_unat [of n, where ?'a = "8 word"] of_nat_unat [of "drop_bit 8 n", where ?'a = "8 word"] by (simp_all add: unat_drop_bit)
  have "?o < length (kf_data f)" "(?o + 1) mod length (kf_data f) = unat (kf_in f + 1 AND kf_mask f)"
    using ring_offsets(1) [OF assms(1), of "kf_in f" 1] ring_offsets(2) [OF assms(1), of "kf_in f"] assms(2) by simp_all
  moreover have "2 \<le> length (kf_data f)" using kfifo_cap_word(2) [OF assms(1)] assms(1,2) by (simp add: kfifo_inv_def)
  ultimately have "ring_put (unat (kf_in f + 1 AND kf_mask f)) [ucast (drop_bit 8 n)] (ring_put ?o [ucast n] (kf_data f))
      = ring_put ?o [ucast n, ucast (drop_bit 8 n)] (kf_data f)"
    using ring_put_append [of ?o "kf_data f" "[ucast n]" "[ucast (drop_bit 8 n)]"] by simp
  then show ?thesis using assms(3) unfolding kfifo_poke_n_def kfifo_set_byte_eq [OF assms(1,2)] rec_head_def h
    by (auto simp: kfifo_set_byte_eq [OF f1] simp del: One_nat_def)
qed

lemma length_kf_bytes: "kf_esize f = 1 \<Longrightarrow> length (kf_bytes f) = unat (kfifo_len f)"
  by (simp add: kf_bytes_def)

lemma length_rec_head: "recsize = 1 \<or> recsize = 2 \<Longrightarrow> length (rec_head recsize n) = unat recsize"
  by (auto simp: rec_head_def)

lemma kfifo_in_r_bytes:
  assumes r: "recsize = 1 \<or> recsize = 2" and i: "kfifo_inv f" and e: "kf_esize f = 1" and buf: "unat len \<le> length buf"
    and ov: "unat len + unat recsize < 2 ^ 32"
  shows "if unat len + unat recsize \<le> unat (kfifo_unused f)
    then \<exists>f'. kfifo_in_r f buf len recsize = Some (len, f') \<and> kfifo_inv f' \<and> kf_esize f' = 1
      \<and> kf_bytes f' = kf_bytes f @ rec_head recsize (unat len) @ take (unat len) buf
    else kfifo_in_r f buf len recsize = Some (0, f)"
proof -
  let ?r = "take (unat len) buf" and ?o = "unat (kf_in f AND kf_mask f)"
  let ?h = "rec_head recsize (unat len)"
  have s: "unat (len + recsize) = unat len + unat recsize" using ov by (subst unat_add_eq) auto
  show ?thesis
  proof (cases "unat len + unat recsize \<le> unat (kfifo_unused f)")
    case False
    then have "len + recsize > kfifo_unused f" using s by (simp add: word_less_nat_alt)
    then show ?thesis using False by (simp add: kfifo_in_r_def)
  next
    case True
    then have g: "\<not> len + recsize > kfifo_unused f" using s by (simp add: word_less_nat_alt)
    have n: "unat (kfifo_len f) + unat (len + recsize) \<le> kf_cap f"
      using True kfifo_unused_eq [OF i] i unfolding s kfifo_inv_def by linarith
    let ?f1 = "f\<lparr>kf_data := ring_put ?o ?h (kf_data f)\<rparr>"
    have f1: "kfifo_inv ?f1" "kf_esize ?f1 = 1" using i e by (simp_all add: kfifo_inv_def kfifo_len_def)
    have lenr: "length ?r = unat len" using buf by simp
    have c: "unat len \<le> kf_cap ?f1" using n s by simp
    have ci: "kfifo_copy_in ?f1 buf len (kf_in ?f1 + recsize)
        = Some (?f1\<lparr>kf_data := ring_put (unat (kf_in f + recsize AND kf_mask f)) ?r (ring_put ?o ?h (kf_data f))\<rparr>)"
      using kfifo_copy_in_eq [OF f1(1) c, of buf "kf_in f + recsize"] e buf by simp
    have d: "length (kf_data f) = kf_cap f" using i e by (simp add: kfifo_inv_def)
    have o: "?o < length (kf_data f)" "(?o + length ?h) mod length (kf_data f) = unat (kf_in f + recsize AND kf_mask f)"
      using ring_offsets(1) [OF i, of "kf_in f" recsize] ring_offsets(2) [OF i, of "kf_in f"] e length_rec_head [OF r] by simp_all
    have "ring_put (unat (kf_in f + recsize AND kf_mask f)) ?r (ring_put ?o ?h (kf_data f)) = ring_put ?o (?h @ ?r) (kf_data f)"
      unfolding o(2) [symmetric] using n s d lenr length_rec_head [OF r] by (intro ring_put_append [OF o(1)]) simp
    then have run: "kfifo_in_r f buf len recsize = Some (len, f\<lparr>kf_data := ring_put ?o (?h @ ?r) (kf_data f), kf_in := kf_in f + (len + recsize)\<rparr>)"
      using g ci by (simp add: kfifo_in_r_def kfifo_poke_n_eq [OF i e r])
    have "kfifo_inv (f\<lparr>kf_data := ring_put ?o (?h @ ?r) (kf_data f), kf_in := kf_in f + (len + recsize)\<rparr>)
      \<and> kf_bytes (f\<lparr>kf_data := ring_put ?o (?h @ ?r) (kf_data f), kf_in := kf_in f + (len + recsize)\<rparr>) = kf_bytes f @ ?h @ ?r"
      using kf_write_bytes [OF i n, of "?h @ ?r"] e s lenr length_rec_head [OF r] by simp
    then show ?thesis using True run e by auto
  qed
qed

lemma kfifo_in_r_spec:
  assumes r: "recsize = 1 \<or> recsize = 2" and h: "holds_records recsize rs f" and buf: "unat len \<le> length buf"
    and fits: "rec_fits recsize (take (unat len) buf)"
  shows "if unat len + unat recsize \<le> unat (kfifo_unused f)
    then \<exists>f'. kfifo_in_r f buf len recsize = Some (len, f') \<and> holds_records recsize (rs @ [take (unat len) buf]) f'
    else kfifo_in_r f buf len recsize = Some (0, f)"
proof -
  have i: "kfifo_inv f" "kf_esize f = 1" using h by (simp_all add: holds_records_def)
  have "unat len < 2 ^ 16" using fits r buf by (auto simp: rec_fits_def)
  then have "unat len + unat recsize < 2 ^ 32" using r by auto
  from kfifo_in_r_bytes [OF r i buf this] show ?thesis
    using h fits buf by (auto simp: holds_records_def rec_bytes_def split: if_splits)
qed

lemma rec_head_value:
  assumes r: "recsize = 1 \<or> recsize = 2" and n: "n < 2 ^ (8 * unat recsize)"
  shows "(if recsize - 1 \<noteq> 0 then ucast (rec_head recsize n ! 0) OR push_bit 8 (ucast (rec_head recsize n ! 1)) else ucast (rec_head recsize n ! 0))
    = (word_of_nat n :: u32)"
  using r
proof
  assume "recsize = 1"
  then show ?thesis using n by (simp add: rec_head_def unsigned_of_nat take_bit_nat_eq_self)
next
  assume r2: "recsize = 2"
  have "(ucast (word_of_nat n :: u8) OR push_bit 8 (ucast (word_of_nat (n div 256) :: u8)) :: u32) = word_of_nat n"
  proof (rule bit_eqI)
    fix j assume "possible_bit TYPE(u32) j"
    have "take_bit 16 n = n" using n r2 by (simp add: take_bit_nat_eq_self)
    then have "bit n j \<longleftrightarrow> bit n j \<and> j < 16" by (metis bit_take_bit_iff)
    moreover have "n div 256 = drop_bit 8 n" by (simp add: drop_bit_eq_div)
    ultimately show "bit (ucast (word_of_nat n :: u8) OR push_bit 8 (ucast (word_of_nat (n div 256) :: u8)) :: u32) j = bit (word_of_nat n :: u32) j"
      by (auto simp: bit_simps bit_word_of_nat)
  qed
  then show ?thesis using r2 by (simp add: rec_head_def)
qed

lemma kfifo_peek_n_eq:
  assumes r: "recsize = 1 \<or> recsize = 2" and h: "holds_records recsize (x # rs) f"
  shows "kfifo_peek_n f recsize = Some (word_of_nat (length x))"
proof -
  have i: "kfifo_inv f" and e: "kf_esize f = 1" and x: "length x < 2 ^ (8 * unat recsize)"
    and b: "kf_bytes f = rec_head recsize (length x) @ x @ rec_bytes recsize rs"
    using h by (simp_all add: holds_records_def rec_bytes_def rec_fits_def)
  have l: "unat recsize \<le> unat (kfifo_len f)" using length_kf_bytes [OF e] length_rec_head [OF r] unfolding b by simp
  have "kfifo_byte f (kf_out f) = Some (rec_head recsize (length x) ! 0)"
    using kfifo_byte_eq [OF i e, of 0] l r length_rec_head [OF r, of "length x"] unfolding b by (auto simp: nth_append)
  moreover have "kfifo_byte f (kf_out f + 1) = Some (rec_head recsize (length x) ! 1)" if "recsize = 2"
    using kfifo_byte_eq [OF i e, of 1] l that length_rec_head [OF r, of "length x"] unfolding b by (auto simp: nth_append)
  ultimately show ?thesis using rec_head_value [OF r x] r by (auto simp: kfifo_peek_n_def)
qed

lemma kfifo_out_r_spec:
  assumes r: "recsize = 1 \<or> recsize = 2"
  shows "holds_records recsize [] f \<Longrightarrow> kfifo_out_r f len recsize = Some (0, [], f)"
    "holds_records recsize (x # rs) f \<Longrightarrow> \<exists>f'. kfifo_out_r f len recsize = Some (min len (word_of_nat (length x)), take (unat len) x, f')
       \<and> holds_records recsize rs f'"
proof -
  show "kfifo_out_r f len recsize = Some (0, [], f)" if "holds_records recsize [] f"
  proof -
    have "unat (kfifo_len f) = 0" using that length_kf_bytes [of f] by (simp add: holds_records_def rec_bytes_def)
    then show ?thesis by (simp add: kfifo_out_r_def kfifo_len_def unat_eq_zero)
  qed
  assume h: "holds_records recsize (x # rs) f"
  have i: "kfifo_inv f" and e: "kf_esize f = 1" and x: "length x < 2 ^ (8 * unat recsize)"
    and b: "kf_bytes f = rec_head recsize (length x) @ x @ rec_bytes recsize rs"
    using h by (simp_all add: holds_records_def rec_bytes_def rec_fits_def)
  have hl: "length (rec_head recsize (length x)) = unat recsize" by (rule length_rec_head [OF r])
  have l: "unat recsize + length x \<le> unat (kfifo_len f)" using length_kf_bytes [OF e] hl unfolding b by simp
  have x16: "length x < 2 ^ 16" using x r by auto
  define n where "n = (word_of_nat (length x) :: u32)"
  have n: "unat n = length x" using x16 by (simp add: n_def unat_of_nat take_bit_eq_mod)
  define m where "m = min len n"
  have m: "unat m = min (unat len) (length x)" by (simp add: m_def min_def word_le_nat_alt n)
  have s: "unat (n + recsize) = length x + unat recsize" using n x16 r by (subst unat_add_eq) auto
  let ?f = "f\<lparr>kf_out := kf_out f + recsize\<rparr>"
  have rl: "unat recsize \<le> unat (kfifo_len f)" using l by simp
  note rb = kf_read_bytes [OF i rl]
  have lf: "length (kf_bytes ?f) = unat (kfifo_len ?f)" using e by (simp add: length_kf_bytes)
  have "kf_bytes ?f = x @ rec_bytes recsize rs" using rb e hl b by simp
  moreover have "unat m \<le> unat (kfifo_len ?f)" using lf m calculation by simp
  ultimately have "ring (kf_data f) (unat (kf_out f + recsize AND kf_mask f)) (unat m) = take (unat m) x"
    using kf_read_bytes [of ?f m] rb e m by simp
  then have co: "kfifo_copy_out f m (kf_out f + recsize) = Some (take (unat len) x)"
  proof -
    have "unat m \<le> kf_cap f" using m l i unfolding kfifo_inv_def by linarith
    moreover have "take (unat m) x = take (unat len) x" unfolding m by (simp add: min_def)
    ultimately show ?thesis using kfifo_copy_out_eq [OF i, of m "kf_out f + recsize"] e \<open>ring _ _ _ = _\<close> by simp
  qed
  have ne: "kf_in f \<noteq> kf_out f" using l r by (auto simp: kfifo_len_def)
  have mm: "(if len > n then n else len) = m" by (auto simp: m_def min_def)
  have run: "kfifo_out_r f len recsize = Some (m, take (unat len) x, f\<lparr>kf_out := kf_out f + (n + recsize)\<rparr>)"
    using kfifo_peek_n_eq [OF r h] ne co mm by (simp add: kfifo_out_r_def kfifo_out_copy_r_def n_def [symmetric] Let_def)
  have "unat (n + recsize) \<le> unat (kfifo_len f)" using l s by simp
  from kf_read_bytes [OF i this] have "holds_records recsize rs (f\<lparr>kf_out := kf_out f + (n + recsize)\<rparr>)"
    using h e b hl s by (simp add: holds_records_def)
  then show "\<exists>f'. kfifo_out_r f len recsize = Some (min len (word_of_nat (length x)), take (unat len) x, f') \<and> holds_records recsize rs f'"
    using run by (simp add: m_def n_def)
qed

lemma fls_0: "fls 0 = 0"
  using takeWhile_eq_all_conv [of "\<lambda>i. True" "rev [0..<32]"] by (simp add: fls_def del: takeWhile_eq_all_conv)

lemma fls_bounds:
  assumes "n \<noteq> 0"
  shows "1 \<le> fls n" "fls n \<le> 32" "2 ^ (fls n - 1) \<le> unat n" "unat n < 2 ^ fls n"
proof -
  let ?P = "\<lambda>i. \<not> bit n i" and ?xs = "rev [0..<32]"
  let ?l = "length (takeWhile ?P ?xs)"
  obtain j where j: "bit n j" using assms by (auto simp: bit_eq_iff)
  then have j32: "j < 32" by (auto dest: bit_imp_le_length)
  have "\<not> (\<forall>x \<in> set ?xs. ?P x)" using j j32 by auto
  then have "takeWhile ?P ?xs \<noteq> ?xs" by (simp only: takeWhile_eq_all_conv not_False_eq_True)
  then have "?l \<noteq> length ?xs" by (metis takeWhile_eq_take take_all_iff order_refl)
  then have l: "?l < 32" using length_takeWhile_le [of ?P ?xs] by simp
  have nthx: "?xs ! i = 31 - i" if "i < 32" for i using that by (simp add: rev_nth)
  have b: "bit n (31 - ?l)" using nth_length_takeWhile [of ?P ?xs] l nthx by simp
  have z: "\<not> bit n i" if "32 - ?l \<le> i" for i
  proof (cases "i < 32")
    case True
    then have "31 - i < ?l" using that l by simp
    then have "?P (?xs ! (31 - i))" using takeWhile_nth [of "31 - i" ?P ?xs] set_takeWhileD nth_mem by (metis (mono_tags, lifting))
    then show ?thesis using nthx [of "31 - i"] True by simp
  qed (auto dest: bit_imp_le_length)
  have f: "fls n = 32 - ?l" by (simp add: fls_def)
  show "1 \<le> fls n" "fls n \<le> 32" using l by (simp_all add: f)
  have "bit (unat n) (fls n - 1)" using b l by (simp add: f bit_unsigned_iff)
  then show "2 ^ (fls n - 1) \<le> unat n" by (rule bit_imp_ge)
  have "\<And>i. fls n \<le> i \<Longrightarrow> \<not> bit n i" unfolding f by (rule z)
  then have "take_bit (fls n) n = n" by (intro bit_eqI) (metis bit_take_bit_iff not_le)
  then have "take_bit (fls n) (unat n) = unat n" by (metis unsigned_take_bit_eq)
  then show "unat n < 2 ^ fls n" by (metis take_bit_nat_less_exp)
qed

lemma power_of_2_size:
  assumes "n \<noteq> 0"
  shows "unat (if is_power_of_2 n then n else rounddown_pow_of_two n) = 2 ^ (fls n - 1)"
proof -
  note b = fls_bounds [OF assms]
  have k: "fls n - 1 < 32" using b(1,2) by simp
  have p: "unat (push_bit (fls n - 1) 1 :: u32) = 2 ^ (fls n - 1)"
    using k power_strict_increasing [OF k, of "2::nat"] by (subst unat_push_bit_small) simp_all
  have "unat n = 2 ^ (fls n - 1)" if "is_power_of_2 n"
  proof (rule ccontr)
    assume ne: "unat n \<noteq> 2 ^ (fls n - 1)"
    let ?k = "fls n - 1"
    have "bit m ?k" if m: "2 ^ ?k \<le> unat m" "unat m < 2 ^ Suc ?k" for m :: u32
    proof -
      have "unat m div 2 ^ ?k = 1" using m by (intro div_nat_eqI) simp_all
      then have "bit (unat m) ?k" by (simp add: bit_iff_odd)
      then show ?thesis by (simp add: bit_unsigned_iff)
    qed
    moreover have "unat (n - 1) = unat n - 1" using assms by (simp add: unat_minus_one)
    ultimately have "bit (n AND (n - 1)) ?k" using b(1,3,4) ne by (simp add: bit_and_iff)
    then show False using that by (simp add: is_power_of_2_def)
  qed
  then show ?thesis using p b(1) by (simp add: rounddown_pow_of_two_def)
qed

lemma kfifo_alloc_spec:
  assumes "\<And>n d. kmalloc n = Some d \<Longrightarrow> length d = unat n" "unat sz * unat esize < 2 ^ 32" "esize \<noteq> 0"
    "kfifo_alloc kmalloc f sz esize = (ret, f')"
  shows "if ret = 0 then kfifo_inv f' \<and> kf_bytes f' = [] \<and> kf_esize f' = esize \<and> kf_cap f' \<le> unat sz \<and> unat sz < 2 * kf_cap f'
    else \<not> kfifo_initialized f'"
proof -
  let ?s = "if is_power_of_2 sz then sz else rounddown_pow_of_two sz"
  have eq: "kfifo_alloc kmalloc f sz esize = (if ?s < 2 then (- EINVAL, f\<lparr>kf_in := 0, kf_out := 0, kf_esize := esize, kf_data := [], kf_mask := 0\<rparr>)
      else case kmalloc (?s * esize) of None \<Rightarrow> (- ENOMEM, f\<lparr>kf_in := 0, kf_out := 0, kf_esize := esize, kf_data := [], kf_mask := 0\<rparr>)
        | Some d \<Rightarrow> (0, f\<lparr>kf_in := 0, kf_out := 0, kf_esize := esize, kf_data := d, kf_mask := ?s - 1\<rparr>))"
    by (simp add: kfifo_alloc_def Let_def)
  show ?thesis
  proof (cases "?s < 2 \<or> kmalloc (?s * esize) = None")
    case True
    then show ?thesis using assms(4) unfolding eq by (auto simp: kfifo_initialized_def split: if_splits)
  next
    case False
    then obtain d where d: "\<not> ?s < 2" "kmalloc (?s * esize) = Some d" by blast
    have f': "ret = 0" "f' = f\<lparr>kf_in := 0, kf_out := 0, kf_esize := esize, kf_data := d, kf_mask := ?s - 1\<rparr>"
      using assms(4) d unfolding eq by simp_all
    have "sz \<noteq> 0" using d(1) by (auto simp: is_power_of_2_def rounddown_pow_of_two_def fls_0)
    note b = fls_bounds [OF this] and s = power_of_2_size [OF this]
    let ?k = "fls sz - 1"
    have k1: "1 \<le> ?k" using d(1) s by (cases "?k = 0") (simp_all add: word_less_nat_alt)
    have k: "?k < 32" using b(1,2) by simp
    have "?s = 2 ^ ?k" using s k by (simp only: word_unat_eq_iff unat_p2_eq)
    then have m: "kf_mask f' = mask ?k" by (simp add: f'(2) mask_eq_decr_exp)
    have "?s \<noteq> 0" using d(1) by auto
    then have c: "kf_cap f' = 2 ^ ?k" using s by (simp add: f'(2) unat_minus_one)
    have "kf_cap f' \<le> unat sz" "unat sz < 2 * kf_cap f'"
      unfolding c using b(1,3,4) by (simp_all flip: power_Suc)
    moreover have lt: "kf_cap f' * unat esize < 2 ^ 32"
      using mult_le_mono1 [of "kf_cap f'" "unat sz" "unat esize"] calculation(1) assms(2) by linarith
    moreover have "length d = kf_cap f' * unat esize"
      using assms(1) [OF d(2)] lt s unfolding c by (simp add: unat_mult_eq)
    moreover have "1 \<le> ?k" "?k \<le> 31" using k1 b(2) by simp_all
    ultimately show ?thesis using f'(1) assms(3) m
      by (auto simp: f'(2) kfifo_inv_def kf_bytes_def kfifo_len_def ring_def word_gt_0)
  qed
qed

text \<open>What the clients of the byte rings rely on.\<close>

locale byte_queue =
  fixes inv :: "'q \<Rightarrow> bool" and bytes :: "'q \<Rightarrow> u8 list" and room :: "'q \<Rightarrow> nat"
    and put :: "'q \<Rightarrow> u8 list \<Rightarrow> 'q option" and get :: "'q \<Rightarrow> nat \<Rightarrow> (u8 list \<times> 'q) option"
  assumes put_law: "inv q \<Longrightarrow> length bs \<le> room q
      \<Longrightarrow> \<exists>q'. put q bs = Some q' \<and> inv q' \<and> bytes q' = bytes q @ bs \<and> room q' + length bs = room q"
    and get_law: "inv q \<Longrightarrow> n \<le> length (bytes q)
      \<Longrightarrow> \<exists>q'. get q n = Some (take n (bytes q), q') \<and> inv q' \<and> bytes q' = drop n (bytes q) \<and> room q' = room q + n"
begin

lemma put_get:
  assumes "inv q" "bytes q = []" "length bs \<le> room q"
  shows "\<exists>q' q''. put q bs = Some q' \<and> get q' (length bs) = Some (bs, q'') \<and> bytes q'' = [] \<and> room q'' = room q"
proof -
  obtain q' where q': "put q bs = Some q'" "inv q'" "bytes q' = bs" "room q' + length bs = room q"
    using put_law [OF assms(1,3)] assms(2) by auto
  then show ?thesis using get_law [of q' "length bs"] by auto
qed

end

lemma kfifo_room: "kfifo_inv f \<Longrightarrow> kf_esize f = 1 \<Longrightarrow> unat (kfifo_unused f) + length (kf_bytes f) = kf_cap f"
  using kfifo_unused_eq [of f] length_kf_bytes [of f] by (simp add: kfifo_inv_def)

lemma kf_cap_less: "kfifo_inv f \<Longrightarrow> kf_cap f < 2 ^ 32"
  using kfifo_cap_word(1) [of f] unsigned_less [of "kf_mask f + 1", where ?'a = nat] by simp

lemma kfifo_put_bytes_ok:
  assumes "byte_kfifo f" "length bs \<le> unat (kfifo_unused f)"
  shows "\<exists>f'. kfifo_in f bs (word_of_nat (length bs)) = Some (word_of_nat (length bs), f') \<and> byte_kfifo f' \<and> kf_bytes f' = kf_bytes f @ bs
    \<and> kf_mask f' = kf_mask f"
proof -
  have i: "kfifo_inv f" "kf_esize f = 1" using assms(1) by (simp_all add: byte_kfifo_def)
  have "length bs < 2 ^ 32" using assms(2) unsigned_less [of "kfifo_unused f", where ?'a = nat] by simp
  then have n: "unat (word_of_nat (length bs) :: u32) = length bs" by (rule unat_word_of_nat_small)
  then have "min (word_of_nat (length bs)) (kfifo_unused f) = word_of_nat (length bs)" using assms(2) by (simp add: min_def word_le_nat_alt)
  then show ?thesis using kfifo_in_spec [OF i(1), of "word_of_nat (length bs)" bs] assms(2) n i(2) by (auto simp: byte_kfifo_def)
qed

lemma kfifo_get_bytes_ok:
  assumes "byte_kfifo f" "n \<le> length (kf_bytes f)"
  shows "\<exists>f'. kfifo_out f (word_of_nat n) = Some (word_of_nat n, take n (kf_bytes f), f') \<and> byte_kfifo f' \<and> kf_bytes f' = drop n (kf_bytes f)
    \<and> kf_mask f' = kf_mask f"
proof -
  have i: "kfifo_inv f" "kf_esize f = 1" using assms(1) by (simp_all add: byte_kfifo_def)
  have l: "length (kf_bytes f) = unat (kfifo_len f)" by (rule length_kf_bytes [OF i(2)])
  then have n: "unat (word_of_nat n :: u32) = n" using assms(2) unsigned_less [of "kfifo_len f", where ?'a = nat] by (intro unat_word_of_nat_small) simp
  then have "min (word_of_nat n) (kfifo_len f) = word_of_nat n" using assms(2) l by (simp add: min_def word_le_nat_alt)
  then show ?thesis using kfifo_out_spec [OF i(1), of "word_of_nat n"] n i(2) by (auto simp: byte_kfifo_def)
qed

interpretation kf: byte_queue byte_kfifo kf_bytes "\<lambda>f. unat (kfifo_unused f)" kfifo_put_bytes kfifo_get_bytes
proof unfold_locales
  fix f :: kfifo and bs :: "u8 list"
  assume a: "byte_kfifo f" "length bs \<le> unat (kfifo_unused f)"
  from kfifo_put_bytes_ok [OF this] obtain f' where f': "kfifo_put_bytes f bs = Some f'" "byte_kfifo f'" "kf_bytes f' = kf_bytes f @ bs" "kf_mask f' = kf_mask f"
    by (auto simp: kfifo_put_bytes_def)
  moreover have "unat (kfifo_unused f') + length bs = unat (kfifo_unused f)"
    using kfifo_room [of f] kfifo_room [of f'] a f' by (simp add: byte_kfifo_def)
  ultimately show "\<exists>q'. kfifo_put_bytes f bs = Some q' \<and> byte_kfifo q' \<and> kf_bytes q' = kf_bytes f @ bs
      \<and> unat (kfifo_unused q') + length bs = unat (kfifo_unused f)" by blast
next
  fix f :: kfifo and n :: nat
  assume a: "byte_kfifo f" "n \<le> length (kf_bytes f)"
  from kfifo_get_bytes_ok [OF this] obtain f' where f': "kfifo_get_bytes f n = Some (take n (kf_bytes f), f')" "byte_kfifo f'"
    "kf_bytes f' = drop n (kf_bytes f)" "kf_mask f' = kf_mask f" by (auto simp: kfifo_get_bytes_def)
  moreover have "unat (kfifo_unused f') = unat (kfifo_unused f) + n"
    using kfifo_room [of f] kfifo_room [of f'] a f' by (simp add: byte_kfifo_def)
  ultimately show "\<exists>q'. kfifo_get_bytes f n = Some (take n (kf_bytes f), q') \<and> byte_kfifo q' \<and> kf_bytes q' = drop n (kf_bytes f)
      \<and> unat (kfifo_unused q') = unat (kfifo_unused f) + n" by blast
qed

lemma example_fifos: "kfifo_inv wrapped_fifo" "kfifo_inv record_fifo" "kfifo_inv big_fifo" "kfifo_inv word_fifo"
  by (auto simp: kfifo_inv_def wrapped_fifo_def record_fifo_def big_fifo_def word_fifo_def kfifo_len_def mask_eq_exp_minus_1
      intro: bexI [of _ 2] bexI [of _ 3] bexI [of _ 9])

lemma unat_div_round_up: "unat n + unat d < 2 ^ 32 \<Longrightarrow> 0 < unat d \<Longrightarrow> unat (DIV_ROUND_UP n d) = (unat n + unat d - 1) div unat d"
proof -
  assume a: "unat n + unat d < 2 ^ 32" "0 < unat d"
  then have "unat (n + d) = unat n + unat d" by (simp add: unat_add_eq)
  moreover have "n + d \<noteq> 0" using calculation a(2) by auto
  ultimately show ?thesis by (simp add: DIV_ROUND_UP_def unat_udiv unat_minus_one)
qed

lemma fls_100: "fls 100 = 7"
  by (simp add: fls_def upt_rec_numeral upt_rec [of 0 32] upt_rec [of "Suc 0" 32] numeral_2_eq_2 [symmetric])

text \<open>What decreases when a ring is emptied and when it is filled.\<close>

lemma kfifo_out_len:
  assumes "kfifo_out f n = Some (l, bs, f')" "kfifo_len f \<noteq> 0" "n \<noteq> 0"
  shows "unat (kfifo_len f') < unat (kfifo_len f)"
proof -
  have l: "l \<noteq> 0" "l \<le> kfifo_len f" "kfifo_len f' = kfifo_len f - l"
    using assms by (auto simp: kfifo_out_def kfifo_out_peek_def Let_def kfifo_len_def not_less split: if_splits Option.bind_splits)
  then have "unat (kfifo_len f') = unat (kfifo_len f) - unat l" by (simp add: unat_sub)
  moreover have "0 < unat l" "unat l \<le> unat (kfifo_len f)" using l by (simp_all add: word_le_nat_alt unat_gt_0)
  ultimately show ?thesis by simp
qed

lemma kfifo_in_avail:
  assumes "kfifo_in f bs n = Some (l, f')" "\<not> kfifo_avail 0 f < n" "n \<noteq> 0"
  shows "unat (kfifo_avail 0 f') < unat (kfifo_avail 0 f)"
proof -
  have l: "n \<noteq> 0" "n \<le> kfifo_avail 0 f" "kfifo_avail 0 f' = kfifo_avail 0 f - n"
    using assms by (auto simp: kfifo_in_def kfifo_copy_in_def kfifo_avail_def kfifo_size_def kfifo_unused_def Let_def kfifo_len_def not_less
        split: if_splits Option.bind_splits prod.splits)
  then have "unat (kfifo_avail 0 f') = unat (kfifo_avail 0 f) - unat n" by (simp add: unat_sub)
  moreover have "0 < unat n" "unat n \<le> unat (kfifo_avail 0 f)" using l by (simp_all add: word_le_nat_alt unat_gt_0)
  ultimately show ?thesis by simp
qed

lemma one_write:
  assumes "off < length d" "off + length src \<le> length d"
  shows "mem_write off src d = Some (ring_put off src d)"
  using two_writes [OF assms(1), of src "length src"] assms(2) by (simp add: mem_write_def)

lemma one_read:
  assumes "off < length d" "off + n \<le> length d"
  shows "mem_read off n d = Some (ring d off n)"
  using two_reads [OF assms(1), of n n] assms(2) by (simp add: mem_read_def)

lemma element_fits:
  assumes "kfifo_inv f"
  shows "unat (x AND kf_mask f) * kf_e f + kf_e f \<le> length (kf_data f)"
proof -
  have "unat (x AND kf_mask f) + 1 \<le> kf_cap f" using unat_and_ring_mask [OF assms, of x] mod_less_divisor [of "kf_cap f" "unat x"] by simp
  then have "(unat (x AND kf_mask f) + 1) * kf_e f \<le> kf_cap f * kf_e f" by (rule mult_right_mono) simp
  then show ?thesis using assms by (simp add: kfifo_inv_def)
qed

lemma ring_put_Nil: "ring_put off [] d = d"
  by (simp add: ring_put_def Let_def map_nth)

text \<open>Storing and fetching a single element agree with the general copying functions.\<close>

lemma kfifo_put_in:
  assumes "kfifo_inv f" "length val = kf_e f"
  shows "kfifo_put 0 f val = kfifo_in f val 1"
proof -
  have u: "unat (kfifo_unused f) = kf_cap f - unat (kfifo_len f)" by (rule kfifo_unused_eq [OF assms(1)])
  have le: "unat (kfifo_len f) \<le> kf_cap f" using assms(1) by (simp add: kfifo_inv_def)
  show ?thesis
  proof (cases "kfifo_is_full f")
    case True
    then have "kfifo_unused f = 0" using u by (simp add: kfifo_is_full_def word_less_nat_alt unat_eq_zero)
    then show ?thesis using True kfifo_copy_in_eq [OF assms(1), of 0 val "kf_in f"] ring_offsets(2) [OF assms(1), of "kf_in f"]
      by (simp add: kfifo_put_def kfifo_in_def ring_put_Nil)
  next
    case False
    then have "\<not> 1 > kfifo_unused f" using u le by (auto simp: kfifo_is_full_def word_less_nat_alt not_less)
    then show ?thesis using False kfifo_copy_in_eq [OF assms(1), of 1 val "kf_in f"] kfifo_cap_word(2) [OF assms(1)]
        one_write [OF ring_offsets(2) [OF assms(1), of "kf_in f"], of val] element_fits [OF assms(1), of "kf_in f"] assms(2)
      by (simp add: kfifo_put_def kfifo_in_def)
  qed
qed

lemma kfifo_get_out:
  assumes "kfifo_inv f"
  shows "kfifo_get 0 v f = kfifo_out f 1"
proof (cases "kfifo_is_empty f")
  case True
  then have "kf_in f - kf_out f = 0" by (simp add: kfifo_is_empty_def)
  then show ?thesis using True kfifo_copy_out_eq [OF assms, of 0 "kf_out f"]
    by (simp add: kfifo_get_def kfifo_out_def kfifo_out_peek_def ring_def)
next
  case False
  then have "kf_in f - kf_out f \<noteq> 0" by (auto simp: kfifo_is_empty_def)
  then have "\<not> 1 > kf_in f - kf_out f" by (auto simp: word_less_nat_alt unat_eq_zero not_less)
  then show ?thesis using False kfifo_copy_out_eq [OF assms, of 1 "kf_out f"] kfifo_cap_word(2) [OF assms]
      one_read [OF ring_offsets(2) [OF assms, of "kf_out f"] element_fits [OF assms, of "kf_out f"]]
    by (simp add: kfifo_get_def kfifo_out_def kfifo_out_peek_def)
qed

lemma INIT_KFIFO_inv:
  assumes "1 \<le> k" "k \<le> 31" "esize \<noteq> 0" "length d = 2 ^ k * unat esize" "length d < 2 ^ 32"
  shows "kfifo_inv (INIT_KFIFO (Some d) esize) \<and> kf_bytes (INIT_KFIFO (Some d) esize) = []"
proof -
  let ?f = "INIT_KFIFO (Some d) esize"
  have e: "0 < unat esize" using assms(3) by (simp add: unat_gt_0)
  then have m: "kf_mask ?f = mask k" using assms(4) by (simp add: INIT_KFIFO_def mask_eq_exp_minus_1)
  have "unat (mask k :: u32) = 2 ^ k - 1" using assms(2) unat_p2_eq [of k] by (simp add: mask_eq_exp_minus_1 unat_minus_one)
  then have "kf_cap ?f = 2 ^ k" using m by simp
  then show ?thesis using m assms e by (auto simp: kfifo_inv_def kf_bytes_def kfifo_len_def ring_def INIT_KFIFO_def word_greater_zero_iff)
qed

section \<open>Properties\<close>


text \<open>
  C4: the ring of a kernel FIFO implements a bounded queue of bytes, whatever its indices
  are and however often they have wrapped around 32 bits: putting elements in appends as
  many as there is room for and returns their number, taking elements out removes the oldest
  ones and returns them, and both keep the ring usable.
\<close>

theorem kfifo_refines_queue:
  assumes "kfifo_inv f" "min (unat len) (unat (kfifo_unused f)) * kf_e f \<le> length buf"
  shows "(\<exists>n f'. kfifo_in f buf len = Some (n, f') \<and> unat n = min (unat len) (kf_cap f - unat (kfifo_len f)) \<and> kfifo_inv f'
      \<and> kf_bytes f' = kf_bytes f @ take (unat n * kf_e f) buf)
    \<and> (\<exists>n f'. kfifo_out f len = Some (n, take (unat n * kf_e f) (kf_bytes f), f') \<and> unat n = min (unat len) (unat (kfifo_len f)) \<and> kfifo_inv f'
      \<and> kf_bytes f' = drop (unat n * kf_e f) (kf_bytes f))"
  using kfifo_in_spec [OF assms] kfifo_out_spec [OF assms(1), of len] kfifo_unused_eq [OF assms(1)]
  by (auto simp: min_def word_le_nat_alt)

text \<open>
  C36: when allocating a FIFO returns 0, the ring is usable and empty and its size is the
  greatest power of two that does not exceed the request, as long as the requested size in
  bytes is a 32-bit number; when it returns an error the ring is left uninitialized.
\<close>

theorem kfifo_alloc_rounds_down:
  assumes "\<And>n d. kmalloc n = Some d \<Longrightarrow> length d = unat n" "unat sz * unat esize < 2 ^ 32" "esize \<noteq> 0"
    "kfifo_alloc kmalloc f sz esize = (ret, f')"
  shows "if ret = 0 then kfifo_inv f' \<and> kf_bytes f' = [] \<and> kf_esize f' = esize \<and> kf_cap f' \<le> unat sz \<and> unat sz < 2 * kf_cap f'
    else \<not> kfifo_initialized f'"
  using assms by (rule kfifo_alloc_spec)

text \<open>
  C16: in a ring with one or two length bytes per record, after a record that its length
  field can hold is accepted, reading returns the oldest record, cut to the size of the
  buffer, and removes it whole; the ring then holds the remaining records in their order
  followed by the accepted one.
\<close>

theorem kfifo_records_in_order:
  assumes "recsize = 1 \<or> recsize = 2" "holds_records recsize (x # rs) f" "unat len \<le> length buf" "rec_fits recsize (take (unat len) buf)"
    "kfifo_in_r f buf len recsize = Some (len, f')" "len \<noteq> 0"
  shows "\<exists>f''. kfifo_out_r f' n recsize = Some (min n (word_of_nat (length x)), take (unat n) x, f'')
    \<and> holds_records recsize (rs @ [take (unat len) buf]) f''"
proof -
  have "holds_records recsize ((x # rs) @ [take (unat len) buf]) f'"
    using kfifo_in_r_spec [OF assms(1-4)] assms(5,6) by (auto split: if_splits)
  then show ?thesis using kfifo_out_r_spec(2) [OF assms(1), of x "rs @ [take (unat len) buf]" f' n] by simp
qed

text \<open>
  C40: when user space cannot be read at all while filling a ring of elements wider than a
  byte, the call fails and puts nothing into the ring but reports a positive number of
  copied bytes: it subtracts a number of elements from a number of bytes.
\<close>

theorem kfifo_from_user_miscounts:
  assumes i: "kfifo_inv f" and n: "n \<noteq> 0" "n \<le> kfifo_unused f" and e: "1 < kf_esize f" "(kf_cap f + 1) * kf_e f < 2 ^ 32"
    and fault: "\<And>i k. \<exists>bs. cfu i k = (k, bs) \<and> length bs = unat k"
  shows "\<exists>f'. kfifo_from_user cfu f (n * kf_esize f) = Some (- EFAULT, n * kf_esize f - n, f')
    \<and> kf_in f' = kf_in f \<and> kf_out f' = kf_out f \<and> n * kf_esize f - n \<noteq> 0"
proof -
  have nc: "unat n \<le> kf_cap f" using n(2) kfifo_unused_eq [OF i] by (simp add: word_le_nat_alt)
  have ne: "kf_esize f \<noteq> 1" "1 < kf_e f" using e(1) by (auto simp: word_less_nat_alt)
  have pe: "unat n * kf_e f + kf_e f < 2 ^ 32" using e(2) mult_le_mono1 [OF nc, of "kf_e f"] by simp
  then have pr: "unat (n * kf_esize f) = unat n * kf_e f" by (simp add: unat_mult_eq)
  have len: "udiv (n * kf_esize f) (kf_esize f) = n" using ne by (simp add: word_unat_eq_iff unat_udiv pr)
  obtain ob m l where sp: "kfifo_span f n (kf_in f) = (ob, m, l)" by (metis prod_cases3)
  note s = kfifo_span_eq [OF i nc sp]
  have m: "m = n * kf_esize f" using s(2) pr by (simp add: word_unat_eq_iff)
  have l: "l \<noteq> 0" using s(3,5) n(1) ne(2) by (auto simp: unat_eq_zero [symmetric] min_def)
  obtain bs where bs: "cfu 0 l = (l, bs)" "length bs = unat l" using fault by blast
  have "unat ob + length bs \<le> length (kf_data f)" using bs(2) s(3,5) by linarith
  then have "mem_write (unat ob) bs (kf_data f) \<noteq> None" by (simp add: mem_write_def)
  then obtain d where d: "mem_write (unat ob) bs (kf_data f) = Some d" by blast
  have ret: "DIV_ROUND_UP (l + m - l) (kf_esize f) = n"
  proof -
    have "unat (DIV_ROUND_UP m (kf_esize f)) = (unat n * kf_e f + kf_e f - 1) div kf_e f"
      using unat_div_round_up [of m "kf_esize f"] pe ne(2) by (simp add: m pr)
    also have "\<dots> = unat n" using ne(2) by (intro div_nat_eqI) (simp_all add: mult.commute [of "kf_e f"])
    finally show ?thesis by (simp add: word_unat_eq_iff)
  qed
  have "kfifo_copy_from_user cfu f n (kf_in f) = Some (n, n * kf_esize f - n, f\<lparr>kf_data := d\<rparr>)"
    unfolding kfifo_copy_from_user_def sp using bs(1) l d ret m by (simp add: Let_def)
  moreover have "n * kf_esize f \<noteq> n"
  proof
    assume "n * kf_esize f = n"
    then have "unat n * kf_e f = unat n" using arg_cong [of _ _ unat] pr by metis
    then show False using n(1) ne(2) by (auto simp: unat_eq_zero)
  qed
  ultimately show ?thesis using n len ne(1) by (simp add: kfifo_from_user_def Let_def not_less [symmetric])
qed

theorem kfifo_from_user_miscounts_witness:
  "\<exists>f'. kfifo_from_user (\<lambda>i k. (k, replicate (unat k) 0)) word_fifo 8 = Some (- EFAULT, 6, f') \<and> kf_in f' = 0"
  using kfifo_from_user_miscounts [of word_fifo 2 "\<lambda>i k. (k, replicate (unat k) 0)"] example_fifos(4)
  by (auto simp: word_fifo_def kfifo_unused_def)

theorem kfifo_refines_queue_witness:
  "\<exists>f'. kfifo_in wrapped_fifo [77, 78] 2 = Some (1, f') \<and> kf_bytes f' = kf_bytes wrapped_fifo @ [77] \<and> kf_bytes wrapped_fifo = [12, 13, 10]"
proof -
  have b: "kf_bytes wrapped_fifo = [12, 13, 10]"
    by (simp add: kf_bytes_def wrapped_fifo_def kfifo_len_def ring_def upt_rec_numeral upt_rec)
  from kfifo_refines_queue [of wrapped_fifo 2 "[77, 78]"] example_fifos(1) obtain n f' where
    f': "kfifo_in wrapped_fifo [77, 78] 2 = Some (n, f')" "unat n = 1" "kf_bytes f' = kf_bytes wrapped_fifo @ take (unat n) [77, 78]"
    by (auto simp: wrapped_fifo_def kfifo_unused_def kfifo_len_def)
  then have "n = 1" by (simp add: word_unat_eq_iff)
  then show ?thesis using f' b by auto
qed

theorem kfifo_alloc_rounds_down_witness:
  "\<exists>f'. kfifo_alloc (\<lambda>n. Some (replicate (unat n) 0)) wrapped_fifo 100 1 = (0, f') \<and> kf_cap f' \<le> 100 \<and> 100 < 2 * kf_cap f'"
proof -
  have "\<not> (if is_power_of_2 100 then 100 else rounddown_pow_of_two 100) < 2"
    by (simp add: is_power_of_2_def rounddown_pow_of_two_def fls_100)
  then obtain f' where f': "kfifo_alloc (\<lambda>n. Some (replicate (unat n) 0)) wrapped_fifo 100 1 = (0, f')"
    by (simp add: kfifo_alloc_def Let_def)
  with kfifo_alloc_rounds_down [OF _ _ _ f'] show ?thesis by simp
qed

theorem kfifo_records_in_order_witness:
  "\<exists>f' f''. kfifo_in_r record_fifo [8, 9] 2 1 = Some (2, f') \<and> kfifo_out_r f' 4 1 = Some (1, [5], f'') \<and> holds_records 1 [[8, 9]] f''"
proof -
  have h: "holds_records 1 [[5]] record_fifo"
    using example_fifos(2)
    by (simp add: holds_records_def record_fifo_def rec_fits_def kf_bytes_def rec_bytes_def rec_head_def kfifo_len_def ring_def upt_rec_numeral upt_rec)
  have f: "rec_fits 1 (take (unat (2::u32)) [8, 9])" by (simp add: rec_fits_def)
  have "2 \<le> unat (kfifo_unused record_fifo) - 1" by (simp add: record_fifo_def kfifo_unused_def)
  then obtain f' where f': "kfifo_in_r record_fifo [8, 9] 2 1 = Some (2, f')"
    using kfifo_in_r_spec [OF _ h _ f] by (auto split: if_splits)
  from kfifo_records_in_order [OF _ h _ f f', of 4] f' show ?thesis by auto
qed


end
