(* ===== verification/Kfifo_Dma.thy ===== *)
theory Kfifo_Dma
  imports Kfifo "HOL-Library.Sublist"
begin

unbundle bit_operations_syntax

text \<open>
  DMA transfers of kernel FIFOs (\<^verbatim>\<open>kernel/kfifo.c\<close>): the scatterlist that describes the part
  of the ring to transfer. The buffer has a virtual address and its pages have physical
  addresses, which need not be adjacent. Lengths, addresses and page numbers are natural
  numbers: a buffer lies within the 32-bit address space, so that none of them overflows.
  The entries are shown to describe exactly the bytes of the queue.
\<close>

section \<open>Scatterlists\<close>

abbreviation (input) PAGE_SIZE :: nat where "PAGE_SIZE \<equiv> 4096"

record scatterlist =
  sg_page :: nat
  sg_length :: nat
  sg_offset :: nat

text \<open>
  The loop of \<^verbatim>\<open>setup_sgl_buf\<close> with the entries it has set. \<open>phys\<close> gives the physical address of
  a page, \<open>avail\<close> the number of entries up to the one that is marked as the last. The offset
  is an offset in a page, which is what the second condition says.
\<close>

function setup_sgl_loop ::
  "(nat \<Rightarrow> u32) \<Rightarrow> nat \<Rightarrow> nat \<Rightarrow> nat \<Rightarrow> nat \<Rightarrow> nat \<Rightarrow> nat \<Rightarrow> nat \<Rightarrow> scatterlist list \<Rightarrow> scatterlist list" where
  "setup_sgl_loop phys nents avail buf page off l len sgl =
     (if len \<ge> l + PAGE_SIZE - off \<and> off < PAGE_SIZE
      then
        let l = l + PAGE_SIZE; buf = buf + PAGE_SIZE; npage = buf div PAGE_SIZE in
        if phys page \<noteq> phys npage - word_of_nat l
        then
          let sgl = sgl @ [\<lparr>sg_page = page, sg_length = l - off, sg_offset = off\<rparr>] in
          if length sgl = nents \<or> length sgl = avail then sgl
          else setup_sgl_loop phys nents avail buf npage 0 0 (len - (l - off)) sgl
        else setup_sgl_loop phys nents avail buf page off l len sgl
      else sgl @ [\<lparr>sg_page = page, sg_length = len, sg_offset = off\<rparr>])"
  by pat_completeness auto
termination
  by (relation "measure (\<lambda>(phys, nents, avail, buf, page, off, l, len, sgl). len + off - l)") auto

text \<open>The entries that are set, or \<open>None\<close> when there is none to set.\<close>

definition setup_sgl_buf :: "(nat \<Rightarrow> u32) \<Rightarrow> nat \<Rightarrow> nat \<Rightarrow> nat \<Rightarrow> nat \<Rightarrow> scatterlist list option" where
  "setup_sgl_buf phys avail buf nents len =
     (if nents = 0 then Some []
      else if len = 0 then Some []
      else if avail = 0 then None
      else Some (setup_sgl_loop phys nents avail buf (buf div PAGE_SIZE) (buf mod PAGE_SIZE) 0 len []))"

text \<open>\<open>base\<close> is the virtual address of the buffer of the ring. The number of entries is the result.\<close>

definition setup_sgl :: "(nat \<Rightarrow> u32) \<Rightarrow> nat \<Rightarrow> nat \<Rightarrow> kfifo \<Rightarrow> nat \<Rightarrow> u32 \<Rightarrow> u32 \<Rightarrow> (nat \<times> scatterlist list) option" where
  "setup_sgl phys base avail f nents len off =
     (case kfifo_span f len off of (off, len, l) \<Rightarrow> do {
        a \<leftarrow> setup_sgl_buf phys avail (base + unat off) nents (unat l);
        b \<leftarrow> setup_sgl_buf phys (avail - length a) base (nents - length a) (unat (len - l));
        Some (length a + length b, a @ b)
      })"

definition kfifo_dma_in_prepare :: "(nat \<Rightarrow> u32) \<Rightarrow> nat \<Rightarrow> nat \<Rightarrow> kfifo \<Rightarrow> nat \<Rightarrow> u32 \<Rightarrow> (nat \<times> scatterlist list) option" where
  "kfifo_dma_in_prepare phys base avail f nents len =
     (let l = kfifo_unused f; len = (if len > l then l else len) in setup_sgl phys base avail f nents len (kf_in f))"

definition kfifo_dma_out_prepare :: "(nat \<Rightarrow> u32) \<Rightarrow> nat \<Rightarrow> nat \<Rightarrow> kfifo \<Rightarrow> nat \<Rightarrow> u32 \<Rightarrow> (nat \<times> scatterlist list) option" where
  "kfifo_dma_out_prepare phys base avail f nents len =
     (let l = kf_in f - kf_out f; len = (if len > l then l else len) in setup_sgl phys base avail f nents len (kf_out f))"

text \<open>\<^verbatim>\<open>BUG()\<close> ends the execution.\<close>

definition kfifo_dma_in_prepare_r :: "(nat \<Rightarrow> u32) \<Rightarrow> nat \<Rightarrow> nat \<Rightarrow> kfifo \<Rightarrow> nat \<Rightarrow> u32 \<Rightarrow> u32 \<Rightarrow> (nat \<times> scatterlist list) option" where
  "kfifo_dma_in_prepare_r phys base avail f nents len recsize =
     (if nents = 0 then None
      else let len = kfifo_max_r len recsize in
        if len + recsize > kfifo_unused f then Some (0, []) else setup_sgl phys base avail f nents len (kf_in f + recsize))"

definition kfifo_dma_out_prepare_r :: "(nat \<Rightarrow> u32) \<Rightarrow> nat \<Rightarrow> nat \<Rightarrow> kfifo \<Rightarrow> nat \<Rightarrow> u32 \<Rightarrow> u32 \<Rightarrow> (nat \<times> scatterlist list) option" where
  "kfifo_dma_out_prepare_r phys base avail f nents len recsize =
     (if nents = 0 then None
      else let len = kfifo_max_r len recsize in
        if len + recsize > kf_in f - kf_out f then Some (0, []) else setup_sgl phys base avail f nents len (kf_out f + recsize))"

section \<open>Specification\<close>

text \<open>The physical addresses of the bytes of an entry, and of \<open>n\<close> bytes from a virtual address.\<close>

definition sg_bytes :: "(nat \<Rightarrow> u32) \<Rightarrow> scatterlist \<Rightarrow> u32 list" where
  "sg_bytes phys e = map (\<lambda>i. phys (sg_page e) + word_of_nat (sg_offset e + i)) [0..<sg_length e]"

definition phys_addr :: "(nat \<Rightarrow> u32) \<Rightarrow> nat \<Rightarrow> u32" where
  "phys_addr phys v = phys (v div PAGE_SIZE) + word_of_nat (v mod PAGE_SIZE)"

abbreviation sgl_bytes :: "(nat \<Rightarrow> u32) \<Rightarrow> scatterlist list \<Rightarrow> u32 list" where
  "sgl_bytes phys es \<equiv> concat (map (sg_bytes phys) es)"

text \<open>
  What the entries cover: a prefix of the bytes asked for, all of them unless the entries are
  used up; never more entries than there are.
\<close>

definition sgl_covers :: "(nat \<Rightarrow> u32) \<Rightarrow> nat \<Rightarrow> nat \<Rightarrow> nat list \<Rightarrow> nat \<Rightarrow> scatterlist list \<Rightarrow> bool" where
  "sgl_covers phys nents avail vs n es \<longleftrightarrow> prefix (sgl_bytes phys es) (map (phys_addr phys) vs)
     \<and> (length (sgl_bytes phys es) = length vs \<or> n + length es = nents \<or> n + length es = avail)
     \<and> n + length es \<le> min nents avail"

section \<open>Lemmas\<close>

lemma sg_bytes_segment:
  assumes "\<And>j. j \<le> k \<Longrightarrow> phys (page + j) = phys page + word_of_nat (j * PAGE_SIZE)" "off + n \<le> (k + 1) * PAGE_SIZE"
  shows "sg_bytes phys \<lparr>sg_page = page, sg_length = n, sg_offset = off\<rparr> = map (phys_addr phys) [page * PAGE_SIZE + off..<page * PAGE_SIZE + off + n]"
proof (rule nth_equalityI)
  fix i assume "i < length (sg_bytes phys \<lparr>sg_page = page, sg_length = n, sg_offset = off\<rparr>)"
  then have i: "i < n" by (simp add: sg_bytes_def)
  have "(off + i) div PAGE_SIZE \<le> k" using assms(2) i by simp
  moreover have "word_of_nat ((off + i) div PAGE_SIZE * PAGE_SIZE) + word_of_nat ((off + i) mod PAGE_SIZE) = (word_of_nat (off + i) :: u32)"
    by (metis of_nat_add div_mult_mod_eq)
  ultimately have "phys (page + (off + i) div PAGE_SIZE) + word_of_nat ((off + i) mod PAGE_SIZE) = phys page + word_of_nat (off + i)"
    using assms(1) by (simp only: add.assoc)
  moreover have "(page * PAGE_SIZE + off + i) div PAGE_SIZE = page + (off + i) div PAGE_SIZE" "(page * PAGE_SIZE + off + i) mod PAGE_SIZE = (off + i) mod PAGE_SIZE"
    by (simp_all add: add.assoc)
  ultimately show "sg_bytes phys \<lparr>sg_page = page, sg_length = n, sg_offset = off\<rparr> ! i = map (phys_addr phys) [page * PAGE_SIZE + off..<page * PAGE_SIZE + off + n] ! i"
    using i by (simp add: sg_bytes_def phys_addr_def)
qed (simp add: sg_bytes_def)

lemma setup_sgl_loop_covers:
  assumes "buf div PAGE_SIZE = page + k" "l = k * PAGE_SIZE" "off < PAGE_SIZE" "length sgl < nents" "length sgl < avail"
    "\<And>j. j \<le> k \<Longrightarrow> phys (page + j) = phys page + word_of_nat (j * PAGE_SIZE)"
  shows "\<exists>es. setup_sgl_loop phys nents avail buf page off l len sgl = sgl @ es
    \<and> sgl_covers phys nents avail [page * PAGE_SIZE + off..<page * PAGE_SIZE + off + len] (length sgl) es"
  using assms
proof (induction phys nents avail buf page off l len sgl arbitrary: k rule: setup_sgl_loop.induct)
  case (1 phys nents avail buf page off l len sgl)
  let ?l = "l + PAGE_SIZE" and ?buf = "buf + PAGE_SIZE" and ?np = "(buf + PAGE_SIZE) div PAGE_SIZE" and ?V = "page * PAGE_SIZE + off"
  have np: "?np = page + (k + 1)" using 1(3) by simp
  have l: "?l = (k + 1) * PAGE_SIZE" using 1(4) by simp
  consider (final) "\<not> ?l - off \<le> len" | (more) "?l - off \<le> len" "phys page = phys ?np - word_of_nat ?l" | (next_page) "?l - off \<le> len" "phys page \<noteq> phys ?np - word_of_nat ?l"
    by blast
  then show ?case
  proof cases
    case final
    then have "sg_bytes phys \<lparr>sg_page = page, sg_length = len, sg_offset = off\<rparr> = map (phys_addr phys) [?V..<?V + len]"
      using l by (intro sg_bytes_segment [OF 1(8)]) auto
    then show ?thesis using final 1(6,7) by (subst setup_sgl_loop.simps) (auto simp: sgl_covers_def)
  next
    case more
    have m: "phys (page + (k + 1)) = phys page + word_of_nat ((k + 1) * PAGE_SIZE)" using more(2) unfolding np l by simp
    have "phys (page + j) = phys page + word_of_nat (j * PAGE_SIZE)" if "j \<le> k + 1" for j
    proof (cases "j = k + 1")
      case True
      then show ?thesis using m by simp
    next
      case False
      then show ?thesis using 1(8) [of j] that by simp
    qed
    from 1(2) [OF _ refl refl refl _ _ l 1(5-7) this] show ?thesis
      using more 1(5) np by (subst setup_sgl_loop.simps) (simp add: Let_def)
  next
    case next_page
    let ?e = "\<lparr>sg_page = page, sg_length = ?l - off, sg_offset = off\<rparr>"
    have e: "sg_bytes phys ?e = map (phys_addr phys) [?V..<?V + (?l - off)]" using l 1(5) by (intro sg_bytes_segment [OF 1(8)]) auto
    have V: "?V + (?l - off) = ?np * PAGE_SIZE" using np l 1(5) by simp
    have len: "[?V..<?V + len] = [?V..<?V + (?l - off)] @ [?np * PAGE_SIZE + 0..<?np * PAGE_SIZE + 0 + (len - (?l - off))]"
      unfolding V [symmetric] using next_page(1) upt_add_eq_append [of ?V "?V + (?l - off)" "len - (?l - off)"] by (simp add: add.assoc)
    show ?thesis
    proof (cases "Suc (length sgl) = nents \<or> Suc (length sgl) = avail")
      case True
      then have "setup_sgl_loop phys nents avail buf page off l len sgl = sgl @ [?e]"
        using next_page 1(5) by (subst setup_sgl_loop.simps) (simp add: Let_def)
      then show ?thesis using True e 1(6,7) unfolding len by (auto simp: sgl_covers_def)
    next
      case False
      have c0: "\<And>j. j \<le> 0 \<Longrightarrow> phys (?np + j) = phys ?np + word_of_nat (j * PAGE_SIZE)" by simp
      obtain es where es: "setup_sgl_loop phys nents avail ?buf ?np 0 0 (len - (?l - off)) (sgl @ [?e]) = (sgl @ [?e]) @ es"
        "sgl_covers phys nents avail [?np * PAGE_SIZE + 0..<?np * PAGE_SIZE + 0 + (len - (?l - off))] (length (sgl @ [?e])) es"
        using 1(1) [OF _ refl refl refl next_page(2) refl _, of 0] next_page(1) False 1(5-7) c0 by auto
      have "setup_sgl_loop phys nents avail buf page off l len sgl = sgl @ ?e # es"
        using next_page 1(5) False es(1) by (subst setup_sgl_loop.simps) (simp add: Let_def)
      moreover have "sgl_covers phys nents avail [?V..<?V + len] (length sgl) (?e # es)"
        using es(2) e unfolding len by (auto simp: sgl_covers_def)
      ultimately show ?thesis by blast
    qed
  qed
qed

lemma setup_sgl_buf_covers:
  assumes "nents \<le> avail"
  shows "\<exists>es. setup_sgl_buf phys avail buf nents len = Some es \<and> prefix (sgl_bytes phys es) (map (phys_addr phys) [buf..<buf + len])
    \<and> (length (sgl_bytes phys es) = len \<or> length es = nents) \<and> length es \<le> nents"
proof (cases "nents = 0 \<or> len = 0")
  case False
  have v: "buf div PAGE_SIZE * PAGE_SIZE + buf mod PAGE_SIZE = buf" by simp
  have "\<exists>es. setup_sgl_loop phys nents avail buf (buf div PAGE_SIZE) (buf mod PAGE_SIZE) 0 len [] = [] @ es
    \<and> sgl_covers phys nents avail [buf div PAGE_SIZE * PAGE_SIZE + buf mod PAGE_SIZE..<buf div PAGE_SIZE * PAGE_SIZE + buf mod PAGE_SIZE + len] (length ([] :: scatterlist list)) es"
    by (rule setup_sgl_loop_covers [where k = 0]) (use False assms in auto)
  then obtain es where "setup_sgl_loop phys nents avail buf (buf div PAGE_SIZE) (buf mod PAGE_SIZE) 0 len [] = es" "sgl_covers phys nents avail [buf..<buf + len] 0 es"
    unfolding v by auto
  then show ?thesis using False assms by (auto simp: setup_sgl_buf_def sgl_covers_def)
qed (auto simp: setup_sgl_buf_def)

lemma setup_sgl_covers:
  fixes off :: u32 and base :: nat
  assumes i: "kfifo_inv f" and len: "unat len \<le> kf_cap f" and "nents \<le> avail"
  defines "vs \<equiv> ring [base..<base + length (kf_data f)] (unat (off AND kf_mask f) * kf_e f) (unat len * kf_e f)"
  shows "\<exists>es. setup_sgl phys base avail f nents len off = Some (length es, es) \<and> length es \<le> nents
    \<and> prefix (sgl_bytes phys es) (map (phys_addr phys) vs) \<and> (length es < nents \<longrightarrow> sgl_bytes phys es = map (phys_addr phys) vs)"
proof -
  obtain ob n l where sp: "kfifo_span f len off = (ob, n, l)" by (metis prod_cases3)
  note e = kfifo_span_eq [OF i len sp]
  let ?d = "[base..<base + length (kf_data f)]"
  have vs: "[base + unat ob..<base + unat ob + unat l] @ [base..<base + unat (n - l)] = vs"
    using ring_split [of "unat ob" ?d "unat n" "unat l"] e by (simp add: vs_def take_upt drop_upt add.assoc)
  obtain a where a: "setup_sgl_buf phys avail (base + unat ob) nents (unat l) = Some a"
    "prefix (sgl_bytes phys a) (map (phys_addr phys) [base + unat ob..<base + unat ob + unat l])" "length (sgl_bytes phys a) = unat l \<or> length a = nents" "length a \<le> nents"
    using setup_sgl_buf_covers [OF assms(3)] by metis
  obtain b where b: "setup_sgl_buf phys (avail - length a) base (nents - length a) (unat (n - l)) = Some b"
    "prefix (sgl_bytes phys b) (map (phys_addr phys) [base..<base + unat (n - l)])" "length (sgl_bytes phys b) = unat (n - l) \<or> length b = nents - length a"
    "length b \<le> nents - length a"
    using setup_sgl_buf_covers [OF diff_le_mono [OF assms(3)]] by metis
  have run: "setup_sgl phys base avail f nents len off = Some (length (a @ b), a @ b)" using a(1) b(1) by (simp add: setup_sgl_def sp)
  have full: "xs = ys" if "prefix xs ys" "length xs = length ys" for xs ys :: "u32 list" using that by (auto simp: prefix_def)
  show ?thesis
  proof (cases "length (sgl_bytes phys a) = unat l")
    case True
    then have "sgl_bytes phys a = map (phys_addr phys) [base + unat ob..<base + unat ob + unat l]" using full [OF a(2)] by simp
    then show ?thesis using run a b full [OF b(2)] unfolding vs [symmetric] by (intro exI [of _ "a @ b"]) auto
  next
    case False
    then have "b = []" "length a = nents" using a(3) b(4) by auto
    then show ?thesis using run a(2) unfolding vs [symmetric] by (intro exI [of _ "a @ b"]) (auto intro: prefix_prefix)
  qed
qed

lemma ring_map: "ring (map g d) a n = map g (ring d a n)" if "0 < length d"
  using that by (simp add: ring_def)

text \<open>
  A buffer that ends with a page, when the next page is not adjacent in memory: the loop looks
  at that page and an entry for none of its bytes is added.
\<close>

lemma setup_sgl_buf_empty_entry:
  assumes "phys page \<noteq> phys (page + 1) - 4096"
  shows "setup_sgl_buf phys (Suc (Suc n)) (page * PAGE_SIZE) (Suc (Suc n)) PAGE_SIZE
    = Some [\<lparr>sg_page = page, sg_length = PAGE_SIZE, sg_offset = 0\<rparr>, \<lparr>sg_page = page + 1, sg_length = 0, sg_offset = 0\<rparr>]"
proof -
  have d: "(page * PAGE_SIZE + PAGE_SIZE) div PAGE_SIZE = page + 1" by simp
  have "setup_sgl_loop phys (Suc (Suc n)) (Suc (Suc n)) (page * PAGE_SIZE + PAGE_SIZE) (page + 1) 0 0 0 [\<lparr>sg_page = page, sg_length = PAGE_SIZE, sg_offset = 0\<rparr>]
    = [\<lparr>sg_page = page, sg_length = PAGE_SIZE, sg_offset = 0\<rparr>, \<lparr>sg_page = page + 1, sg_length = 0, sg_offset = 0\<rparr>]"
    by (subst setup_sgl_loop.simps) simp
  then have "setup_sgl_loop phys (Suc (Suc n)) (Suc (Suc n)) (page * PAGE_SIZE) page 0 0 PAGE_SIZE []
    = [\<lparr>sg_page = page, sg_length = PAGE_SIZE, sg_offset = 0\<rparr>, \<lparr>sg_page = page + 1, sg_length = 0, sg_offset = 0\<rparr>]"
    using assms by (subst setup_sgl_loop.simps) (simp add: Let_def d del: setup_sgl_loop.simps)
  then show ?thesis by (simp add: setup_sgl_buf_def del: setup_sgl_loop.simps)
qed

section \<open>Properties\<close>

text \<open>
  C17: the scatterlist that kfifo_dma_out_prepare sets up has at most as many entries as
  asked for, and the physical addresses it lists hold a prefix of the oldest elements of the
  queue, byte for byte and in order, however the ring wraps and wherever the pages of its
  buffer are in memory; when an entry is left over it lists all of the elements asked for.
\<close>

theorem kfifo_dma_out_reads_queue:
  fixes len :: u32
  assumes i: "kfifo_inv f" and "nents \<le> avail" and mem: "\<And>j. j < length (kf_data f) \<Longrightarrow> mem (phys_addr phys (base + j)) = kf_data f ! j"
  defines "bs \<equiv> take (unat (min len (kfifo_len f)) * kf_e f) (kf_bytes f)"
  shows "\<exists>es. kfifo_dma_out_prepare phys base avail f nents len = Some (length es, es) \<and> length es \<le> nents
    \<and> prefix (map mem (sgl_bytes phys es)) bs \<and> (length es < nents \<longrightarrow> map mem (sgl_bytes phys es) = bs)"
proof -
  let ?n = "min len (kfifo_len f)" and ?o = "unat (kf_out f AND kf_mask f) * kf_e f"
  have n: "unat ?n \<le> unat (kfifo_len f)" by (simp add: min_def word_le_nat_alt)
  then have c: "unat ?n \<le> kf_cap f" using i by (simp add: kfifo_inv_def)
  have p: "kfifo_dma_out_prepare phys base avail f nents len = setup_sgl phys base avail f nents ?n (kf_out f)"
    by (auto simp: kfifo_dma_out_prepare_def kfifo_len_def min_def Let_def)
  have "map (mem \<circ> phys_addr phys) [base..<base + length (kf_data f)] = kf_data f"
    using mem by (intro nth_equalityI) auto
  then have "map mem (map (phys_addr phys) (ring [base..<base + length (kf_data f)] ?o (unat ?n * kf_e f))) = ring (kf_data f) ?o (unat ?n * kf_e f)"
    using ring_map [of "[base..<base + length (kf_data f)]" "mem \<circ> phys_addr phys"] ring_offsets(2) [OF i, of 0] by force
  also have "\<dots> = bs" using kf_read_bytes [OF i n] by (simp add: bs_def)
  finally show ?thesis unfolding p using setup_sgl_covers [OF i c assms(2), of phys base "kf_out f"] by (metis map_mono_prefix)
qed

theorem kfifo_dma_out_reads_queue_witness:
  "\<exists>es. kfifo_dma_out_prepare (\<lambda>p. if p = 0 then 0x8000 else 0x3000) 4094 9 wrapped_fifo 9 5 = Some (length es, es) \<and> length es \<le> 9
    \<and> prefix (map (\<lambda>a. if a = 0x8ffe then 10 else if a = 0x8fff then 11 else if a = 0x3000 then 12 else 13 :: u8)
        (sgl_bytes (\<lambda>p. if p = 0 then 0x8000 else 0x3000) es)) [12, 13, 10]"
proof -
  let ?phys = "\<lambda>p. if p = 0 then 0x8000 else 0x3000 :: u32"
  let ?mem = "\<lambda>a :: u32. if a = 0x8ffe then 10 else if a = 0x8fff then 11 else if a = 0x3000 then 12 else 13 :: u8"
  have inv: "kfifo_inv wrapped_fifo" by (auto simp: kfifo_inv_def wrapped_fifo_def kfifo_len_def mask_eq_exp_minus_1 intro: bexI [of _ 2])
  have mem: "?mem (phys_addr ?phys (4094 + j)) = kf_data wrapped_fifo ! j" if "j < length (kf_data wrapped_fifo)" for j
  proof -
    have "j \<in> {0, 1, 2, 3}" using that by (auto simp: wrapped_fifo_def)
    then show ?thesis by (auto simp: phys_addr_def wrapped_fifo_def)
  qed
  have "take (unat (min 5 (kfifo_len wrapped_fifo)) * kf_e wrapped_fifo) (kf_bytes wrapped_fifo) = [12, 13, 10]"
    by (simp add: wrapped_fifo_def kfifo_len_def kf_bytes_def ring_def upt_rec_numeral upt_rec)
  then show ?thesis using kfifo_dma_out_reads_queue [OF inv order_refl mem, of 9 5] by auto
qed

end
