(* ===== verification/Mailbox_Omap2.thy ===== *)
theory Mailbox_Omap2
  imports Mailbox
begin

unbundle bit_operations_syntax

text \<open>
  The mailbox device of the TI81xx (\<^verbatim>\<open>mach-omap2/mailbox.c\<close>): the operations on its
  registers, the descriptions of the three mailboxes to the DSP and the two video
  processors, and starting and stopping mailboxes (\<^verbatim>\<open>plat-omap/mailbox.c\<close>). \<open>rd\<close> and
  \<open>wr\<close> are the accesses at an offset of the register block; what the device does on them is
  stated as the laws of a locale, from which the contract of \<^verbatim>\<open>Mailbox\<close> follows.
\<close>

section \<open>Registers\<close>

abbreviation (input) MAILBOX_REVISION :: u32 where "MAILBOX_REVISION \<equiv> 0"
abbreviation (input) MAILBOX_SYSCONFIG :: u32 where "MAILBOX_SYSCONFIG \<equiv> 0x10"
abbreviation (input) MAILBOX_SYSSTATUS :: u32 where "MAILBOX_SYSSTATUS \<equiv> 0x14"
abbreviation (input) OMAP4_SOFTRESET :: u32 where "OMAP4_SOFTRESET \<equiv> 1"
abbreviation (input) OMAP4_SMARTIDLE :: u32 where "OMAP4_SMARTIDLE \<equiv> 8"
abbreviation (input) SOFTRESET :: u32 where "SOFTRESET \<equiv> 2"
abbreviation (input) SMARTIDLE :: u32 where "SMARTIDLE \<equiv> 16"
abbreviation (input) AUTOIDLE :: u32 where "AUTOIDLE \<equiv> 1"
abbreviation (input) RESETDONE :: u32 where "RESETDONE \<equiv> 1"
abbreviation (input) TI81XX_MBOX_NR_REGS :: nat where "TI81XX_MBOX_NR_REGS \<equiv> 81"
abbreviation (input) MBOX_NR_REGS :: nat where "MBOX_NR_REGS \<equiv> 72"

definition MAILBOX_MESSAGE :: "nat \<Rightarrow> u32" where
  "MAILBOX_MESSAGE m = 0x40 + 4 * word_of_nat m"

definition MAILBOX_FIFOSTATUS :: "nat \<Rightarrow> u32" where
  "MAILBOX_FIFOSTATUS m = 0x80 + 4 * word_of_nat m"

definition MAILBOX_MSGSTATUS :: "nat \<Rightarrow> u32" where
  "MAILBOX_MSGSTATUS m = 0xc0 + 4 * word_of_nat m"

definition OMAP4_MAILBOX_IRQSTATUS :: "nat \<Rightarrow> u32" where
  "OMAP4_MAILBOX_IRQSTATUS u = 0x104 + 10 * word_of_nat u"

definition OMAP4_MAILBOX_IRQENABLE :: "nat \<Rightarrow> u32" where
  "OMAP4_MAILBOX_IRQENABLE u = 0x108 + 10 * word_of_nat u"

definition OMAP4_MAILBOX_IRQENABLE_CLR :: "nat \<Rightarrow> u32" where
  "OMAP4_MAILBOX_IRQENABLE_CLR u = 0x10c + 10 * word_of_nat u"

definition MAILBOX_IRQ_NEWMSG :: "nat \<Rightarrow> u32" where
  "MAILBOX_IRQ_NEWMSG m = push_bit (2 * m) 1"

definition MAILBOX_IRQ_NOTFULL :: "nat \<Rightarrow> u32" where
  "MAILBOX_IRQ_NOTFULL m = push_bit (2 * m + 1) 1"

record omap_mbox2_fifo =
  fifo_msg :: u32
  fifo_stat :: u32
  fifo_msg_stat :: u32

record omap_mbox2_priv =
  tx_fifo :: omap_mbox2_fifo
  rx_fifo :: omap_mbox2_fifo
  irqenable :: u32
  irqstatus :: u32
  newmsg_bit :: u32
  notfull_bit :: u32
  mbox_ctx :: "u32 list"
  irqdisable :: u32

section \<open>Operations\<close>

definition omap2_mbox_fifo_read :: "(u32 \<Rightarrow> 'd \<Rightarrow> u32 \<times> 'd) \<Rightarrow> omap_mbox2_priv \<Rightarrow> 'd \<Rightarrow> u32 \<times> 'd" where
  "omap2_mbox_fifo_read rd p d = rd (fifo_msg (rx_fifo p)) d"

definition omap2_mbox_fifo_write :: "(u32 \<Rightarrow> u32 \<Rightarrow> 'd \<Rightarrow> 'd) \<Rightarrow> omap_mbox2_priv \<Rightarrow> u32 \<Rightarrow> 'd \<Rightarrow> 'd" where
  "omap2_mbox_fifo_write wr p msg d = wr msg (fifo_msg (tx_fifo p)) d"

definition omap2_mbox_fifo_empty :: "(u32 \<Rightarrow> 'd \<Rightarrow> u32 \<times> 'd) \<Rightarrow> omap_mbox2_priv \<Rightarrow> 'd \<Rightarrow> bool" where
  "omap2_mbox_fifo_empty rd p d \<longleftrightarrow> fst (rd (fifo_msg_stat (rx_fifo p)) d) = 0"

definition omap2_mbox_fifo_full :: "(u32 \<Rightarrow> 'd \<Rightarrow> u32 \<times> 'd) \<Rightarrow> omap_mbox2_priv \<Rightarrow> 'd \<Rightarrow> bool" where
  "omap2_mbox_fifo_full rd p d \<longleftrightarrow> fst (rd (fifo_stat (tx_fifo p)) d) \<noteq> 0"

text \<open>\<^verbatim>\<open>(irq == IRQ_TX) ? p->notfull_bit : p->newmsg_bit\<close>\<close>

definition mbox_irq_bit :: "omap_mbox2_priv \<Rightarrow> omap_mbox_irq \<Rightarrow> u32" where
  "mbox_irq_bit p irq = (if irq = IRQ_TX then notfull_bit p else newmsg_bit p)"

definition omap2_mbox_enable_irq ::
  "bool \<Rightarrow> (u32 \<Rightarrow> 'd \<Rightarrow> u32 \<times> 'd) \<Rightarrow> (u32 \<Rightarrow> u32 \<Rightarrow> 'd \<Rightarrow> 'd) \<Rightarrow> omap_mbox2_priv \<Rightarrow> omap_mbox_irq \<Rightarrow> 'd \<Rightarrow> 'd" where
  "omap2_mbox_enable_irq ti81xx rd wr p irq d =
     (let bits = mbox_irq_bit p irq; (l, d) = rd (irqenable p) d
      in wr (if ti81xx then bits else l OR bits) (irqenable p) d)"

definition omap2_mbox_disable_irq ::
  "bool \<Rightarrow> (u32 \<Rightarrow> 'd \<Rightarrow> u32 \<times> 'd) \<Rightarrow> (u32 \<Rightarrow> u32 \<Rightarrow> 'd \<Rightarrow> 'd) \<Rightarrow> omap_mbox2_priv \<Rightarrow> omap_mbox_irq \<Rightarrow> 'd \<Rightarrow> 'd" where
  "omap2_mbox_disable_irq ti81xx rd wr p irq d =
     (let bits = mbox_irq_bit p irq; (l, d) = rd (irqdisable p) d
      in wr (if ti81xx then bits else l AND NOT bits) (irqdisable p) d)"

definition omap2_mbox_ack_irq ::
  "(u32 \<Rightarrow> 'd \<Rightarrow> u32 \<times> 'd) \<Rightarrow> (u32 \<Rightarrow> u32 \<Rightarrow> 'd \<Rightarrow> 'd) \<Rightarrow> omap_mbox2_priv \<Rightarrow> omap_mbox_irq \<Rightarrow> 'd \<Rightarrow> 'd" where
  "omap2_mbox_ack_irq rd wr p irq d = snd (rd (irqstatus p) (wr (mbox_irq_bit p irq) (irqstatus p) d))"

definition omap2_mbox_is_irq :: "(u32 \<Rightarrow> 'd \<Rightarrow> u32 \<times> 'd) \<Rightarrow> omap_mbox2_priv \<Rightarrow> omap_mbox_irq \<Rightarrow> 'd \<Rightarrow> bool" where
  "omap2_mbox_is_irq rd p irq d \<longleftrightarrow>
     fst (rd (irqenable p) d) AND fst (rd (irqstatus p) d) AND mbox_irq_bit p irq \<noteq> 0"

definition omap2_mbox_ops ::
  "bool \<Rightarrow> (u32 \<Rightarrow> 'd \<Rightarrow> u32 \<times> 'd) \<Rightarrow> (u32 \<Rightarrow> u32 \<Rightarrow> 'd \<Rightarrow> 'd) \<Rightarrow> omap_mbox2_priv \<Rightarrow> 'd omap_mbox_ops" where
  "omap2_mbox_ops ti81xx rd wr p =
     \<lparr>ops_type = OMAP_MBOX_TYPE2, ops_fifo_read = omap2_mbox_fifo_read rd p, ops_fifo_write = omap2_mbox_fifo_write wr p,
      ops_fifo_empty = omap2_mbox_fifo_empty rd p, ops_fifo_full = omap2_mbox_fifo_full rd p,
      ops_enable_irq = omap2_mbox_enable_irq ti81xx rd wr p, ops_disable_irq = omap2_mbox_disable_irq ti81xx rd wr p,
      ops_ack_irq = Some (omap2_mbox_ack_irq rd wr p), ops_is_irq = omap2_mbox_is_irq rd p\<rparr>"

text \<open>
  The reset loop reads its register until the bit shows or the timeout of 20 ms has passed;
  \<open>n\<close> is the number of further reads for which there is time.
\<close>

fun reset_poll :: "(u32 \<Rightarrow> 'd \<Rightarrow> u32 \<times> 'd) \<Rightarrow> u32 \<Rightarrow> (u32 \<Rightarrow> bool) \<Rightarrow> nat \<Rightarrow> 'd \<Rightarrow> bool \<times> 'd" where
  "reset_poll rd ofs done_p 0 d = (case rd ofs d of (l, d) \<Rightarrow> (done_p l, d))"
| "reset_poll rd ofs done_p (Suc n) d =
     (case rd ofs d of (l, d) \<Rightarrow> if done_p l then (True, d) else reset_poll rd ofs done_p n d)"

text \<open>
  \<open>clk\<close> is the error of getting the interface clock, or 0; \<open>cken\<close> is what enabling the clock does,
  whose result the code ignores, and \<open>ckdis\<close> what disabling and releasing it does.
  The operations are modelled for chips on which \<^verbatim>\<open>cpu_is_omap44xx()\<close> is 0.
\<close>

definition omap2_mbox_startup ::
  "bool \<Rightarrow> int \<Rightarrow> ('d \<Rightarrow> 'd) \<Rightarrow> nat \<Rightarrow> (u32 \<Rightarrow> 'd \<Rightarrow> u32 \<times> 'd) \<Rightarrow> (u32 \<Rightarrow> u32 \<Rightarrow> 'd \<Rightarrow> 'd) \<Rightarrow> omap_mbox2_priv \<Rightarrow> 'd \<Rightarrow> int \<times> 'd" where
  "omap2_mbox_startup ti81xx clk cken n rd wr p d =
     (if clk \<noteq> 0 then (clk, d)
      else
        let d = cken d;
            (ok, d) = (if ti81xx
              then reset_poll rd MAILBOX_SYSCONFIG (\<lambda>l. l AND OMAP4_SOFTRESET = 0) n (wr OMAP4_SOFTRESET MAILBOX_SYSCONFIG d)
              else reset_poll rd MAILBOX_SYSSTATUS (\<lambda>l. l AND RESETDONE \<noteq> 0) n (wr SOFTRESET MAILBOX_SYSCONFIG d))
        in if \<not> ok then (- ENODEV, d)
           else
             let d = snd (rd MAILBOX_REVISION d);
                 d = wr (if ti81xx then OMAP4_SMARTIDLE else SMARTIDLE OR AUTOIDLE) MAILBOX_SYSCONFIG d
             in (0, omap2_mbox_enable_irq ti81xx rd wr p IRQ_RX d))"

definition omap2_mbox_shutdown :: "('d \<Rightarrow> 'd) \<Rightarrow> 'd \<Rightarrow> 'd" where
  "omap2_mbox_shutdown ckdis d = ckdis d"

fun save_regs :: "(u32 \<Rightarrow> 'd \<Rightarrow> u32 \<times> 'd) \<Rightarrow> nat list \<Rightarrow> 'd \<Rightarrow> u32 list \<times> 'd" where
  "save_regs rd [] d = ([], d)"
| "save_regs rd (i # is) d =
     (case rd (word_of_nat i * 4) d of (v, d) \<Rightarrow> case save_regs rd is d of (vs, d) \<Rightarrow> (v # vs, d))"

definition omap2_mbox_save_ctx :: "bool \<Rightarrow> (u32 \<Rightarrow> 'd \<Rightarrow> u32 \<times> 'd) \<Rightarrow> omap_mbox2_priv \<Rightarrow> 'd \<Rightarrow> omap_mbox2_priv \<times> 'd" where
  "omap2_mbox_save_ctx ti81xx rd p d =
     (case save_regs rd [0..<if ti81xx then TI81XX_MBOX_NR_REGS else MBOX_NR_REGS] d of (vs, d) \<Rightarrow>
        (p\<lparr>mbox_ctx := vs @ drop (length vs) (mbox_ctx p)\<rparr>, d))"

fun restore_regs :: "(u32 \<Rightarrow> u32 \<Rightarrow> 'd \<Rightarrow> 'd) \<Rightarrow> u32 list \<Rightarrow> nat list \<Rightarrow> 'd \<Rightarrow> 'd" where
  "restore_regs wr ctx [] d = d"
| "restore_regs wr ctx (i # is) d = restore_regs wr ctx is (wr (ctx ! i) (word_of_nat i * 4) d)"

definition omap2_mbox_restore_ctx :: "bool \<Rightarrow> (u32 \<Rightarrow> u32 \<Rightarrow> 'd \<Rightarrow> 'd) \<Rightarrow> omap_mbox2_priv \<Rightarrow> 'd \<Rightarrow> 'd" where
  "omap2_mbox_restore_ctx ti81xx wr p d =
     restore_regs wr (mbox_ctx p) [0..<if ti81xx then TI81XX_MBOX_NR_REGS else MBOX_NR_REGS] d"

section \<open>The mailboxes of the TI81xx\<close>

definition omap2_mbox_ti81xx_dsp_priv :: omap_mbox2_priv where
  "omap2_mbox_ti81xx_dsp_priv =
     \<lparr>tx_fifo = \<lparr>fifo_msg = MAILBOX_MESSAGE 3, fifo_stat = MAILBOX_FIFOSTATUS 3, fifo_msg_stat = 0\<rparr>,
      rx_fifo = \<lparr>fifo_msg = MAILBOX_MESSAGE 0, fifo_stat = 0, fifo_msg_stat = MAILBOX_MSGSTATUS 0\<rparr>,
      irqenable = OMAP4_MAILBOX_IRQENABLE 0, irqstatus = OMAP4_MAILBOX_IRQSTATUS 0,
      newmsg_bit = MAILBOX_IRQ_NEWMSG 0, notfull_bit = MAILBOX_IRQ_NOTFULL 3,
      mbox_ctx = replicate TI81XX_MBOX_NR_REGS 0, irqdisable = OMAP4_MAILBOX_IRQENABLE_CLR 0\<rparr>"

definition omap2_mbox_ti81xx_video_priv :: omap_mbox2_priv where
  "omap2_mbox_ti81xx_video_priv =
     \<lparr>tx_fifo = \<lparr>fifo_msg = MAILBOX_MESSAGE 4, fifo_stat = MAILBOX_FIFOSTATUS 4, fifo_msg_stat = 0\<rparr>,
      rx_fifo = \<lparr>fifo_msg = MAILBOX_MESSAGE 6, fifo_stat = 0, fifo_msg_stat = MAILBOX_MSGSTATUS 6\<rparr>,
      irqenable = OMAP4_MAILBOX_IRQENABLE 0, irqstatus = OMAP4_MAILBOX_IRQSTATUS 0,
      newmsg_bit = MAILBOX_IRQ_NEWMSG 6, notfull_bit = MAILBOX_IRQ_NOTFULL 4,
      mbox_ctx = replicate TI81XX_MBOX_NR_REGS 0, irqdisable = OMAP4_MAILBOX_IRQENABLE_CLR 0\<rparr>"

definition omap2_mbox_ti81xx_vpss_priv :: omap_mbox2_priv where
  "omap2_mbox_ti81xx_vpss_priv =
     \<lparr>tx_fifo = \<lparr>fifo_msg = MAILBOX_MESSAGE 5, fifo_stat = MAILBOX_FIFOSTATUS 5, fifo_msg_stat = 0\<rparr>,
      rx_fifo = \<lparr>fifo_msg = MAILBOX_MESSAGE 8, fifo_stat = 0, fifo_msg_stat = MAILBOX_MSGSTATUS 8\<rparr>,
      irqenable = OMAP4_MAILBOX_IRQENABLE 0, irqstatus = OMAP4_MAILBOX_IRQSTATUS 0,
      newmsg_bit = MAILBOX_IRQ_NEWMSG 8, notfull_bit = MAILBOX_IRQ_NOTFULL 5,
      mbox_ctx = replicate TI81XX_MBOX_NR_REGS 0, irqdisable = OMAP4_MAILBOX_IRQENABLE_CLR 0\<rparr>"

text \<open>\<^verbatim>\<open>ti81xx_mboxes\<close>: the names with the private data.\<close>

definition ti81xx_mboxes :: "(string \<times> omap_mbox2_priv) list" where
  "ti81xx_mboxes =
     [(''mailbox-dsp'', omap2_mbox_ti81xx_dsp_priv), (''mailbox-video'', omap2_mbox_ti81xx_video_priv),
      (''mailbox-vpss'', omap2_mbox_ti81xx_vpss_priv)]"

section \<open>Starting and stopping\<close>

text \<open>
  The state of the framework: \<^verbatim>\<open>mbox_configured\<close>, the use counts of the mailboxes, their
  requested interrupts and allocated queues, whether the hardware is started, and which
  mailboxes have their receive interrupt enabled.
\<close>

record mbox_frame =
  mbox_configured :: int
  mb_use_count :: "nat \<Rightarrow> int"
  mb_irq_requested :: "nat \<Rightarrow> bool"
  mb_txq :: "nat \<Rightarrow> kfifo option"
  mb_rxq :: "nat \<Rightarrow> kfifo option"
  mb_hw_on :: bool
  mb_rx_irq :: "nat \<Rightarrow> bool"

text \<open>\<open>kz\<close> is whether the queue structure can be allocated.\<close>

definition mbox_queue_alloc :: "bool \<Rightarrow> (u32 \<Rightarrow> u8 list option) \<Rightarrow> u32 \<Rightarrow> kfifo option" where
  "mbox_queue_alloc kz kmalloc mbox_kfifo_size =
     (if \<not> kz then None
      else case kfifo_alloc kmalloc \<lparr>kf_in = 0, kf_out = 0, kf_mask = 0, kf_esize = 0, kf_data = []\<rparr> mbox_kfifo_size 1 of
        (ret, f) \<Rightarrow> if ret \<noteq> 0 then None else Some f)"

text \<open>
  \<^verbatim>\<open>omap_mbox_startup\<close> of the mailbox \<open>i\<close>. \<open>st\<close> is the result of
  \<^verbatim>\<open>ops->startup\<close>, which resets the device and enables the receive interrupt of \<open>i\<close>, \<open>irq\<close> that of \<^verbatim>\<open>request_irq\<close>, and the last two arguments are the
  outcomes of allocating the queues.
\<close>

definition omap_mbox_startup ::
  "nat \<Rightarrow> int \<Rightarrow> int \<Rightarrow> kfifo option \<Rightarrow> kfifo option \<Rightarrow> mbox_frame \<Rightarrow> int \<times> mbox_frame" where
  "omap_mbox_startup i st irq txa rxa s =
     (let first = (mbox_configured s = 0);
          s = s\<lparr>mbox_configured := mbox_configured s + 1\<rparr>;
          fail_startup = (\<lambda>ret s. (ret, s\<lparr>mbox_configured := mbox_configured s - 1\<rparr>));
          fail_request_irq = (\<lambda>ret s. fail_startup ret
             (s\<lparr>mb_hw_on := False, mb_use_count := (mb_use_count s)(i := mb_use_count s i - 1)\<rparr>));
          fail_alloc_txq = (\<lambda>ret s. fail_request_irq ret (s\<lparr>mb_irq_requested := (mb_irq_requested s)(i := False)\<rparr>))
      in if first \<and> st \<noteq> 0 then fail_startup st s
         else
           let s = (if first then s\<lparr>mb_hw_on := True, mb_rx_irq := (\<lambda>_. False)(i := True)\<rparr> else s);
               unused = (mb_use_count s i = 0);
               s = s\<lparr>mb_use_count := (mb_use_count s)(i := mb_use_count s i + 1)\<rparr>
           in if \<not> unused then (0, s)
              else if irq \<noteq> 0 then fail_request_irq irq s
              else
                let s = s\<lparr>mb_irq_requested := (mb_irq_requested s)(i := True)\<rparr> in
                case txa of
                  None \<Rightarrow> fail_alloc_txq (- ENOMEM) s
                | Some tx \<Rightarrow>
                    let s = s\<lparr>mb_txq := (mb_txq s)(i := Some tx)\<rparr> in
                    (case rxa of
                       None \<Rightarrow> fail_alloc_txq (- ENOMEM) (s\<lparr>mb_txq := (mb_txq s)(i := Some (kfifo_free tx))\<rparr>)
                     | Some rx \<Rightarrow> (0, s\<lparr>mb_rxq := (mb_rxq s)(i := Some rx)\<rparr>)))"

definition omap_mbox_fini :: "nat \<Rightarrow> mbox_frame \<Rightarrow> mbox_frame" where
  "omap_mbox_fini i s =
     (let s = s\<lparr>mb_use_count := (mb_use_count s)(i := mb_use_count s i - 1)\<rparr>;
          s = (if mb_use_count s i = 0
               then s\<lparr>mb_irq_requested := (mb_irq_requested s)(i := False),
                      mb_txq := (mb_txq s)(i := map_option kfifo_free (mb_txq s i)),
                      mb_rxq := (mb_rxq s)(i := map_option kfifo_free (mb_rxq s i))\<rparr>
               else s);
          s = s\<lparr>mbox_configured := mbox_configured s - 1\<rparr>
      in if mbox_configured s = 0 then s\<lparr>mb_hw_on := False\<rparr> else s)"

text \<open>
  The search of \<^verbatim>\<open>omap_mbox_get\<close> starts at the mailbox that the first entry of the list
  points to and increments the pointer to the mailbox itself, so that only that mailbox is
  ever compared within its object.
\<close>

definition omap_mbox_find :: "string list option \<Rightarrow> string \<Rightarrow> (int + nat) option" where
  "omap_mbox_find mboxes name =
     (case mboxes of
        None \<Rightarrow> Some (Inl (- EINVAL))
      | Some [] \<Rightarrow> Some (Inl (- ENOENT))
      | Some (x # xs) \<Rightarrow> if x = name then Some (Inr 0) else None)"

text \<open>The notifier chain of the mailbox is not part of the state.\<close>

definition omap_mbox_get ::
  "string list option \<Rightarrow> string \<Rightarrow> int \<Rightarrow> int \<Rightarrow> kfifo option \<Rightarrow> kfifo option \<Rightarrow> mbox_frame \<Rightarrow> ((int + nat) \<times> mbox_frame) option" where
  "omap_mbox_get mboxes name st irq txa rxa s = do {
     r \<leftarrow> omap_mbox_find mboxes name;
     case r of
       Inl e \<Rightarrow> Some (Inl e, s)
     | Inr i \<Rightarrow>
         (case omap_mbox_startup i st irq txa rxa s of (ret, s) \<Rightarrow> Some (if ret \<noteq> 0 then Inl (- ENODEV) else Inr i, s))
   }"

definition omap_mbox_put :: "nat \<Rightarrow> mbox_frame \<Rightarrow> mbox_frame" where
  "omap_mbox_put i s = omap_mbox_fini i s"

text \<open>\<^verbatim>\<open>omap_mbox_init\<close>: the ring size is aligned to messages and has room for one.\<close>

definition omap_mbox_init_size :: "u32 \<Rightarrow> u32" where
  "omap_mbox_init_size sz = (let sz = (sz + 3) AND NOT 3 in if sz < 4 then 4 else sz)"

section \<open>Specification\<close>

text \<open>The description of a mailbox that sends through FIFO \<open>a\<close> and receives through FIFO \<open>b\<close>.\<close>

definition mbox_uses :: "omap_mbox2_priv \<Rightarrow> nat \<Rightarrow> nat \<Rightarrow> bool" where
  "mbox_uses p a b \<longleftrightarrow> a < 12 \<and> b < 12 \<and> a \<noteq> b \<and> fifo_msg (tx_fifo p) = MAILBOX_MESSAGE a \<and> fifo_stat (tx_fifo p) = MAILBOX_FIFOSTATUS a
     \<and> fifo_msg (rx_fifo p) = MAILBOX_MESSAGE b \<and> fifo_msg_stat (rx_fifo p) = MAILBOX_MSGSTATUS b
     \<and> irqenable p = 0x108 \<and> irqstatus p = 0x104 \<and> irqdisable p = 0x10c
     \<and> newmsg_bit p \<noteq> 0 \<and> notfull_bit p \<noteq> 0 \<and> newmsg_bit p AND notfull_bit p = 0"

text \<open>
  The other processor takes a message from the FIFO that the mailbox sends through, or puts
  one into the FIFO it receives from; the rest of the device may change, its interrupt
  enables apart.
\<close>

definition remote_takes :: "('d \<Rightarrow> nat \<Rightarrow> u32 list) \<Rightarrow> ('d \<Rightarrow> u32) \<Rightarrow> nat \<Rightarrow> nat \<Rightarrow> 'd \<Rightarrow> u32 \<Rightarrow> 'd \<Rightarrow> bool" where
  "remote_takes fifo irqen a b d m d' \<longleftrightarrow> fifo d a = m # fifo d' a \<and> fifo d' b = fifo d b \<and> irqen d' = irqen d"

definition remote_puts :: "('d \<Rightarrow> nat \<Rightarrow> u32 list) \<Rightarrow> ('d \<Rightarrow> u32) \<Rightarrow> nat \<Rightarrow> nat \<Rightarrow> 'd \<Rightarrow> u32 \<Rightarrow> 'd \<Rightarrow> bool" where
  "remote_puts fifo irqen a b d m d' \<longleftrightarrow> fifo d' b = fifo d b @ [m] \<and> fifo d' a = fifo d a \<and> irqen d' = irqen d"

definition irq_enabled :: "('d \<Rightarrow> u32) \<Rightarrow> omap_mbox2_priv \<Rightarrow> 'd \<Rightarrow> omap_mbox_irq \<Rightarrow> bool" where
  "irq_enabled irqen p d irq \<longleftrightarrow> irqen d AND mbox_irq_bit p irq \<noteq> 0"

text \<open>A device whose FIFOs hold four messages.\<close>

record mdev =
  md_fifo :: "nat \<Rightarrow> u32 list"
  md_irqen :: u32

definition md_index :: "nat \<Rightarrow> u32 \<Rightarrow> nat option" where
  "md_index base ofs = (if base \<le> unat ofs \<and> unat ofs < base + 48 \<and> (unat ofs - base) mod 4 = 0 then Some ((unat ofs - base) div 4) else None)"

definition md_status :: "mdev \<Rightarrow> u32" where
  "md_status d = foldr (\<lambda>m x. x OR (if md_fifo d m \<noteq> [] then MAILBOX_IRQ_NEWMSG m else 0) OR (if length (md_fifo d m) < 4 then MAILBOX_IRQ_NOTFULL m else 0)) [0..<12] 0"

definition md_rd :: "u32 \<Rightarrow> mdev \<Rightarrow> u32 \<times> mdev" where
  "md_rd ofs d =
     (case md_index 0x40 ofs of
        Some m \<Rightarrow> (case md_fifo d m of [] \<Rightarrow> 0 | x # xs \<Rightarrow> x, d\<lparr>md_fifo := (md_fifo d)(m := tl (md_fifo d m))\<rparr>)
      | None \<Rightarrow>
          (case md_index 0x80 ofs of Some m \<Rightarrow> if length (md_fifo d m) < 4 then 0 else 1
           | None \<Rightarrow> (case md_index 0xc0 ofs of Some m \<Rightarrow> if md_fifo d m = [] then 0 else word_of_nat (min 4 (length (md_fifo d m)))
             | None \<Rightarrow> if ofs = 0x104 then md_status d else if ofs = 0x108 \<or> ofs = 0x10c then md_irqen d else 0), d))"

definition md_wr :: "u32 \<Rightarrow> u32 \<Rightarrow> mdev \<Rightarrow> mdev" where
  "md_wr v ofs d =
     (case md_index 0x40 ofs of
        Some m \<Rightarrow> if length (md_fifo d m) < 4 then d\<lparr>md_fifo := (md_fifo d)(m := md_fifo d m @ [v])\<rparr> else d
      | None \<Rightarrow> if ofs = 0x108 then d\<lparr>md_irqen := md_irqen d OR v\<rparr>
                else if ofs = 0x10c then d\<lparr>md_irqen := md_irqen d AND NOT v\<rparr> else d)"

text \<open>A mailbox that has just been started.\<close>

definition mbox_fresh :: "('d \<Rightarrow> nat \<Rightarrow> u32 list) \<Rightarrow> ('d \<Rightarrow> u32) \<Rightarrow> omap_mbox2_priv \<Rightarrow> nat \<Rightarrow> nat \<Rightarrow> 'd mbox_run \<Rightarrow> bool" where
  "mbox_fresh fifo irqen p a b r \<longleftrightarrow> (let s = rn_mbox r; d = mb_dev s in
     msg_ring (mb_tx s) \<and> msg_ring (mb_rx s) \<and> kfifo_is_empty (mb_tx s) \<and> kfifo_is_empty (mb_rx s)
     \<and> \<not> mb_full s \<and> irq_enabled irqen p d IRQ_RX \<and> fifo d a = [] \<and> fifo d b = [] \<and> rn_pc r = Work_idle
     \<and> rn_sent r = [] \<and> rn_taken r = [] \<and> rn_arrived r = [] \<and> rn_notified r = [])"

text \<open>The steps of the mailbox described by \<open>p\<close> on a TI81xx.\<close>

abbreviation ti81xx_step where
  "ti81xx_step rd wr fifo irqen p a b ud \<equiv>
     mbox_step (omap2_mbox_ops True rd wr p) ud (remote_takes fifo irqen a b) (remote_puts fifo irqen a b)"

text \<open>A ring for one message, and a mailbox with such rings over the device above.\<close>

definition ring4 :: kfifo where
  "ring4 = \<lparr>kf_in = 0, kf_out = 0, kf_mask = 3, kf_esize = 1, kf_data = [0, 0, 0, 0]\<rparr>"

definition small_mbox :: "mdev mbox_run" where
  "small_mbox =
     \<lparr>rn_mbox = \<lparr>mb_dev = \<lparr>md_fifo = (\<lambda>_. []), md_irqen = 1\<rparr>, mb_tx = ring4, mb_rx = ring4, mb_full = False, mb_tasklet = False, mb_work = False\<rparr>,
      rn_pc = Work_idle, rn_sent = [], rn_taken = [], rn_arrived = [], rn_notified = []\<rparr>"

text \<open>The states of a run in which a message is lost.\<close>

abbreviation dsp_ops :: "mdev omap_mbox_ops" where
  "dsp_ops \<equiv> omap2_mbox_ops True md_rd md_wr omap2_mbox_ti81xx_dsp_priv"

definition lost_mbox :: "u32 \<Rightarrow> u32 list \<Rightarrow> kfifo \<Rightarrow> bool \<Rightarrow> bool \<Rightarrow> mdev omap_mbox" where
  "lost_mbox irqen xs f full wk =
     \<lparr>mb_dev = \<lparr>md_fifo = (\<lambda>_. [])(0 := xs), md_irqen = irqen\<rparr>, mb_tx = ring4, mb_rx = f, mb_full = full, mb_tasklet = False, mb_work = wk\<rparr>"

definition ring_at :: "u32 \<Rightarrow> u32 \<Rightarrow> u8 \<Rightarrow> kfifo" where
  "ring_at i out x = \<lparr>kf_in = i, kf_out = out, kf_mask = 3, kf_esize = 1, kf_data = [x, 0, 0, 0]\<rparr>"

abbreviation dsp_step where
  "dsp_step \<equiv> ti81xx_step md_rd md_wr md_fifo md_irqen omap2_mbox_ti81xx_dsp_priv 3 0 (\<lambda>d. d)"

definition lost_run :: "mdev omap_mbox \<Rightarrow> work_pc \<Rightarrow> u32 list \<Rightarrow> u32 list \<Rightarrow> mdev mbox_run" where
  "lost_run s pc as ns = \<lparr>rn_mbox = s, rn_pc = pc, rn_sent = [], rn_taken = [], rn_arrived = as, rn_notified = ns\<rparr>"

text \<open>Two mailboxes that share neither a FIFO nor an interrupt bit.\<close>

definition mbox_apart :: "omap_mbox2_priv \<Rightarrow> nat \<Rightarrow> nat \<Rightarrow> omap_mbox2_priv \<Rightarrow> nat \<Rightarrow> nat \<Rightarrow> bool" where
  "mbox_apart p a b q c e \<longleftrightarrow> distinct [a, b, c, e] \<and> (newmsg_bit p OR notfull_bit p) AND (newmsg_bit q OR notfull_bit q) = 0"

text \<open>What the mailbox described by \<open>q\<close> has in the device.\<close>

definition mbox_share :: "('d \<Rightarrow> nat \<Rightarrow> u32 list) \<Rightarrow> ('d \<Rightarrow> u32) \<Rightarrow> omap_mbox2_priv \<Rightarrow> nat \<Rightarrow> nat \<Rightarrow> 'd \<Rightarrow> u32 list \<times> u32 list \<times> bool \<times> bool" where
  "mbox_share fifo irqen q c e d = (fifo d c, fifo d e, irq_enabled irqen q d IRQ_TX, irq_enabled irqen q d IRQ_RX)"

text \<open>A message that is sent at once, and one that is received.\<close>

definition sent_run :: "mdev mbox_run" where
  "sent_run = small_mbox\<lparr>rn_mbox := (rn_mbox small_mbox)\<lparr>mb_dev := \<lparr>md_fifo = (\<lambda>_. [])(3 := [5]), md_irqen = 1\<rparr>\<rparr>, rn_sent := [5]\<rparr>"

abbreviation received_run :: "mdev mbox_run" where
  "received_run \<equiv> lost_run (lost_mbox 1 [] (ring_at 4 4 11) False False) Work_locked [11] [11]"

text \<open>The framework with the first mailbox started.\<close>

abbreviation no_mbox :: mbox_frame where
  "no_mbox \<equiv> \<lparr>mbox_configured = 0, mb_use_count = (\<lambda>_. 0), mb_irq_requested = (\<lambda>_. False), mb_txq = (\<lambda>_. None), mb_rxq = (\<lambda>_. None),
     mb_hw_on = False, mb_rx_irq = (\<lambda>_. False)\<rparr>"

abbreviation one_mbox :: mbox_frame where
  "one_mbox \<equiv> snd (omap_mbox_startup 0 0 0 (Some ring4) (Some ring4) no_mbox)"

text \<open>Mailboxes with their two FIFOs, which share the device without sharing a FIFO or an interrupt.\<close>

fun mboxes_apart :: "(omap_mbox2_priv \<times> nat \<times> nat) list \<Rightarrow> bool" where
  "mboxes_apart [] = True"
| "mboxes_apart ((p, a, b) # ms) \<longleftrightarrow> mbox_uses p a b
     \<and> list_all (\<lambda>(q, c, e). mbox_apart p a b q c e \<and> mbox_apart q c e p a b) ms \<and> mboxes_apart ms"

text \<open>What a mailbox holds for its receiver, with the messages it has yet to send.\<close>

definition mbox_holds :: "('d \<Rightarrow> nat \<Rightarrow> u32 list) \<Rightarrow> 'd \<Rightarrow> (omap_mbox2_priv \<times> nat \<times> nat) \<Rightarrow> 'd omap_mbox \<Rightarrow> u32 list \<times> u32 list" where
  "mbox_holds fifo d m s = (case m of (p, a, b) \<Rightarrow> (ring_msgs (mb_rx s) @ fifo d b, fifo d a @ ring_msgs (mb_tx s)))"

section \<open>Lemmas\<close>

text \<open>
  The device: twelve FIFOs that are read and written through their message registers, status
  registers, and the enabled interrupts of the ARM, which are set and cleared through two
  registers.
\<close>

locale mbox_device =
  fixes rd :: "u32 \<Rightarrow> 'd \<Rightarrow> u32 \<times> 'd" and wr :: "u32 \<Rightarrow> u32 \<Rightarrow> 'd \<Rightarrow> 'd"
    and fifo :: "'d \<Rightarrow> nat \<Rightarrow> u32 list" and irqen :: "'d \<Rightarrow> u32"
  assumes rd_msg: "m < 12 \<Longrightarrow> fifo (snd (rd (MAILBOX_MESSAGE m) d)) = (fifo d)(m := tl (fifo d m))"
    and rd_msg_value: "m < 12 \<Longrightarrow> fifo d m \<noteq> [] \<Longrightarrow> fst (rd (MAILBOX_MESSAGE m) d) = hd (fifo d m)"
    and rd_other: "(\<And>m. m < 12 \<Longrightarrow> ofs \<noteq> MAILBOX_MESSAGE m) \<Longrightarrow> fifo (snd (rd ofs d)) = fifo d"
    and rd_irqen: "irqen (snd (rd ofs d)) = irqen d"
    and rd_msgstat: "m < 12 \<Longrightarrow> fst (rd (MAILBOX_MSGSTATUS m) d) = 0 \<longleftrightarrow> fifo d m = []"
    and wr_msg: "m < 12 \<Longrightarrow> fst (rd (MAILBOX_FIFOSTATUS m) d) = 0 \<Longrightarrow> fifo (wr v (MAILBOX_MESSAGE m) d) = (fifo d)(m := fifo d m @ [v])"
    and wr_msg_irqen: "m < 12 \<Longrightarrow> irqen (wr v (MAILBOX_MESSAGE m) d) = irqen d"
    and wr_irq: "ofs \<in> {0x104, 0x108, 0x10c} \<Longrightarrow> fifo (wr v ofs d) = fifo d"
    and wr_status: "irqen (wr v 0x104 d) = irqen d"
    and wr_set: "irqen (wr v 0x108 d) = irqen d OR v"
    and wr_clear: "irqen (wr v 0x10c d) = irqen d AND NOT v"
begin

lemma irq_regs_no_msg: "m < 12 \<Longrightarrow> (0x104 :: u32) \<noteq> MAILBOX_MESSAGE m \<and> (0x108 :: u32) \<noteq> MAILBOX_MESSAGE m \<and> (0x10c :: u32) \<noteq> MAILBOX_MESSAGE m"
proof -
  assume "m < 12"
  then have "unat (MAILBOX_MESSAGE m) = 0x40 + 4 * m"
    unfolding MAILBOX_MESSAGE_def by (subst unat_add_eq; subst unat_mult_eq) (simp_all add: unat_word_of_nat_small)
  then have "unat (MAILBOX_MESSAGE m) < 0x80" using \<open>m < 12\<close> by simp
  then show ?thesis by auto
qed

end

locale ti81xx_mbox = mbox_device rd wr fifo irqen
  for rd :: "u32 \<Rightarrow> 'd \<Rightarrow> u32 \<times> 'd" and wr :: "u32 \<Rightarrow> u32 \<Rightarrow> 'd \<Rightarrow> 'd" and fifo :: "'d \<Rightarrow> nat \<Rightarrow> u32 list" and irqen :: "'d \<Rightarrow> u32" +
  fixes p :: omap_mbox2_priv and a b :: nat and ud :: "'d \<Rightarrow> 'd"
  assumes uses: "mbox_uses p a b"

sublocale ti81xx_mbox \<subseteq> mbox_fifo "omap2_mbox_ops True rd wr p" ud "remote_takes fifo irqen a b" "remote_puts fifo irqen a b"
  "\<lambda>d. fifo d a" "\<lambda>d. fifo d b" "irq_enabled irqen p"
proof
  have u: "a < 12" "b < 12" "a \<noteq> b" "fifo_msg (tx_fifo p) = MAILBOX_MESSAGE a" "fifo_stat (tx_fifo p) = MAILBOX_FIFOSTATUS a"
    "fifo_msg (rx_fifo p) = MAILBOX_MESSAGE b" "fifo_msg_stat (rx_fifo p) = MAILBOX_MSGSTATUS b"
    "irqenable p = 0x108" "irqstatus p = 0x104" "irqdisable p = 0x10c"
    "newmsg_bit p \<noteq> 0" "notfull_bit p \<noteq> 0" "newmsg_bit p AND notfull_bit p = 0"
    using uses by (simp_all add: mbox_uses_def)
  have bits: "mbox_irq_bit p i \<noteq> 0" "i \<noteq> j \<Longrightarrow> mbox_irq_bit p i AND mbox_irq_bit p j = 0" for i j
    using u(11-13) by (cases i; cases j; simp add: mbox_irq_bit_def and.commute)+
  have o: "fifo (snd (rd 0x108 d)) = fifo d" "fifo (snd (rd 0x10c d)) = fifo d" "fifo (snd (rd 0x104 d)) = fifo d" for d
    using rd_other irq_regs_no_msg by blast+
  show "ops_type (omap2_mbox_ops True rd wr p) = OMAP_MBOX_TYPE2" by (simp add: omap2_mbox_ops_def)
  fix d m ms i d'
  show "ops_fifo_empty (omap2_mbox_ops True rd wr p) d \<longleftrightarrow> fifo d b = []"
    using rd_msgstat [OF u(2)] by (simp add: omap2_mbox_ops_def omap2_mbox_fifo_empty_def u)
  show "fifo d b = m # ms \<Longrightarrow> fst (ops_fifo_read (omap2_mbox_ops True rd wr p) d) = m \<and> fifo (snd (ops_fifo_read (omap2_mbox_ops True rd wr p) d)) b = ms
     \<and> fifo (snd (ops_fifo_read (omap2_mbox_ops True rd wr p) d)) a = fifo d a
     \<and> irq_enabled irqen p (snd (ops_fifo_read (omap2_mbox_ops True rd wr p) d)) = irq_enabled irqen p d"
    using rd_msg [OF u(2), of d] rd_msg_value [OF u(2), of d] u(3)
    by (auto simp: omap2_mbox_ops_def omap2_mbox_fifo_read_def u irq_enabled_def rd_irqen fun_eq_iff)
  show "\<not> ops_fifo_full (omap2_mbox_ops True rd wr p) d \<Longrightarrow> fifo (ops_fifo_write (omap2_mbox_ops True rd wr p) m d) a = fifo d a @ [m]
     \<and> fifo (ops_fifo_write (omap2_mbox_ops True rd wr p) m d) b = fifo d b
     \<and> irq_enabled irqen p (ops_fifo_write (omap2_mbox_ops True rd wr p) m d) = irq_enabled irqen p d"
    using wr_msg [OF u(1), of d m] wr_msg_irqen [OF u(1), of m d] not_sym [OF u(3)]
    by (auto simp: omap2_mbox_ops_def omap2_mbox_fifo_write_def omap2_mbox_fifo_full_def u irq_enabled_def fun_eq_iff)
  show "fifo (ops_enable_irq (omap2_mbox_ops True rd wr p) i d) a = fifo d a \<and> fifo (ops_enable_irq (omap2_mbox_ops True rd wr p) i d) b = fifo d b
     \<and> irq_enabled irqen p (ops_enable_irq (omap2_mbox_ops True rd wr p) i d) = (irq_enabled irqen p d)(i := True)"
    by (auto simp: omap2_mbox_ops_def omap2_mbox_enable_irq_def Let_def case_prod_unfold u o wr_irq irq_enabled_def rd_irqen wr_set fun_eq_iff bits ctrl_bits(1))
  show "fifo (ops_disable_irq (omap2_mbox_ops True rd wr p) i d) a = fifo d a \<and> fifo (ops_disable_irq (omap2_mbox_ops True rd wr p) i d) b = fifo d b
     \<and> irq_enabled irqen p (ops_disable_irq (omap2_mbox_ops True rd wr p) i d) = (irq_enabled irqen p d)(i := False)"
    by (auto simp: omap2_mbox_ops_def omap2_mbox_disable_irq_def Let_def case_prod_unfold u o wr_irq irq_enabled_def rd_irqen wr_clear fun_eq_iff bits ctrl_bits(2,4))
  show "fifo (ack_mbox_irq (omap2_mbox_ops True rd wr p) i d) a = fifo d a \<and> fifo (ack_mbox_irq (omap2_mbox_ops True rd wr p) i d) b = fifo d b
     \<and> irq_enabled irqen p (ack_mbox_irq (omap2_mbox_ops True rd wr p) i d) = irq_enabled irqen p d"
    by (simp add: ack_mbox_irq_def omap2_mbox_ops_def omap2_mbox_ack_irq_def u o wr_irq irq_enabled_def rd_irqen wr_status fun_eq_iff)
  show "remote_takes fifo irqen a b d m d' \<Longrightarrow> fifo d a = m # fifo d' a \<and> fifo d' b = fifo d b \<and> irq_enabled irqen p d' = irq_enabled irqen p d"
    by (auto simp: remote_takes_def irq_enabled_def fun_eq_iff)
  show "remote_puts fifo irqen a b d m d' \<Longrightarrow> fifo d' b = fifo d b @ [m] \<and> fifo d' a = fifo d a \<and> irq_enabled irqen p d' = irq_enabled irqen p d"
    by (auto simp: remote_puts_def irq_enabled_def fun_eq_iff)
qed

lemma unat_mbox_regs: "m < 12 \<Longrightarrow> unat (MAILBOX_MESSAGE m) = 0x40 + 4 * m" "m < 12 \<Longrightarrow> unat (MAILBOX_FIFOSTATUS m) = 0x80 + 4 * m"
  "m < 12 \<Longrightarrow> unat (MAILBOX_MSGSTATUS m) = 0xc0 + 4 * m"
  unfolding MAILBOX_MESSAGE_def MAILBOX_FIFOSTATUS_def MAILBOX_MSGSTATUS_def
  by (subst unat_add_eq; subst unat_mult_eq; simp add: unat_word_of_nat_small)+

lemma md_index_regs:
  "m < 12 \<Longrightarrow> md_index 0x40 (MAILBOX_MESSAGE m) = Some m" "m < 12 \<Longrightarrow> md_index 0x40 (MAILBOX_FIFOSTATUS m) = None"
  "m < 12 \<Longrightarrow> md_index 0x80 (MAILBOX_FIFOSTATUS m) = Some m" "m < 12 \<Longrightarrow> md_index 0x40 (MAILBOX_MSGSTATUS m) = None"
  "m < 12 \<Longrightarrow> md_index 0x80 (MAILBOX_MSGSTATUS m) = None" "m < 12 \<Longrightarrow> md_index 0xc0 (MAILBOX_MSGSTATUS m) = Some m"
  by (simp_all add: md_index_def unat_mbox_regs)

lemma md_index_None: "(\<And>m. m < 12 \<Longrightarrow> ofs \<noteq> MAILBOX_MESSAGE m) \<Longrightarrow> md_index 0x40 ofs = None"
proof (rule ccontr)
  assume a: "\<And>m. m < 12 \<Longrightarrow> ofs \<noteq> MAILBOX_MESSAGE m" and "md_index 0x40 ofs \<noteq> None"
  then have b: "0x40 \<le> unat ofs" "unat ofs < 0x40 + 48" "(unat ofs - 0x40) mod 4 = 0" by (auto simp: md_index_def split: if_splits)
  let ?m = "(unat ofs - 0x40) div 4"
  have "?m < 12" using b by simp
  moreover have "unat (MAILBOX_MESSAGE ?m) = unat ofs" using unat_mbox_regs(1) [OF calculation] b by (simp add: minus_mod_eq_mult_div [symmetric])
  ultimately show False using a [of ?m] by (simp add: word_unat_eq_iff)
qed

interpretation md: mbox_device md_rd md_wr md_fifo md_irqen
proof
  fix m v :: nat and d :: mdev and w ofs :: u32
  show "m < 12 \<Longrightarrow> md_fifo (snd (md_rd (MAILBOX_MESSAGE m) d)) = (md_fifo d)(m := tl (md_fifo d m))" by (simp add: md_rd_def md_index_regs)
  show "m < 12 \<Longrightarrow> md_fifo d m \<noteq> [] \<Longrightarrow> fst (md_rd (MAILBOX_MESSAGE m) d) = hd (md_fifo d m)"
    by (simp add: md_rd_def md_index_regs split: list.splits)
  show "(\<And>m. m < 12 \<Longrightarrow> ofs \<noteq> MAILBOX_MESSAGE m) \<Longrightarrow> md_fifo (snd (md_rd ofs d)) = md_fifo d" using md_index_None [of ofs] by (simp add: md_rd_def)
  show "md_irqen (snd (md_rd ofs d)) = md_irqen d" by (simp add: md_rd_def split: option.splits)
  show "m < 12 \<Longrightarrow> fst (md_rd (MAILBOX_MSGSTATUS m) d) = 0 \<longleftrightarrow> md_fifo d m = []"
    by (simp add: md_rd_def md_index_regs) (simp add: word_unat_eq_iff unat_word_of_nat_small)
  show "m < 12 \<Longrightarrow> fst (md_rd (MAILBOX_FIFOSTATUS m) d) = 0 \<Longrightarrow> md_fifo (md_wr w (MAILBOX_MESSAGE m) d) = (md_fifo d)(m := md_fifo d m @ [w])"
    by (simp add: md_rd_def md_wr_def md_index_regs split: if_splits)
  show "m < 12 \<Longrightarrow> md_irqen (md_wr w (MAILBOX_MESSAGE m) d) = md_irqen d" by (simp add: md_wr_def md_index_regs)
  show "ofs \<in> {0x104, 0x108, 0x10c} \<Longrightarrow> md_fifo (md_wr w ofs d) = md_fifo d" by (auto simp: md_wr_def md_index_def)
  show "md_irqen (md_wr w 0x104 d) = md_irqen d" "md_irqen (md_wr w 0x108 d) = md_irqen d OR w" "md_irqen (md_wr w 0x10c d) = md_irqen d AND NOT w"
    by (simp_all add: md_wr_def md_index_def)
qed

lemma ti81xx_uses: "mbox_uses omap2_mbox_ti81xx_dsp_priv 3 0" "mbox_uses omap2_mbox_ti81xx_video_priv 4 6" "mbox_uses omap2_mbox_ti81xx_vpss_priv 5 8"
  by (simp_all add: mbox_uses_def omap2_mbox_ti81xx_dsp_priv_def omap2_mbox_ti81xx_video_priv_def omap2_mbox_ti81xx_vpss_priv_def
      OMAP4_MAILBOX_IRQENABLE_def OMAP4_MAILBOX_IRQSTATUS_def OMAP4_MAILBOX_IRQENABLE_CLR_def MAILBOX_IRQ_NEWMSG_def MAILBOX_IRQ_NOTFULL_def)

interpretation dsp: ti81xx_mbox md_rd md_wr md_fifo md_irqen omap2_mbox_ti81xx_dsp_priv 3 0 "\<lambda>d. d"
  by unfold_locales (rule ti81xx_uses)

lemma fresh_invs:
  assumes "mbox_fresh fifo irqen p a b r"
  shows "mbox_tx_inv (\<lambda>d. fifo d a) (irq_enabled irqen p) r" "mbox_rx_inv (\<lambda>d. fifo d b) (irq_enabled irqen p) r"
  using assms ring_empty(3) [of "mb_tx (rn_mbox r)"] ring_empty(3) [of "mb_rx (rn_mbox r)"]
  by (simp_all add: mbox_fresh_def mbox_tx_inv_def mbox_rx_inv_def Let_def)

context ti81xx_mbox
begin

lemma reachable_invs:
  assumes "mbox_fresh fifo irqen p a b r" "(ti81xx_step rd wr fifo irqen p a b ud)\<^sup>*\<^sup>* r r'"
  shows "mbox_tx_inv (\<lambda>d. fifo d a) (irq_enabled irqen p) r' \<and> mbox_rx_inv (\<lambda>d. fifo d b) (irq_enabled irqen p) r'"
  using run_inv [OF assms(2) fresh_invs [OF assms(1)]] .

lemma calls_return:
  assumes "mbox_tx_inv (\<lambda>d. fifo d a) (irq_enabled irqen p) r" "mbox_rx_inv (\<lambda>d. fifo d b) (irq_enabled irqen p) r"
  shows "omap_mbox_msg_send (omap2_mbox_ops True rd wr p) ud m (rn_mbox r) \<noteq> None \<and> mbox_tx_tasklet (omap2_mbox_ops True rd wr p) ud (rn_mbox r) \<noteq> None
    \<and> mbox_interrupt (omap2_mbox_ops True rd wr p) (rn_mbox r) \<noteq> None \<and> mbox_rx_take (rn_mbox r) \<noteq> None
    \<and> mbox_rx_refill (omap2_mbox_ops True rd wr p) (rn_mbox r) \<noteq> None"
proof -
  have t: "msg_ring (mb_tx (rn_mbox r))" and x: "msg_ring (mb_rx (rn_mbox r))" using assms by (simp_all add: mbox_tx_inv_def mbox_rx_inv_def Let_def)
  show ?thesis
  proof (intro conjI)
    show "omap_mbox_msg_send (omap2_mbox_ops True rd wr p) ud m (rn_mbox r) \<noteq> None" using send_run [OF t, of m] by fastforce
    show "mbox_tx_tasklet (omap2_mbox_ops True rd wr p) ud (rn_mbox r) \<noteq> None" using tasklet_run [OF t] by fastforce
    show "mbox_interrupt (omap2_mbox_ops True rd wr p) (rn_mbox r) \<noteq> None" using interrupt_run [OF x] by fastforce
    show "mbox_rx_take (rn_mbox r) \<noteq> None" using take_run [OF x] by (auto split: if_splits)
    show "mbox_rx_refill (omap2_mbox_ops True rd wr p) (rn_mbox r) \<noteq> None" using refill_run [OF x] by fastforce
  qed
qed

end

lemma ti81xx_mboxI: "mbox_device rd wr fifo irqen \<Longrightarrow> mbox_uses p a b \<Longrightarrow> ti81xx_mbox rd wr fifo irqen p a b"
  by (simp add: ti81xx_mbox_def ti81xx_mbox_axioms_def)

lemmas ti81xx_reachable = ti81xx_mbox.reachable_invs [OF ti81xx_mboxI]

lemmas ti81xx_calls = ti81xx_mbox.calls_return [OF ti81xx_mboxI]

lemma ring4_ok: "msg_ring ring4" "kfifo_is_empty ring4"
proof -
  have "kfifo_inv ring4" by (auto simp: kfifo_inv_def ring4_def kfifo_len_def mask_eq_exp_minus_1 intro: bexI [of _ 2])
  then show "msg_ring ring4" by (simp add: msg_ring_def byte_kfifo_def ring4_def kf_bytes_def kfifo_len_def)
  show "kfifo_is_empty ring4" by (simp add: kfifo_is_empty_def ring4_def)
qed

lemma small_mbox_fresh: "mbox_fresh md_fifo md_irqen omap2_mbox_ti81xx_dsp_priv 3 0 small_mbox"
  by (simp add: mbox_fresh_def small_mbox_def ring4_ok irq_enabled_def mbox_irq_bit_def omap2_mbox_ti81xx_dsp_priv_def MAILBOX_IRQ_NEWMSG_def)

lemma startup_enables_rx:
  assumes "mbox_device rd wr fifo irqen" "mbox_uses p a b" "omap2_mbox_startup True clk cken n rd wr p d = (0, d')"
  shows "irq_enabled irqen p d' IRQ_RX"
proof -
  have u: "irqenable p = 0x108" "newmsg_bit p \<noteq> 0" using assms(2) by (simp_all add: mbox_uses_def)
  obtain e where "d' = wr (newmsg_bit p) 0x108 e"
    using assms(3) by (auto simp: omap2_mbox_startup_def Let_def case_prod_unfold omap2_mbox_enable_irq_def mbox_irq_bit_def u split: if_splits)
  then show ?thesis using mbox_device.wr_set [OF assms(1)] u(2) by (simp add: irq_enabled_def mbox_irq_bit_def ctrl_bits(1))
qed

lemma mbox_get_only_first:
  "omap_mbox_get (Some (map fst ti81xx_mboxes)) ''mailbox-dsp'' 0 0 (Some f) (Some g) s \<noteq> None
   \<and> omap_mbox_get (Some (map fst ti81xx_mboxes)) ''mailbox-video'' st irq txa rxa s = None
   \<and> omap_mbox_get (Some (map fst ti81xx_mboxes)) ''mailbox-vpss'' st irq txa rxa s = None"
  by (simp add: omap_mbox_get_def omap_mbox_find_def ti81xx_mboxes_def split: prod.splits)

lemmas dsp_defs = omap2_mbox_ops_def omap2_mbox_fifo_read_def omap2_mbox_fifo_empty_def omap2_mbox_enable_irq_def omap2_mbox_disable_irq_def
  omap2_mbox_ack_irq_def mbox_irq_bit_def omap2_mbox_ti81xx_dsp_priv_def MAILBOX_MESSAGE_def MAILBOX_MSGSTATUS_def MAILBOX_FIFOSTATUS_def
  OMAP4_MAILBOX_IRQENABLE_def OMAP4_MAILBOX_IRQSTATUS_def OMAP4_MAILBOX_IRQENABLE_CLR_def MAILBOX_IRQ_NEWMSG_def MAILBOX_IRQ_NOTFULL_def
  md_rd_def md_wr_def md_index_def

lemma dsp_dev:
  "ops_fifo_empty dsp_ops \<lparr>md_fifo = (\<lambda>_. [])(0 := xs), md_irqen = e\<rparr> \<longleftrightarrow> xs = []"
  "ops_fifo_read dsp_ops \<lparr>md_fifo = (\<lambda>_. [])(0 := x # xs), md_irqen = e\<rparr> = (x, \<lparr>md_fifo = (\<lambda>_. [])(0 := xs), md_irqen = e\<rparr>)"
  "ops_disable_irq dsp_ops IRQ_RX \<lparr>md_fifo = ff, md_irqen = e\<rparr> = \<lparr>md_fifo = ff, md_irqen = e AND NOT 1\<rparr>"
  "ops_enable_irq dsp_ops IRQ_RX \<lparr>md_fifo = ff, md_irqen = e\<rparr> = \<lparr>md_fifo = ff, md_irqen = e OR 1\<rparr>"
  "ack_mbox_irq dsp_ops i \<lparr>md_fifo = ff, md_irqen = e\<rparr> = \<lparr>md_fifo = ff, md_irqen = e\<rparr>"
  "ops_type dsp_ops = OMAP_MBOX_TYPE2"
  using ti81xx_uses
  by (simp_all add: dsp_defs ack_mbox_irq_def Let_def word_unat_eq_iff unat_word_of_nat_small)

lemma dsp_irq:
  "\<not> ops_is_irq dsp_ops IRQ_TX \<lparr>md_fifo = ff, md_irqen = 1\<rparr>" "ff 0 \<noteq> [] \<Longrightarrow> ops_is_irq dsp_ops IRQ_RX \<lparr>md_fifo = ff, md_irqen = 1\<rparr>"
proof -
  show "\<not> ops_is_irq dsp_ops IRQ_TX \<lparr>md_fifo = ff, md_irqen = 1\<rparr>"
    by (simp add: omap2_mbox_is_irq_def dsp_defs and.left_commute [of 1])
  show "ops_is_irq dsp_ops IRQ_RX \<lparr>md_fifo = ff, md_irqen = 1\<rparr>" if "ff 0 \<noteq> []"
  proof -
    have "[0..<12] = 0 # [1..<12]" by (simp add: upt_conv_Cons)
    then have "bit (md_status \<lparr>md_fifo = ff, md_irqen = 1\<rparr>) 0" using that by (simp add: md_status_def MAILBOX_IRQ_NEWMSG_def bit_simps)
    then have "bit (1 AND md_status \<lparr>md_fifo = ff, md_irqen = 1\<rparr> AND 1) 0" by (simp only: bit_and_iff bit_1_iff simp_thms)
    then have "1 AND md_status \<lparr>md_fifo = ff, md_irqen = 1\<rparr> AND 1 \<noteq> 0" by auto
    then show ?thesis by (simp add: omap2_mbox_is_irq_def dsp_defs)
  qed
qed

lemma ring_at_ops:
  "kfifo_in (ring_at 0 0 0) (msg_bytes 11) 4 = Some (4, ring_at 4 0 11)" "kfifo_in (ring_at 4 4 11) (msg_bytes 22) 4 = Some (4, ring_at 8 4 22)"
  "kfifo_in (ring_at 8 4 22) (msg_bytes 33) 4 = Some (0, ring_at 8 4 22)"
  "kfifo_avail 0 (ring_at 0 0 0) = 4" "kfifo_avail 0 (ring_at 4 4 11) = 4" "kfifo_avail 0 (ring_at 8 4 22) = 0"
  "kfifo_len (ring_at 4 0 11) = 4" "kfifo_out (ring_at 4 0 11) 4 = Some (4, msg_bytes 11, ring_at 4 4 11)"
  by (simp_all add: ring_at_def kfifo_in_def kfifo_out_def kfifo_out_peek_def kfifo_copy_in_def kfifo_copy_out_def kfifo_span_def kfifo_unused_def kfifo_avail_def kfifo_size_def
      kfifo_len_def mem_read_def mem_write_def msg_bytes_def Let_def)

lemma lost_steps:
  "mbox_interrupt dsp_ops (lost_mbox 1 [11] (ring_at 0 0 0) False False) = Some (lost_mbox 1 [] (ring_at 4 0 11) False True)"
  "mbox_rx_take (lost_mbox 1 [] (ring_at 4 0 11) False False) = Some (Some 11, lost_mbox 1 [] (ring_at 4 4 11) False False)"
  "mbox_interrupt dsp_ops (lost_mbox 1 [22, 33] (ring_at 4 4 11) False False) = Some (lost_mbox 0 [33] (ring_at 8 4 22) True True)"
  "mbox_rx_refill dsp_ops (lost_mbox 0 [33] (ring_at 8 4 22) True True) = Some (lost_mbox 1 [] (ring_at 8 4 22) False True)"
proof -
  have l1: "mbox_rx_loop dsp_ops False (ring_at 0 0 0) \<lparr>md_fifo = (\<lambda>_. [])(0 := [11]), md_irqen = 1\<rparr>
      = Some (False, ring_at 4 0 11, \<lparr>md_fifo = (\<lambda>_. [])(0 := []), md_irqen = 1\<rparr>)"
    by (subst mbox_rx_loop.simps, subst mbox_rx_loop.simps) (simp add: dsp_dev ring_at_ops del: fun_upd_apply fun_upd_triv)
  have l2: "mbox_rx_loop dsp_ops False (ring_at 4 4 11) \<lparr>md_fifo = (\<lambda>_. [])(0 := [22, 33]), md_irqen = 1\<rparr>
      = Some (True, ring_at 8 4 22, \<lparr>md_fifo = (\<lambda>_. [])(0 := [33]), md_irqen = 0\<rparr>)"
    by (subst mbox_rx_loop.simps, subst mbox_rx_loop.simps) (simp add: dsp_dev ring_at_ops del: fun_upd_apply fun_upd_triv)
  show "mbox_interrupt dsp_ops (lost_mbox 1 [11] (ring_at 0 0 0) False False) = Some (lost_mbox 1 [] (ring_at 4 0 11) False True)"
    using l1 by (simp add: mbox_interrupt_def mbox_rx_interrupt_def lost_mbox_def dsp_irq dsp_dev del: fun_upd_triv)
  show "mbox_interrupt dsp_ops (lost_mbox 1 [22, 33] (ring_at 4 4 11) False False) = Some (lost_mbox 0 [33] (ring_at 8 4 22) True True)"
    using l2 by (simp add: mbox_interrupt_def mbox_rx_interrupt_def lost_mbox_def dsp_irq dsp_dev del: fun_upd_triv)
  show "mbox_rx_take (lost_mbox 1 [] (ring_at 4 0 11) False False) = Some (Some 11, lost_mbox 1 [] (ring_at 4 4 11) False False)"
    by (simp add: mbox_rx_take_def lost_mbox_def ring_at_ops)
  show "mbox_rx_refill dsp_ops (lost_mbox 0 [33] (ring_at 8 4 22) True True) = Some (lost_mbox 1 [] (ring_at 8 4 22) False True)"
    by (simp add: mbox_rx_refill_def lost_mbox_def ring_at_ops dsp_dev del: fun_upd_triv)
qed

lemma save_regs_fifo:
  assumes "mbox_device rd wr fifo irqen"
  shows "distinct is \<Longrightarrow> \<forall>i \<in> set is. i < 2 ^ 20
    \<Longrightarrow> fifo (snd (save_regs rd is d)) = (\<lambda>m. if m < 12 \<and> 16 + m \<in> set is then tl (fifo d m) else fifo d m)"
proof (induction "is" arbitrary: d)
  case (Cons i "is")
  let ?o = "word_of_nat i * 4 :: u32"
  have o: "unat ?o = 4 * i" using Cons.prems by (subst unat_mult_eq) (simp_all add: unat_word_of_nat_small)
  have eq: "fifo (snd (rd ?o d)) = (\<lambda>m. if m < 12 \<and> i = 16 + m then tl (fifo d m) else fifo d m)"
  proof (cases "\<exists>m < 12. i = 16 + m")
    case True
    then obtain m where m: "m < 12" "i = 16 + m" by blast
    have "?o = MAILBOX_MESSAGE m" using o unat_mbox_regs(1) [OF m(1)] m(2) by (simp add: word_unat_eq_iff)
    then show ?thesis using mbox_device.rd_msg [OF assms m(1), of d] m by auto
  next
    case False
    then have "?o \<noteq> MAILBOX_MESSAGE m" if "m < 12" for m using o unat_mbox_regs(1) [OF that] that by (auto simp: word_unat_eq_iff)
    from mbox_device.rd_other [OF assms this, of d] show ?thesis using False by (auto simp: fun_eq_iff)
  qed
  show ?case using Cons by (auto simp: case_prod_unfold eq fun_eq_iff)
qed (simp add: fun_eq_iff)

lemma lost_run_start: "small_mbox = lost_run (lost_mbox 1 [] (ring_at 0 0 0) False False) Work_idle [] []"
  by (simp add: small_mbox_def lost_run_def lost_mbox_def ring_at_def ring4_def fun_eq_iff)

lemma lost_run_steps:
  "remote_puts md_fifo md_irqen 3 0 (mb_dev s) m d \<Longrightarrow> dsp_step (lost_run s pc as ns) (lost_run (s\<lparr>mb_dev := d\<rparr>) pc (as @ [m]) ns)"
  "mbox_interrupt dsp_ops s = Some s' \<Longrightarrow> dsp_step (lost_run s pc as ns) (lost_run s' pc as ns)"
  "mb_work s \<Longrightarrow> dsp_step (lost_run s Work_idle as ns) (lost_run (s\<lparr>mb_work := False\<rparr>) Work_loop as ns)"
  "mbox_rx_take s = Some (Some m, s') \<Longrightarrow> dsp_step (lost_run s Work_loop as ns) (lost_run s' Work_locked as (ns @ [m]))"
  "mbox_rx_refill dsp_ops s = Some s' \<Longrightarrow> dsp_step (lost_run s Work_locked as ns) (lost_run s' Work_loop as ns)"
  using mbox_step.arrived [of "remote_puts md_fifo md_irqen 3 0" "lost_run s pc as ns" m d dsp_ops "\<lambda>d. d" "remote_takes md_fifo md_irqen 3 0"]
    mbox_step.irq [of dsp_ops "lost_run s pc as ns" s' "\<lambda>d. d" "remote_takes md_fifo md_irqen 3 0" "remote_puts md_fifo md_irqen 3 0"]
    mbox_step.work [of "lost_run s Work_idle as ns" dsp_ops "\<lambda>d. d" "remote_takes md_fifo md_irqen 3 0" "remote_puts md_fifo md_irqen 3 0"]
    mbox_step.notify [of "lost_run s Work_loop as ns" m s' dsp_ops "\<lambda>d. d" "remote_takes md_fifo md_irqen 3 0" "remote_puts md_fifo md_irqen 3 0"]
    mbox_step.refill [of "lost_run s Work_locked as ns" dsp_ops s' "\<lambda>d. d" "remote_takes md_fifo md_irqen 3 0" "remote_puts md_fifo md_irqen 3 0"]
  by (simp_all add: lost_run_def)

lemma lost_ring: "ring_msgs (ring_at 8 4 22) = [22]"
  by (simp add: ring_at_def kf_bytes_def kfifo_len_def ring_def upt_rec_numeral upt_rec)

lemma lost_arrived:
  "dsp_step (lost_run (lost_mbox e xs f u w) pc as ns) (lost_run (lost_mbox e (xs @ [m]) f u w) pc (as @ [m]) ns)"
  using lost_run_steps(1) [of "lost_mbox e xs f u w" m "mb_dev (lost_mbox e (xs @ [m]) f u w)"] by (simp add: lost_mbox_def remote_puts_def)

text \<open>The start of the receive work, which finds the first message.\<close>

lemma lost_first:
  "dsp_step\<^sup>*\<^sup>* small_mbox (lost_run (lost_mbox 1 [] (ring_at 4 4 11) False False) Work_locked [11] [11])"
proof -
  note lost_arrived [of 1 "[]" "ring_at 0 0 0" False False Work_idle "[]" "[]" 11, simplified]
  moreover note lost_run_steps(2) [OF lost_steps(1), of Work_idle "[11]" "[]"]
  moreover have "dsp_step (lost_run (lost_mbox 1 [] (ring_at 4 0 11) False True) Work_idle [11] [])
      (lost_run (lost_mbox 1 [] (ring_at 4 0 11) False False) Work_loop [11] [])"
    using lost_run_steps(3) [of "lost_mbox 1 [] (ring_at 4 0 11) False True"] by (simp add: lost_mbox_def)
  moreover note lost_run_steps(4) [OF lost_steps(2), of "[11]" "[]", simplified]
  ultimately show ?thesis unfolding lost_run_start by (meson rtranclp.rtrancl_refl rtranclp.rtrancl_into_rtrancl)
qed

text \<open>Nothing that a mailbox does is seen through \<open>obs\<close>.\<close>

locale mbox_unseen =
  fixes ops :: "'d omap_mbox_ops" and ud :: "'d \<Rightarrow> 'd" and obs :: "'d \<Rightarrow> 'o"
  assumes unseen_type2: "ops_type ops = OMAP_MBOX_TYPE2"
    and unseen_read: "obs (snd (ops_fifo_read ops d)) = obs d"
    and unseen_write: "\<not> ops_fifo_full ops d \<Longrightarrow> obs (ops_fifo_write ops m d) = obs d"
    and unseen_enable: "obs (ops_enable_irq ops i d) = obs d"
    and unseen_disable: "obs (ops_disable_irq ops i d) = obs d"
    and unseen_ack: "obs (ack_mbox_irq ops i d) = obs d"
begin

lemmas unseen_poll = poll_type2 [OF unseen_type2]

lemma unseen_send: "omap_mbox_msg_send ops ud m s = Some (ret, s') \<Longrightarrow> obs (mb_dev s') = obs (mb_dev s)"
  by (auto simp: omap_mbox_msg_send_def unseen_poll unseen_write split: if_splits bind_splits)

lemma unseen_tx_loop: "mbox_tx_loop ops ud f d = Some (f', d') \<Longrightarrow> obs d' = obs d"
proof (induction "unat (kfifo_len f)" arbitrary: f d rule: less_induct)
  case less
  show ?case
  proof (cases "kfifo_len f = 0 \<or> ops_fifo_full ops d")
    case True
    then show ?thesis using less.prems by (subst (asm) mbox_tx_loop.simps) (auto simp: unseen_poll unseen_enable simp del: mbox_tx_loop.simps split: if_splits)
  next
    case False
    then obtain l bs g m where g: "kfifo_out f 4 = Some (l, bs, g)" "mbox_tx_loop ops ud g (ops_fifo_write ops m d) = Some (f', d')"
      using less.prems by (subst (asm) mbox_tx_loop.simps) (auto simp: unseen_poll simp del: mbox_tx_loop.simps split: option.splits)
    moreover have "unat (kfifo_len g) < unat (kfifo_len f)" using kfifo_out_len [OF g(1)] False by simp
    ultimately have "obs d' = obs (ops_fifo_write ops m d)" using less.hyps by blast
    then show ?thesis using False unseen_write by simp
  qed
qed

lemma unseen_rx_loop: "mbox_rx_loop ops full f d = Some (full', f', d') \<Longrightarrow> obs d' = obs d"
proof (induction "unat (kfifo_avail 0 f)" arbitrary: f d rule: less_induct)
  case less
  show ?case
  proof (cases "ops_fifo_empty ops d \<or> kfifo_avail 0 f < 4")
    case True
    then show ?thesis using less.prems by (subst (asm) mbox_rx_loop.simps) (auto simp: unseen_disable split: if_splits)
  next
    case False
    obtain msg e where e: "ops_fifo_read ops d = (msg, e)" by fastforce
    then obtain l g where g: "kfifo_in f (msg_bytes msg) 4 = Some (l, g)" "mbox_rx_loop ops full g e = Some (full', f', d')"
      using less.prems False unseen_type2 by (subst (asm) mbox_rx_loop.simps) (auto split: option.splits)
    have "unat (kfifo_avail 0 g) < unat (kfifo_avail 0 f)" using kfifo_in_avail [OF g(1)] False by simp
    from less.hyps [OF this g(2)] show ?thesis using unseen_read [of d] e by simp
  qed
qed

lemma unseen_tasklet: "mbox_tx_tasklet ops ud s = Some s' \<Longrightarrow> obs (mb_dev s') = obs (mb_dev s)"
  by (auto simp: mbox_tx_tasklet_def simp del: mbox_tx_loop.simps dest: unseen_tx_loop split: bind_splits)

lemma unseen_interrupt: "mbox_interrupt ops s = Some s' \<Longrightarrow> obs (mb_dev s') = obs (mb_dev s)"
  by (auto simp: mbox_interrupt_def mbox_rx_interrupt_def mbox_tx_interrupt_def Let_def unseen_ack unseen_disable simp del: mbox_rx_loop.simps dest!: unseen_rx_loop split: bind_splits if_splits)

lemma unseen_refill: "mbox_rx_refill ops s = Some s' \<Longrightarrow> obs (mb_dev s') = obs (mb_dev s)"
  using unseen_read [of "mb_dev s"]
  by (auto simp: mbox_rx_refill_def unseen_enable split: bind_splits if_splits prod.splits)

end

lemma and_or_zero: "(x OR y) AND (z OR w) = 0 \<Longrightarrow> x AND z = 0 \<and> x AND w = 0 \<and> y AND z = 0 \<and> y AND (w :: u32) = 0"
  by (simp add: bit_eq_iff bit_simps) blast

lemma apart_bits: "mbox_apart p a b q c e \<Longrightarrow> mbox_irq_bit p i AND mbox_irq_bit q j = 0"
  using and_or_zero [of "newmsg_bit p" "notfull_bit p" "newmsg_bit q" "notfull_bit q"] by (auto simp: mbox_apart_def mbox_irq_bit_def)

locale ti81xx_two = ti81xx_mbox rd wr fifo irqen p a b ud
  for rd :: "u32 \<Rightarrow> 'd \<Rightarrow> u32 \<times> 'd" and wr :: "u32 \<Rightarrow> u32 \<Rightarrow> 'd \<Rightarrow> 'd" and fifo :: "'d \<Rightarrow> nat \<Rightarrow> u32 list" and irqen :: "'d \<Rightarrow> u32"
    and p :: omap_mbox2_priv and a b :: nat and ud :: "'d \<Rightarrow> 'd" +
  fixes q :: omap_mbox2_priv and c e :: nat
  assumes apart: "mbox_apart p a b q c e"

sublocale ti81xx_two \<subseteq> mbox_unseen "omap2_mbox_ops True rd wr p" ud "mbox_share fifo irqen q c e"
proof
  have u: "a < 12" "b < 12" "fifo_msg (tx_fifo p) = MAILBOX_MESSAGE a" "fifo_stat (tx_fifo p) = MAILBOX_FIFOSTATUS a"
    "fifo_msg (rx_fifo p) = MAILBOX_MESSAGE b" "irqenable p = 0x108" "irqstatus p = 0x104" "irqdisable p = 0x10c"
    "c \<noteq> a" "c \<noteq> b" "e \<noteq> a" "e \<noteq> b"
    using uses apart by (auto simp: mbox_uses_def mbox_apart_def)
  have o: "fifo (snd (rd 0x108 d)) = fifo d" "fifo (snd (rd 0x10c d)) = fifo d" "fifo (snd (rd 0x104 d)) = fifo d" for d
    using rd_other irq_regs_no_msg by blast+
  note bits = apart_bits [OF apart]
  show "ops_type (omap2_mbox_ops True rd wr p) = OMAP_MBOX_TYPE2" by (simp add: omap2_mbox_ops_def)
  fix d m i
  show "mbox_share fifo irqen q c e (snd (ops_fifo_read (omap2_mbox_ops True rd wr p) d)) = mbox_share fifo irqen q c e d"
    using rd_msg [OF u(2), of d] by (simp add: omap2_mbox_ops_def omap2_mbox_fifo_read_def mbox_share_def u irq_enabled_def rd_irqen)
  show "\<not> ops_fifo_full (omap2_mbox_ops True rd wr p) d
     \<Longrightarrow> mbox_share fifo irqen q c e (ops_fifo_write (omap2_mbox_ops True rd wr p) m d) = mbox_share fifo irqen q c e d"
    using wr_msg [OF u(1), of d m] wr_msg_irqen [OF u(1), of m d]
    by (simp add: omap2_mbox_ops_def omap2_mbox_fifo_write_def omap2_mbox_fifo_full_def mbox_share_def u irq_enabled_def)
  show "mbox_share fifo irqen q c e (ops_enable_irq (omap2_mbox_ops True rd wr p) i d) = mbox_share fifo irqen q c e d"
    by (simp add: omap2_mbox_ops_def omap2_mbox_enable_irq_def case_prod_unfold mbox_share_def u o wr_irq irq_enabled_def rd_irqen wr_set ctrl_bits(1) bits)
  show "mbox_share fifo irqen q c e (ops_disable_irq (omap2_mbox_ops True rd wr p) i d) = mbox_share fifo irqen q c e d"
    by (simp add: omap2_mbox_ops_def omap2_mbox_disable_irq_def case_prod_unfold mbox_share_def u o wr_irq irq_enabled_def rd_irqen wr_clear ctrl_bits(4) bits)
  show "mbox_share fifo irqen q c e (ack_mbox_irq (omap2_mbox_ops True rd wr p) i d) = mbox_share fifo irqen q c e d"
    by (simp add: ack_mbox_irq_def omap2_mbox_ops_def omap2_mbox_ack_irq_def mbox_share_def u o wr_irq irq_enabled_def rd_irqen wr_status)
qed

lemma ti81xx_apart: "mbox_apart omap2_mbox_ti81xx_dsp_priv 3 0 omap2_mbox_ti81xx_video_priv 4 6"
  "mbox_apart omap2_mbox_ti81xx_dsp_priv 3 0 omap2_mbox_ti81xx_vpss_priv 5 8" "mbox_apart omap2_mbox_ti81xx_video_priv 4 6 omap2_mbox_ti81xx_vpss_priv 5 8"
  by (simp_all add: mbox_apart_def omap2_mbox_ti81xx_dsp_priv_def omap2_mbox_ti81xx_video_priv_def omap2_mbox_ti81xx_vpss_priv_def
      MAILBOX_IRQ_NEWMSG_def MAILBOX_IRQ_NOTFULL_def)

interpretation dsp_video: ti81xx_two md_rd md_wr md_fifo md_irqen omap2_mbox_ti81xx_dsp_priv 3 0 "\<lambda>d. d" omap2_mbox_ti81xx_video_priv 4 6
  by unfold_locales (rule ti81xx_apart)

lemma ti81xx_twoI: "mbox_device rd wr fifo irqen \<Longrightarrow> mbox_uses p a b \<Longrightarrow> mbox_apart p a b q c e \<Longrightarrow> ti81xx_two rd wr fifo irqen p a b q c e"
  by (simp add: ti81xx_two_def ti81xx_two_axioms_def ti81xx_mboxI)

context ti81xx_two
begin

lemma others_untouched:
  assumes "omap_mbox_msg_send (omap2_mbox_ops True rd wr p) ud m s = Some (ret, s') \<or> mbox_tx_tasklet (omap2_mbox_ops True rd wr p) ud s = Some s'
    \<or> mbox_interrupt (omap2_mbox_ops True rd wr p) s = Some s' \<or> mbox_rx_refill (omap2_mbox_ops True rd wr p) s = Some s'"
  shows "mbox_share fifo irqen q c e (mb_dev s') = mbox_share fifo irqen q c e (mb_dev s)"
  using assms unseen_send unseen_tasklet unseen_interrupt unseen_refill by metis

end

lemma sent_step: "dsp_step\<^sup>*\<^sup>* small_mbox sent_run"
proof -
  let ?d = "\<lparr>md_fifo = (\<lambda>_. []), md_irqen = 1\<rparr> :: mdev"
  have a: "\<not> kfifo_avail 0 ring4 < 4" by (simp add: ring4_def kfifo_avail_def kfifo_size_def kfifo_unused_def kfifo_len_def)
  have "\<not> ops_fifo_full dsp_ops ?d"
    by (simp add: omap2_mbox_ops_def omap2_mbox_fifo_full_def omap2_mbox_ti81xx_dsp_priv_def md_rd_def md_index_regs)
  then have p: "mbox_poll_for_space dsp_ops (\<lambda>d. d) ?d = (0, ?d)" by (simp only: dsp.poll if_False)
  have w: "ops_fifo_write dsp_ops 5 ?d = \<lparr>md_fifo = (\<lambda>_. [])(3 := [5]), md_irqen = 1\<rparr>"
    by (simp add: omap2_mbox_ops_def omap2_mbox_fifo_write_def omap2_mbox_ti81xx_dsp_priv_def md_wr_def md_index_regs)
  have "omap_mbox_msg_send dsp_ops (\<lambda>d. d) 5 (rn_mbox small_mbox) = Some (0, rn_mbox sent_run)"
    using a by (simp add: omap_mbox_msg_send_def small_mbox_def sent_run_def ring4_ok p w)
  from mbox_step.send [OF this, of "remote_takes md_fifo md_irqen 3 0" "remote_puts md_fifo md_irqen 3 0"] show ?thesis
    by (simp add: sent_run_def small_mbox_def r_into_rtranclp)
qed

lemmas dsp_run = md.mbox_device_axioms ti81xx_uses(1) small_mbox_fresh

lemma holds_share: "mbox_share fifo irqen q c e d = mbox_share fifo irqen q c e d' \<Longrightarrow> mbox_holds fifo d (q, c, e) s = mbox_holds fifo d' (q, c, e) s"
  by (simp add: mbox_share_def mbox_holds_def)

context ti81xx_mbox
begin

lemma interrupt_holds:
  assumes "msg_ring (mb_rx s)"
  shows "\<exists>s'. mbox_interrupt (omap2_mbox_ops True rd wr p) (s\<lparr>mb_dev := d\<rparr>) = Some s' \<and> msg_ring (mb_rx s') \<and> mb_tx s' = mb_tx s
    \<and> mbox_holds fifo (mb_dev s') (p, a, b) s' = mbox_holds fifo d (p, a, b) s"
proof -
  have r: "msg_ring (mb_rx (s\<lparr>mb_dev := d\<rparr>))" using assms by simp
  obtain s' where s': "mbox_interrupt (omap2_mbox_ops True rd wr p) (s\<lparr>mb_dev := d\<rparr>) = Some s'" "msg_ring (mb_rx s')" "mb_tx s' = mb_tx s"
    "fifo (mb_dev s') a = fifo d a" "ring_msgs (mb_rx s') @ fifo (mb_dev s') b = ring_msgs (mb_rx s) @ fifo d b"
    using interrupt_run [OF r] by force
  then show ?thesis by (simp add: mbox_holds_def)
qed

end

lemma interrupts_hold:
  assumes "mbox_device rd wr fifo irqen"
  shows "mboxes_apart ms \<Longrightarrow> length ss = length ms \<Longrightarrow> list_all (\<lambda>s. msg_ring (mb_rx s)) ss
    \<Longrightarrow> \<exists>ss' d'. mbox_interrupts (map (\<lambda>(p, _). omap2_mbox_ops True rd wr p) ms) ss d = Some (ss', d')
      \<and> length ss' = length ms \<and> list_all (\<lambda>s. msg_ring (mb_rx s)) ss' \<and> map mb_tx ss' = map mb_tx ss
      \<and> map2 (mbox_holds fifo d') ms ss' = map2 (mbox_holds fifo d) ms ss
      \<and> (\<forall>q c e. list_all (\<lambda>(p, a, b). mbox_apart p a b q c e) ms \<longrightarrow> mbox_share fifo irqen q c e d' = mbox_share fifo irqen q c e d)"
proof (induction ms arbitrary: ss d rule: mboxes_apart.induct)
  case 1
  then show ?case by simp
next
  case (2 p a b ms)
  obtain s ss0 where ss: "ss = s # ss0" using 2(3) by (cases ss) auto
  have u: "mbox_uses p a b" "mboxes_apart ms" using 2(2) by simp_all
  obtain s' where s': "mbox_interrupt (omap2_mbox_ops True rd wr p) (s\<lparr>mb_dev := d\<rparr>) = Some s'" "msg_ring (mb_rx s')" "mb_tx s' = mb_tx s"
    "mbox_holds fifo (mb_dev s') (p, a, b) s' = mbox_holds fifo d (p, a, b) s"
    using ti81xx_mbox.interrupt_holds [OF ti81xx_mboxI [OF assms u(1)], of s d] 2(4) ss by auto
  have sh: "mbox_apart p a b q c e \<Longrightarrow> mbox_share fifo irqen q c e (mb_dev s') = mbox_share fifo irqen q c e d" for q c e
    using ti81xx_two.others_untouched [OF ti81xx_twoI [OF assms u(1)], of q c e ud m "s\<lparr>mb_dev := d\<rparr>" ret s'] s'(1) by simp
  obtain ss' d' where r: "mbox_interrupts (map (\<lambda>(p, _). omap2_mbox_ops True rd wr p) ms) ss0 (mb_dev s') = Some (ss', d')"
    "length ss' = length ms" "list_all (\<lambda>s. msg_ring (mb_rx s)) ss'" "map mb_tx ss' = map mb_tx ss0"
    "map2 (mbox_holds fifo d') ms ss' = map2 (mbox_holds fifo (mb_dev s')) ms ss0"
    "\<And>q c e. list_all (\<lambda>(p, a, b). mbox_apart p a b q c e) ms \<Longrightarrow> mbox_share fifo irqen q c e d' = mbox_share fifo irqen q c e (mb_dev s')"
    using 2(1) [OF u(2), of ss0 "mb_dev s'"] 2(3,4) ss by auto
  have "list_all (\<lambda>(q, c, e). mbox_apart q c e p a b) ms" using 2(2) by (auto simp: list_all_iff)
  then have own: "mbox_holds fifo d' (p, a, b) s' = mbox_holds fifo d (p, a, b) s" using holds_share [OF r(6)] s'(4) by metis
  have "map2 (mbox_holds fifo (mb_dev s')) ms ss0 = map2 (mbox_holds fifo d) ms ss0"
  proof (rule map_cong [OF refl])
    fix x assume x: "x \<in> set (zip ms ss0)"
    obtain q c e t where e: "x = ((q, c, e), t)" by (cases x) auto
    then have "mbox_apart p a b q c e" using 2(2) set_zip_leftD [of "(q, c, e)" t ms ss0] x by (auto simp: list_all_iff)
    then show "(case x of (m, s) \<Rightarrow> mbox_holds fifo (mb_dev s') m s) = (case x of (m, s) \<Rightarrow> mbox_holds fifo d m s)"
      using holds_share [OF sh] e by simp
  qed
  then show ?case using ss s' r own sh by auto
qed

lemma ti81xx_mboxes_apart:
  "mboxes_apart [(omap2_mbox_ti81xx_dsp_priv, 3, 0), (omap2_mbox_ti81xx_video_priv, 4, 6), (omap2_mbox_ti81xx_vpss_priv, 5, 8)]"
proof -
  have "mbox_apart p a b q c e \<Longrightarrow> mbox_apart q c e p a b" for p a b q c e by (auto simp: mbox_apart_def and.commute)
  then show ?thesis using ti81xx_uses ti81xx_apart by simp
qed

section \<open>Properties\<close>

text \<open>
  C5: in every interleaving of senders, the transmit tasklet, interrupts, the receive work
  and the other processor, the messages that were accepted for sending are those the other
  processor has taken, followed by those in the hardware FIFO and those in the software
  ring: none is lost, duplicated or reordered.
\<close>

theorem mbox_tx_in_order:
  assumes "mbox_device rd wr fifo irqen" "mbox_uses p a b" "mbox_fresh fifo irqen p a b r" "(ti81xx_step rd wr fifo irqen p a b ud)\<^sup>*\<^sup>* r r'"
  shows "rn_sent r' = rn_taken r' @ fifo (mb_dev (rn_mbox r')) a @ ring_msgs (mb_tx (rn_mbox r'))"
  using ti81xx_reachable [OF assms] by (simp add: mbox_tx_inv_def Let_def)

text \<open>
  C7: in every interleaving, what the receiver was notified of, followed by the messages in
  the software ring and the hardware FIFO, is a subsequence of the messages that arrived:
  none is invented, duplicated or reordered.
\<close>

theorem mbox_rx_in_order:
  assumes "mbox_device rd wr fifo irqen" "mbox_uses p a b" "mbox_fresh fifo irqen p a b r" "(ti81xx_step rd wr fifo irqen p a b ud)\<^sup>*\<^sup>* r r'"
  shows "subseq (rn_notified r' @ ring_msgs (mb_rx (rn_mbox r')) @ fifo (mb_dev (rn_mbox r')) b) (rn_arrived r')"
  using ti81xx_reachable [OF assms] by (simp add: mbox_rx_inv_def Let_def)


text \<open>
  C24: in every reachable state sending, the tasklet, the interrupt handler and both halves
  of the receive work return without leaving the buffers of the rings.
\<close>

theorem mbox_calls_return:
  assumes "mbox_device rd wr fifo irqen" "mbox_uses p a b" "mbox_fresh fifo irqen p a b r" "(ti81xx_step rd wr fifo irqen p a b ud)\<^sup>*\<^sup>* r r'"
  shows "omap_mbox_msg_send (omap2_mbox_ops True rd wr p) ud m (rn_mbox r') \<noteq> None \<and> mbox_tx_tasklet (omap2_mbox_ops True rd wr p) ud (rn_mbox r') \<noteq> None
    \<and> mbox_interrupt (omap2_mbox_ops True rd wr p) (rn_mbox r') \<noteq> None \<and> mbox_rx_take (rn_mbox r') \<noteq> None
    \<and> mbox_rx_refill (omap2_mbox_ops True rd wr p) (rn_mbox r') \<noteq> None"
  using ti81xx_calls [OF assms(1,2)] ti81xx_reachable [OF assms] by blast

theorem mbox_startup_failure_stops_others:
  assumes "0 < mbox_configured s" "mb_hw_on s" "mb_use_count s i = 0" "irq \<noteq> 0" "0 < mb_use_count s j"
  shows "\<exists>s'. omap_mbox_startup i st irq txa rxa s = (irq, s') \<and> mbox_configured s' = mbox_configured s \<and> mb_use_count s' = mb_use_count s \<and> \<not> mb_hw_on s'"
  using assms by (auto simp: omap_mbox_startup_def Let_def fun_eq_iff)

theorem mbox_second_rx_disabled:
  assumes "mbox_configured s = 0" "mb_use_count s i = 0" "mb_use_count s j = 0" "i \<noteq> j" "mb_irq_requested s = (\<lambda>_. False)"
  shows "\<exists>s1 s2. omap_mbox_startup i 0 0 (Some f) (Some g) s = (0, s1) \<and> omap_mbox_startup j st 0 (Some f') (Some g') s1 = (0, s2)
    \<and> mb_rx_irq s2 i \<and> \<not> mb_rx_irq s2 j"
  using assms by (auto simp: omap_mbox_startup_def Let_def)

text \<open>
  C38: saving the context of the mailbox device on a TI81xx reads the message registers too,
  which takes the oldest message out of every one of the twelve FIFOs.
\<close>

theorem mbox_save_ctx_takes_messages:
  assumes "mbox_device rd wr fifo irqen" "m < 12"
  shows "fifo (snd (omap2_mbox_save_ctx True rd p d)) m = tl (fifo d m)"
  using save_regs_fifo [OF assms(1), of "[0..<81]" d] assms(2) by (simp add: omap2_mbox_save_ctx_def case_prod_unfold)

theorem mbox_save_ctx_takes_messages_witness:
  "md_fifo (snd (omap2_mbox_save_ctx True md_rd omap2_mbox_ti81xx_dsp_priv \<lparr>md_fifo = (\<lambda>_. [7, 8]), md_irqen = 1\<rparr>)) 0 = [8]"
  using mbox_save_ctx_takes_messages [OF md.mbox_device_axioms, of 0 omap2_mbox_ti81xx_dsp_priv "\<lparr>md_fifo = (\<lambda>_. [7, 8]), md_irqen = 1\<rparr>"] by simp

text \<open>
  C35: messages can be lost: with a ring for one message, after the work has taken a message
  an interrupt may fill the ring again and set the full flag, and the work then reads the
  next message out of the hardware FIFO and drops it because the ring has no room.
\<close>

theorem mbox_rx_message_lost:
  "\<exists>r'. dsp_step\<^sup>*\<^sup>* small_mbox r' \<and> rn_arrived r' = [11, 22, 33]
     \<and> rn_notified r' @ ring_msgs (mb_rx (rn_mbox r')) @ md_fifo (mb_dev (rn_mbox r')) 0 = [11, 22]"
proof -
  note lost_arrived [of 1 "[]" "ring_at 4 4 11" False False Work_locked "[11]" "[11]" 22, simplified]
  moreover note lost_arrived [of 1 "[22]" "ring_at 4 4 11" False False Work_locked "[11, 22]" "[11]" 33, simplified]
  moreover note lost_run_steps(2) [OF lost_steps(3), of Work_locked "[11, 22, 33]" "[11]"]
  moreover note lost_run_steps(5) [OF lost_steps(4), of "[11, 22, 33]" "[11]"]
  ultimately have "dsp_step\<^sup>*\<^sup>* small_mbox (lost_run (lost_mbox 1 [] (ring_at 8 4 22) False True) Work_loop [11, 22, 33] [11])"
    using lost_first by (meson rtranclp.rtrancl_into_rtrancl)
  then show ?thesis by (intro exI conjI, assumption) (simp_all add: lost_run_def lost_mbox_def lost_ring)
qed

text \<open>
  C23: sending, the tasklet, the interrupt handling and the refill of one mailbox change
  neither the FIFOs nor the interrupt enables of a mailbox that uses other FIFOs and
  interrupt bits.
\<close>

theorem mbox_isolated:
  assumes "mbox_device rd wr fifo irqen" "mbox_uses p a b" "mbox_apart p a b q c e"
    and "omap_mbox_msg_send (omap2_mbox_ops True rd wr p) ud m s = Some (ret, s') \<or> mbox_tx_tasklet (omap2_mbox_ops True rd wr p) ud s = Some s'
      \<or> mbox_interrupt (omap2_mbox_ops True rd wr p) s = Some s' \<or> mbox_rx_refill (omap2_mbox_ops True rd wr p) s = Some s'"
  shows "mbox_share fifo irqen q c e (mb_dev s') = mbox_share fifo irqen q c e (mb_dev s)"
  using ti81xx_two.others_untouched [OF ti81xx_twoI [OF assms(1-3)] assms(4)] .

theorem mbox_isolated_witness:
  "mbox_interrupt dsp_ops (lost_mbox 1 [11] (ring_at 0 0 0) False False) = Some (lost_mbox 1 [] (ring_at 4 0 11) False True)
   \<and> mbox_share md_fifo md_irqen omap2_mbox_ti81xx_video_priv 4 6 (mb_dev (lost_mbox 1 [] (ring_at 4 0 11) False True))
     = mbox_share md_fifo md_irqen omap2_mbox_ti81xx_video_priv 4 6 (mb_dev (lost_mbox 1 [11] (ring_at 0 0 0) False False))"
  using mbox_isolated [OF md.mbox_device_axioms ti81xx_uses(1) ti81xx_apart(1)] lost_steps(1) by blast


theorem mbox_tx_in_order_witness:
  "rn_sent sent_run = [5] \<and> rn_sent sent_run = rn_taken sent_run @ md_fifo (mb_dev (rn_mbox sent_run)) 3 @ ring_msgs (mb_tx (rn_mbox sent_run))"
  using mbox_tx_in_order [OF dsp_run sent_step] by (simp add: sent_run_def)

theorem mbox_rx_in_order_witness:
  "rn_arrived received_run = [11]
   \<and> subseq (rn_notified received_run @ ring_msgs (mb_rx (rn_mbox received_run)) @ md_fifo (mb_dev (rn_mbox received_run)) 0) (rn_arrived received_run)"
  using mbox_rx_in_order [OF dsp_run lost_first] by (simp add: lost_run_def)


theorem mbox_calls_return_witness:
  "mbox_rx_refill dsp_ops (rn_mbox received_run) \<noteq> None"
  using mbox_calls_return [OF dsp_run lost_first] by blast

theorem mbox_startup_failure_stops_others_witness:
  "mb_hw_on one_mbox \<and> \<not> mb_hw_on (snd (omap_mbox_startup 1 0 (- EBUSY) (Some ring4) (Some ring4) one_mbox))"
proof -
  have o: "0 < mbox_configured one_mbox" "mb_hw_on one_mbox" "mb_use_count one_mbox 1 = 0" "- EBUSY \<noteq> (0 :: int)" "0 < mb_use_count one_mbox 0"
    by (simp_all add: omap_mbox_startup_def Let_def)
  show ?thesis using mbox_startup_failure_stops_others [OF o, of 0 "Some ring4" "Some ring4"] o(2) by auto
qed

theorem mbox_second_rx_disabled_witness:
  "\<exists>s1 s2. omap_mbox_startup 0 0 0 (Some ring4) (Some ring4) no_mbox = (0, s1)
     \<and> omap_mbox_startup 1 0 0 (Some ring4) (Some ring4) s1 = (0, s2) \<and> mb_rx_irq s2 0 \<and> \<not> mb_rx_irq s2 1"
  by (rule mbox_second_rx_disabled) simp_all

text \<open>
  C13: the interrupt handler, which serves the three mailboxes of the TI81xx one after the
  other on the same registers, returns, and of every mailbox it keeps the messages on their
  way in either direction, whichever interrupts are pending.
\<close>

theorem mbox_interrupt_keeps_messages:
  assumes "mbox_device rd wr fifo irqen" "length ss = 3" "list_all (\<lambda>s. msg_ring (mb_rx s)) ss"
  shows "let ms = map2 (\<lambda>(_, p) ab. (p, ab)) ti81xx_mboxes [(3, 0), (4, 6), (5, 8)] in
    \<exists>ss' d'. mbox_interrupts (map (\<lambda>(_, p). omap2_mbox_ops True rd wr p) ti81xx_mboxes) ss d = Some (ss', d')
      \<and> list_all (\<lambda>s. msg_ring (mb_rx s)) ss' \<and> map2 (mbox_holds fifo d') ms ss' = map2 (mbox_holds fifo d) ms ss"
proof -
  let ?ms = "[(omap2_mbox_ti81xx_dsp_priv, 3, 0), (omap2_mbox_ti81xx_video_priv, 4, 6), (omap2_mbox_ti81xx_vpss_priv, 5, 8)]"
  have "\<exists>ss' d'. mbox_interrupts (map (\<lambda>(p, _). omap2_mbox_ops True rd wr p) ?ms) ss d = Some (ss', d')
      \<and> list_all (\<lambda>s. msg_ring (mb_rx s)) ss' \<and> map2 (mbox_holds fifo d') ?ms ss' = map2 (mbox_holds fifo d) ?ms ss"
    using interrupts_hold [OF assms(1) ti81xx_mboxes_apart, of ss d] assms(2,3) by auto
  then show ?thesis by (simp add: ti81xx_mboxes_def)
qed

theorem mbox_interrupt_keeps_messages_witness:
  "\<exists>ss' d'. mbox_interrupts (map (\<lambda>(_, p). omap2_mbox_ops True md_rd md_wr p) ti81xx_mboxes) (replicate 3 (rn_mbox small_mbox))
      \<lparr>md_fifo = (\<lambda>m. [word_of_nat m]), md_irqen = 1\<rparr> = Some (ss', d')"
proof -
  have "list_all (\<lambda>s. msg_ring (mb_rx s)) (replicate 3 (rn_mbox small_mbox))" using ring4_ok by (simp add: list_all_iff small_mbox_def)
  from mbox_interrupt_keeps_messages [OF md.mbox_device_axioms _ this, of "\<lparr>md_fifo = (\<lambda>m. [word_of_nat m]), md_irqen = 1\<rparr>"] show ?thesis
    by (auto simp: Let_def)
qed

end
