(* ===== verification/Spec2Isabelle.thy ===== *)
theory Spec2Isabelle
  imports Clock_Instances Adpll_Instances Clkdev Kfifo_Dma Mailbox_Omap2
begin

text \<open>
  A verification development for the power and clock management of the DM814x board support
  in the Linux 2.6.37 tree of this repository (\<^verbatim>\<open>src/linux-2.6.37\<close>, TI81xx patches,
  \<^verbatim>\<open>tisdk_dm814x-evm_defconfig\<close>).

  \<^bold>\<open>Parts and theories.\<close>
  \<^item> \<^verbatim>\<open>Kernel_Prelude\<close>: machine integers, error numbers, ARM division, bit fields, the
    register file and the passing of time (\<^verbatim>\<open>omap_test_timeout\<close>).
  \<^item> \<^verbatim>\<open>Power_Domains\<close>: \<^verbatim>\<open>powerdomain.c\<close>, \<^verbatim>\<open>clockdomain.c\<close> and the register
    accessors under them.
  \<^item> \<^verbatim>\<open>Domain_Boot\<close>: the TI81xx domain tables and the boot sequence over them.
  \<^item> \<^verbatim>\<open>Clock_Tree\<close>, \<^verbatim>\<open>Clksel\<close>, \<^verbatim>\<open>Adpll\<close>, \<^verbatim>\<open>Omap2_Clock\<close>,
    \<^verbatim>\<open>Clock_Rates\<close>: the clock framework (\<^verbatim>\<open>plat-omap/clock.c\<close>,
    \<^verbatim>\<open>clkt_clksel.c\<close>, \<^verbatim>\<open>adpll_ti814x.c\<close>, \<^verbatim>\<open>mach-omap2/clock.c\<close>).
\<close>

end
